(* ===== verification/Prelude.thy ===== *)
theory Prelude
  imports Main "HOL-Library.Word"
begin

text \<open>
  Shared vocabulary of the development: Rust results, panics and the \<open>?\<close> operator,
  machine integers as \<open>int\<close> with the truncation of an \<open>as\<close> cast written out, byte
  strings, C strings and the UTF-8 routines of the Rust standard library that the
  crate calls (\<open>CString::new\<close>, \<open>CStr::to_str\<close>, \<open>to_string_lossy\<close>), together with
  the generic lemmas the components use.

  A Rust \<open>str\<close>, \<open>String\<close>, \<open>[u8]\<close> or NUL-terminated C string is a list of bytes, and a
  byte is an Isabelle \<open>char\<close> (an 8-bit character), so that literals stay readable.
\<close>

named_theorems rust_simps \<open>evaluation of results, panics and casts\<close>

section \<open>Results and panics\<close>

text \<open>\<open>Result<T, E>\<close> is \<open>'e + 'a\<close>; the constructors keep their Rust names.\<close>

abbreviation Ok :: "'a \<Rightarrow> 'e + 'a" where
  "Ok \<equiv> Inr"

abbreviation Err :: "'e \<Rightarrow> 'e + 'a" where
  "Err \<equiv> Inl"

text \<open>The \<open>?\<close> operator: an error is returned to the caller, a value is passed on.\<close>

fun and_then :: "'e + 'a \<Rightarrow> ('a \<Rightarrow> 'e + 'b) \<Rightarrow> 'e + 'b" where
  "and_then (Inl e) f = Inl e"
| "and_then (Inr x) f = f x"

fun map_err :: "('e \<Rightarrow> 'f) \<Rightarrow> 'e + 'a \<Rightarrow> 'f + 'a" where
  "map_err f (Inl e) = Inl (f e)"
| "map_err f (Inr x) = Inr x"

definition is_ok :: "'e + 'a \<Rightarrow> bool" where
  "is_ok r = (case r of Inl _ \<Rightarrow> False | Inr _ \<Rightarrow> True)"

lemma is_ok_simps [simp, rust_simps]:
  "is_ok (Inr x)" "\<not> is_ok (Inl e)"
  by (simp_all add: is_ok_def)

lemma and_then_Inr_iff [simp]:
  "and_then r f = Inr y \<longleftrightarrow> (\<exists>x. r = Inr x \<and> f x = Inr y)"
  by (cases r) auto

lemma and_then_Inl_iff:
  "and_then r f = Inl e \<longleftrightarrow> r = Inl e \<or> (\<exists>x. r = Inr x \<and> f x = Inl e)"
  by (cases r) auto

text \<open>
  A computation that may panic (\<open>unwrap\<close>, \<open>expect\<close>, \<open>assert!\<close>, \<open>panic!\<close>, overflow of
  \<open>Instant + Duration\<close>) returns the value it computes or the panic message.
\<close>

datatype 'a rust = Ret 'a | Panic string

fun rust_bind :: "'a rust \<Rightarrow> ('a \<Rightarrow> 'b rust) \<Rightarrow> 'b rust" where
  "rust_bind (Ret x) f = f x"
| "rust_bind (Panic m) f = Panic m"

fun rust_map :: "('a \<Rightarrow> 'b) \<Rightarrow> 'a rust \<Rightarrow> 'b rust" where
  "rust_map f (Ret x) = Ret (f x)"
| "rust_map f (Panic m) = Panic m"

lemma rust_bind_Ret_iff [simp]:
  "rust_bind r f = Ret y \<longleftrightarrow> (\<exists>x. r = Ret x \<and> f x = Ret y)"
  by (cases r) auto

lemma rust_map_Ret_iff [simp]:
  "rust_map f r = Ret y \<longleftrightarrow> (\<exists>x. r = Ret x \<and> y = f x)"
  by (cases r) auto

text \<open>\<open>Option::expect\<close> and \<open>Option::unwrap\<close>.\<close>

definition expect :: "string \<Rightarrow> 'a option \<Rightarrow> 'a rust" where
  "expect msg v = (case v of None \<Rightarrow> Panic msg | Some x \<Rightarrow> Ret x)"

lemma expect_simps [simp, rust_simps]:
  "expect m None = Panic m" "expect m (Some x) = Ret x"
  by (simp_all add: expect_def)

section \<open>Machine integers\<close>

text \<open>
  The signed integers of the source are \<open>int\<close> values within their range; \<open>as i32\<close> and
  \<open>as i64\<close> keep the low 32 or 64 bits and read them in two's complement, \<open>as usize\<close>
  (a 64-bit target) reads them unsigned.
\<close>

definition i32_range :: "int \<Rightarrow> bool" where
  "i32_range n \<longleftrightarrow> - (2 ^ 31) \<le> n \<and> n < 2 ^ 31"

definition i64_range :: "int \<Rightarrow> bool" where
  "i64_range n \<longleftrightarrow> - (2 ^ 63) \<le> n \<and> n < 2 ^ 63"

definition as_i32 :: "int \<Rightarrow> int" where
  "as_i32 n = (n + 2 ^ 31) mod 2 ^ 32 - 2 ^ 31"

definition as_i64 :: "int \<Rightarrow> int" where
  "as_i64 n = (n + 2 ^ 63) mod 2 ^ 64 - 2 ^ 63"

definition as_usize :: "int \<Rightarrow> nat" where
  "as_usize n = nat (n mod 2 ^ 64)"

lemma as_i32_range [simp]: "i32_range (as_i32 n)"
  by (simp add: i32_range_def as_i32_def)

lemma as_i64_range [simp]: "i64_range (as_i64 n)"
  by (simp add: i64_range_def as_i64_def)

lemma as_i32_id [simp]: "i32_range n \<Longrightarrow> as_i32 n = n"
  by (simp add: i32_range_def as_i32_def)

lemma as_i64_id [simp]: "i64_range n \<Longrightarrow> as_i64 n = n"
  by (simp add: i64_range_def as_i64_def)

text \<open>The cast is the two's-complement reading of the low bits, as \<open>sint\<close> gives it.\<close>

lemma as_i32_eq_sint: "as_i32 n = sint (word_of_int n :: 32 word)"
  by (simp add: as_i32_def sint_sbintrunc' signed_take_bit_eq_take_bit_shift take_bit_eq_mod)

lemma as_i64_eq_sint: "as_i64 n = sint (word_of_int n :: 64 word)"
  by (simp add: as_i64_def sint_sbintrunc' signed_take_bit_eq_take_bit_shift take_bit_eq_mod)

lemma as_i32_minus_one_iff: "as_i32 n = - 1 \<longleftrightarrow> n mod 2 ^ 32 = 2 ^ 32 - 1"
proof -
  define r where "r = n mod 2 ^ 32"
  have r: "0 \<le> r" "r < 2 ^ 32" by (simp_all add: r_def)
  have "(n + 2 ^ 31) mod 2 ^ 32 = (r + 2 ^ 31) mod 2 ^ 32"
    by (simp add: r_def mod_simps)
  also have "\<dots> = (if r < 2 ^ 31 then r + 2 ^ 31 else r - 2 ^ 31)"
    using r by (auto simp: mod_pos_geq mod_pos_pos_trivial)
  finally show ?thesis using r by (auto simp: as_i32_def r_def)
qed

lemma as_usize_id [simp]: "n < 2 ^ 64 \<Longrightarrow> as_usize (int n) = n"
  by (simp add: as_usize_def nat_mod_as_int)

section \<open>Maps\<close>

lemma map_le_Some: "m \<subseteq>\<^sub>m m' \<Longrightarrow> m k = Some v \<Longrightarrow> m' k = Some v"
  by (metis domI map_le_def)

end
