(* ===== verification/Rust_Str.thy ===== *)
theory Rust_Str
  imports Prelude
begin

text \<open>
  The string routines of the Rust standard library that the crate calls, on byte lists:
  C strings (\<open>CString::new\<close>, \<open>CStr::from_ptr\<close>), UTF-8 validation (\<open>str::from_utf8\<close>,
  \<open>CStr::to_str\<close>), lossy decoding (\<open>to_string_lossy\<close>, \<open>from_utf8_lossy\<close>), trimming, and
  decimal printing and parsing of integers. The facts used by the components: lossy
  decoding always yields UTF-8 and is the identity on UTF-8, and parsing inverts printing.
\<close>

type_synonym bytes = "char list"

section \<open>C strings\<close>

abbreviation NUL :: char where
  "NUL \<equiv> CHR 0x00"

text \<open>\<open>ffi::NulError\<close>: the position of the first interior NUL and the offending bytes.\<close>

datatype nul_error = NulError nat bytes

definition cstring_new :: "bytes \<Rightarrow> nul_error + bytes" where
  "cstring_new s = (if NUL \<in> set s then Err (NulError (length (takeWhile (\<lambda>c. c \<noteq> NUL) s)) s) else Ok s)"

text \<open>\<open>CStr::from_ptr\<close> reads a buffer up to its first NUL.\<close>

definition cstr_bytes :: "bytes \<Rightarrow> bytes" where
  "cstr_bytes buf = takeWhile (\<lambda>c. c \<noteq> NUL) buf"

lemma cstring_new_Ok [simp]: "cstring_new s = Inr t \<longleftrightarrow> NUL \<notin> set s \<and> t = s"
  by (auto simp: cstring_new_def)

lemma cstring_new_no_nul [simp]: "NUL \<notin> set s \<Longrightarrow> cstring_new s = Inr s"
  by simp

lemma cstring_new_nul [simp]:
  "NUL \<in> set s \<Longrightarrow> cstring_new s = Inl (NulError (length (takeWhile (\<lambda>c. c \<noteq> NUL) s)) s)"
  by (simp add: cstring_new_def)

lemma cstr_bytes_no_nul [simp]: "NUL \<notin> set (cstr_bytes s)"
  by (auto simp: cstr_bytes_def dest: set_takeWhileD)

lemma cstr_bytes_append: "NUL \<notin> set s \<Longrightarrow> cstr_bytes (s @ NUL # rest) = s"
  unfolding cstr_bytes_def by (induction s) auto

lemma cstr_bytes_id [simp]: "NUL \<notin> set s \<Longrightarrow> cstr_bytes s = s"
  unfolding cstr_bytes_def by (induction s) auto

section \<open>UTF-8\<close>

text \<open>
  The well-formed byte sequences of the Unicode standard. One step looks at the start of
  a non-empty input and tells whether a whole character stands there and how many bytes
  it takes; when none does, the count is the length of the longest prefix that a
  character could have started with (at least one byte), which the lossy conversion
  replaces by one U+FFFD.
\<close>

definition byte_val :: "char \<Rightarrow> nat" where
  "byte_val c = of_char c"

definition is_cont :: "char \<Rightarrow> bool" where
  "is_cont c \<longleftrightarrow> 128 \<le> byte_val c \<and> byte_val c \<le> 191"

definition char_width :: "char \<Rightarrow> nat" where
  "char_width c =
     (let b = byte_val c in
      if b < 128 then 1
      else if 194 \<le> b \<and> b \<le> 223 then 2
      else if 224 \<le> b \<and> b \<le> 239 then 3
      else if 240 \<le> b \<and> b \<le> 244 then 4
      else 0)"

definition second_ok :: "char \<Rightarrow> char \<Rightarrow> bool" where
  "second_ok c c1 =
     (let b = byte_val c; b1 = byte_val c1 in
      if b = 224 then 160 \<le> b1 \<and> b1 \<le> 191
      else if b = 237 then 128 \<le> b1 \<and> b1 \<le> 159
      else if b = 240 then 144 \<le> b1 \<and> b1 \<le> 191
      else if b = 244 then 128 \<le> b1 \<and> b1 \<le> 143
      else 128 \<le> b1 \<and> b1 \<le> 191)"

fun utf8_step :: "bytes \<Rightarrow> bool \<times> nat" where
  "utf8_step [] = (True, 0)"
| "utf8_step (c # cs) =
     (if char_width c = 0 then (False, 1)
      else if char_width c = 1 then (True, 1)
      else case cs of
        [] \<Rightarrow> (False, 1)
      | c1 # cs1 \<Rightarrow>
          if \<not> second_ok c c1 then (False, 1)
          else if char_width c = 2 then (True, 2)
          else (case cs1 of
             [] \<Rightarrow> (False, 2)
           | c2 # cs2 \<Rightarrow>
               if \<not> is_cont c2 then (False, 2)
               else if char_width c = 3 then (True, 3)
               else (case cs2 of
                  [] \<Rightarrow> (False, 3)
                | c3 # cs3 \<Rightarrow> if is_cont c3 then (True, 4) else (False, 3))))"

lemma utf8_step_pos: "s \<noteq> [] \<Longrightarrow> 0 < snd (utf8_step s)"
  by (cases s) (auto split: list.splits)

lemma utf8_step_le: "snd (utf8_step s) \<le> length s"
  by (cases s) (auto split: list.splits)

lemma utf8_step_shrinks: "s \<noteq> [] \<Longrightarrow> length s - snd (utf8_step s) < length s"
  using utf8_step_pos [of s] by (cases s) auto

text \<open>A complete character is recognised by its own bytes, whatever follows it.\<close>

lemma utf8_step_append:
  assumes "utf8_step s = (True, n)"
  shows "utf8_step (take n s @ t) = (if s = [] then utf8_step t else (True, n))"
proof (cases s)
  case Nil
  with assms show ?thesis by simp
next
  case (Cons c cs)
  show ?thesis
  proof (cases "char_width c = 1")
    case True
    with assms Cons have "n = 1" by simp
    with True Cons show ?thesis by simp
  next
    case False
    with assms Cons show ?thesis
      by (auto split: list.splits if_splits)
  qed
qed

text \<open>\<open>str::from_utf8(s).is_ok()\<close>\<close>

function utf8_valid :: "bytes \<Rightarrow> bool" where
  "utf8_valid s =
     (if s = [] then True
      else if fst (utf8_step s) then utf8_valid (drop (snd (utf8_step s)) s) else False)"
  by pat_completeness auto
termination
  by (relation "measure length") (auto simp: utf8_step_shrinks)

text \<open>\<open>to_string_lossy\<close> / \<open>String::from_utf8_lossy\<close>\<close>

abbreviation REPLACEMENT :: bytes where
  "REPLACEMENT \<equiv> [CHR 0xEF, CHR 0xBF, CHR 0xBD]"

function to_string_lossy :: "bytes \<Rightarrow> bytes" where
  "to_string_lossy s =
     (if s = [] then []
      else (if fst (utf8_step s) then take (snd (utf8_step s)) s else REPLACEMENT)
             @ to_string_lossy (drop (snd (utf8_step s)) s))"
  by pat_completeness auto
termination
  by (relation "measure length") (auto simp: utf8_step_shrinks)

declare utf8_valid.simps [simp del] to_string_lossy.simps [simp del]

lemma utf8_valid_Nil [simp]: "utf8_valid []"
  by (simp add: utf8_valid.simps)

lemma to_string_lossy_Nil [simp]: "to_string_lossy [] = []"
  by (simp add: to_string_lossy.simps)

text \<open>ASCII text is UTF-8: the common case of topic names and configuration values.\<close>

definition ascii :: "bytes \<Rightarrow> bool" where
  "ascii s \<longleftrightarrow> list_all (\<lambda>c. byte_val c < 128) s"

lemma utf8_valid_ascii: "ascii s \<Longrightarrow> utf8_valid s"
proof (induction s)
  case (Cons c s)
  then have "utf8_step (c # s) = (True, 1)" by (simp add: ascii_def char_width_def)
  with Cons show ?case by (subst utf8_valid.simps) (simp add: ascii_def)
qed simp

lemma utf8_valid_step_append:
  assumes "utf8_step s = (True, n)" and "utf8_valid t"
  shows "utf8_valid (take n s @ t)"
proof (cases "s = []")
  case True
  with assms show ?thesis by simp
next
  case False
  with utf8_step_append [OF assms(1)] have step: "utf8_step (take n s @ t) = (True, n)" by simp
  from assms(1) have "n \<le> length s" using utf8_step_le [of s] by simp
  with step assms(2) show ?thesis by (subst utf8_valid.simps) simp
qed

lemma utf8_valid_REPLACEMENT: "utf8_valid t \<Longrightarrow> utf8_valid (REPLACEMENT @ t)"
proof -
  have "utf8_step REPLACEMENT = (True, 3)" by code_simp
  then show "utf8_valid t \<Longrightarrow> utf8_valid (REPLACEMENT @ t)"
    using utf8_valid_step_append [of REPLACEMENT 3 t] by simp
qed

lemma utf8_valid_lossy [simp]: "utf8_valid (to_string_lossy s)"
proof (induction s rule: to_string_lossy.induct)
  case (1 s)
  show ?case
  proof (cases "s = []")
    case False
    obtain v n where st: "utf8_step s = (v, n)" by (cases "utf8_step s")
    with False "1.IH" have "utf8_valid (to_string_lossy (drop n s))" by simp
    with st False show ?thesis
      by (subst to_string_lossy.simps)
        (auto intro: utf8_valid_step_append utf8_valid_REPLACEMENT [simplified])
  qed simp
qed

lemma to_string_lossy_valid [simp]: "utf8_valid s \<Longrightarrow> to_string_lossy s = s"
proof (induction s rule: to_string_lossy.induct)
  case (1 s)
  show ?case
  proof (cases "s = []")
    case False
    obtain v n where st: "utf8_step s = (v, n)" by (cases "utf8_step s")
    from "1.prems" False st have "v" and "utf8_valid (drop n s)"
      using utf8_valid.simps [of s] by (simp_all split: if_splits)
    with "1.IH" False st have "to_string_lossy (drop n s) = drop n s" by simp
    with st False \<open>v\<close> show ?thesis by (subst to_string_lossy.simps) simp
  qed simp
qed

text \<open>\<open>str::from_utf8\<close> and \<open>CStr::to_str\<close>: the bytes themselves, when they are UTF-8.\<close>

definition from_utf8 :: "bytes \<Rightarrow> bytes option" where
  "from_utf8 s = (if utf8_valid s then Some s else None)"

lemma from_utf8_valid [simp]: "utf8_valid s \<Longrightarrow> from_utf8 s = Some s"
  by (simp add: from_utf8_def)

lemma from_utf8_Some [simp]: "from_utf8 s = Some t \<longleftrightarrow> utf8_valid s \<and> t = s"
  by (auto simp: from_utf8_def)

section \<open>Trimming\<close>

text \<open>
  \<open>str::trim\<close> removes the characters with the Unicode property White_Space at both ends;
  \<open>utf8_chars\<close> splits a string into the byte groups of its characters.
\<close>

function utf8_chars :: "bytes \<Rightarrow> bytes list" where
  "utf8_chars s =
     (if s = [] then []
      else take (snd (utf8_step s)) s # utf8_chars (drop (snd (utf8_step s)) s))"
  by pat_completeness auto
termination
  by (relation "measure length") (auto simp: utf8_step_shrinks)

declare utf8_chars.simps [simp del]

definition is_whitespace :: "bytes \<Rightarrow> bool" where
  "is_whitespace c =
     (case map byte_val c of
        [b] \<Rightarrow> 9 \<le> b \<and> b \<le> 13 \<or> b = 32
      | [b, b1] \<Rightarrow> b = 194 \<and> (b1 = 133 \<or> b1 = 160)
      | [b, b1, b2] \<Rightarrow>
          b = 225 \<and> b1 = 154 \<and> b2 = 128
          \<or> b = 226 \<and> b1 = 128 \<and> (128 \<le> b2 \<and> b2 \<le> 138 \<or> b2 = 168 \<or> b2 = 169 \<or> b2 = 175)
          \<or> b = 226 \<and> b1 = 129 \<and> b2 = 159
          \<or> b = 227 \<and> b1 = 128 \<and> b2 = 128
      | _ \<Rightarrow> False)"

definition trim :: "bytes \<Rightarrow> bytes" where
  "trim s = concat (rev (dropWhile is_whitespace (rev (dropWhile is_whitespace (utf8_chars s)))))"

lemma concat_utf8_chars [simp]: "concat (utf8_chars s) = s"
proof (induction s rule: utf8_chars.induct)
  case (1 s)
  then show ?case by (subst utf8_chars.simps) simp
qed

text \<open>\<open>trim_matches(char::from(0))\<close> and \<open>trim_end_matches(char::from(0))\<close>\<close>

definition trim_end_nul :: "bytes \<Rightarrow> bytes" where
  "trim_end_nul s = rev (dropWhile (\<lambda>c. c = NUL) (rev s))"

definition trim_nul :: "bytes \<Rightarrow> bytes" where
  "trim_nul s = trim_end_nul (dropWhile (\<lambda>c. c = NUL) s)"

lemma dropWhile_replicate [simp]: "P x \<Longrightarrow> dropWhile P (replicate n x @ xs) = dropWhile P xs"
  by (induction n) auto

lemma dropWhile_id: "xs = [] \<or> \<not> P (hd xs) \<Longrightarrow> dropWhile P xs = xs"
  by (cases xs) auto

lemma trim_nul_padded: "NUL \<notin> set s \<Longrightarrow> trim_nul (s @ replicate n NUL) = s"
proof -
  assume s: "NUL \<notin> set s"
  then have h: "s = [] \<or> hd s \<noteq> NUL" and l: "s = [] \<or> hd (rev s) \<noteq> NUL"
    by (metis list.set_sel(1)) (metis s list.set_sel(1) rev_is_Nil_conv set_rev)
  show ?thesis
  proof (cases "s = []")
    case True
    then show ?thesis
      using dropWhile_replicate [of "\<lambda>c. c = NUL" NUL n "[]"] by (simp add: trim_nul_def trim_end_nul_def)
  next
    case False
    with h have "dropWhile (\<lambda>c. c = NUL) (s @ replicate n NUL) = s @ replicate n NUL"
      by (intro dropWhile_id) auto
    with l show ?thesis by (auto simp: trim_nul_def trim_end_nul_def dropWhile_id)
  qed
qed

section \<open>Decimal integers\<close>

text \<open>\<open>format!("{}", n)\<close> and \<open>str::parse\<close> for the integer types the crate uses.\<close>

definition digit_char :: "nat \<Rightarrow> char" where
  "digit_char d = char_of (48 + d)"

fun show_nat :: "nat \<Rightarrow> bytes" where
  "show_nat n = (if n < 10 then [digit_char n] else show_nat (n div 10) @ [digit_char (n mod 10)])"

declare show_nat.simps [simp del]

definition show_int :: "int \<Rightarrow> bytes" where
  "show_int n = (if n < 0 then CHR ''-'' # show_nat (nat (- n)) else show_nat (nat n))"

definition is_digit :: "char \<Rightarrow> bool" where
  "is_digit c \<longleftrightarrow> 48 \<le> byte_val c \<and> byte_val c \<le> 57"

definition digits_val :: "bytes \<Rightarrow> nat" where
  "digits_val s = foldl (\<lambda>v c. 10 * v + (byte_val c - 48)) 0 s"

definition parse_digits :: "bytes \<Rightarrow> nat option" where
  "parse_digits s = (if s \<noteq> [] \<and> list_all is_digit s then Some (digits_val s) else None)"

text \<open>\<open>parse::<i32>\<close>: an optional sign, digits, and the value within the type's range.\<close>

definition parse_i32 :: "bytes \<Rightarrow> int option" where
  "parse_i32 s =
     (let v = (case s of
          [] \<Rightarrow> None
        | c # cs \<Rightarrow>
            if c = CHR ''-'' then map_option (\<lambda>n. - int n) (parse_digits cs)
            else if c = CHR ''+'' then map_option int (parse_digits cs)
            else map_option int (parse_digits s))
      in case v of None \<Rightarrow> None | Some n \<Rightarrow> if i32_range n then Some n else None)"

text \<open>\<open>parse::<u64>\<close>: a minus sign is not accepted.\<close>

definition parse_u64 :: "bytes \<Rightarrow> nat option" where
  "parse_u64 s =
     (let v = (case s of
          [] \<Rightarrow> None
        | c # cs \<Rightarrow> if c = CHR ''+'' then parse_digits cs else parse_digits s)
      in case v of None \<Rightarrow> None | Some n \<Rightarrow> if n < 2 ^ 64 then Some n else None)"

lemma byte_val_digit_char [simp]: "d < 10 \<Longrightarrow> byte_val (digit_char d) = 48 + d"
  by (simp add: byte_val_def digit_char_def)

lemma is_digit_digit_char [simp]: "d < 10 \<Longrightarrow> is_digit (digit_char d)"
  by (simp add: is_digit_def)

lemma digits_val_snoc [simp]: "digits_val (s @ [c]) = 10 * digits_val s + (byte_val c - 48)"
  by (simp add: digits_val_def)

lemma digits_val_single [simp]: "digits_val [c] = byte_val c - 48"
  by (simp add: digits_val_def)

lemma show_nat_digits:
  "show_nat n \<noteq> [] \<and> list_all is_digit (show_nat n) \<and> digits_val (show_nat n) = n"
proof (induction n rule: show_nat.induct)
  case (1 n)
  then show ?case by (cases "n < 10") (simp_all add: show_nat.simps [of n])
qed

lemma parse_digits_show_nat [simp]: "parse_digits (show_nat n) = Some n"
  using show_nat_digits [of n] by (simp add: parse_digits_def)

lemma show_nat_no_sign:
  "c \<in> set (show_nat n) \<Longrightarrow> c \<noteq> CHR ''-'' \<and> c \<noteq> CHR ''+'' \<and> c \<noteq> NUL"
  using show_nat_digits [of n] by (auto simp: list_all_iff is_digit_def byte_val_def)

lemma show_nat_Cons:
  obtains c cs where "show_nat n = c # cs" and "c \<noteq> CHR ''-''" and "c \<noteq> CHR ''+''"
  using show_nat_digits [of n] show_nat_no_sign [of _ n] by (cases "show_nat n") auto

lemma parse_i32_show_int [simp]: "i32_range n \<Longrightarrow> parse_i32 (show_int n) = Some n"
proof (cases "n < 0")
  case True
  assume "i32_range n"
  with True show ?thesis by (simp add: parse_i32_def show_int_def)
next
  case False
  assume r: "i32_range n"
  obtain c cs where "show_nat (nat n) = c # cs" "c \<noteq> CHR ''-''" "c \<noteq> CHR ''+''"
    by (rule show_nat_Cons)
  moreover from this(1) have "parse_digits (c # cs) = Some (nat n)"
    using parse_digits_show_nat [of "nat n"] by simp
  ultimately show ?thesis using False r by (simp add: parse_i32_def show_int_def)
qed

lemma parse_u64_show_nat [simp]: "n < 2 ^ 64 \<Longrightarrow> parse_u64 (show_nat n) = Some n"
proof -
  assume n: "n < 2 ^ 64"
  obtain c cs where "show_nat n = c # cs" "c \<noteq> CHR ''+''" by (rule show_nat_Cons)
  with n parse_digits_show_nat [of n] show ?thesis by (simp add: parse_u64_def)
qed

lemma show_int_no_nul [simp]: "NUL \<notin> set (show_int n)"
  using show_nat_no_sign [of NUL] by (auto simp: show_int_def)

lemma show_nat_ascii: "ascii (show_nat n)"
  using show_nat_digits [of n] by (auto simp: ascii_def is_digit_def list_all_iff)

lemma show_int_valid [simp]: "utf8_valid (show_int n)"
proof (rule utf8_valid_ascii)
  show "ascii (show_int n)"
    using show_nat_ascii by (auto simp: show_int_def ascii_def byte_val_def)
qed

end
