(* ===== verification/Util.thy ===== *)
theory Util
  imports Rust_Str
begin

text \<open>
  \<open>src/util.rs\<close>: durations, deadlines and timeouts, the fixed-size error buffer that
  librdkafka writes its messages into, raw pointers to slices, opaque pointers and epoch
  time. A \<open>Duration\<close> is a number of nanoseconds, an \<open>Instant\<close> a number of nanoseconds on
  the monotonic clock; functions that call \<open>Instant::now()\<close> take its reading.
\<close>

section \<open>Durations, deadlines and timeouts\<close>

type_synonym duration = nat

type_synonym instant = nat

definition duration_max :: duration where
  "duration_max = (2 ^ 64 - 1) * 10 ^ 9 + 999999999"

definition from_millis :: "nat \<Rightarrow> duration" where
  "from_millis ms = ms * 10 ^ 6"

definition from_secs :: "nat \<Rightarrow> duration" where
  "from_secs s = s * 10 ^ 9"

definition duration_as_millis :: "duration \<Rightarrow> nat" where
  "duration_as_millis d = d div 10 ^ 6"

text \<open>
  The seconds of an \<open>Instant\<close> are a signed 64-bit count on Unix; \<open>Instant + Duration\<close>
  panics when the sum does not fit.
\<close>

definition instant_limit :: instant where
  "instant_limit = 2 ^ 63 * 10 ^ 9"

definition instant_add :: "instant \<Rightarrow> duration \<Rightarrow> instant rust" where
  "instant_add i d =
     (if i + d < instant_limit then Ret (i + d)
      else Panic ''overflow when adding duration to instant'')"

datatype deadline = Deadline_At instant | Deadline_Never

definition MAX_FLUSH_DURATION :: duration where
  "MAX_FLUSH_DURATION = from_millis (2 ^ 31 - 1)"

definition deadline_new :: "instant \<Rightarrow> duration option \<Rightarrow> deadline rust" where
  "deadline_new now d =
     (case d of
        Some d \<Rightarrow> rust_map Deadline_At (instant_add now d)
      | None \<Rightarrow> Ret Deadline_Never)"

text \<open>\<open>Instant - Instant\<close> saturates at zero, as \<open>nat\<close> subtraction does.\<close>

definition deadline_remaining :: "instant \<Rightarrow> deadline \<Rightarrow> duration" where
  "deadline_remaining now d =
     (case d of Deadline_At i \<Rightarrow> i - now | Deadline_Never \<Rightarrow> duration_max)"

definition remaining_millis_i32 :: "instant \<Rightarrow> deadline \<Rightarrow> int" where
  "remaining_millis_i32 now d =
     as_i32 (int (duration_as_millis (min MAX_FLUSH_DURATION (deadline_remaining now d))))"

definition deadline_elapsed :: "instant \<Rightarrow> deadline \<Rightarrow> bool" where
  "deadline_elapsed now d \<longleftrightarrow> deadline_remaining now d \<le> 0"

datatype timeout = After duration | Never

text \<open>The derived order: \<open>After\<close> is declared before \<open>Never\<close>, durations compare as numbers.\<close>

instantiation timeout :: linorder
begin

fun less_eq_timeout :: "timeout \<Rightarrow> timeout \<Rightarrow> bool" where
  "less_eq_timeout (After a) (After b) = (a \<le> b)"
| "less_eq_timeout (After a) Never = True"
| "less_eq_timeout Never (After b) = False"
| "less_eq_timeout Never Never = True"

definition less_timeout :: "timeout \<Rightarrow> timeout \<Rightarrow> bool" where
  "less_timeout a b \<longleftrightarrow> a \<le> b \<and> \<not> b \<le> (a :: timeout)"

instance
proof
  fix x y z :: timeout
  show "x < y \<longleftrightarrow> x \<le> y \<and> \<not> y \<le> x" by (simp add: less_timeout_def)
  show "x \<le> x" by (cases x) auto
  show "x \<le> y \<Longrightarrow> y \<le> z \<Longrightarrow> x \<le> z" by (cases x; cases y; cases z) auto
  show "x \<le> y \<Longrightarrow> y \<le> x \<Longrightarrow> x = y" by (cases x; cases y) auto
  show "x \<le> y \<or> y \<le> x" by (cases x; cases y) auto
qed

end

definition timeout_as_millis :: "timeout \<Rightarrow> int" where
  "timeout_as_millis t =
     (case t of After d \<Rightarrow> as_i32 (int (duration_as_millis d)) | Never \<Rightarrow> - 1)"

definition timeout_saturating_sub :: "timeout \<Rightarrow> duration \<Rightarrow> timeout" where
  "timeout_saturating_sub t rhs =
     (case t of After lhs \<Rightarrow> After (lhs - rhs) | Never \<Rightarrow> Never)"

definition timeout_is_zero :: "timeout \<Rightarrow> bool" where
  "timeout_is_zero t = (case t of After d \<Rightarrow> d = 0 | Never \<Rightarrow> False)"

fun timeout_sub_assign :: "timeout \<Rightarrow> timeout \<Rightarrow> timeout rust" where
  "timeout_sub_assign (After lhs) (After rhs) =
     (if rhs \<le> lhs then Ret (After (lhs - rhs))
      else Panic ''overflow when subtracting durations'')"
| "timeout_sub_assign Never (After _) = Ret Never"
| "timeout_sub_assign _ Never = Panic ''subtraction of Timeout::Never is ill-defined''"

definition deadline_from_timeout :: "instant \<Rightarrow> timeout \<Rightarrow> deadline rust" where
  "deadline_from_timeout now t =
     (case t of After dur \<Rightarrow> deadline_new now (Some dur) | Never \<Rightarrow> deadline_new now None)"

definition timeout_from_deadline :: "instant \<Rightarrow> deadline \<Rightarrow> timeout" where
  "timeout_from_deadline now d =
     (case d of Deadline_Never \<Rightarrow> Never | Deadline_At _ \<Rightarrow> After (deadline_remaining now d))"

definition timeout_from_option :: "duration option \<Rightarrow> timeout" where
  "timeout_from_option v = (case v of None \<Rightarrow> Never | Some d \<Rightarrow> After d)"

text \<open>\<open>SystemTime\<close> as nanoseconds relative to the Unix epoch; times before it count as it.\<close>

definition millis_to_epoch :: "int \<Rightarrow> int" where
  "millis_to_epoch time =
     as_i64 (int (duration_as_millis (if 0 \<le> time then nat time else from_secs 0)))"

section \<open>Raw pointers to slices\<close>

text \<open>
  A pointer to an array is null (\<open>None\<close>) or the memory it points to; a slice of \<open>n\<close>
  elements reads that many from its start. \<open>ptr_ok\<close> is the caller's duty that the memory
  holds them.
\<close>

type_synonym 'a ptr = "'a list option"

definition ptr_ok :: "'a ptr \<Rightarrow> nat \<Rightarrow> bool" where
  "ptr_ok p n = (case p of None \<Rightarrow> True | Some m \<Rightarrow> n \<le> length m)"

definition ptr_to_opt_slice :: "'a ptr \<Rightarrow> nat \<Rightarrow> 'a list option" where
  "ptr_to_opt_slice p n = (case p of None \<Rightarrow> None | Some m \<Rightarrow> Some (take n m))"

definition ptr_to_slice :: "'a ptr \<Rightarrow> nat \<Rightarrow> 'a list" where
  "ptr_to_slice p n =
     (case p of None \<Rightarrow> [] | Some m \<Rightarrow> if n = 0 then [] else take n m)"

section \<open>Opaque pointers\<close>

text \<open>
  Addresses; zero is the null pointer. The implementations of \<open>IntoOpaque\<close> for \<open>()\<close>,
  \<open>usize\<close>, \<open>Box<T>\<close> and \<open>Arc<T>\<close>: a box and an arc are the address of their allocation.
\<close>

type_synonym addr = nat

datatype box = Box addr

datatype arc = Arc addr

definition unit_into_ptr :: "unit \<Rightarrow> addr" where
  "unit_into_ptr _ = 0"

definition unit_from_ptr :: "addr \<Rightarrow> unit" where
  "unit_from_ptr _ = ()"

definition usize_into_ptr :: "nat \<Rightarrow> addr" where
  "usize_into_ptr n = n"

definition usize_from_ptr :: "addr \<Rightarrow> nat" where
  "usize_from_ptr p = p"

definition box_into_ptr :: "box \<Rightarrow> addr" where
  "box_into_ptr b = (case b of Box a \<Rightarrow> a)"

definition box_from_ptr :: "addr \<Rightarrow> box" where
  "box_from_ptr p = Box p"

definition arc_into_ptr :: "arc \<Rightarrow> addr" where
  "arc_into_ptr a = (case a of Arc p \<Rightarrow> p)"

definition arc_from_ptr :: "addr \<Rightarrow> arc" where
  "arc_from_ptr p = Arc p"

text \<open>
  The contract of the trait: the pointer made by \<open>into_ptr\<close> gives the object back. It is
  all that the producer knows of its delivery opaque.
\<close>

locale into_opaque =
  fixes into_ptr :: "'d \<Rightarrow> addr"
    and from_ptr :: "addr \<Rightarrow> 'd"
  assumes from_into [simp]: "from_ptr (into_ptr d) = d"
begin

lemma into_ptr_inj: "into_ptr d = into_ptr d' \<longleftrightarrow> d = d'"
  by (metis from_into)

lemma map_from_into: "map (\<lambda>x. from_ptr (into_ptr x)) ds = ds"
  by (induction ds) auto

end

interpretation unit_opaque: into_opaque unit_into_ptr unit_from_ptr
  by unfold_locales simp

interpretation usize_opaque: into_opaque usize_into_ptr usize_from_ptr
  by unfold_locales (simp add: usize_into_ptr_def usize_from_ptr_def)

interpretation box_opaque: into_opaque box_into_ptr box_from_ptr
  by unfold_locales (simp add: box_into_ptr_def box_from_ptr_def split: box.splits)

interpretation arc_opaque: into_opaque arc_into_ptr arc_from_ptr
  by unfold_locales (simp add: arc_into_ptr_def arc_from_ptr_def split: arc.splits)

text \<open>\<open>NativePtr::from_ptr\<close>: null is no pointer.\<close>

definition native_ptr :: "addr \<Rightarrow> addr option" where
  "native_ptr p = (if p = 0 then None else Some p)"

section \<open>The error buffer\<close>

definition MAX_ERR_LEN :: nat where
  "MAX_ERR_LEN = 512"

record ErrBuf =
  buf :: bytes

definition errbuf_new :: ErrBuf where
  "errbuf_new = \<lparr> buf = replicate MAX_ERR_LEN NUL \<rparr>"

definition unwrap_none :: string where
  "unwrap_none = ''called `Option::unwrap()` on a `None` value''"

fun position :: "('a \<Rightarrow> bool) \<Rightarrow> 'a list \<Rightarrow> nat option" where
  "position P [] = None"
| "position P (x # xs) = (if P x then Some 0 else map_option Suc (position P xs))"

definition errbuf_filled :: "ErrBuf \<Rightarrow> bytes rust" where
  "errbuf_filled b =
     rust_map (\<lambda>i. take (i + 1) (buf b)) (expect unwrap_none (position (\<lambda>c. c = NUL) (buf b)))"

definition errbuf_len :: "ErrBuf \<Rightarrow> nat rust" where
  "errbuf_len b = rust_map length (errbuf_filled b)"

definition errbuf_capacity :: "ErrBuf \<Rightarrow> nat" where
  "errbuf_capacity b = length (buf b)"

text \<open>\<open>CStr::from_bytes_with_nul\<close>: one NUL, at the end.\<close>

definition from_bytes_with_nul :: "bytes \<Rightarrow> bytes option" where
  "from_bytes_with_nul s =
     (if s \<noteq> [] \<and> last s = NUL \<and> NUL \<notin> set (butlast s) then Some (butlast s) else None)"

definition errbuf_to_string :: "ErrBuf \<Rightarrow> bytes rust" where
  "errbuf_to_string b =
     rust_bind (errbuf_filled b) (\<lambda>s.
     rust_map to_string_lossy
       (expect ''called `Result::unwrap()` on an `Err` value'' (from_bytes_with_nul s)))"

text \<open>
  What librdkafka promises of a buffer it is given: its length is unchanged and it holds
  a NUL-terminated string.
\<close>

definition errbuf_ok :: "ErrBuf \<Rightarrow> bool" where
  "errbuf_ok b \<longleftrightarrow> length (buf b) = MAX_ERR_LEN \<and> NUL \<in> set (buf b)"

section \<open>Facts\<close>

lemma timeout_le_Never [simp]: "t \<le> Never"
  by (cases t) auto

lemma min_After [simp]:
  "min (After a) (After b) = After (min a b)"
  "min (After a) Never = After a"
  "min Never (After b) = After b"
  by (simp_all add: min_def)

lemma timeout_saturating_sub_simps [simp]:
  "timeout_saturating_sub (After a) d = After (a - d)"
  "timeout_saturating_sub Never d = Never"
  by (simp_all add: timeout_saturating_sub_def)

lemma timeout_is_zero_simps [simp]:
  "timeout_is_zero (After d) \<longleftrightarrow> d = 0"
  "\<not> timeout_is_zero Never"
  by (simp_all add: timeout_is_zero_def)

lemma deadline_remaining_simps [simp]:
  "deadline_remaining now (Deadline_At i) = i - now"
  "deadline_remaining now Deadline_Never = duration_max"
  by (simp_all add: deadline_remaining_def)

lemma deadline_elapsed_simps [simp]:
  "deadline_elapsed now (Deadline_At i) \<longleftrightarrow> i \<le> now"
  "\<not> deadline_elapsed now Deadline_Never"
  by (auto simp: deadline_elapsed_def duration_max_def)

text \<open>The millisecond count passed to librdkafka is the duration's own count exactly
  when that count fits in a non-negative \<open>i32\<close>; a longer duration is truncated.\<close>

theorem timeout_as_millis_exact_iff:
  "timeout_as_millis (After d) = int (duration_as_millis d) \<longleftrightarrow> duration_as_millis d < 2 ^ 31"
proof
  assume "timeout_as_millis (After d) = int (duration_as_millis d)"
  moreover have "as_i32 (int (duration_as_millis d)) < 2 ^ 31"
    using as_i32_range [of "int (duration_as_millis d)"] by (simp add: i32_range_def)
  ultimately show "duration_as_millis d < 2 ^ 31"
    by (simp add: timeout_as_millis_def)
next
  assume "duration_as_millis d < 2 ^ 31"
  then show "timeout_as_millis (After d) = int (duration_as_millis d)"
    by (simp add: timeout_as_millis_def i32_range_def)
qed

text \<open>The representation of "block forever", \<open>-1\<close>, is produced by \<open>Timeout::Never\<close>
  and also by every finite timeout whose millisecond count is \<open>2^32 - 1\<close> modulo \<open>2^32\<close>.\<close>

theorem timeout_as_millis_forever_iff:
  "timeout_as_millis t = - 1 \<longleftrightarrow>
     t = Never \<or> (\<exists>d. t = After d \<and> duration_as_millis d mod 2 ^ 32 = 2 ^ 32 - 1)"
proof (cases t)
  case (After d)
  define m where "m = int (duration_as_millis d)"
  have m: "int (duration_as_millis d mod 2 ^ 32) = m mod 2 ^ 32"
    by (simp add: m_def zmod_int)
  have "as_i32 m = - 1 \<longleftrightarrow> m mod 2 ^ 32 = 2 ^ 32 - 1"
    by (rule as_i32_minus_one_iff)
  also have "\<dots> \<longleftrightarrow> int (duration_as_millis d mod 2 ^ 32) = int (2 ^ 32 - 1)"
    using m by simp
  also have "\<dots> \<longleftrightarrow> duration_as_millis d mod 2 ^ 32 = 2 ^ 32 - 1"
    by (rule of_nat_eq_iff)
  finally show ?thesis using After by (simp add: timeout_as_millis_def m_def)
qed (simp add: timeout_as_millis_def)

text \<open>The remaining time of a deadline, which is clamped before the cast, is always a
  non-negative \<open>i32\<close>: the true remaining milliseconds or \<open>i32::MAX\<close>, whichever is less.\<close>

theorem remaining_millis_i32_clamped:
  "remaining_millis_i32 now d = int (min (2 ^ 31 - 1) (duration_as_millis (deadline_remaining now d)))
   \<and> 0 \<le> remaining_millis_i32 now d \<and> remaining_millis_i32 now d < 2 ^ 31"
proof -
  define r where "r = deadline_remaining now d"
  have eq: "duration_as_millis (min MAX_FLUSH_DURATION r) = min (2 ^ 31 - 1) (duration_as_millis r)"
    by (auto simp: duration_as_millis_def MAX_FLUSH_DURATION_def from_millis_def min_def
        intro: div_le_mono)
  then have "duration_as_millis (min MAX_FLUSH_DURATION r) < 2 ^ 31" by simp
  then have "i32_range (int (duration_as_millis (min MAX_FLUSH_DURATION r)))"
    by (simp add: i32_range_def)
  then have "remaining_millis_i32 now d = int (min (2 ^ 31 - 1) (duration_as_millis r))"
    using eq by (simp add: remaining_millis_i32_def r_def)
  then show ?thesis by (simp add: r_def)
qed

text \<open>A timeout turned into a deadline and read back later is the timeout less the
  time that passed, saturating at zero: the two ways in which the crate tracks a budget
  (deadlines in the producer, saturating subtraction in the consumer) agree.\<close>

theorem deadline_timeout_roundtrip:
  assumes "deadline_from_timeout now t = Ret d" and "now \<le> now'"
  shows "timeout_from_deadline now' d = timeout_saturating_sub t (now' - now)"
  using assms
  by (auto simp: deadline_from_timeout_def timeout_from_deadline_def deadline_new_def
      instant_add_def split: timeout.splits if_splits)

theorem deadline_timeout_roundtrip_witness:
  "deadline_from_timeout 5 (After 100) = Ret (Deadline_At 105) \<and> (5::nat) \<le> 45 \<and>
   timeout_from_deadline 45 (Deadline_At 105) = timeout_saturating_sub (After 100) (45 - 5)"
proof -
  have h: "deadline_from_timeout 5 (After 100) = Ret (Deadline_At 105)"
    by (simp add: deadline_from_timeout_def deadline_new_def instant_add_def instant_limit_def)
  show ?thesis using h deadline_timeout_roundtrip [OF h, of 45] by simp
qed

text \<open>Turning a timeout into a deadline panics exactly when the sum of the clock and
  the duration leaves the range of \<open>Instant\<close>; \<open>Timeout::Never\<close> never panics.\<close>

theorem deadline_from_timeout_panics_iff:
  "(\<exists>m. deadline_from_timeout now t = Panic m) \<longleftrightarrow>
     (\<exists>d. t = After d \<and> instant_limit \<le> now + d)"
  by (auto simp: deadline_from_timeout_def deadline_new_def instant_add_def
      split: timeout.splits if_splits)

lemma position_Some_takeWhile:
  "x \<in> set xs \<Longrightarrow> position (\<lambda>c. c = x) xs = Some (length (takeWhile (\<lambda>c. c \<noteq> x) xs))"
  by (induction xs) auto

lemma take_Suc_takeWhile:
  "x \<in> set xs \<Longrightarrow>
     take (Suc (length (takeWhile (\<lambda>c. c \<noteq> x) xs))) xs = takeWhile (\<lambda>c. c \<noteq> x) xs @ [x]"
  by (induction xs) auto

lemma length_takeWhile_less:
  "x \<in> set xs \<Longrightarrow> length (takeWhile (\<lambda>c. c \<noteq> x) xs) < length xs"
  by (induction xs) auto

lemma errbuf_filled_eq:
  "NUL \<in> set (buf b) \<Longrightarrow> errbuf_filled b = Ret (cstr_bytes (buf b) @ [NUL])"
  by (simp add: errbuf_filled_def position_Some_takeWhile take_Suc_takeWhile cstr_bytes_def)

lemma errbuf_ok_texts:
  assumes "errbuf_ok b"
  shows "errbuf_to_string b = Ret (to_string_lossy (cstr_bytes (buf b)))"
    and "errbuf_len b = Ret (length (cstr_bytes (buf b)) + 1)"
  using assms errbuf_filled_eq [of b]
  by (simp_all add: errbuf_ok_def errbuf_to_string_def errbuf_len_def from_bytes_with_nul_def)

text \<open>C40. On a buffer that librdkafka has written a C string into, the error text is that
  string, decoded lossily, and nothing panics; the length that \<open>ErrBuf::len\<close> reports counts
  the terminator, so it lies between 1 and the capacity and is never zero.\<close>

theorem errbuf_text:
  assumes "errbuf_ok b"
  shows "errbuf_to_string b = Ret (to_string_lossy (cstr_bytes (buf b)))
    \<and> errbuf_len b = Ret (length (cstr_bytes (buf b)) + 1)
    \<and> length (cstr_bytes (buf b)) + 1 \<le> errbuf_capacity b"
proof -
  from assms have nul: "NUL \<in> set (buf b)" by (simp add: errbuf_ok_def)
  have "length (cstr_bytes (buf b)) < length (buf b)"
    unfolding cstr_bytes_def using nul by (rule length_takeWhile_less)
  then show ?thesis
    using errbuf_ok_texts [OF assms] by (simp add: errbuf_capacity_def)
qed

theorem errbuf_text_witness:
  "errbuf_ok errbuf_new \<and> errbuf_to_string errbuf_new = Ret [] \<and> errbuf_len errbuf_new = Ret 1"
proof -
  have h: "errbuf_ok errbuf_new"
    by (simp add: errbuf_ok_def errbuf_new_def MAX_ERR_LEN_def)
  have "cstr_bytes (buf errbuf_new) = []"
    by (simp add: cstr_bytes_def errbuf_new_def MAX_ERR_LEN_def)
  with h errbuf_text [OF h] show ?thesis by simp
qed

end
