(* ===== verification/Error_Codes.thy ===== *)
theory Error_Codes
  imports Util
begin

text \<open>
  The field-less enums of \<open>rdkafka-sys\<close>: \<open>rd_kafka_resp_err_t\<close> (\<open>bindings.rs\<close>, aliased
  \<open>RDKafkaRespErr\<close>), \<open>RDKafkaErrorCode\<close> and \<open>RDKafkaApiKey\<close> (\<open>types.rs\<close>), and the match of
  \<open>helpers.rs\<close> that turns the first into the second. A value of such an enum is its
  discriminant, which Rust keeps distinct for each variant; every variant has an
  abbreviation of its own name (\<open>RDKafkaErrorCode\<close> variants with the prefix \<open>EC_\<close>), and
  the list of variants is the enum's declaration. The codes of librdkafka itself (up to
  \<open>End\<close>) and those of the brokers are two lists, as they are two blocks of the source.
\<close>

datatype RDKafkaRespErr = RespErr (resp_discriminant: int)

datatype RDKafkaErrorCode = ErrorCode (code_discriminant: int)

section \<open>Variants of RDKafkaRespErr\<close>

abbreviation RD_KAFKA_RESP_ERR__BEGIN :: RDKafkaRespErr where "RD_KAFKA_RESP_ERR__BEGIN \<equiv> RespErr (- 200)"
abbreviation RD_KAFKA_RESP_ERR__BAD_MSG :: RDKafkaRespErr where "RD_KAFKA_RESP_ERR__BAD_MSG \<equiv> RespErr (- 199)"
abbreviation RD_KAFKA_RESP_ERR__BAD_COMPRESSION :: RDKafkaRespErr where "RD_KAFKA_RESP_ERR__BAD_COMPRESSION \<equiv> RespErr (- 198)"
abbreviation RD_KAFKA_RESP_ERR__DESTROY :: RDKafkaRespErr where "RD_KAFKA_RESP_ERR__DESTROY \<equiv> RespErr (- 197)"
abbreviation RD_KAFKA_RESP_ERR__FAIL :: RDKafkaRespErr where "RD_KAFKA_RESP_ERR__FAIL \<equiv> RespErr (- 196)"
abbreviation RD_KAFKA_RESP_ERR__TRANSPORT :: RDKafkaRespErr where "RD_KAFKA_RESP_ERR__TRANSPORT \<equiv> RespErr (- 195)"
abbreviation RD_KAFKA_RESP_ERR__CRIT_SYS_RESOURCE :: RDKafkaRespErr where "RD_KAFKA_RESP_ERR__CRIT_SYS_RESOURCE \<equiv> RespErr (- 194)"
abbreviation RD_KAFKA_RESP_ERR__RESOLVE :: RDKafkaRespErr where "RD_KAFKA_RESP_ERR__RESOLVE \<equiv> RespErr (- 193)"
abbreviation RD_KAFKA_RESP_ERR__MSG_TIMED_OUT :: RDKafkaRespErr where "RD_KAFKA_RESP_ERR__MSG_TIMED_OUT \<equiv> RespErr (- 192)"
abbreviation RD_KAFKA_RESP_ERR__PARTITION_EOF :: RDKafkaRespErr where "RD_KAFKA_RESP_ERR__PARTITION_EOF \<equiv> RespErr (- 191)"
abbreviation RD_KAFKA_RESP_ERR__UNKNOWN_PARTITION :: RDKafkaRespErr where "RD_KAFKA_RESP_ERR__UNKNOWN_PARTITION \<equiv> RespErr (- 190)"
abbreviation RD_KAFKA_RESP_ERR__FS :: RDKafkaRespErr where "RD_KAFKA_RESP_ERR__FS \<equiv> RespErr (- 189)"
abbreviation RD_KAFKA_RESP_ERR__UNKNOWN_TOPIC :: RDKafkaRespErr where "RD_KAFKA_RESP_ERR__UNKNOWN_TOPIC \<equiv> RespErr (- 188)"
abbreviation RD_KAFKA_RESP_ERR__ALL_BROKERS_DOWN :: RDKafkaRespErr where "RD_KAFKA_RESP_ERR__ALL_BROKERS_DOWN \<equiv> RespErr (- 187)"
abbreviation RD_KAFKA_RESP_ERR__INVALID_ARG :: RDKafkaRespErr where "RD_KAFKA_RESP_ERR__INVALID_ARG \<equiv> RespErr (- 186)"
abbreviation RD_KAFKA_RESP_ERR__TIMED_OUT :: RDKafkaRespErr where "RD_KAFKA_RESP_ERR__TIMED_OUT \<equiv> RespErr (- 185)"
abbreviation RD_KAFKA_RESP_ERR__QUEUE_FULL :: RDKafkaRespErr where "RD_KAFKA_RESP_ERR__QUEUE_FULL \<equiv> RespErr (- 184)"
abbreviation RD_KAFKA_RESP_ERR__ISR_INSUFF :: RDKafkaRespErr where "RD_KAFKA_RESP_ERR__ISR_INSUFF \<equiv> RespErr (- 183)"
abbreviation RD_KAFKA_RESP_ERR__NODE_UPDATE :: RDKafkaRespErr where "RD_KAFKA_RESP_ERR__NODE_UPDATE \<equiv> RespErr (- 182)"
abbreviation RD_KAFKA_RESP_ERR__SSL :: RDKafkaRespErr where "RD_KAFKA_RESP_ERR__SSL \<equiv> RespErr (- 181)"
abbreviation RD_KAFKA_RESP_ERR__WAIT_COORD :: RDKafkaRespErr where "RD_KAFKA_RESP_ERR__WAIT_COORD \<equiv> RespErr (- 180)"
abbreviation RD_KAFKA_RESP_ERR__UNKNOWN_GROUP :: RDKafkaRespErr where "RD_KAFKA_RESP_ERR__UNKNOWN_GROUP \<equiv> RespErr (- 179)"
abbreviation RD_KAFKA_RESP_ERR__IN_PROGRESS :: RDKafkaRespErr where "RD_KAFKA_RESP_ERR__IN_PROGRESS \<equiv> RespErr (- 178)"
abbreviation RD_KAFKA_RESP_ERR__PREV_IN_PROGRESS :: RDKafkaRespErr where "RD_KAFKA_RESP_ERR__PREV_IN_PROGRESS \<equiv> RespErr (- 177)"
abbreviation RD_KAFKA_RESP_ERR__EXISTING_SUBSCRIPTION :: RDKafkaRespErr where "RD_KAFKA_RESP_ERR__EXISTING_SUBSCRIPTION \<equiv> RespErr (- 176)"
abbreviation RD_KAFKA_RESP_ERR__ASSIGN_PARTITIONS :: RDKafkaRespErr where "RD_KAFKA_RESP_ERR__ASSIGN_PARTITIONS \<equiv> RespErr (- 175)"
abbreviation RD_KAFKA_RESP_ERR__REVOKE_PARTITIONS :: RDKafkaRespErr where "RD_KAFKA_RESP_ERR__REVOKE_PARTITIONS \<equiv> RespErr (- 174)"
abbreviation RD_KAFKA_RESP_ERR__CONFLICT :: RDKafkaRespErr where "RD_KAFKA_RESP_ERR__CONFLICT \<equiv> RespErr (- 173)"
abbreviation RD_KAFKA_RESP_ERR__STATE :: RDKafkaRespErr where "RD_KAFKA_RESP_ERR__STATE \<equiv> RespErr (- 172)"
abbreviation RD_KAFKA_RESP_ERR__UNKNOWN_PROTOCOL :: RDKafkaRespErr where "RD_KAFKA_RESP_ERR__UNKNOWN_PROTOCOL \<equiv> RespErr (- 171)"
abbreviation RD_KAFKA_RESP_ERR__NOT_IMPLEMENTED :: RDKafkaRespErr where "RD_KAFKA_RESP_ERR__NOT_IMPLEMENTED \<equiv> RespErr (- 170)"
abbreviation RD_KAFKA_RESP_ERR__AUTHENTICATION :: RDKafkaRespErr where "RD_KAFKA_RESP_ERR__AUTHENTICATION \<equiv> RespErr (- 169)"
abbreviation RD_KAFKA_RESP_ERR__NO_OFFSET :: RDKafkaRespErr where "RD_KAFKA_RESP_ERR__NO_OFFSET \<equiv> RespErr (- 168)"
abbreviation RD_KAFKA_RESP_ERR__OUTDATED :: RDKafkaRespErr where "RD_KAFKA_RESP_ERR__OUTDATED \<equiv> RespErr (- 167)"
abbreviation RD_KAFKA_RESP_ERR__TIMED_OUT_QUEUE :: RDKafkaRespErr where "RD_KAFKA_RESP_ERR__TIMED_OUT_QUEUE \<equiv> RespErr (- 166)"
abbreviation RD_KAFKA_RESP_ERR__UNSUPPORTED_FEATURE :: RDKafkaRespErr where "RD_KAFKA_RESP_ERR__UNSUPPORTED_FEATURE \<equiv> RespErr (- 165)"
abbreviation RD_KAFKA_RESP_ERR__WAIT_CACHE :: RDKafkaRespErr where "RD_KAFKA_RESP_ERR__WAIT_CACHE \<equiv> RespErr (- 164)"
abbreviation RD_KAFKA_RESP_ERR__INTR :: RDKafkaRespErr where "RD_KAFKA_RESP_ERR__INTR \<equiv> RespErr (- 163)"
abbreviation RD_KAFKA_RESP_ERR__KEY_SERIALIZATION :: RDKafkaRespErr where "RD_KAFKA_RESP_ERR__KEY_SERIALIZATION \<equiv> RespErr (- 162)"
abbreviation RD_KAFKA_RESP_ERR__VALUE_SERIALIZATION :: RDKafkaRespErr where "RD_KAFKA_RESP_ERR__VALUE_SERIALIZATION \<equiv> RespErr (- 161)"
abbreviation RD_KAFKA_RESP_ERR__KEY_DESERIALIZATION :: RDKafkaRespErr where "RD_KAFKA_RESP_ERR__KEY_DESERIALIZATION \<equiv> RespErr (- 160)"
abbreviation RD_KAFKA_RESP_ERR__VALUE_DESERIALIZATION :: RDKafkaRespErr where "RD_KAFKA_RESP_ERR__VALUE_DESERIALIZATION \<equiv> RespErr (- 159)"
abbreviation RD_KAFKA_RESP_ERR__PARTIAL :: RDKafkaRespErr where "RD_KAFKA_RESP_ERR__PARTIAL \<equiv> RespErr (- 158)"
abbreviation RD_KAFKA_RESP_ERR__READ_ONLY :: RDKafkaRespErr where "RD_KAFKA_RESP_ERR__READ_ONLY \<equiv> RespErr (- 157)"
abbreviation RD_KAFKA_RESP_ERR__NOENT :: RDKafkaRespErr where "RD_KAFKA_RESP_ERR__NOENT \<equiv> RespErr (- 156)"
abbreviation RD_KAFKA_RESP_ERR__UNDERFLOW :: RDKafkaRespErr where "RD_KAFKA_RESP_ERR__UNDERFLOW \<equiv> RespErr (- 155)"
abbreviation RD_KAFKA_RESP_ERR__INVALID_TYPE :: RDKafkaRespErr where "RD_KAFKA_RESP_ERR__INVALID_TYPE \<equiv> RespErr (- 154)"
abbreviation RD_KAFKA_RESP_ERR__RETRY :: RDKafkaRespErr where "RD_KAFKA_RESP_ERR__RETRY \<equiv> RespErr (- 153)"
abbreviation RD_KAFKA_RESP_ERR__PURGE_QUEUE :: RDKafkaRespErr where "RD_KAFKA_RESP_ERR__PURGE_QUEUE \<equiv> RespErr (- 152)"
abbreviation RD_KAFKA_RESP_ERR__PURGE_INFLIGHT :: RDKafkaRespErr where "RD_KAFKA_RESP_ERR__PURGE_INFLIGHT \<equiv> RespErr (- 151)"
abbreviation RD_KAFKA_RESP_ERR__FATAL :: RDKafkaRespErr where "RD_KAFKA_RESP_ERR__FATAL \<equiv> RespErr (- 150)"
abbreviation RD_KAFKA_RESP_ERR__INCONSISTENT :: RDKafkaRespErr where "RD_KAFKA_RESP_ERR__INCONSISTENT \<equiv> RespErr (- 149)"
abbreviation RD_KAFKA_RESP_ERR__GAPLESS_GUARANTEE :: RDKafkaRespErr where "RD_KAFKA_RESP_ERR__GAPLESS_GUARANTEE \<equiv> RespErr (- 148)"
abbreviation RD_KAFKA_RESP_ERR__MAX_POLL_EXCEEDED :: RDKafkaRespErr where "RD_KAFKA_RESP_ERR__MAX_POLL_EXCEEDED \<equiv> RespErr (- 147)"
abbreviation RD_KAFKA_RESP_ERR__UNKNOWN_BROKER :: RDKafkaRespErr where "RD_KAFKA_RESP_ERR__UNKNOWN_BROKER \<equiv> RespErr (- 146)"
abbreviation RD_KAFKA_RESP_ERR__NOT_CONFIGURED :: RDKafkaRespErr where "RD_KAFKA_RESP_ERR__NOT_CONFIGURED \<equiv> RespErr (- 145)"
abbreviation RD_KAFKA_RESP_ERR__FENCED :: RDKafkaRespErr where "RD_KAFKA_RESP_ERR__FENCED \<equiv> RespErr (- 144)"
abbreviation RD_KAFKA_RESP_ERR__APPLICATION :: RDKafkaRespErr where "RD_KAFKA_RESP_ERR__APPLICATION \<equiv> RespErr (- 143)"
abbreviation RD_KAFKA_RESP_ERR__ASSIGNMENT_LOST :: RDKafkaRespErr where "RD_KAFKA_RESP_ERR__ASSIGNMENT_LOST \<equiv> RespErr (- 142)"
abbreviation RD_KAFKA_RESP_ERR__NOOP :: RDKafkaRespErr where "RD_KAFKA_RESP_ERR__NOOP \<equiv> RespErr (- 141)"
abbreviation RD_KAFKA_RESP_ERR__AUTO_OFFSET_RESET :: RDKafkaRespErr where "RD_KAFKA_RESP_ERR__AUTO_OFFSET_RESET \<equiv> RespErr (- 140)"
abbreviation RD_KAFKA_RESP_ERR__LOG_TRUNCATION :: RDKafkaRespErr where "RD_KAFKA_RESP_ERR__LOG_TRUNCATION \<equiv> RespErr (- 139)"
abbreviation RD_KAFKA_RESP_ERR__INVALID_DIFFERENT_RECORD :: RDKafkaRespErr where "RD_KAFKA_RESP_ERR__INVALID_DIFFERENT_RECORD \<equiv> RespErr (- 138)"
abbreviation RD_KAFKA_RESP_ERR__DESTROY_BROKER :: RDKafkaRespErr where "RD_KAFKA_RESP_ERR__DESTROY_BROKER \<equiv> RespErr (- 137)"
abbreviation RD_KAFKA_RESP_ERR__END :: RDKafkaRespErr where "RD_KAFKA_RESP_ERR__END \<equiv> RespErr (- 100)"
abbreviation RD_KAFKA_RESP_ERR_UNKNOWN :: RDKafkaRespErr where "RD_KAFKA_RESP_ERR_UNKNOWN \<equiv> RespErr (- 1)"
abbreviation RD_KAFKA_RESP_ERR_NO_ERROR :: RDKafkaRespErr where "RD_KAFKA_RESP_ERR_NO_ERROR \<equiv> RespErr (0)"
abbreviation RD_KAFKA_RESP_ERR_OFFSET_OUT_OF_RANGE :: RDKafkaRespErr where "RD_KAFKA_RESP_ERR_OFFSET_OUT_OF_RANGE \<equiv> RespErr (1)"
abbreviation RD_KAFKA_RESP_ERR_INVALID_MSG :: RDKafkaRespErr where "RD_KAFKA_RESP_ERR_INVALID_MSG \<equiv> RespErr (2)"
abbreviation RD_KAFKA_RESP_ERR_UNKNOWN_TOPIC_OR_PART :: RDKafkaRespErr where "RD_KAFKA_RESP_ERR_UNKNOWN_TOPIC_OR_PART \<equiv> RespErr (3)"
abbreviation RD_KAFKA_RESP_ERR_INVALID_MSG_SIZE :: RDKafkaRespErr where "RD_KAFKA_RESP_ERR_INVALID_MSG_SIZE \<equiv> RespErr (4)"
abbreviation RD_KAFKA_RESP_ERR_LEADER_NOT_AVAILABLE :: RDKafkaRespErr where "RD_KAFKA_RESP_ERR_LEADER_NOT_AVAILABLE \<equiv> RespErr (5)"
abbreviation RD_KAFKA_RESP_ERR_NOT_LEADER_FOR_PARTITION :: RDKafkaRespErr where "RD_KAFKA_RESP_ERR_NOT_LEADER_FOR_PARTITION \<equiv> RespErr (6)"
abbreviation RD_KAFKA_RESP_ERR_REQUEST_TIMED_OUT :: RDKafkaRespErr where "RD_KAFKA_RESP_ERR_REQUEST_TIMED_OUT \<equiv> RespErr (7)"
abbreviation RD_KAFKA_RESP_ERR_BROKER_NOT_AVAILABLE :: RDKafkaRespErr where "RD_KAFKA_RESP_ERR_BROKER_NOT_AVAILABLE \<equiv> RespErr (8)"
abbreviation RD_KAFKA_RESP_ERR_REPLICA_NOT_AVAILABLE :: RDKafkaRespErr where "RD_KAFKA_RESP_ERR_REPLICA_NOT_AVAILABLE \<equiv> RespErr (9)"
abbreviation RD_KAFKA_RESP_ERR_MSG_SIZE_TOO_LARGE :: RDKafkaRespErr where "RD_KAFKA_RESP_ERR_MSG_SIZE_TOO_LARGE \<equiv> RespErr (10)"
abbreviation RD_KAFKA_RESP_ERR_STALE_CTRL_EPOCH :: RDKafkaRespErr where "RD_KAFKA_RESP_ERR_STALE_CTRL_EPOCH \<equiv> RespErr (11)"
abbreviation RD_KAFKA_RESP_ERR_OFFSET_METADATA_TOO_LARGE :: RDKafkaRespErr where "RD_KAFKA_RESP_ERR_OFFSET_METADATA_TOO_LARGE \<equiv> RespErr (12)"
abbreviation RD_KAFKA_RESP_ERR_NETWORK_EXCEPTION :: RDKafkaRespErr where "RD_KAFKA_RESP_ERR_NETWORK_EXCEPTION \<equiv> RespErr (13)"
abbreviation RD_KAFKA_RESP_ERR_COORDINATOR_LOAD_IN_PROGRESS :: RDKafkaRespErr where "RD_KAFKA_RESP_ERR_COORDINATOR_LOAD_IN_PROGRESS \<equiv> RespErr (14)"
abbreviation RD_KAFKA_RESP_ERR_COORDINATOR_NOT_AVAILABLE :: RDKafkaRespErr where "RD_KAFKA_RESP_ERR_COORDINATOR_NOT_AVAILABLE \<equiv> RespErr (15)"
abbreviation RD_KAFKA_RESP_ERR_NOT_COORDINATOR :: RDKafkaRespErr where "RD_KAFKA_RESP_ERR_NOT_COORDINATOR \<equiv> RespErr (16)"
abbreviation RD_KAFKA_RESP_ERR_TOPIC_EXCEPTION :: RDKafkaRespErr where "RD_KAFKA_RESP_ERR_TOPIC_EXCEPTION \<equiv> RespErr (17)"
abbreviation RD_KAFKA_RESP_ERR_RECORD_LIST_TOO_LARGE :: RDKafkaRespErr where "RD_KAFKA_RESP_ERR_RECORD_LIST_TOO_LARGE \<equiv> RespErr (18)"
abbreviation RD_KAFKA_RESP_ERR_NOT_ENOUGH_REPLICAS :: RDKafkaRespErr where "RD_KAFKA_RESP_ERR_NOT_ENOUGH_REPLICAS \<equiv> RespErr (19)"
abbreviation RD_KAFKA_RESP_ERR_NOT_ENOUGH_REPLICAS_AFTER_APPEND :: RDKafkaRespErr where "RD_KAFKA_RESP_ERR_NOT_ENOUGH_REPLICAS_AFTER_APPEND \<equiv> RespErr (20)"
abbreviation RD_KAFKA_RESP_ERR_INVALID_REQUIRED_ACKS :: RDKafkaRespErr where "RD_KAFKA_RESP_ERR_INVALID_REQUIRED_ACKS \<equiv> RespErr (21)"
abbreviation RD_KAFKA_RESP_ERR_ILLEGAL_GENERATION :: RDKafkaRespErr where "RD_KAFKA_RESP_ERR_ILLEGAL_GENERATION \<equiv> RespErr (22)"
abbreviation RD_KAFKA_RESP_ERR_INCONSISTENT_GROUP_PROTOCOL :: RDKafkaRespErr where "RD_KAFKA_RESP_ERR_INCONSISTENT_GROUP_PROTOCOL \<equiv> RespErr (23)"
abbreviation RD_KAFKA_RESP_ERR_INVALID_GROUP_ID :: RDKafkaRespErr where "RD_KAFKA_RESP_ERR_INVALID_GROUP_ID \<equiv> RespErr (24)"
abbreviation RD_KAFKA_RESP_ERR_UNKNOWN_MEMBER_ID :: RDKafkaRespErr where "RD_KAFKA_RESP_ERR_UNKNOWN_MEMBER_ID \<equiv> RespErr (25)"
abbreviation RD_KAFKA_RESP_ERR_INVALID_SESSION_TIMEOUT :: RDKafkaRespErr where "RD_KAFKA_RESP_ERR_INVALID_SESSION_TIMEOUT \<equiv> RespErr (26)"
abbreviation RD_KAFKA_RESP_ERR_REBALANCE_IN_PROGRESS :: RDKafkaRespErr where "RD_KAFKA_RESP_ERR_REBALANCE_IN_PROGRESS \<equiv> RespErr (27)"
abbreviation RD_KAFKA_RESP_ERR_INVALID_COMMIT_OFFSET_SIZE :: RDKafkaRespErr where "RD_KAFKA_RESP_ERR_INVALID_COMMIT_OFFSET_SIZE \<equiv> RespErr (28)"
abbreviation RD_KAFKA_RESP_ERR_TOPIC_AUTHORIZATION_FAILED :: RDKafkaRespErr where "RD_KAFKA_RESP_ERR_TOPIC_AUTHORIZATION_FAILED \<equiv> RespErr (29)"
abbreviation RD_KAFKA_RESP_ERR_GROUP_AUTHORIZATION_FAILED :: RDKafkaRespErr where "RD_KAFKA_RESP_ERR_GROUP_AUTHORIZATION_FAILED \<equiv> RespErr (30)"
abbreviation RD_KAFKA_RESP_ERR_CLUSTER_AUTHORIZATION_FAILED :: RDKafkaRespErr where "RD_KAFKA_RESP_ERR_CLUSTER_AUTHORIZATION_FAILED \<equiv> RespErr (31)"
abbreviation RD_KAFKA_RESP_ERR_INVALID_TIMESTAMP :: RDKafkaRespErr where "RD_KAFKA_RESP_ERR_INVALID_TIMESTAMP \<equiv> RespErr (32)"
abbreviation RD_KAFKA_RESP_ERR_UNSUPPORTED_SASL_MECHANISM :: RDKafkaRespErr where "RD_KAFKA_RESP_ERR_UNSUPPORTED_SASL_MECHANISM \<equiv> RespErr (33)"
abbreviation RD_KAFKA_RESP_ERR_ILLEGAL_SASL_STATE :: RDKafkaRespErr where "RD_KAFKA_RESP_ERR_ILLEGAL_SASL_STATE \<equiv> RespErr (34)"
abbreviation RD_KAFKA_RESP_ERR_UNSUPPORTED_VERSION :: RDKafkaRespErr where "RD_KAFKA_RESP_ERR_UNSUPPORTED_VERSION \<equiv> RespErr (35)"
abbreviation RD_KAFKA_RESP_ERR_TOPIC_ALREADY_EXISTS :: RDKafkaRespErr where "RD_KAFKA_RESP_ERR_TOPIC_ALREADY_EXISTS \<equiv> RespErr (36)"
abbreviation RD_KAFKA_RESP_ERR_INVALID_PARTITIONS :: RDKafkaRespErr where "RD_KAFKA_RESP_ERR_INVALID_PARTITIONS \<equiv> RespErr (37)"
abbreviation RD_KAFKA_RESP_ERR_INVALID_REPLICATION_FACTOR :: RDKafkaRespErr where "RD_KAFKA_RESP_ERR_INVALID_REPLICATION_FACTOR \<equiv> RespErr (38)"
abbreviation RD_KAFKA_RESP_ERR_INVALID_REPLICA_ASSIGNMENT :: RDKafkaRespErr where "RD_KAFKA_RESP_ERR_INVALID_REPLICA_ASSIGNMENT \<equiv> RespErr (39)"
abbreviation RD_KAFKA_RESP_ERR_INVALID_CONFIG :: RDKafkaRespErr where "RD_KAFKA_RESP_ERR_INVALID_CONFIG \<equiv> RespErr (40)"
abbreviation RD_KAFKA_RESP_ERR_NOT_CONTROLLER :: RDKafkaRespErr where "RD_KAFKA_RESP_ERR_NOT_CONTROLLER \<equiv> RespErr (41)"
abbreviation RD_KAFKA_RESP_ERR_INVALID_REQUEST :: RDKafkaRespErr where "RD_KAFKA_RESP_ERR_INVALID_REQUEST \<equiv> RespErr (42)"
abbreviation RD_KAFKA_RESP_ERR_UNSUPPORTED_FOR_MESSAGE_FORMAT :: RDKafkaRespErr where "RD_KAFKA_RESP_ERR_UNSUPPORTED_FOR_MESSAGE_FORMAT \<equiv> RespErr (43)"
abbreviation RD_KAFKA_RESP_ERR_POLICY_VIOLATION :: RDKafkaRespErr where "RD_KAFKA_RESP_ERR_POLICY_VIOLATION \<equiv> RespErr (44)"
abbreviation RD_KAFKA_RESP_ERR_OUT_OF_ORDER_SEQUENCE_NUMBER :: RDKafkaRespErr where "RD_KAFKA_RESP_ERR_OUT_OF_ORDER_SEQUENCE_NUMBER \<equiv> RespErr (45)"
abbreviation RD_KAFKA_RESP_ERR_DUPLICATE_SEQUENCE_NUMBER :: RDKafkaRespErr where "RD_KAFKA_RESP_ERR_DUPLICATE_SEQUENCE_NUMBER \<equiv> RespErr (46)"
abbreviation RD_KAFKA_RESP_ERR_INVALID_PRODUCER_EPOCH :: RDKafkaRespErr where "RD_KAFKA_RESP_ERR_INVALID_PRODUCER_EPOCH \<equiv> RespErr (47)"
abbreviation RD_KAFKA_RESP_ERR_INVALID_TXN_STATE :: RDKafkaRespErr where "RD_KAFKA_RESP_ERR_INVALID_TXN_STATE \<equiv> RespErr (48)"
abbreviation RD_KAFKA_RESP_ERR_INVALID_PRODUCER_ID_MAPPING :: RDKafkaRespErr where "RD_KAFKA_RESP_ERR_INVALID_PRODUCER_ID_MAPPING \<equiv> RespErr (49)"
abbreviation RD_KAFKA_RESP_ERR_INVALID_TRANSACTION_TIMEOUT :: RDKafkaRespErr where "RD_KAFKA_RESP_ERR_INVALID_TRANSACTION_TIMEOUT \<equiv> RespErr (50)"
abbreviation RD_KAFKA_RESP_ERR_CONCURRENT_TRANSACTIONS :: RDKafkaRespErr where "RD_KAFKA_RESP_ERR_CONCURRENT_TRANSACTIONS \<equiv> RespErr (51)"
abbreviation RD_KAFKA_RESP_ERR_TRANSACTION_COORDINATOR_FENCED :: RDKafkaRespErr where "RD_KAFKA_RESP_ERR_TRANSACTION_COORDINATOR_FENCED \<equiv> RespErr (52)"
abbreviation RD_KAFKA_RESP_ERR_TRANSACTIONAL_ID_AUTHORIZATION_FAILED :: RDKafkaRespErr where "RD_KAFKA_RESP_ERR_TRANSACTIONAL_ID_AUTHORIZATION_FAILED \<equiv> RespErr (53)"
abbreviation RD_KAFKA_RESP_ERR_SECURITY_DISABLED :: RDKafkaRespErr where "RD_KAFKA_RESP_ERR_SECURITY_DISABLED \<equiv> RespErr (54)"
abbreviation RD_KAFKA_RESP_ERR_OPERATION_NOT_ATTEMPTED :: RDKafkaRespErr where "RD_KAFKA_RESP_ERR_OPERATION_NOT_ATTEMPTED \<equiv> RespErr (55)"
abbreviation RD_KAFKA_RESP_ERR_KAFKA_STORAGE_ERROR :: RDKafkaRespErr where "RD_KAFKA_RESP_ERR_KAFKA_STORAGE_ERROR \<equiv> RespErr (56)"
abbreviation RD_KAFKA_RESP_ERR_LOG_DIR_NOT_FOUND :: RDKafkaRespErr where "RD_KAFKA_RESP_ERR_LOG_DIR_NOT_FOUND \<equiv> RespErr (57)"
abbreviation RD_KAFKA_RESP_ERR_SASL_AUTHENTICATION_FAILED :: RDKafkaRespErr where "RD_KAFKA_RESP_ERR_SASL_AUTHENTICATION_FAILED \<equiv> RespErr (58)"
abbreviation RD_KAFKA_RESP_ERR_UNKNOWN_PRODUCER_ID :: RDKafkaRespErr where "RD_KAFKA_RESP_ERR_UNKNOWN_PRODUCER_ID \<equiv> RespErr (59)"
abbreviation RD_KAFKA_RESP_ERR_REASSIGNMENT_IN_PROGRESS :: RDKafkaRespErr where "RD_KAFKA_RESP_ERR_REASSIGNMENT_IN_PROGRESS \<equiv> RespErr (60)"
abbreviation RD_KAFKA_RESP_ERR_DELEGATION_TOKEN_AUTH_DISABLED :: RDKafkaRespErr where "RD_KAFKA_RESP_ERR_DELEGATION_TOKEN_AUTH_DISABLED \<equiv> RespErr (61)"
abbreviation RD_KAFKA_RESP_ERR_DELEGATION_TOKEN_NOT_FOUND :: RDKafkaRespErr where "RD_KAFKA_RESP_ERR_DELEGATION_TOKEN_NOT_FOUND \<equiv> RespErr (62)"
abbreviation RD_KAFKA_RESP_ERR_DELEGATION_TOKEN_OWNER_MISMATCH :: RDKafkaRespErr where "RD_KAFKA_RESP_ERR_DELEGATION_TOKEN_OWNER_MISMATCH \<equiv> RespErr (63)"
abbreviation RD_KAFKA_RESP_ERR_DELEGATION_TOKEN_REQUEST_NOT_ALLOWED :: RDKafkaRespErr where "RD_KAFKA_RESP_ERR_DELEGATION_TOKEN_REQUEST_NOT_ALLOWED \<equiv> RespErr (64)"
abbreviation RD_KAFKA_RESP_ERR_DELEGATION_TOKEN_AUTHORIZATION_FAILED :: RDKafkaRespErr where "RD_KAFKA_RESP_ERR_DELEGATION_TOKEN_AUTHORIZATION_FAILED \<equiv> RespErr (65)"
abbreviation RD_KAFKA_RESP_ERR_DELEGATION_TOKEN_EXPIRED :: RDKafkaRespErr where "RD_KAFKA_RESP_ERR_DELEGATION_TOKEN_EXPIRED \<equiv> RespErr (66)"
abbreviation RD_KAFKA_RESP_ERR_INVALID_PRINCIPAL_TYPE :: RDKafkaRespErr where "RD_KAFKA_RESP_ERR_INVALID_PRINCIPAL_TYPE \<equiv> RespErr (67)"
abbreviation RD_KAFKA_RESP_ERR_NON_EMPTY_GROUP :: RDKafkaRespErr where "RD_KAFKA_RESP_ERR_NON_EMPTY_GROUP \<equiv> RespErr (68)"
abbreviation RD_KAFKA_RESP_ERR_GROUP_ID_NOT_FOUND :: RDKafkaRespErr where "RD_KAFKA_RESP_ERR_GROUP_ID_NOT_FOUND \<equiv> RespErr (69)"
abbreviation RD_KAFKA_RESP_ERR_FETCH_SESSION_ID_NOT_FOUND :: RDKafkaRespErr where "RD_KAFKA_RESP_ERR_FETCH_SESSION_ID_NOT_FOUND \<equiv> RespErr (70)"
abbreviation RD_KAFKA_RESP_ERR_INVALID_FETCH_SESSION_EPOCH :: RDKafkaRespErr where "RD_KAFKA_RESP_ERR_INVALID_FETCH_SESSION_EPOCH \<equiv> RespErr (71)"
abbreviation RD_KAFKA_RESP_ERR_LISTENER_NOT_FOUND :: RDKafkaRespErr where "RD_KAFKA_RESP_ERR_LISTENER_NOT_FOUND \<equiv> RespErr (72)"
abbreviation RD_KAFKA_RESP_ERR_TOPIC_DELETION_DISABLED :: RDKafkaRespErr where "RD_KAFKA_RESP_ERR_TOPIC_DELETION_DISABLED \<equiv> RespErr (73)"
abbreviation RD_KAFKA_RESP_ERR_FENCED_LEADER_EPOCH :: RDKafkaRespErr where "RD_KAFKA_RESP_ERR_FENCED_LEADER_EPOCH \<equiv> RespErr (74)"
abbreviation RD_KAFKA_RESP_ERR_UNKNOWN_LEADER_EPOCH :: RDKafkaRespErr where "RD_KAFKA_RESP_ERR_UNKNOWN_LEADER_EPOCH \<equiv> RespErr (75)"
abbreviation RD_KAFKA_RESP_ERR_UNSUPPORTED_COMPRESSION_TYPE :: RDKafkaRespErr where "RD_KAFKA_RESP_ERR_UNSUPPORTED_COMPRESSION_TYPE \<equiv> RespErr (76)"
abbreviation RD_KAFKA_RESP_ERR_STALE_BROKER_EPOCH :: RDKafkaRespErr where "RD_KAFKA_RESP_ERR_STALE_BROKER_EPOCH \<equiv> RespErr (77)"
abbreviation RD_KAFKA_RESP_ERR_OFFSET_NOT_AVAILABLE :: RDKafkaRespErr where "RD_KAFKA_RESP_ERR_OFFSET_NOT_AVAILABLE \<equiv> RespErr (78)"
abbreviation RD_KAFKA_RESP_ERR_MEMBER_ID_REQUIRED :: RDKafkaRespErr where "RD_KAFKA_RESP_ERR_MEMBER_ID_REQUIRED \<equiv> RespErr (79)"
abbreviation RD_KAFKA_RESP_ERR_PREFERRED_LEADER_NOT_AVAILABLE :: RDKafkaRespErr where "RD_KAFKA_RESP_ERR_PREFERRED_LEADER_NOT_AVAILABLE \<equiv> RespErr (80)"
abbreviation RD_KAFKA_RESP_ERR_GROUP_MAX_SIZE_REACHED :: RDKafkaRespErr where "RD_KAFKA_RESP_ERR_GROUP_MAX_SIZE_REACHED \<equiv> RespErr (81)"
abbreviation RD_KAFKA_RESP_ERR_FENCED_INSTANCE_ID :: RDKafkaRespErr where "RD_KAFKA_RESP_ERR_FENCED_INSTANCE_ID \<equiv> RespErr (82)"
abbreviation RD_KAFKA_RESP_ERR_ELIGIBLE_LEADERS_NOT_AVAILABLE :: RDKafkaRespErr where "RD_KAFKA_RESP_ERR_ELIGIBLE_LEADERS_NOT_AVAILABLE \<equiv> RespErr (83)"
abbreviation RD_KAFKA_RESP_ERR_ELECTION_NOT_NEEDED :: RDKafkaRespErr where "RD_KAFKA_RESP_ERR_ELECTION_NOT_NEEDED \<equiv> RespErr (84)"
abbreviation RD_KAFKA_RESP_ERR_NO_REASSIGNMENT_IN_PROGRESS :: RDKafkaRespErr where "RD_KAFKA_RESP_ERR_NO_REASSIGNMENT_IN_PROGRESS \<equiv> RespErr (85)"
abbreviation RD_KAFKA_RESP_ERR_GROUP_SUBSCRIBED_TO_TOPIC :: RDKafkaRespErr where "RD_KAFKA_RESP_ERR_GROUP_SUBSCRIBED_TO_TOPIC \<equiv> RespErr (86)"
abbreviation RD_KAFKA_RESP_ERR_INVALID_RECORD :: RDKafkaRespErr where "RD_KAFKA_RESP_ERR_INVALID_RECORD \<equiv> RespErr (87)"
abbreviation RD_KAFKA_RESP_ERR_UNSTABLE_OFFSET_COMMIT :: RDKafkaRespErr where "RD_KAFKA_RESP_ERR_UNSTABLE_OFFSET_COMMIT \<equiv> RespErr (88)"
abbreviation RD_KAFKA_RESP_ERR_THROTTLING_QUOTA_EXCEEDED :: RDKafkaRespErr where "RD_KAFKA_RESP_ERR_THROTTLING_QUOTA_EXCEEDED \<equiv> RespErr (89)"
abbreviation RD_KAFKA_RESP_ERR_PRODUCER_FENCED :: RDKafkaRespErr where "RD_KAFKA_RESP_ERR_PRODUCER_FENCED \<equiv> RespErr (90)"
abbreviation RD_KAFKA_RESP_ERR_RESOURCE_NOT_FOUND :: RDKafkaRespErr where "RD_KAFKA_RESP_ERR_RESOURCE_NOT_FOUND \<equiv> RespErr (91)"
abbreviation RD_KAFKA_RESP_ERR_DUPLICATE_RESOURCE :: RDKafkaRespErr where "RD_KAFKA_RESP_ERR_DUPLICATE_RESOURCE \<equiv> RespErr (92)"
abbreviation RD_KAFKA_RESP_ERR_UNACCEPTABLE_CREDENTIAL :: RDKafkaRespErr where "RD_KAFKA_RESP_ERR_UNACCEPTABLE_CREDENTIAL \<equiv> RespErr (93)"
abbreviation RD_KAFKA_RESP_ERR_INCONSISTENT_VOTER_SET :: RDKafkaRespErr where "RD_KAFKA_RESP_ERR_INCONSISTENT_VOTER_SET \<equiv> RespErr (94)"
abbreviation RD_KAFKA_RESP_ERR_INVALID_UPDATE_VERSION :: RDKafkaRespErr where "RD_KAFKA_RESP_ERR_INVALID_UPDATE_VERSION \<equiv> RespErr (95)"
abbreviation RD_KAFKA_RESP_ERR_FEATURE_UPDATE_FAILED :: RDKafkaRespErr where "RD_KAFKA_RESP_ERR_FEATURE_UPDATE_FAILED \<equiv> RespErr (96)"
abbreviation RD_KAFKA_RESP_ERR_PRINCIPAL_DESERIALIZATION_FAILURE :: RDKafkaRespErr where "RD_KAFKA_RESP_ERR_PRINCIPAL_DESERIALIZATION_FAILURE \<equiv> RespErr (97)"
abbreviation RD_KAFKA_RESP_ERR_UNKNOWN_TOPIC_ID :: RDKafkaRespErr where "RD_KAFKA_RESP_ERR_UNKNOWN_TOPIC_ID \<equiv> RespErr (100)"
abbreviation RD_KAFKA_RESP_ERR_FENCED_MEMBER_EPOCH :: RDKafkaRespErr where "RD_KAFKA_RESP_ERR_FENCED_MEMBER_EPOCH \<equiv> RespErr (110)"
abbreviation RD_KAFKA_RESP_ERR_UNRELEASED_INSTANCE_ID :: RDKafkaRespErr where "RD_KAFKA_RESP_ERR_UNRELEASED_INSTANCE_ID \<equiv> RespErr (111)"
abbreviation RD_KAFKA_RESP_ERR_UNSUPPORTED_ASSIGNOR :: RDKafkaRespErr where "RD_KAFKA_RESP_ERR_UNSUPPORTED_ASSIGNOR \<equiv> RespErr (112)"
abbreviation RD_KAFKA_RESP_ERR_STALE_MEMBER_EPOCH :: RDKafkaRespErr where "RD_KAFKA_RESP_ERR_STALE_MEMBER_EPOCH \<equiv> RespErr (113)"
abbreviation RD_KAFKA_RESP_ERR_UNKNOWN_SUBSCRIPTION_ID :: RDKafkaRespErr where "RD_KAFKA_RESP_ERR_UNKNOWN_SUBSCRIPTION_ID \<equiv> RespErr (117)"
abbreviation RD_KAFKA_RESP_ERR_TELEMETRY_TOO_LARGE :: RDKafkaRespErr where "RD_KAFKA_RESP_ERR_TELEMETRY_TOO_LARGE \<equiv> RespErr (118)"
abbreviation RD_KAFKA_RESP_ERR_REBOOTSTRAP_REQUIRED :: RDKafkaRespErr where "RD_KAFKA_RESP_ERR_REBOOTSTRAP_REQUIRED \<equiv> RespErr (129)"
abbreviation RD_KAFKA_RESP_ERR_END_ALL :: RDKafkaRespErr where "RD_KAFKA_RESP_ERR_END_ALL \<equiv> RespErr (130)"

definition local_resp_errs :: "RDKafkaRespErr list" where
  "local_resp_errs =
    [RD_KAFKA_RESP_ERR__BEGIN,
     RD_KAFKA_RESP_ERR__BAD_MSG,
     RD_KAFKA_RESP_ERR__BAD_COMPRESSION,
     RD_KAFKA_RESP_ERR__DESTROY,
     RD_KAFKA_RESP_ERR__FAIL,
     RD_KAFKA_RESP_ERR__TRANSPORT,
     RD_KAFKA_RESP_ERR__CRIT_SYS_RESOURCE,
     RD_KAFKA_RESP_ERR__RESOLVE,
     RD_KAFKA_RESP_ERR__MSG_TIMED_OUT,
     RD_KAFKA_RESP_ERR__PARTITION_EOF,
     RD_KAFKA_RESP_ERR__UNKNOWN_PARTITION,
     RD_KAFKA_RESP_ERR__FS,
     RD_KAFKA_RESP_ERR__UNKNOWN_TOPIC,
     RD_KAFKA_RESP_ERR__ALL_BROKERS_DOWN,
     RD_KAFKA_RESP_ERR__INVALID_ARG,
     RD_KAFKA_RESP_ERR__TIMED_OUT,
     RD_KAFKA_RESP_ERR__QUEUE_FULL,
     RD_KAFKA_RESP_ERR__ISR_INSUFF,
     RD_KAFKA_RESP_ERR__NODE_UPDATE,
     RD_KAFKA_RESP_ERR__SSL,
     RD_KAFKA_RESP_ERR__WAIT_COORD,
     RD_KAFKA_RESP_ERR__UNKNOWN_GROUP,
     RD_KAFKA_RESP_ERR__IN_PROGRESS,
     RD_KAFKA_RESP_ERR__PREV_IN_PROGRESS,
     RD_KAFKA_RESP_ERR__EXISTING_SUBSCRIPTION,
     RD_KAFKA_RESP_ERR__ASSIGN_PARTITIONS,
     RD_KAFKA_RESP_ERR__REVOKE_PARTITIONS,
     RD_KAFKA_RESP_ERR__CONFLICT,
     RD_KAFKA_RESP_ERR__STATE,
     RD_KAFKA_RESP_ERR__UNKNOWN_PROTOCOL,
     RD_KAFKA_RESP_ERR__NOT_IMPLEMENTED,
     RD_KAFKA_RESP_ERR__AUTHENTICATION,
     RD_KAFKA_RESP_ERR__NO_OFFSET,
     RD_KAFKA_RESP_ERR__OUTDATED,
     RD_KAFKA_RESP_ERR__TIMED_OUT_QUEUE,
     RD_KAFKA_RESP_ERR__UNSUPPORTED_FEATURE,
     RD_KAFKA_RESP_ERR__WAIT_CACHE,
     RD_KAFKA_RESP_ERR__INTR,
     RD_KAFKA_RESP_ERR__KEY_SERIALIZATION,
     RD_KAFKA_RESP_ERR__VALUE_SERIALIZATION,
     RD_KAFKA_RESP_ERR__KEY_DESERIALIZATION,
     RD_KAFKA_RESP_ERR__VALUE_DESERIALIZATION,
     RD_KAFKA_RESP_ERR__PARTIAL,
     RD_KAFKA_RESP_ERR__READ_ONLY,
     RD_KAFKA_RESP_ERR__NOENT,
     RD_KAFKA_RESP_ERR__UNDERFLOW,
     RD_KAFKA_RESP_ERR__INVALID_TYPE,
     RD_KAFKA_RESP_ERR__RETRY,
     RD_KAFKA_RESP_ERR__PURGE_QUEUE,
     RD_KAFKA_RESP_ERR__PURGE_INFLIGHT,
     RD_KAFKA_RESP_ERR__FATAL,
     RD_KAFKA_RESP_ERR__INCONSISTENT,
     RD_KAFKA_RESP_ERR__GAPLESS_GUARANTEE,
     RD_KAFKA_RESP_ERR__MAX_POLL_EXCEEDED,
     RD_KAFKA_RESP_ERR__UNKNOWN_BROKER,
     RD_KAFKA_RESP_ERR__NOT_CONFIGURED,
     RD_KAFKA_RESP_ERR__FENCED,
     RD_KAFKA_RESP_ERR__APPLICATION,
     RD_KAFKA_RESP_ERR__ASSIGNMENT_LOST,
     RD_KAFKA_RESP_ERR__NOOP,
     RD_KAFKA_RESP_ERR__AUTO_OFFSET_RESET,
     RD_KAFKA_RESP_ERR__LOG_TRUNCATION,
     RD_KAFKA_RESP_ERR__INVALID_DIFFERENT_RECORD,
     RD_KAFKA_RESP_ERR__DESTROY_BROKER,
     RD_KAFKA_RESP_ERR__END]"

definition broker_resp_errs :: "RDKafkaRespErr list" where
  "broker_resp_errs =
    [RD_KAFKA_RESP_ERR_UNKNOWN,
     RD_KAFKA_RESP_ERR_NO_ERROR,
     RD_KAFKA_RESP_ERR_OFFSET_OUT_OF_RANGE,
     RD_KAFKA_RESP_ERR_INVALID_MSG,
     RD_KAFKA_RESP_ERR_UNKNOWN_TOPIC_OR_PART,
     RD_KAFKA_RESP_ERR_INVALID_MSG_SIZE,
     RD_KAFKA_RESP_ERR_LEADER_NOT_AVAILABLE,
     RD_KAFKA_RESP_ERR_NOT_LEADER_FOR_PARTITION,
     RD_KAFKA_RESP_ERR_REQUEST_TIMED_OUT,
     RD_KAFKA_RESP_ERR_BROKER_NOT_AVAILABLE,
     RD_KAFKA_RESP_ERR_REPLICA_NOT_AVAILABLE,
     RD_KAFKA_RESP_ERR_MSG_SIZE_TOO_LARGE,
     RD_KAFKA_RESP_ERR_STALE_CTRL_EPOCH,
     RD_KAFKA_RESP_ERR_OFFSET_METADATA_TOO_LARGE,
     RD_KAFKA_RESP_ERR_NETWORK_EXCEPTION,
     RD_KAFKA_RESP_ERR_COORDINATOR_LOAD_IN_PROGRESS,
     RD_KAFKA_RESP_ERR_COORDINATOR_NOT_AVAILABLE,
     RD_KAFKA_RESP_ERR_NOT_COORDINATOR,
     RD_KAFKA_RESP_ERR_TOPIC_EXCEPTION,
     RD_KAFKA_RESP_ERR_RECORD_LIST_TOO_LARGE,
     RD_KAFKA_RESP_ERR_NOT_ENOUGH_REPLICAS,
     RD_KAFKA_RESP_ERR_NOT_ENOUGH_REPLICAS_AFTER_APPEND,
     RD_KAFKA_RESP_ERR_INVALID_REQUIRED_ACKS,
     RD_KAFKA_RESP_ERR_ILLEGAL_GENERATION,
     RD_KAFKA_RESP_ERR_INCONSISTENT_GROUP_PROTOCOL,
     RD_KAFKA_RESP_ERR_INVALID_GROUP_ID,
     RD_KAFKA_RESP_ERR_UNKNOWN_MEMBER_ID,
     RD_KAFKA_RESP_ERR_INVALID_SESSION_TIMEOUT,
     RD_KAFKA_RESP_ERR_REBALANCE_IN_PROGRESS,
     RD_KAFKA_RESP_ERR_INVALID_COMMIT_OFFSET_SIZE,
     RD_KAFKA_RESP_ERR_TOPIC_AUTHORIZATION_FAILED,
     RD_KAFKA_RESP_ERR_GROUP_AUTHORIZATION_FAILED,
     RD_KAFKA_RESP_ERR_CLUSTER_AUTHORIZATION_FAILED,
     RD_KAFKA_RESP_ERR_INVALID_TIMESTAMP,
     RD_KAFKA_RESP_ERR_UNSUPPORTED_SASL_MECHANISM,
     RD_KAFKA_RESP_ERR_ILLEGAL_SASL_STATE,
     RD_KAFKA_RESP_ERR_UNSUPPORTED_VERSION,
     RD_KAFKA_RESP_ERR_TOPIC_ALREADY_EXISTS,
     RD_KAFKA_RESP_ERR_INVALID_PARTITIONS,
     RD_KAFKA_RESP_ERR_INVALID_REPLICATION_FACTOR,
     RD_KAFKA_RESP_ERR_INVALID_REPLICA_ASSIGNMENT,
     RD_KAFKA_RESP_ERR_INVALID_CONFIG,
     RD_KAFKA_RESP_ERR_NOT_CONTROLLER,
     RD_KAFKA_RESP_ERR_INVALID_REQUEST,
     RD_KAFKA_RESP_ERR_UNSUPPORTED_FOR_MESSAGE_FORMAT,
     RD_KAFKA_RESP_ERR_POLICY_VIOLATION,
     RD_KAFKA_RESP_ERR_OUT_OF_ORDER_SEQUENCE_NUMBER,
     RD_KAFKA_RESP_ERR_DUPLICATE_SEQUENCE_NUMBER,
     RD_KAFKA_RESP_ERR_INVALID_PRODUCER_EPOCH,
     RD_KAFKA_RESP_ERR_INVALID_TXN_STATE,
     RD_KAFKA_RESP_ERR_INVALID_PRODUCER_ID_MAPPING,
     RD_KAFKA_RESP_ERR_INVALID_TRANSACTION_TIMEOUT,
     RD_KAFKA_RESP_ERR_CONCURRENT_TRANSACTIONS,
     RD_KAFKA_RESP_ERR_TRANSACTION_COORDINATOR_FENCED,
     RD_KAFKA_RESP_ERR_TRANSACTIONAL_ID_AUTHORIZATION_FAILED,
     RD_KAFKA_RESP_ERR_SECURITY_DISABLED,
     RD_KAFKA_RESP_ERR_OPERATION_NOT_ATTEMPTED,
     RD_KAFKA_RESP_ERR_KAFKA_STORAGE_ERROR,
     RD_KAFKA_RESP_ERR_LOG_DIR_NOT_FOUND,
     RD_KAFKA_RESP_ERR_SASL_AUTHENTICATION_FAILED,
     RD_KAFKA_RESP_ERR_UNKNOWN_PRODUCER_ID,
     RD_KAFKA_RESP_ERR_REASSIGNMENT_IN_PROGRESS,
     RD_KAFKA_RESP_ERR_DELEGATION_TOKEN_AUTH_DISABLED,
     RD_KAFKA_RESP_ERR_DELEGATION_TOKEN_NOT_FOUND,
     RD_KAFKA_RESP_ERR_DELEGATION_TOKEN_OWNER_MISMATCH,
     RD_KAFKA_RESP_ERR_DELEGATION_TOKEN_REQUEST_NOT_ALLOWED,
     RD_KAFKA_RESP_ERR_DELEGATION_TOKEN_AUTHORIZATION_FAILED,
     RD_KAFKA_RESP_ERR_DELEGATION_TOKEN_EXPIRED,
     RD_KAFKA_RESP_ERR_INVALID_PRINCIPAL_TYPE,
     RD_KAFKA_RESP_ERR_NON_EMPTY_GROUP,
     RD_KAFKA_RESP_ERR_GROUP_ID_NOT_FOUND,
     RD_KAFKA_RESP_ERR_FETCH_SESSION_ID_NOT_FOUND,
     RD_KAFKA_RESP_ERR_INVALID_FETCH_SESSION_EPOCH,
     RD_KAFKA_RESP_ERR_LISTENER_NOT_FOUND,
     RD_KAFKA_RESP_ERR_TOPIC_DELETION_DISABLED,
     RD_KAFKA_RESP_ERR_FENCED_LEADER_EPOCH,
     RD_KAFKA_RESP_ERR_UNKNOWN_LEADER_EPOCH,
     RD_KAFKA_RESP_ERR_UNSUPPORTED_COMPRESSION_TYPE,
     RD_KAFKA_RESP_ERR_STALE_BROKER_EPOCH,
     RD_KAFKA_RESP_ERR_OFFSET_NOT_AVAILABLE,
     RD_KAFKA_RESP_ERR_MEMBER_ID_REQUIRED,
     RD_KAFKA_RESP_ERR_PREFERRED_LEADER_NOT_AVAILABLE,
     RD_KAFKA_RESP_ERR_GROUP_MAX_SIZE_REACHED,
     RD_KAFKA_RESP_ERR_FENCED_INSTANCE_ID,
     RD_KAFKA_RESP_ERR_ELIGIBLE_LEADERS_NOT_AVAILABLE,
     RD_KAFKA_RESP_ERR_ELECTION_NOT_NEEDED,
     RD_KAFKA_RESP_ERR_NO_REASSIGNMENT_IN_PROGRESS,
     RD_KAFKA_RESP_ERR_GROUP_SUBSCRIBED_TO_TOPIC,
     RD_KAFKA_RESP_ERR_INVALID_RECORD,
     RD_KAFKA_RESP_ERR_UNSTABLE_OFFSET_COMMIT,
     RD_KAFKA_RESP_ERR_THROTTLING_QUOTA_EXCEEDED,
     RD_KAFKA_RESP_ERR_PRODUCER_FENCED,
     RD_KAFKA_RESP_ERR_RESOURCE_NOT_FOUND,
     RD_KAFKA_RESP_ERR_DUPLICATE_RESOURCE,
     RD_KAFKA_RESP_ERR_UNACCEPTABLE_CREDENTIAL,
     RD_KAFKA_RESP_ERR_INCONSISTENT_VOTER_SET,
     RD_KAFKA_RESP_ERR_INVALID_UPDATE_VERSION,
     RD_KAFKA_RESP_ERR_FEATURE_UPDATE_FAILED,
     RD_KAFKA_RESP_ERR_PRINCIPAL_DESERIALIZATION_FAILURE,
     RD_KAFKA_RESP_ERR_UNKNOWN_TOPIC_ID,
     RD_KAFKA_RESP_ERR_FENCED_MEMBER_EPOCH,
     RD_KAFKA_RESP_ERR_UNRELEASED_INSTANCE_ID,
     RD_KAFKA_RESP_ERR_UNSUPPORTED_ASSIGNOR,
     RD_KAFKA_RESP_ERR_STALE_MEMBER_EPOCH,
     RD_KAFKA_RESP_ERR_UNKNOWN_SUBSCRIPTION_ID,
     RD_KAFKA_RESP_ERR_TELEMETRY_TOO_LARGE,
     RD_KAFKA_RESP_ERR_REBOOTSTRAP_REQUIRED,
     RD_KAFKA_RESP_ERR_END_ALL]"

definition RDKafkaRespErr_variants :: "RDKafkaRespErr list" where
  "RDKafkaRespErr_variants = local_resp_errs @ broker_resp_errs"

section \<open>Variants of RDKafkaErrorCode\<close>

abbreviation EC_Begin :: RDKafkaErrorCode where "EC_Begin \<equiv> ErrorCode (- 200)"
abbreviation EC_BadMessage :: RDKafkaErrorCode where "EC_BadMessage \<equiv> ErrorCode (- 199)"
abbreviation EC_BadCompression :: RDKafkaErrorCode where "EC_BadCompression \<equiv> ErrorCode (- 198)"
abbreviation EC_BrokerDestroy :: RDKafkaErrorCode where "EC_BrokerDestroy \<equiv> ErrorCode (- 197)"
abbreviation EC_Fail :: RDKafkaErrorCode where "EC_Fail \<equiv> ErrorCode (- 196)"
abbreviation EC_BrokerTransportFailure :: RDKafkaErrorCode where "EC_BrokerTransportFailure \<equiv> ErrorCode (- 195)"
abbreviation EC_CriticalSystemResource :: RDKafkaErrorCode where "EC_CriticalSystemResource \<equiv> ErrorCode (- 194)"
abbreviation EC_Resolve :: RDKafkaErrorCode where "EC_Resolve \<equiv> ErrorCode (- 193)"
abbreviation EC_MessageTimedOut :: RDKafkaErrorCode where "EC_MessageTimedOut \<equiv> ErrorCode (- 192)"
abbreviation EC_PartitionEOF :: RDKafkaErrorCode where "EC_PartitionEOF \<equiv> ErrorCode (- 191)"
abbreviation EC_UnknownPartition :: RDKafkaErrorCode where "EC_UnknownPartition \<equiv> ErrorCode (- 190)"
abbreviation EC_FileSystem :: RDKafkaErrorCode where "EC_FileSystem \<equiv> ErrorCode (- 189)"
abbreviation EC_UnknownTopic :: RDKafkaErrorCode where "EC_UnknownTopic \<equiv> ErrorCode (- 188)"
abbreviation EC_AllBrokersDown :: RDKafkaErrorCode where "EC_AllBrokersDown \<equiv> ErrorCode (- 187)"
abbreviation EC_InvalidArgument :: RDKafkaErrorCode where "EC_InvalidArgument \<equiv> ErrorCode (- 186)"
abbreviation EC_OperationTimedOut :: RDKafkaErrorCode where "EC_OperationTimedOut \<equiv> ErrorCode (- 185)"
abbreviation EC_QueueFull :: RDKafkaErrorCode where "EC_QueueFull \<equiv> ErrorCode (- 184)"
abbreviation EC_ISRInsufficient :: RDKafkaErrorCode where "EC_ISRInsufficient \<equiv> ErrorCode (- 183)"
abbreviation EC_NodeUpdate :: RDKafkaErrorCode where "EC_NodeUpdate \<equiv> ErrorCode (- 182)"
abbreviation EC_SSL :: RDKafkaErrorCode where "EC_SSL \<equiv> ErrorCode (- 181)"
abbreviation EC_WaitingForCoordinator :: RDKafkaErrorCode where "EC_WaitingForCoordinator \<equiv> ErrorCode (- 180)"
abbreviation EC_UnknownGroup :: RDKafkaErrorCode where "EC_UnknownGroup \<equiv> ErrorCode (- 179)"
abbreviation EC_InProgress :: RDKafkaErrorCode where "EC_InProgress \<equiv> ErrorCode (- 178)"
abbreviation EC_PreviousInProgress :: RDKafkaErrorCode where "EC_PreviousInProgress \<equiv> ErrorCode (- 177)"
abbreviation EC_ExistingSubscription :: RDKafkaErrorCode where "EC_ExistingSubscription \<equiv> ErrorCode (- 176)"
abbreviation EC_AssignPartitions :: RDKafkaErrorCode where "EC_AssignPartitions \<equiv> ErrorCode (- 175)"
abbreviation EC_RevokePartitions :: RDKafkaErrorCode where "EC_RevokePartitions \<equiv> ErrorCode (- 174)"
abbreviation EC_Conflict :: RDKafkaErrorCode where "EC_Conflict \<equiv> ErrorCode (- 173)"
abbreviation EC_State :: RDKafkaErrorCode where "EC_State \<equiv> ErrorCode (- 172)"
abbreviation EC_UnknownProtocol :: RDKafkaErrorCode where "EC_UnknownProtocol \<equiv> ErrorCode (- 171)"
abbreviation EC_NotImplemented :: RDKafkaErrorCode where "EC_NotImplemented \<equiv> ErrorCode (- 170)"
abbreviation EC_Authentication :: RDKafkaErrorCode where "EC_Authentication \<equiv> ErrorCode (- 169)"
abbreviation EC_NoOffset :: RDKafkaErrorCode where "EC_NoOffset \<equiv> ErrorCode (- 168)"
abbreviation EC_Outdated :: RDKafkaErrorCode where "EC_Outdated \<equiv> ErrorCode (- 167)"
abbreviation EC_TimedOutQueue :: RDKafkaErrorCode where "EC_TimedOutQueue \<equiv> ErrorCode (- 166)"
abbreviation EC_UnsupportedFeature :: RDKafkaErrorCode where "EC_UnsupportedFeature \<equiv> ErrorCode (- 165)"
abbreviation EC_WaitCache :: RDKafkaErrorCode where "EC_WaitCache \<equiv> ErrorCode (- 164)"
abbreviation EC_Interrupted :: RDKafkaErrorCode where "EC_Interrupted \<equiv> ErrorCode (- 163)"
abbreviation EC_KeySerialization :: RDKafkaErrorCode where "EC_KeySerialization \<equiv> ErrorCode (- 162)"
abbreviation EC_ValueSerialization :: RDKafkaErrorCode where "EC_ValueSerialization \<equiv> ErrorCode (- 161)"
abbreviation EC_KeyDeserialization :: RDKafkaErrorCode where "EC_KeyDeserialization \<equiv> ErrorCode (- 160)"
abbreviation EC_ValueDeserialization :: RDKafkaErrorCode where "EC_ValueDeserialization \<equiv> ErrorCode (- 159)"
abbreviation EC_Partial :: RDKafkaErrorCode where "EC_Partial \<equiv> ErrorCode (- 158)"
abbreviation EC_ReadOnly :: RDKafkaErrorCode where "EC_ReadOnly \<equiv> ErrorCode (- 157)"
abbreviation EC_NoEnt :: RDKafkaErrorCode where "EC_NoEnt \<equiv> ErrorCode (- 156)"
abbreviation EC_Underflow :: RDKafkaErrorCode where "EC_Underflow \<equiv> ErrorCode (- 155)"
abbreviation EC_InvalidType :: RDKafkaErrorCode where "EC_InvalidType \<equiv> ErrorCode (- 154)"
abbreviation EC_Retry :: RDKafkaErrorCode where "EC_Retry \<equiv> ErrorCode (- 153)"
abbreviation EC_PurgeQueue :: RDKafkaErrorCode where "EC_PurgeQueue \<equiv> ErrorCode (- 152)"
abbreviation EC_PurgeInflight :: RDKafkaErrorCode where "EC_PurgeInflight \<equiv> ErrorCode (- 151)"
abbreviation EC_Fatal :: RDKafkaErrorCode where "EC_Fatal \<equiv> ErrorCode (- 150)"
abbreviation EC_Inconsistent :: RDKafkaErrorCode where "EC_Inconsistent \<equiv> ErrorCode (- 149)"
abbreviation EC_GaplessGuarantee :: RDKafkaErrorCode where "EC_GaplessGuarantee \<equiv> ErrorCode (- 148)"
abbreviation EC_PollExceeded :: RDKafkaErrorCode where "EC_PollExceeded \<equiv> ErrorCode (- 147)"
abbreviation EC_UnknownBroker :: RDKafkaErrorCode where "EC_UnknownBroker \<equiv> ErrorCode (- 146)"
abbreviation EC_NotConfigured :: RDKafkaErrorCode where "EC_NotConfigured \<equiv> ErrorCode (- 145)"
abbreviation EC_Fenced :: RDKafkaErrorCode where "EC_Fenced \<equiv> ErrorCode (- 144)"
abbreviation EC_Application :: RDKafkaErrorCode where "EC_Application \<equiv> ErrorCode (- 143)"
abbreviation EC_AssignmentLost :: RDKafkaErrorCode where "EC_AssignmentLost \<equiv> ErrorCode (- 142)"
abbreviation EC_Noop :: RDKafkaErrorCode where "EC_Noop \<equiv> ErrorCode (- 141)"
abbreviation EC_AutoOffsetReset :: RDKafkaErrorCode where "EC_AutoOffsetReset \<equiv> ErrorCode (- 140)"
abbreviation EC_LogTruncation :: RDKafkaErrorCode where "EC_LogTruncation \<equiv> ErrorCode (- 139)"
abbreviation EC_InvalidDifferentRecord :: RDKafkaErrorCode where "EC_InvalidDifferentRecord \<equiv> ErrorCode (- 138)"
abbreviation EC_DestroyBroker :: RDKafkaErrorCode where "EC_DestroyBroker \<equiv> ErrorCode (- 137)"
abbreviation EC_End :: RDKafkaErrorCode where "EC_End \<equiv> ErrorCode (- 100)"
abbreviation EC_Unknown :: RDKafkaErrorCode where "EC_Unknown \<equiv> ErrorCode (- 1)"
abbreviation EC_NoError :: RDKafkaErrorCode where "EC_NoError \<equiv> ErrorCode (0)"
abbreviation EC_OffsetOutOfRange :: RDKafkaErrorCode where "EC_OffsetOutOfRange \<equiv> ErrorCode (1)"
abbreviation EC_InvalidMessage :: RDKafkaErrorCode where "EC_InvalidMessage \<equiv> ErrorCode (2)"
abbreviation EC_UnknownTopicOrPartition :: RDKafkaErrorCode where "EC_UnknownTopicOrPartition \<equiv> ErrorCode (3)"
abbreviation EC_InvalidMessageSize :: RDKafkaErrorCode where "EC_InvalidMessageSize \<equiv> ErrorCode (4)"
abbreviation EC_LeaderNotAvailable :: RDKafkaErrorCode where "EC_LeaderNotAvailable \<equiv> ErrorCode (5)"
abbreviation EC_NotLeaderForPartition :: RDKafkaErrorCode where "EC_NotLeaderForPartition \<equiv> ErrorCode (6)"
abbreviation EC_RequestTimedOut :: RDKafkaErrorCode where "EC_RequestTimedOut \<equiv> ErrorCode (7)"
abbreviation EC_BrokerNotAvailable :: RDKafkaErrorCode where "EC_BrokerNotAvailable \<equiv> ErrorCode (8)"
abbreviation EC_ReplicaNotAvailable :: RDKafkaErrorCode where "EC_ReplicaNotAvailable \<equiv> ErrorCode (9)"
abbreviation EC_MessageSizeTooLarge :: RDKafkaErrorCode where "EC_MessageSizeTooLarge \<equiv> ErrorCode (10)"
abbreviation EC_StaleControllerEpoch :: RDKafkaErrorCode where "EC_StaleControllerEpoch \<equiv> ErrorCode (11)"
abbreviation EC_OffsetMetadataTooLarge :: RDKafkaErrorCode where "EC_OffsetMetadataTooLarge \<equiv> ErrorCode (12)"
abbreviation EC_NetworkException :: RDKafkaErrorCode where "EC_NetworkException \<equiv> ErrorCode (13)"
abbreviation EC_CoordinatorLoadInProgress :: RDKafkaErrorCode where "EC_CoordinatorLoadInProgress \<equiv> ErrorCode (14)"
abbreviation EC_CoordinatorNotAvailable :: RDKafkaErrorCode where "EC_CoordinatorNotAvailable \<equiv> ErrorCode (15)"
abbreviation EC_NotCoordinator :: RDKafkaErrorCode where "EC_NotCoordinator \<equiv> ErrorCode (16)"
abbreviation EC_InvalidTopic :: RDKafkaErrorCode where "EC_InvalidTopic \<equiv> ErrorCode (17)"
abbreviation EC_MessageBatchTooLarge :: RDKafkaErrorCode where "EC_MessageBatchTooLarge \<equiv> ErrorCode (18)"
abbreviation EC_NotEnoughReplicas :: RDKafkaErrorCode where "EC_NotEnoughReplicas \<equiv> ErrorCode (19)"
abbreviation EC_NotEnoughReplicasAfterAppend :: RDKafkaErrorCode where "EC_NotEnoughReplicasAfterAppend \<equiv> ErrorCode (20)"
abbreviation EC_InvalidRequiredAcks :: RDKafkaErrorCode where "EC_InvalidRequiredAcks \<equiv> ErrorCode (21)"
abbreviation EC_IllegalGeneration :: RDKafkaErrorCode where "EC_IllegalGeneration \<equiv> ErrorCode (22)"
abbreviation EC_InconsistentGroupProtocol :: RDKafkaErrorCode where "EC_InconsistentGroupProtocol \<equiv> ErrorCode (23)"
abbreviation EC_InvalidGroupId :: RDKafkaErrorCode where "EC_InvalidGroupId \<equiv> ErrorCode (24)"
abbreviation EC_UnknownMemberId :: RDKafkaErrorCode where "EC_UnknownMemberId \<equiv> ErrorCode (25)"
abbreviation EC_InvalidSessionTimeout :: RDKafkaErrorCode where "EC_InvalidSessionTimeout \<equiv> ErrorCode (26)"
abbreviation EC_RebalanceInProgress :: RDKafkaErrorCode where "EC_RebalanceInProgress \<equiv> ErrorCode (27)"
abbreviation EC_InvalidCommitOffsetSize :: RDKafkaErrorCode where "EC_InvalidCommitOffsetSize \<equiv> ErrorCode (28)"
abbreviation EC_TopicAuthorizationFailed :: RDKafkaErrorCode where "EC_TopicAuthorizationFailed \<equiv> ErrorCode (29)"
abbreviation EC_GroupAuthorizationFailed :: RDKafkaErrorCode where "EC_GroupAuthorizationFailed \<equiv> ErrorCode (30)"
abbreviation EC_ClusterAuthorizationFailed :: RDKafkaErrorCode where "EC_ClusterAuthorizationFailed \<equiv> ErrorCode (31)"
abbreviation EC_InvalidTimestamp :: RDKafkaErrorCode where "EC_InvalidTimestamp \<equiv> ErrorCode (32)"
abbreviation EC_UnsupportedSASLMechanism :: RDKafkaErrorCode where "EC_UnsupportedSASLMechanism \<equiv> ErrorCode (33)"
abbreviation EC_IllegalSASLState :: RDKafkaErrorCode where "EC_IllegalSASLState \<equiv> ErrorCode (34)"
abbreviation EC_UnsupportedVersion :: RDKafkaErrorCode where "EC_UnsupportedVersion \<equiv> ErrorCode (35)"
abbreviation EC_TopicAlreadyExists :: RDKafkaErrorCode where "EC_TopicAlreadyExists \<equiv> ErrorCode (36)"
abbreviation EC_InvalidPartitions :: RDKafkaErrorCode where "EC_InvalidPartitions \<equiv> ErrorCode (37)"
abbreviation EC_InvalidReplicationFactor :: RDKafkaErrorCode where "EC_InvalidReplicationFactor \<equiv> ErrorCode (38)"
abbreviation EC_InvalidReplicaAssignment :: RDKafkaErrorCode where "EC_InvalidReplicaAssignment \<equiv> ErrorCode (39)"
abbreviation EC_InvalidConfig :: RDKafkaErrorCode where "EC_InvalidConfig \<equiv> ErrorCode (40)"
abbreviation EC_NotController :: RDKafkaErrorCode where "EC_NotController \<equiv> ErrorCode (41)"
abbreviation EC_InvalidRequest :: RDKafkaErrorCode where "EC_InvalidRequest \<equiv> ErrorCode (42)"
abbreviation EC_UnsupportedForMessageFormat :: RDKafkaErrorCode where "EC_UnsupportedForMessageFormat \<equiv> ErrorCode (43)"
abbreviation EC_PolicyViolation :: RDKafkaErrorCode where "EC_PolicyViolation \<equiv> ErrorCode (44)"
abbreviation EC_OutOfOrderSequenceNumber :: RDKafkaErrorCode where "EC_OutOfOrderSequenceNumber \<equiv> ErrorCode (45)"
abbreviation EC_DuplicateSequenceNumber :: RDKafkaErrorCode where "EC_DuplicateSequenceNumber \<equiv> ErrorCode (46)"
abbreviation EC_InvalidProducerEpoch :: RDKafkaErrorCode where "EC_InvalidProducerEpoch \<equiv> ErrorCode (47)"
abbreviation EC_InvalidTransactionalState :: RDKafkaErrorCode where "EC_InvalidTransactionalState \<equiv> ErrorCode (48)"
abbreviation EC_InvalidProducerIdMapping :: RDKafkaErrorCode where "EC_InvalidProducerIdMapping \<equiv> ErrorCode (49)"
abbreviation EC_InvalidTransactionTimeout :: RDKafkaErrorCode where "EC_InvalidTransactionTimeout \<equiv> ErrorCode (50)"
abbreviation EC_ConcurrentTransactions :: RDKafkaErrorCode where "EC_ConcurrentTransactions \<equiv> ErrorCode (51)"
abbreviation EC_TransactionCoordinatorFenced :: RDKafkaErrorCode where "EC_TransactionCoordinatorFenced \<equiv> ErrorCode (52)"
abbreviation EC_TransactionalIdAuthorizationFailed :: RDKafkaErrorCode where "EC_TransactionalIdAuthorizationFailed \<equiv> ErrorCode (53)"
abbreviation EC_SecurityDisabled :: RDKafkaErrorCode where "EC_SecurityDisabled \<equiv> ErrorCode (54)"
abbreviation EC_OperationNotAttempted :: RDKafkaErrorCode where "EC_OperationNotAttempted \<equiv> ErrorCode (55)"
abbreviation EC_KafkaStorageError :: RDKafkaErrorCode where "EC_KafkaStorageError \<equiv> ErrorCode (56)"
abbreviation EC_LogDirNotFound :: RDKafkaErrorCode where "EC_LogDirNotFound \<equiv> ErrorCode (57)"
abbreviation EC_SaslAuthenticationFailed :: RDKafkaErrorCode where "EC_SaslAuthenticationFailed \<equiv> ErrorCode (58)"
abbreviation EC_UnknownProducerId :: RDKafkaErrorCode where "EC_UnknownProducerId \<equiv> ErrorCode (59)"
abbreviation EC_ReassignmentInProgress :: RDKafkaErrorCode where "EC_ReassignmentInProgress \<equiv> ErrorCode (60)"
abbreviation EC_DelegationTokenAuthDisabled :: RDKafkaErrorCode where "EC_DelegationTokenAuthDisabled \<equiv> ErrorCode (61)"
abbreviation EC_DelegationTokenNotFound :: RDKafkaErrorCode where "EC_DelegationTokenNotFound \<equiv> ErrorCode (62)"
abbreviation EC_DelegationTokenOwnerMismatch :: RDKafkaErrorCode where "EC_DelegationTokenOwnerMismatch \<equiv> ErrorCode (63)"
abbreviation EC_DelegationTokenRequestNotAllowed :: RDKafkaErrorCode where "EC_DelegationTokenRequestNotAllowed \<equiv> ErrorCode (64)"
abbreviation EC_DelegationTokenAuthorizationFailed :: RDKafkaErrorCode where "EC_DelegationTokenAuthorizationFailed \<equiv> ErrorCode (65)"
abbreviation EC_DelegationTokenExpired :: RDKafkaErrorCode where "EC_DelegationTokenExpired \<equiv> ErrorCode (66)"
abbreviation EC_InvalidPrincipalType :: RDKafkaErrorCode where "EC_InvalidPrincipalType \<equiv> ErrorCode (67)"
abbreviation EC_NonEmptyGroup :: RDKafkaErrorCode where "EC_NonEmptyGroup \<equiv> ErrorCode (68)"
abbreviation EC_GroupIdNotFound :: RDKafkaErrorCode where "EC_GroupIdNotFound \<equiv> ErrorCode (69)"
abbreviation EC_FetchSessionIdNotFound :: RDKafkaErrorCode where "EC_FetchSessionIdNotFound \<equiv> ErrorCode (70)"
abbreviation EC_InvalidFetchSessionEpoch :: RDKafkaErrorCode where "EC_InvalidFetchSessionEpoch \<equiv> ErrorCode (71)"
abbreviation EC_ListenerNotFound :: RDKafkaErrorCode where "EC_ListenerNotFound \<equiv> ErrorCode (72)"
abbreviation EC_TopicDeletionDisabled :: RDKafkaErrorCode where "EC_TopicDeletionDisabled \<equiv> ErrorCode (73)"
abbreviation EC_FencedLeaderEpoch :: RDKafkaErrorCode where "EC_FencedLeaderEpoch \<equiv> ErrorCode (74)"
abbreviation EC_UnknownLeaderEpoch :: RDKafkaErrorCode where "EC_UnknownLeaderEpoch \<equiv> ErrorCode (75)"
abbreviation EC_UnsupportedCompressionType :: RDKafkaErrorCode where "EC_UnsupportedCompressionType \<equiv> ErrorCode (76)"
abbreviation EC_StaleBrokerEpoch :: RDKafkaErrorCode where "EC_StaleBrokerEpoch \<equiv> ErrorCode (77)"
abbreviation EC_OffsetNotAvailable :: RDKafkaErrorCode where "EC_OffsetNotAvailable \<equiv> ErrorCode (78)"
abbreviation EC_MemberIdRequired :: RDKafkaErrorCode where "EC_MemberIdRequired \<equiv> ErrorCode (79)"
abbreviation EC_PreferredLeaderNotAvailable :: RDKafkaErrorCode where "EC_PreferredLeaderNotAvailable \<equiv> ErrorCode (80)"
abbreviation EC_GroupMaxSizeReached :: RDKafkaErrorCode where "EC_GroupMaxSizeReached \<equiv> ErrorCode (81)"
abbreviation EC_FencedInstanceId :: RDKafkaErrorCode where "EC_FencedInstanceId \<equiv> ErrorCode (82)"
abbreviation EC_EligibleLeadersNotAvailable :: RDKafkaErrorCode where "EC_EligibleLeadersNotAvailable \<equiv> ErrorCode (83)"
abbreviation EC_ElectionNotNeeded :: RDKafkaErrorCode where "EC_ElectionNotNeeded \<equiv> ErrorCode (84)"
abbreviation EC_NoReassignmentInProgress :: RDKafkaErrorCode where "EC_NoReassignmentInProgress \<equiv> ErrorCode (85)"
abbreviation EC_GroupSubscribedToTopic :: RDKafkaErrorCode where "EC_GroupSubscribedToTopic \<equiv> ErrorCode (86)"
abbreviation EC_InvalidRecord :: RDKafkaErrorCode where "EC_InvalidRecord \<equiv> ErrorCode (87)"
abbreviation EC_UnstableOffsetCommit :: RDKafkaErrorCode where "EC_UnstableOffsetCommit \<equiv> ErrorCode (88)"
abbreviation EC_ThrottlingQuotaExceeded :: RDKafkaErrorCode where "EC_ThrottlingQuotaExceeded \<equiv> ErrorCode (89)"
abbreviation EC_ProducerFenced :: RDKafkaErrorCode where "EC_ProducerFenced \<equiv> ErrorCode (90)"
abbreviation EC_ResourceNotFound :: RDKafkaErrorCode where "EC_ResourceNotFound \<equiv> ErrorCode (91)"
abbreviation EC_DuplicateResource :: RDKafkaErrorCode where "EC_DuplicateResource \<equiv> ErrorCode (92)"
abbreviation EC_UnacceptableCredential :: RDKafkaErrorCode where "EC_UnacceptableCredential \<equiv> ErrorCode (93)"
abbreviation EC_InconsistentVoterSet :: RDKafkaErrorCode where "EC_InconsistentVoterSet \<equiv> ErrorCode (94)"
abbreviation EC_InvalidUpdateVersion :: RDKafkaErrorCode where "EC_InvalidUpdateVersion \<equiv> ErrorCode (95)"
abbreviation EC_FeatureUpdateFailed :: RDKafkaErrorCode where "EC_FeatureUpdateFailed \<equiv> ErrorCode (96)"
abbreviation EC_PrincipalDeserializationFailure :: RDKafkaErrorCode where "EC_PrincipalDeserializationFailure \<equiv> ErrorCode (97)"
abbreviation EC_UnknownTopicId :: RDKafkaErrorCode where "EC_UnknownTopicId \<equiv> ErrorCode (100)"
abbreviation EC_FencedMemberEpoch :: RDKafkaErrorCode where "EC_FencedMemberEpoch \<equiv> ErrorCode (110)"
abbreviation EC_UnreleasedInstanceId :: RDKafkaErrorCode where "EC_UnreleasedInstanceId \<equiv> ErrorCode (111)"
abbreviation EC_UnsupportedAssignor :: RDKafkaErrorCode where "EC_UnsupportedAssignor \<equiv> ErrorCode (112)"
abbreviation EC_StaleMemberEpoch :: RDKafkaErrorCode where "EC_StaleMemberEpoch \<equiv> ErrorCode (113)"
abbreviation EC_UnknownSubscriptionId :: RDKafkaErrorCode where "EC_UnknownSubscriptionId \<equiv> ErrorCode (117)"
abbreviation EC_TelemetryTooLarge :: RDKafkaErrorCode where "EC_TelemetryTooLarge \<equiv> ErrorCode (118)"
abbreviation EC_RebootstrapRequired :: RDKafkaErrorCode where "EC_RebootstrapRequired \<equiv> ErrorCode (129)"
abbreviation EC_EndAll :: RDKafkaErrorCode where "EC_EndAll \<equiv> ErrorCode (130)"

text \<open>Each variant with the name that the derived \<open>Debug\<close> prints.\<close>

definition local_error_codes :: "(string \<times> RDKafkaErrorCode) list" where
  "local_error_codes =
    [(''Begin'', EC_Begin),
     (''BadMessage'', EC_BadMessage),
     (''BadCompression'', EC_BadCompression),
     (''BrokerDestroy'', EC_BrokerDestroy),
     (''Fail'', EC_Fail),
     (''BrokerTransportFailure'', EC_BrokerTransportFailure),
     (''CriticalSystemResource'', EC_CriticalSystemResource),
     (''Resolve'', EC_Resolve),
     (''MessageTimedOut'', EC_MessageTimedOut),
     (''PartitionEOF'', EC_PartitionEOF),
     (''UnknownPartition'', EC_UnknownPartition),
     (''FileSystem'', EC_FileSystem),
     (''UnknownTopic'', EC_UnknownTopic),
     (''AllBrokersDown'', EC_AllBrokersDown),
     (''InvalidArgument'', EC_InvalidArgument),
     (''OperationTimedOut'', EC_OperationTimedOut),
     (''QueueFull'', EC_QueueFull),
     (''ISRInsufficient'', EC_ISRInsufficient),
     (''NodeUpdate'', EC_NodeUpdate),
     (''SSL'', EC_SSL),
     (''WaitingForCoordinator'', EC_WaitingForCoordinator),
     (''UnknownGroup'', EC_UnknownGroup),
     (''InProgress'', EC_InProgress),
     (''PreviousInProgress'', EC_PreviousInProgress),
     (''ExistingSubscription'', EC_ExistingSubscription),
     (''AssignPartitions'', EC_AssignPartitions),
     (''RevokePartitions'', EC_RevokePartitions),
     (''Conflict'', EC_Conflict),
     (''State'', EC_State),
     (''UnknownProtocol'', EC_UnknownProtocol),
     (''NotImplemented'', EC_NotImplemented),
     (''Authentication'', EC_Authentication),
     (''NoOffset'', EC_NoOffset),
     (''Outdated'', EC_Outdated),
     (''TimedOutQueue'', EC_TimedOutQueue),
     (''UnsupportedFeature'', EC_UnsupportedFeature),
     (''WaitCache'', EC_WaitCache),
     (''Interrupted'', EC_Interrupted),
     (''KeySerialization'', EC_KeySerialization),
     (''ValueSerialization'', EC_ValueSerialization),
     (''KeyDeserialization'', EC_KeyDeserialization),
     (''ValueDeserialization'', EC_ValueDeserialization),
     (''Partial'', EC_Partial),
     (''ReadOnly'', EC_ReadOnly),
     (''NoEnt'', EC_NoEnt),
     (''Underflow'', EC_Underflow),
     (''InvalidType'', EC_InvalidType),
     (''Retry'', EC_Retry),
     (''PurgeQueue'', EC_PurgeQueue),
     (''PurgeInflight'', EC_PurgeInflight),
     (''Fatal'', EC_Fatal),
     (''Inconsistent'', EC_Inconsistent),
     (''GaplessGuarantee'', EC_GaplessGuarantee),
     (''PollExceeded'', EC_PollExceeded),
     (''UnknownBroker'', EC_UnknownBroker),
     (''NotConfigured'', EC_NotConfigured),
     (''Fenced'', EC_Fenced),
     (''Application'', EC_Application),
     (''AssignmentLost'', EC_AssignmentLost),
     (''Noop'', EC_Noop),
     (''AutoOffsetReset'', EC_AutoOffsetReset),
     (''LogTruncation'', EC_LogTruncation),
     (''InvalidDifferentRecord'', EC_InvalidDifferentRecord),
     (''DestroyBroker'', EC_DestroyBroker),
     (''End'', EC_End)]"

definition broker_error_codes :: "(string \<times> RDKafkaErrorCode) list" where
  "broker_error_codes =
    [(''Unknown'', EC_Unknown),
     (''NoError'', EC_NoError),
     (''OffsetOutOfRange'', EC_OffsetOutOfRange),
     (''InvalidMessage'', EC_InvalidMessage),
     (''UnknownTopicOrPartition'', EC_UnknownTopicOrPartition),
     (''InvalidMessageSize'', EC_InvalidMessageSize),
     (''LeaderNotAvailable'', EC_LeaderNotAvailable),
     (''NotLeaderForPartition'', EC_NotLeaderForPartition),
     (''RequestTimedOut'', EC_RequestTimedOut),
     (''BrokerNotAvailable'', EC_BrokerNotAvailable),
     (''ReplicaNotAvailable'', EC_ReplicaNotAvailable),
     (''MessageSizeTooLarge'', EC_MessageSizeTooLarge),
     (''StaleControllerEpoch'', EC_StaleControllerEpoch),
     (''OffsetMetadataTooLarge'', EC_OffsetMetadataTooLarge),
     (''NetworkException'', EC_NetworkException),
     (''CoordinatorLoadInProgress'', EC_CoordinatorLoadInProgress),
     (''CoordinatorNotAvailable'', EC_CoordinatorNotAvailable),
     (''NotCoordinator'', EC_NotCoordinator),
     (''InvalidTopic'', EC_InvalidTopic),
     (''MessageBatchTooLarge'', EC_MessageBatchTooLarge),
     (''NotEnoughReplicas'', EC_NotEnoughReplicas),
     (''NotEnoughReplicasAfterAppend'', EC_NotEnoughReplicasAfterAppend),
     (''InvalidRequiredAcks'', EC_InvalidRequiredAcks),
     (''IllegalGeneration'', EC_IllegalGeneration),
     (''InconsistentGroupProtocol'', EC_InconsistentGroupProtocol),
     (''InvalidGroupId'', EC_InvalidGroupId),
     (''UnknownMemberId'', EC_UnknownMemberId),
     (''InvalidSessionTimeout'', EC_InvalidSessionTimeout),
     (''RebalanceInProgress'', EC_RebalanceInProgress),
     (''InvalidCommitOffsetSize'', EC_InvalidCommitOffsetSize),
     (''TopicAuthorizationFailed'', EC_TopicAuthorizationFailed),
     (''GroupAuthorizationFailed'', EC_GroupAuthorizationFailed),
     (''ClusterAuthorizationFailed'', EC_ClusterAuthorizationFailed),
     (''InvalidTimestamp'', EC_InvalidTimestamp),
     (''UnsupportedSASLMechanism'', EC_UnsupportedSASLMechanism),
     (''IllegalSASLState'', EC_IllegalSASLState),
     (''UnsupportedVersion'', EC_UnsupportedVersion),
     (''TopicAlreadyExists'', EC_TopicAlreadyExists),
     (''InvalidPartitions'', EC_InvalidPartitions),
     (''InvalidReplicationFactor'', EC_InvalidReplicationFactor),
     (''InvalidReplicaAssignment'', EC_InvalidReplicaAssignment),
     (''InvalidConfig'', EC_InvalidConfig),
     (''NotController'', EC_NotController),
     (''InvalidRequest'', EC_InvalidRequest),
     (''UnsupportedForMessageFormat'', EC_UnsupportedForMessageFormat),
     (''PolicyViolation'', EC_PolicyViolation),
     (''OutOfOrderSequenceNumber'', EC_OutOfOrderSequenceNumber),
     (''DuplicateSequenceNumber'', EC_DuplicateSequenceNumber),
     (''InvalidProducerEpoch'', EC_InvalidProducerEpoch),
     (''InvalidTransactionalState'', EC_InvalidTransactionalState),
     (''InvalidProducerIdMapping'', EC_InvalidProducerIdMapping),
     (''InvalidTransactionTimeout'', EC_InvalidTransactionTimeout),
     (''ConcurrentTransactions'', EC_ConcurrentTransactions),
     (''TransactionCoordinatorFenced'', EC_TransactionCoordinatorFenced),
     (''TransactionalIdAuthorizationFailed'', EC_TransactionalIdAuthorizationFailed),
     (''SecurityDisabled'', EC_SecurityDisabled),
     (''OperationNotAttempted'', EC_OperationNotAttempted),
     (''KafkaStorageError'', EC_KafkaStorageError),
     (''LogDirNotFound'', EC_LogDirNotFound),
     (''SaslAuthenticationFailed'', EC_SaslAuthenticationFailed),
     (''UnknownProducerId'', EC_UnknownProducerId),
     (''ReassignmentInProgress'', EC_ReassignmentInProgress),
     (''DelegationTokenAuthDisabled'', EC_DelegationTokenAuthDisabled),
     (''DelegationTokenNotFound'', EC_DelegationTokenNotFound),
     (''DelegationTokenOwnerMismatch'', EC_DelegationTokenOwnerMismatch),
     (''DelegationTokenRequestNotAllowed'', EC_DelegationTokenRequestNotAllowed),
     (''DelegationTokenAuthorizationFailed'', EC_DelegationTokenAuthorizationFailed),
     (''DelegationTokenExpired'', EC_DelegationTokenExpired),
     (''InvalidPrincipalType'', EC_InvalidPrincipalType),
     (''NonEmptyGroup'', EC_NonEmptyGroup),
     (''GroupIdNotFound'', EC_GroupIdNotFound),
     (''FetchSessionIdNotFound'', EC_FetchSessionIdNotFound),
     (''InvalidFetchSessionEpoch'', EC_InvalidFetchSessionEpoch),
     (''ListenerNotFound'', EC_ListenerNotFound),
     (''TopicDeletionDisabled'', EC_TopicDeletionDisabled),
     (''FencedLeaderEpoch'', EC_FencedLeaderEpoch),
     (''UnknownLeaderEpoch'', EC_UnknownLeaderEpoch),
     (''UnsupportedCompressionType'', EC_UnsupportedCompressionType),
     (''StaleBrokerEpoch'', EC_StaleBrokerEpoch),
     (''OffsetNotAvailable'', EC_OffsetNotAvailable),
     (''MemberIdRequired'', EC_MemberIdRequired),
     (''PreferredLeaderNotAvailable'', EC_PreferredLeaderNotAvailable),
     (''GroupMaxSizeReached'', EC_GroupMaxSizeReached),
     (''FencedInstanceId'', EC_FencedInstanceId),
     (''EligibleLeadersNotAvailable'', EC_EligibleLeadersNotAvailable),
     (''ElectionNotNeeded'', EC_ElectionNotNeeded),
     (''NoReassignmentInProgress'', EC_NoReassignmentInProgress),
     (''GroupSubscribedToTopic'', EC_GroupSubscribedToTopic),
     (''InvalidRecord'', EC_InvalidRecord),
     (''UnstableOffsetCommit'', EC_UnstableOffsetCommit),
     (''ThrottlingQuotaExceeded'', EC_ThrottlingQuotaExceeded),
     (''ProducerFenced'', EC_ProducerFenced),
     (''ResourceNotFound'', EC_ResourceNotFound),
     (''DuplicateResource'', EC_DuplicateResource),
     (''UnacceptableCredential'', EC_UnacceptableCredential),
     (''InconsistentVoterSet'', EC_InconsistentVoterSet),
     (''InvalidUpdateVersion'', EC_InvalidUpdateVersion),
     (''FeatureUpdateFailed'', EC_FeatureUpdateFailed),
     (''PrincipalDeserializationFailure'', EC_PrincipalDeserializationFailure),
     (''UnknownTopicId'', EC_UnknownTopicId),
     (''FencedMemberEpoch'', EC_FencedMemberEpoch),
     (''UnreleasedInstanceId'', EC_UnreleasedInstanceId),
     (''UnsupportedAssignor'', EC_UnsupportedAssignor),
     (''StaleMemberEpoch'', EC_StaleMemberEpoch),
     (''UnknownSubscriptionId'', EC_UnknownSubscriptionId),
     (''TelemetryTooLarge'', EC_TelemetryTooLarge),
     (''RebootstrapRequired'', EC_RebootstrapRequired),
     (''EndAll'', EC_EndAll)]"

definition RDKafkaErrorCode_variants :: "(string \<times> RDKafkaErrorCode) list" where
  "RDKafkaErrorCode_variants = local_error_codes @ broker_error_codes"

section \<open>From response errors to error codes\<close>

text \<open>The arms of the match, in source order.\<close>

definition local_arms :: "(RDKafkaRespErr \<times> RDKafkaErrorCode) list" where
  "local_arms =
    [(RD_KAFKA_RESP_ERR__BEGIN, EC_Begin),
     (RD_KAFKA_RESP_ERR__BAD_MSG, EC_BadMessage),
     (RD_KAFKA_RESP_ERR__BAD_COMPRESSION, EC_BadCompression),
     (RD_KAFKA_RESP_ERR__DESTROY, EC_BrokerDestroy),
     (RD_KAFKA_RESP_ERR__FAIL, EC_Fail),
     (RD_KAFKA_RESP_ERR__TRANSPORT, EC_BrokerTransportFailure),
     (RD_KAFKA_RESP_ERR__CRIT_SYS_RESOURCE, EC_CriticalSystemResource),
     (RD_KAFKA_RESP_ERR__RESOLVE, EC_Resolve),
     (RD_KAFKA_RESP_ERR__MSG_TIMED_OUT, EC_MessageTimedOut),
     (RD_KAFKA_RESP_ERR__PARTITION_EOF, EC_PartitionEOF),
     (RD_KAFKA_RESP_ERR__UNKNOWN_PARTITION, EC_UnknownPartition),
     (RD_KAFKA_RESP_ERR__FS, EC_FileSystem),
     (RD_KAFKA_RESP_ERR__UNKNOWN_TOPIC, EC_UnknownTopic),
     (RD_KAFKA_RESP_ERR__ALL_BROKERS_DOWN, EC_AllBrokersDown),
     (RD_KAFKA_RESP_ERR__INVALID_ARG, EC_InvalidArgument),
     (RD_KAFKA_RESP_ERR__TIMED_OUT, EC_OperationTimedOut),
     (RD_KAFKA_RESP_ERR__QUEUE_FULL, EC_QueueFull),
     (RD_KAFKA_RESP_ERR__ISR_INSUFF, EC_ISRInsufficient),
     (RD_KAFKA_RESP_ERR__NODE_UPDATE, EC_NodeUpdate),
     (RD_KAFKA_RESP_ERR__SSL, EC_SSL),
     (RD_KAFKA_RESP_ERR__WAIT_COORD, EC_WaitingForCoordinator),
     (RD_KAFKA_RESP_ERR__UNKNOWN_GROUP, EC_UnknownGroup),
     (RD_KAFKA_RESP_ERR__IN_PROGRESS, EC_InProgress),
     (RD_KAFKA_RESP_ERR__PREV_IN_PROGRESS, EC_PreviousInProgress),
     (RD_KAFKA_RESP_ERR__EXISTING_SUBSCRIPTION, EC_ExistingSubscription),
     (RD_KAFKA_RESP_ERR__ASSIGN_PARTITIONS, EC_AssignPartitions),
     (RD_KAFKA_RESP_ERR__REVOKE_PARTITIONS, EC_RevokePartitions),
     (RD_KAFKA_RESP_ERR__CONFLICT, EC_Conflict),
     (RD_KAFKA_RESP_ERR__STATE, EC_State),
     (RD_KAFKA_RESP_ERR__UNKNOWN_PROTOCOL, EC_UnknownProtocol),
     (RD_KAFKA_RESP_ERR__NOT_IMPLEMENTED, EC_NotImplemented),
     (RD_KAFKA_RESP_ERR__AUTHENTICATION, EC_Authentication),
     (RD_KAFKA_RESP_ERR__NO_OFFSET, EC_NoOffset),
     (RD_KAFKA_RESP_ERR__OUTDATED, EC_Outdated),
     (RD_KAFKA_RESP_ERR__TIMED_OUT_QUEUE, EC_TimedOutQueue),
     (RD_KAFKA_RESP_ERR__UNSUPPORTED_FEATURE, EC_UnsupportedFeature),
     (RD_KAFKA_RESP_ERR__WAIT_CACHE, EC_WaitCache),
     (RD_KAFKA_RESP_ERR__INTR, EC_Interrupted),
     (RD_KAFKA_RESP_ERR__KEY_SERIALIZATION, EC_KeySerialization),
     (RD_KAFKA_RESP_ERR__VALUE_SERIALIZATION, EC_ValueSerialization),
     (RD_KAFKA_RESP_ERR__KEY_DESERIALIZATION, EC_KeyDeserialization),
     (RD_KAFKA_RESP_ERR__VALUE_DESERIALIZATION, EC_ValueDeserialization),
     (RD_KAFKA_RESP_ERR__PARTIAL, EC_Partial),
     (RD_KAFKA_RESP_ERR__READ_ONLY, EC_ReadOnly),
     (RD_KAFKA_RESP_ERR__NOENT, EC_NoEnt),
     (RD_KAFKA_RESP_ERR__UNDERFLOW, EC_Underflow),
     (RD_KAFKA_RESP_ERR__INVALID_TYPE, EC_InvalidType),
     (RD_KAFKA_RESP_ERR__RETRY, EC_Retry),
     (RD_KAFKA_RESP_ERR__PURGE_QUEUE, EC_PurgeQueue),
     (RD_KAFKA_RESP_ERR__PURGE_INFLIGHT, EC_PurgeInflight),
     (RD_KAFKA_RESP_ERR__FATAL, EC_Fatal),
     (RD_KAFKA_RESP_ERR__INCONSISTENT, EC_Inconsistent),
     (RD_KAFKA_RESP_ERR__GAPLESS_GUARANTEE, EC_GaplessGuarantee),
     (RD_KAFKA_RESP_ERR__MAX_POLL_EXCEEDED, EC_PollExceeded),
     (RD_KAFKA_RESP_ERR__UNKNOWN_BROKER, EC_UnknownBroker),
     (RD_KAFKA_RESP_ERR__NOT_CONFIGURED, EC_NotConfigured),
     (RD_KAFKA_RESP_ERR__FENCED, EC_Fenced),
     (RD_KAFKA_RESP_ERR__APPLICATION, EC_Application),
     (RD_KAFKA_RESP_ERR__ASSIGNMENT_LOST, EC_AssignmentLost),
     (RD_KAFKA_RESP_ERR__NOOP, EC_Noop),
     (RD_KAFKA_RESP_ERR__AUTO_OFFSET_RESET, EC_AutoOffsetReset),
     (RD_KAFKA_RESP_ERR__END, EC_End)]"

definition broker_arms :: "(RDKafkaRespErr \<times> RDKafkaErrorCode) list" where
  "broker_arms =
    [(RD_KAFKA_RESP_ERR_UNKNOWN, EC_Unknown),
     (RD_KAFKA_RESP_ERR_NO_ERROR, EC_NoError),
     (RD_KAFKA_RESP_ERR_OFFSET_OUT_OF_RANGE, EC_OffsetOutOfRange),
     (RD_KAFKA_RESP_ERR_INVALID_MSG, EC_InvalidMessage),
     (RD_KAFKA_RESP_ERR_UNKNOWN_TOPIC_OR_PART, EC_UnknownTopicOrPartition),
     (RD_KAFKA_RESP_ERR_INVALID_MSG_SIZE, EC_InvalidMessageSize),
     (RD_KAFKA_RESP_ERR_LEADER_NOT_AVAILABLE, EC_LeaderNotAvailable),
     (RD_KAFKA_RESP_ERR_NOT_LEADER_FOR_PARTITION, EC_NotLeaderForPartition),
     (RD_KAFKA_RESP_ERR_REQUEST_TIMED_OUT, EC_RequestTimedOut),
     (RD_KAFKA_RESP_ERR_BROKER_NOT_AVAILABLE, EC_BrokerNotAvailable),
     (RD_KAFKA_RESP_ERR_REPLICA_NOT_AVAILABLE, EC_ReplicaNotAvailable),
     (RD_KAFKA_RESP_ERR_MSG_SIZE_TOO_LARGE, EC_MessageSizeTooLarge),
     (RD_KAFKA_RESP_ERR_STALE_CTRL_EPOCH, EC_StaleControllerEpoch),
     (RD_KAFKA_RESP_ERR_OFFSET_METADATA_TOO_LARGE, EC_OffsetMetadataTooLarge),
     (RD_KAFKA_RESP_ERR_NETWORK_EXCEPTION, EC_NetworkException),
     (RD_KAFKA_RESP_ERR_COORDINATOR_LOAD_IN_PROGRESS, EC_CoordinatorLoadInProgress),
     (RD_KAFKA_RESP_ERR_COORDINATOR_NOT_AVAILABLE, EC_CoordinatorNotAvailable),
     (RD_KAFKA_RESP_ERR_NOT_COORDINATOR, EC_NotCoordinator),
     (RD_KAFKA_RESP_ERR_TOPIC_EXCEPTION, EC_InvalidTopic),
     (RD_KAFKA_RESP_ERR_RECORD_LIST_TOO_LARGE, EC_MessageBatchTooLarge),
     (RD_KAFKA_RESP_ERR_NOT_ENOUGH_REPLICAS, EC_NotEnoughReplicas),
     (RD_KAFKA_RESP_ERR_NOT_ENOUGH_REPLICAS_AFTER_APPEND, EC_NotEnoughReplicasAfterAppend),
     (RD_KAFKA_RESP_ERR_INVALID_REQUIRED_ACKS, EC_InvalidRequiredAcks),
     (RD_KAFKA_RESP_ERR_ILLEGAL_GENERATION, EC_IllegalGeneration),
     (RD_KAFKA_RESP_ERR_INCONSISTENT_GROUP_PROTOCOL, EC_InconsistentGroupProtocol),
     (RD_KAFKA_RESP_ERR_INVALID_GROUP_ID, EC_InvalidGroupId),
     (RD_KAFKA_RESP_ERR_UNKNOWN_MEMBER_ID, EC_UnknownMemberId),
     (RD_KAFKA_RESP_ERR_INVALID_SESSION_TIMEOUT, EC_InvalidSessionTimeout),
     (RD_KAFKA_RESP_ERR_REBALANCE_IN_PROGRESS, EC_RebalanceInProgress),
     (RD_KAFKA_RESP_ERR_INVALID_COMMIT_OFFSET_SIZE, EC_InvalidCommitOffsetSize),
     (RD_KAFKA_RESP_ERR_TOPIC_AUTHORIZATION_FAILED, EC_TopicAuthorizationFailed),
     (RD_KAFKA_RESP_ERR_GROUP_AUTHORIZATION_FAILED, EC_GroupAuthorizationFailed),
     (RD_KAFKA_RESP_ERR_CLUSTER_AUTHORIZATION_FAILED, EC_ClusterAuthorizationFailed),
     (RD_KAFKA_RESP_ERR_INVALID_TIMESTAMP, EC_InvalidTimestamp),
     (RD_KAFKA_RESP_ERR_UNSUPPORTED_SASL_MECHANISM, EC_UnsupportedSASLMechanism),
     (RD_KAFKA_RESP_ERR_ILLEGAL_SASL_STATE, EC_IllegalSASLState),
     (RD_KAFKA_RESP_ERR_UNSUPPORTED_VERSION, EC_UnsupportedVersion),
     (RD_KAFKA_RESP_ERR_TOPIC_ALREADY_EXISTS, EC_TopicAlreadyExists),
     (RD_KAFKA_RESP_ERR_INVALID_PARTITIONS, EC_InvalidPartitions),
     (RD_KAFKA_RESP_ERR_INVALID_REPLICATION_FACTOR, EC_InvalidReplicationFactor),
     (RD_KAFKA_RESP_ERR_INVALID_REPLICA_ASSIGNMENT, EC_InvalidReplicaAssignment),
     (RD_KAFKA_RESP_ERR_INVALID_CONFIG, EC_InvalidConfig),
     (RD_KAFKA_RESP_ERR_NOT_CONTROLLER, EC_NotController),
     (RD_KAFKA_RESP_ERR_INVALID_REQUEST, EC_InvalidRequest),
     (RD_KAFKA_RESP_ERR_UNSUPPORTED_FOR_MESSAGE_FORMAT, EC_UnsupportedForMessageFormat),
     (RD_KAFKA_RESP_ERR_POLICY_VIOLATION, EC_PolicyViolation),
     (RD_KAFKA_RESP_ERR_OUT_OF_ORDER_SEQUENCE_NUMBER, EC_OutOfOrderSequenceNumber),
     (RD_KAFKA_RESP_ERR_DUPLICATE_SEQUENCE_NUMBER, EC_DuplicateSequenceNumber),
     (RD_KAFKA_RESP_ERR_INVALID_PRODUCER_EPOCH, EC_InvalidProducerEpoch),
     (RD_KAFKA_RESP_ERR_INVALID_TXN_STATE, EC_InvalidTransactionalState),
     (RD_KAFKA_RESP_ERR_INVALID_PRODUCER_ID_MAPPING, EC_InvalidProducerIdMapping),
     (RD_KAFKA_RESP_ERR_INVALID_TRANSACTION_TIMEOUT, EC_InvalidTransactionTimeout),
     (RD_KAFKA_RESP_ERR_CONCURRENT_TRANSACTIONS, EC_ConcurrentTransactions),
     (RD_KAFKA_RESP_ERR_TRANSACTION_COORDINATOR_FENCED, EC_TransactionCoordinatorFenced),
     (RD_KAFKA_RESP_ERR_TRANSACTIONAL_ID_AUTHORIZATION_FAILED, EC_TransactionalIdAuthorizationFailed),
     (RD_KAFKA_RESP_ERR_SECURITY_DISABLED, EC_SecurityDisabled),
     (RD_KAFKA_RESP_ERR_OPERATION_NOT_ATTEMPTED, EC_OperationNotAttempted),
     (RD_KAFKA_RESP_ERR_KAFKA_STORAGE_ERROR, EC_KafkaStorageError),
     (RD_KAFKA_RESP_ERR_LOG_DIR_NOT_FOUND, EC_LogDirNotFound),
     (RD_KAFKA_RESP_ERR_SASL_AUTHENTICATION_FAILED, EC_SaslAuthenticationFailed),
     (RD_KAFKA_RESP_ERR_UNKNOWN_PRODUCER_ID, EC_UnknownProducerId),
     (RD_KAFKA_RESP_ERR_REASSIGNMENT_IN_PROGRESS, EC_ReassignmentInProgress),
     (RD_KAFKA_RESP_ERR_DELEGATION_TOKEN_AUTH_DISABLED, EC_DelegationTokenAuthDisabled),
     (RD_KAFKA_RESP_ERR_DELEGATION_TOKEN_NOT_FOUND, EC_DelegationTokenNotFound),
     (RD_KAFKA_RESP_ERR_DELEGATION_TOKEN_OWNER_MISMATCH, EC_DelegationTokenOwnerMismatch),
     (RD_KAFKA_RESP_ERR_DELEGATION_TOKEN_REQUEST_NOT_ALLOWED, EC_DelegationTokenRequestNotAllowed),
     (RD_KAFKA_RESP_ERR_DELEGATION_TOKEN_AUTHORIZATION_FAILED, EC_DelegationTokenAuthorizationFailed),
     (RD_KAFKA_RESP_ERR_DELEGATION_TOKEN_EXPIRED, EC_DelegationTokenExpired),
     (RD_KAFKA_RESP_ERR_INVALID_PRINCIPAL_TYPE, EC_InvalidPrincipalType),
     (RD_KAFKA_RESP_ERR_NON_EMPTY_GROUP, EC_NonEmptyGroup),
     (RD_KAFKA_RESP_ERR_GROUP_ID_NOT_FOUND, EC_GroupIdNotFound),
     (RD_KAFKA_RESP_ERR_FETCH_SESSION_ID_NOT_FOUND, EC_FetchSessionIdNotFound),
     (RD_KAFKA_RESP_ERR_INVALID_FETCH_SESSION_EPOCH, EC_InvalidFetchSessionEpoch),
     (RD_KAFKA_RESP_ERR_LISTENER_NOT_FOUND, EC_ListenerNotFound),
     (RD_KAFKA_RESP_ERR_TOPIC_DELETION_DISABLED, EC_TopicDeletionDisabled),
     (RD_KAFKA_RESP_ERR_FENCED_LEADER_EPOCH, EC_FencedLeaderEpoch),
     (RD_KAFKA_RESP_ERR_UNKNOWN_LEADER_EPOCH, EC_UnknownLeaderEpoch),
     (RD_KAFKA_RESP_ERR_UNSUPPORTED_COMPRESSION_TYPE, EC_UnsupportedCompressionType),
     (RD_KAFKA_RESP_ERR_STALE_BROKER_EPOCH, EC_StaleBrokerEpoch),
     (RD_KAFKA_RESP_ERR_OFFSET_NOT_AVAILABLE, EC_OffsetNotAvailable),
     (RD_KAFKA_RESP_ERR_MEMBER_ID_REQUIRED, EC_MemberIdRequired),
     (RD_KAFKA_RESP_ERR_PREFERRED_LEADER_NOT_AVAILABLE, EC_PreferredLeaderNotAvailable),
     (RD_KAFKA_RESP_ERR_GROUP_MAX_SIZE_REACHED, EC_GroupMaxSizeReached),
     (RD_KAFKA_RESP_ERR_FENCED_INSTANCE_ID, EC_FencedInstanceId),
     (RD_KAFKA_RESP_ERR_ELIGIBLE_LEADERS_NOT_AVAILABLE, EC_EligibleLeadersNotAvailable),
     (RD_KAFKA_RESP_ERR_ELECTION_NOT_NEEDED, EC_ElectionNotNeeded),
     (RD_KAFKA_RESP_ERR_NO_REASSIGNMENT_IN_PROGRESS, EC_NoReassignmentInProgress),
     (RD_KAFKA_RESP_ERR_GROUP_SUBSCRIBED_TO_TOPIC, EC_GroupSubscribedToTopic),
     (RD_KAFKA_RESP_ERR_INVALID_RECORD, EC_InvalidRecord),
     (RD_KAFKA_RESP_ERR_UNSTABLE_OFFSET_COMMIT, EC_UnstableOffsetCommit),
     (RD_KAFKA_RESP_ERR_THROTTLING_QUOTA_EXCEEDED, EC_ThrottlingQuotaExceeded),
     (RD_KAFKA_RESP_ERR_PRODUCER_FENCED, EC_ProducerFenced),
     (RD_KAFKA_RESP_ERR_RESOURCE_NOT_FOUND, EC_ResourceNotFound),
     (RD_KAFKA_RESP_ERR_DUPLICATE_RESOURCE, EC_DuplicateResource),
     (RD_KAFKA_RESP_ERR_UNACCEPTABLE_CREDENTIAL, EC_UnacceptableCredential),
     (RD_KAFKA_RESP_ERR_INCONSISTENT_VOTER_SET, EC_InconsistentVoterSet),
     (RD_KAFKA_RESP_ERR_INVALID_UPDATE_VERSION, EC_InvalidUpdateVersion),
     (RD_KAFKA_RESP_ERR_FEATURE_UPDATE_FAILED, EC_FeatureUpdateFailed),
     (RD_KAFKA_RESP_ERR_PRINCIPAL_DESERIALIZATION_FAILURE, EC_PrincipalDeserializationFailure),
     (RD_KAFKA_RESP_ERR_END_ALL, EC_EndAll),
     (RD_KAFKA_RESP_ERR__LOG_TRUNCATION, EC_LogTruncation),
     (RD_KAFKA_RESP_ERR__INVALID_DIFFERENT_RECORD, EC_InvalidDifferentRecord),
     (RD_KAFKA_RESP_ERR__DESTROY_BROKER, EC_DestroyBroker),
     (RD_KAFKA_RESP_ERR_UNKNOWN_TOPIC_ID, EC_UnknownTopicId),
     (RD_KAFKA_RESP_ERR_FENCED_MEMBER_EPOCH, EC_FencedMemberEpoch),
     (RD_KAFKA_RESP_ERR_UNRELEASED_INSTANCE_ID, EC_UnreleasedInstanceId),
     (RD_KAFKA_RESP_ERR_UNSUPPORTED_ASSIGNOR, EC_UnsupportedAssignor),
     (RD_KAFKA_RESP_ERR_STALE_MEMBER_EPOCH, EC_StaleMemberEpoch),
     (RD_KAFKA_RESP_ERR_UNKNOWN_SUBSCRIPTION_ID, EC_UnknownSubscriptionId),
     (RD_KAFKA_RESP_ERR_TELEMETRY_TOO_LARGE, EC_TelemetryTooLarge),
     (RD_KAFKA_RESP_ERR_REBOOTSTRAP_REQUIRED, EC_RebootstrapRequired)]"

definition resp_err_arms :: "(RDKafkaRespErr \<times> RDKafkaErrorCode) list" where
  "resp_err_arms = local_arms @ broker_arms"

definition rd_kafka_resp_err_t_to_rdkafka_error :: "RDKafkaRespErr \<Rightarrow> RDKafkaErrorCode" where
  "rd_kafka_resp_err_t_to_rdkafka_error err = the (map_of resp_err_arms err)"

text \<open>\<open>err.into()\<close>\<close>

abbreviation into_code :: "RDKafkaRespErr \<Rightarrow> RDKafkaErrorCode" where
  "into_code \<equiv> rd_kafka_resp_err_t_to_rdkafka_error"

text \<open>\<open>RDKafkaRespErr::try_from(i32)\<close>\<close>

definition resp_err_try_from :: "int \<Rightarrow> RDKafkaRespErr option" where
  "resp_err_try_from n = List.find (\<lambda>e. resp_discriminant e = n) RDKafkaRespErr_variants"

text \<open>\<open>{:?}\<close> of an error code, and its \<open>Display\<close>, which asks librdkafka for a description.\<close>

definition error_code_debug :: "RDKafkaErrorCode \<Rightarrow> string" where
  "error_code_debug c =
     (case List.find (\<lambda>v. snd v = c) RDKafkaErrorCode_variants of
        Some v \<Rightarrow> fst v | None \<Rightarrow> [])"

definition error_code_display :: "(RDKafkaRespErr \<Rightarrow> bytes) \<Rightarrow> RDKafkaErrorCode \<Rightarrow> string" where
  "error_code_display rd_kafka_err2str c =
     (let description =
        (case resp_err_try_from (code_discriminant c) of
           Some err \<Rightarrow> to_string_lossy (rd_kafka_err2str err)
         | None \<Rightarrow> ''Unknown error'')
      in error_code_debug c @ '' ('' @ description @ '')'')"

section \<open>API keys\<close>

datatype RDKafkaApiKey = ApiKey (api_key_discriminant: int)

definition RDKafkaApiKey_variants :: "(string \<times> RDKafkaApiKey) list" where
  "RDKafkaApiKey_variants =
    [(''Produce'', ApiKey 0),
     (''Fetch'', ApiKey 1),
     (''ListOffsets'', ApiKey 2),
     (''Metadata'', ApiKey 3),
     (''LeaderAndIsr'', ApiKey 4),
     (''StopReplica'', ApiKey 5),
     (''UpdateMetadata'', ApiKey 6),
     (''ControlledShutdown'', ApiKey 7),
     (''OffsetCommit'', ApiKey 8),
     (''OffsetFetch'', ApiKey 9),
     (''FindCoordinator'', ApiKey 10),
     (''JoinGroup'', ApiKey 11),
     (''Heartbeat'', ApiKey 12),
     (''LeaveGroup'', ApiKey 13),
     (''SyncGroup'', ApiKey 14),
     (''DescribeGroups'', ApiKey 15),
     (''ListGroups'', ApiKey 16),
     (''SaslHandshake'', ApiKey 17),
     (''ApiVersion'', ApiKey 18),
     (''CreateTopics'', ApiKey 19),
     (''DeleteTopics'', ApiKey 20),
     (''DeleteRecords'', ApiKey 21),
     (''InitProducerId'', ApiKey 22),
     (''OffsetForLeaderEpoch'', ApiKey 23),
     (''AddPartitionsToTxn'', ApiKey 24),
     (''AddOffsetsToTxn'', ApiKey 25),
     (''EndTxn'', ApiKey 26),
     (''WriteTxnMarkers'', ApiKey 27),
     (''TxnOffsetCommit'', ApiKey 28),
     (''DescribeAcls'', ApiKey 29),
     (''CreateAcls'', ApiKey 30),
     (''DeleteAcls'', ApiKey 31),
     (''DescribeConfigs'', ApiKey 32),
     (''AlterConfigs'', ApiKey 33),
     (''AlterReplicaLogDirs'', ApiKey 34),
     (''DescribeLogDirs'', ApiKey 35),
     (''SaslAuthenticate'', ApiKey 36),
     (''CreatePartitions'', ApiKey 37),
     (''CreateDelegationToken'', ApiKey 38),
     (''RenewDelegationToken'', ApiKey 39),
     (''ExpireDelegationToken'', ApiKey 40),
     (''DescribeDelegationToken'', ApiKey 41),
     (''DeleteGroups'', ApiKey 42),
     (''ElectLeaders'', ApiKey 43),
     (''IncrementalAlterConfigs'', ApiKey 44),
     (''AlterPartitionReassignments'', ApiKey 45),
     (''ListPartitionReassignments'', ApiKey 46),
     (''OffsetDelete'', ApiKey 47),
     (''DescribeClientQuotas'', ApiKey 48),
     (''AlterClientQuotas'', ApiKey 49),
     (''DescribeUserScramCredentials'', ApiKey 50),
     (''AlterUserScramCredentials'', ApiKey 51),
     (''Vote'', ApiKey 52),
     (''BeginQuorumEpoch'', ApiKey 53),
     (''EndQuorumEpoch'', ApiKey 54),
     (''DescribeQuorum'', ApiKey 55),
     (''AlterIsr'', ApiKey 56),
     (''UpdateFeatures'', ApiKey 57),
     (''Envelope'', ApiKey 58)]"

section \<open>Facts\<close>

lemma local_codes_negative:
  "list_all (\<lambda>(name, c). code_discriminant c \<le> - 100) local_error_codes \<and> list_all (\<lambda>(name, c). code_discriminant c \<ge> - 1) broker_error_codes"
  by code_simp

lemma resp_err_arms_keys: "set (map fst resp_err_arms) = set RDKafkaRespErr_variants"
  by code_simp

lemma resp_err_arms_distinct: "distinct (map fst resp_err_arms)"
  by code_simp

lemma resp_err_arms_same_discriminant:
  "list_all (\<lambda>(e, c). resp_discriminant e = code_discriminant c) resp_err_arms"
  by code_simp

lemma resp_err_arms_codes: "set (map snd resp_err_arms) = set (map snd RDKafkaErrorCode_variants)"
  by code_simp

lemma into_code_variant:
  assumes "e \<in> set RDKafkaRespErr_variants"
  shows "into_code e = ErrorCode (resp_discriminant e)"
proof -
  from assms obtain c where c: "(e, c) \<in> set resp_err_arms"
    using resp_err_arms_keys by (auto simp flip: resp_err_arms_keys)
  with resp_err_arms_distinct have "into_code e = c"
    by (simp add: rd_kafka_resp_err_t_to_rdkafka_error_def map_of_eq_Some_iff)
  moreover from c resp_err_arms_same_discriminant have "resp_discriminant e = code_discriminant c"
    by (auto simp: list_all_iff)
  ultimately show ?thesis by (cases c) simp
qed

lemma error_code_variants_eq:
  "set (map snd RDKafkaErrorCode_variants) = (\<lambda>e. ErrorCode (resp_discriminant e)) ` set RDKafkaRespErr_variants"
proof -
  have "\<forall>p \<in> set resp_err_arms. snd p = ErrorCode (resp_discriminant (fst p))"
    using resp_err_arms_same_discriminant by (auto simp: list_all_iff)
  then have "snd ` set resp_err_arms = (\<lambda>e. ErrorCode (resp_discriminant e)) ` fst ` set resp_err_arms"
    by (simp add: image_image cong: image_cong)
  then show ?thesis using resp_err_arms_keys resp_err_arms_codes by simp
qed

lemma resp_err_try_from_variant:
  "e \<in> set RDKafkaRespErr_variants \<Longrightarrow> resp_err_try_from (resp_discriminant e) = Some e"
proof -
  assume e: "e \<in> set RDKafkaRespErr_variants"
  then obtain e' where "resp_err_try_from (resp_discriminant e) = Some e'"
    by (cases "resp_err_try_from (resp_discriminant e)") (auto simp: resp_err_try_from_def find_None_iff)
  moreover from this have "resp_discriminant e' = resp_discriminant e"
    by (auto simp: resp_err_try_from_def find_Some_iff)
  ultimately show ?thesis by (simp add: RDKafkaRespErr.expand)
qed

text \<open>C39. The match of \<open>helpers.rs\<close> loses nothing: it maps the variants of
  \<open>rd_kafka_resp_err_t\<close> one-to-one onto all the variants of \<open>RDKafkaErrorCode\<close>, and
  \<open>RDKafkaRespErr::try_from\<close> on the discriminant of the result gives the original back.\<close>

theorem into_code_bijection:
  "bij_betw rd_kafka_resp_err_t_to_rdkafka_error
     (set RDKafkaRespErr_variants) (set (map snd RDKafkaErrorCode_variants))
   \<and> map (\<lambda>e. resp_err_try_from (code_discriminant (into_code e))) RDKafkaRespErr_variants
       = map Some RDKafkaRespErr_variants"
proof -
  have inj: "inj_on into_code (set RDKafkaRespErr_variants)"
    by (rule inj_onI) (simp add: into_code_variant RDKafkaRespErr.expand)
  moreover have "into_code ` set RDKafkaRespErr_variants = set (map snd RDKafkaErrorCode_variants)"
    unfolding error_code_variants_eq by (rule image_cong) (simp_all add: into_code_variant)
  ultimately show ?thesis
    by (auto simp: bij_betw_def into_code_variant resp_err_try_from_variant)
qed

text \<open>\<open>Display\<close> of every error code shows librdkafka's description of the code with the
  same discriminant; the fallback text \<open>Unknown error\<close> is never used.\<close>

theorem error_code_display_described:
  assumes "c \<in> set (map snd RDKafkaErrorCode_variants)"
  shows "error_code_display err2str c =
     error_code_debug c @ '' ('' @ to_string_lossy (err2str (RespErr (code_discriminant c))) @ '')''"
proof -
  from assms obtain e where e: "e \<in> set RDKafkaRespErr_variants" "c = ErrorCode (resp_discriminant e)"
    unfolding error_code_variants_eq by blast
  then have "resp_err_try_from (code_discriminant c) = Some e"
    by (simp add: resp_err_try_from_variant)
  with e(2) show ?thesis by (simp add: error_code_display_def)
qed

theorem error_code_display_described_witness:
  "EC_QueueFull \<in> set (map snd RDKafkaErrorCode_variants) \<and>
   error_code_display (\<lambda>_. ''Local: Queue full'') EC_QueueFull =
     error_code_debug EC_QueueFull @ '' ('' @ to_string_lossy ''Local: Queue full'' @ '')''"
proof -
  have h: "EC_QueueFull \<in> set (map snd RDKafkaErrorCode_variants)"
    by (simp add: RDKafkaErrorCode_variants_def local_error_codes_def)
  show ?thesis using h error_code_display_described [OF h, of "\<lambda>_. ''Local: Queue full''"] by simp
qed

end
