(* ===== verification/Errors.thy ===== *)
theory Errors
  imports Error_Codes
begin

text \<open>
  \<open>src/error.rs\<close>: the \<open>IsError\<close> trait, the native error object \<open>RDKafkaError\<close> and the
  crate's error type \<open>KafkaError\<close> with its printing, its source and its error code.
  librdkafka's accessors of a native error are the fields of \<open>error_api\<close>.
\<close>

section \<open>The functions of librdkafka on errors\<close>

record error_api =
  rd_kafka_err2str :: "RDKafkaRespErr \<Rightarrow> bytes"
  rd_kafka_error_code :: "addr \<Rightarrow> RDKafkaRespErr"
  rd_kafka_error_name :: "addr \<Rightarrow> bytes"
  rd_kafka_error_string :: "addr \<Rightarrow> bytes"
  rd_kafka_error_is_fatal :: "addr \<Rightarrow> int"
  rd_kafka_error_is_retriable :: "addr \<Rightarrow> int"
  rd_kafka_error_txn_requires_abort :: "addr \<Rightarrow> int"

text \<open>
  What librdkafka documents of these: an error object has one of the declared codes, and
  the null error has code \<open>NO_ERROR\<close>, empty texts and no flag.
\<close>

definition error_api_ok :: "error_api \<Rightarrow> bool" where
  "error_api_ok api \<longleftrightarrow>
     (\<forall>p. rd_kafka_error_code api p \<in> set RDKafkaRespErr_variants)
     \<and> rd_kafka_error_code api 0 = RD_KAFKA_RESP_ERR_NO_ERROR
     \<and> rd_kafka_error_name api 0 = [] \<and> rd_kafka_error_string api 0 = []
     \<and> rd_kafka_error_is_fatal api 0 = 0 \<and> rd_kafka_error_is_retriable api 0 = 0
     \<and> rd_kafka_error_txn_requires_abort api 0 = 0"

text \<open>An instance with these properties: every error is the null error.\<close>

definition error_instance :: error_api where
  "error_instance =
     \<lparr>rd_kafka_err2str = (\<lambda>_. []), rd_kafka_error_code = (\<lambda>_. RD_KAFKA_RESP_ERR_NO_ERROR),
      rd_kafka_error_name = (\<lambda>_. []), rd_kafka_error_string = (\<lambda>_. []),
      rd_kafka_error_is_fatal = (\<lambda>_. 0), rd_kafka_error_is_retriable = (\<lambda>_. 0),
      rd_kafka_error_txn_requires_abort = (\<lambda>_. 0)\<rparr>"

lemma error_instance_ok: "error_api_ok error_instance"
  by (simp add: error_api_ok_def error_instance_def RDKafkaRespErr_variants_def local_resp_errs_def broker_resp_errs_def)

section \<open>IsError\<close>

datatype RDKafkaConfRes = RD_KAFKA_CONF_UNKNOWN | RD_KAFKA_CONF_INVALID | RD_KAFKA_CONF_OK

datatype RDKafkaError = RDKafkaError "addr option"

definition resp_err_is_error :: "RDKafkaRespErr \<Rightarrow> bool" where
  "resp_err_is_error e \<longleftrightarrow> e \<noteq> RD_KAFKA_RESP_ERR_NO_ERROR"

definition conf_res_is_error :: "RDKafkaConfRes \<Rightarrow> bool" where
  "conf_res_is_error r \<longleftrightarrow> r \<noteq> RD_KAFKA_CONF_OK"

definition rdkafka_error_is_error :: "RDKafkaError \<Rightarrow> bool" where
  "rdkafka_error_is_error e = (case e of RDKafkaError p \<Rightarrow> p \<noteq> None)"

section \<open>RDKafkaError\<close>

definition rdkafka_error_from_ptr :: "addr \<Rightarrow> RDKafkaError" where
  "rdkafka_error_from_ptr p = RDKafkaError (native_ptr p)"

definition rdkafka_error_ptr :: "RDKafkaError \<Rightarrow> addr" where
  "rdkafka_error_ptr e = (case e of RDKafkaError None \<Rightarrow> 0 | RDKafkaError (Some p) \<Rightarrow> p)"

definition rdkafka_error_code_of :: "error_api \<Rightarrow> RDKafkaError \<Rightarrow> RDKafkaErrorCode" where
  "rdkafka_error_code_of api e = into_code (rd_kafka_error_code api (rdkafka_error_ptr e))"

definition rdkafka_error_name :: "error_api \<Rightarrow> RDKafkaError \<Rightarrow> bytes" where
  "rdkafka_error_name api e = to_string_lossy (rd_kafka_error_name api (rdkafka_error_ptr e))"

definition rdkafka_error_string :: "error_api \<Rightarrow> RDKafkaError \<Rightarrow> bytes" where
  "rdkafka_error_string api e = to_string_lossy (rd_kafka_error_string api (rdkafka_error_ptr e))"

definition rdkafka_error_is_fatal :: "error_api \<Rightarrow> RDKafkaError \<Rightarrow> bool" where
  "rdkafka_error_is_fatal api e \<longleftrightarrow> rd_kafka_error_is_fatal api (rdkafka_error_ptr e) \<noteq> 0"

definition rdkafka_error_is_retriable :: "error_api \<Rightarrow> RDKafkaError \<Rightarrow> bool" where
  "rdkafka_error_is_retriable api e \<longleftrightarrow> rd_kafka_error_is_retriable api (rdkafka_error_ptr e) \<noteq> 0"

definition rdkafka_error_txn_requires_abort :: "error_api \<Rightarrow> RDKafkaError \<Rightarrow> bool" where
  "rdkafka_error_txn_requires_abort api e \<longleftrightarrow>
     rd_kafka_error_txn_requires_abort api (rdkafka_error_ptr e) \<noteq> 0"

definition rdkafka_error_eq :: "error_api \<Rightarrow> RDKafkaError \<Rightarrow> RDKafkaError \<Rightarrow> bool" where
  "rdkafka_error_eq api e e' \<longleftrightarrow> rdkafka_error_code_of api e = rdkafka_error_code_of api e'"

definition rdkafka_error_display :: "error_api \<Rightarrow> RDKafkaError \<Rightarrow> bytes" where
  "rdkafka_error_display api e = rdkafka_error_string api e"

definition rdkafka_error_debug :: "error_api \<Rightarrow> RDKafkaError \<Rightarrow> bytes" where
  "rdkafka_error_debug api e = ''RDKafkaError('' @ rdkafka_error_display api e @ '')''"

section \<open>KafkaError\<close>

datatype KafkaError =
    AdminOpCreation bytes
  | AdminOp RDKafkaErrorCode
  | Canceled
  | ClientConfigError RDKafkaConfRes bytes bytes bytes
  | ClientCreation bytes
  | ConsumerCommit RDKafkaErrorCode
  | ConsumerQueueClose RDKafkaErrorCode
  | Flush RDKafkaErrorCode
  | Global RDKafkaErrorCode
  | GroupListFetch RDKafkaErrorCode
  | MessageConsumption RDKafkaErrorCode
  | MessageConsumptionFatal RDKafkaErrorCode
  | MessageProduction RDKafkaErrorCode
  | MetadataFetch RDKafkaErrorCode
  | NoMessageReceived
  | Nul nul_error
  | OffsetFetch RDKafkaErrorCode
  | PartitionEOF int
  | PauseResume bytes
  | Rebalance RDKafkaErrorCode
  | Seek bytes
  | SetPartitionOffset RDKafkaErrorCode
  | StoreOffset RDKafkaErrorCode
  | Subscription bytes
  | Transaction RDKafkaError
  | MockClusterError RDKafkaErrorCode

type_synonym 'a KafkaResult = "KafkaError + 'a"

fun kafka_error_debug :: "error_api \<Rightarrow> KafkaError \<Rightarrow> bytes" where
  "kafka_error_debug api (AdminOp err) =
     ''KafkaError (Admin operation error: '' @ error_code_display (rd_kafka_err2str api) err @ '')''"
| "kafka_error_debug api (AdminOpCreation err) =
     ''KafkaError (Admin operation creation error: '' @ err @ '')''"
| "kafka_error_debug api Canceled = ''KafkaError (Client dropped)''"
| "kafka_error_debug api (ClientConfigError _ desc key value) =
     ''KafkaError (Client config error: '' @ desc @ '' '' @ key @ '' '' @ value @ '')''"
| "kafka_error_debug api (ClientCreation err) =
     ''KafkaError (Client creation error: '' @ err @ '')''"
| "kafka_error_debug api (ConsumerCommit err) =
     ''KafkaError (Consumer commit error: '' @ error_code_display (rd_kafka_err2str api) err @ '')''"
| "kafka_error_debug api (ConsumerQueueClose err) =
     ''KafkaError (Consumer queue close error: '' @ error_code_display (rd_kafka_err2str api) err @ '')''"
| "kafka_error_debug api (Flush err) =
     ''KafkaError (Flush error: '' @ error_code_display (rd_kafka_err2str api) err @ '')''"
| "kafka_error_debug api (Global err) =
     ''KafkaError (Global error: '' @ error_code_display (rd_kafka_err2str api) err @ '')''"
| "kafka_error_debug api (GroupListFetch err) =
     ''KafkaError (Group list fetch error: '' @ error_code_display (rd_kafka_err2str api) err @ '')''"
| "kafka_error_debug api (MessageConsumption err) =
     ''KafkaError (Message consumption error: '' @ error_code_display (rd_kafka_err2str api) err @ '')''"
| "kafka_error_debug api (MessageConsumptionFatal err) =
     ''(Fatal) KafkaError (Message consumption error: '' @ error_code_display (rd_kafka_err2str api) err @ '')''"
| "kafka_error_debug api (MessageProduction err) =
     ''KafkaError (Message production error: '' @ error_code_display (rd_kafka_err2str api) err @ '')''"
| "kafka_error_debug api (MetadataFetch err) =
     ''KafkaError (Metadata fetch error: '' @ error_code_display (rd_kafka_err2str api) err @ '')''"
| "kafka_error_debug api NoMessageReceived = ''No message received within the given poll interval''"
| "kafka_error_debug api (Nul _) = ''FFI null error''"
| "kafka_error_debug api (OffsetFetch err) =
     ''KafkaError (Offset fetch error: '' @ error_code_display (rd_kafka_err2str api) err @ '')''"
| "kafka_error_debug api (PartitionEOF part_n) =
     ''KafkaError (Partition EOF: '' @ show_int part_n @ '')''"
| "kafka_error_debug api (PauseResume err) = ''KafkaError (Pause/resume error: '' @ err @ '')''"
| "kafka_error_debug api (Rebalance err) =
     ''KafkaError (Rebalance error: '' @ error_code_display (rd_kafka_err2str api) err @ '')''"
| "kafka_error_debug api (Seek err) = ''KafkaError (Seek error: '' @ err @ '')''"
| "kafka_error_debug api (SetPartitionOffset err) =
     ''KafkaError (Set partition offset error: '' @ error_code_display (rd_kafka_err2str api) err @ '')''"
| "kafka_error_debug api (StoreOffset err) =
     ''KafkaError (Store offset error: '' @ error_code_display (rd_kafka_err2str api) err @ '')''"
| "kafka_error_debug api (Subscription err) = ''KafkaError (Subscription error: '' @ err @ '')''"
| "kafka_error_debug api (Transaction err) =
     ''KafkaError (Transaction error: '' @ rdkafka_error_display api err @ '')''"
| "kafka_error_debug api (MockClusterError err) =
     ''KafkaError (Mock cluster error: '' @ error_code_display (rd_kafka_err2str api) err @ '')''"

fun kafka_error_display :: "error_api \<Rightarrow> KafkaError \<Rightarrow> bytes" where
  "kafka_error_display api (AdminOp err) =
     ''Admin operation error: '' @ error_code_display (rd_kafka_err2str api) err"
| "kafka_error_display api (AdminOpCreation err) = ''Admin operation creation error: '' @ err"
| "kafka_error_display api Canceled = ''KafkaError (Client dropped)''"
| "kafka_error_display api (ClientConfigError _ desc key value) =
     ''Client config error: '' @ desc @ '' '' @ key @ '' '' @ value"
| "kafka_error_display api (ClientCreation err) = ''Client creation error: '' @ err"
| "kafka_error_display api (ConsumerCommit err) =
     ''Consumer commit error: '' @ error_code_display (rd_kafka_err2str api) err"
| "kafka_error_display api (ConsumerQueueClose err) =
     ''Consumer queue close error: '' @ error_code_display (rd_kafka_err2str api) err"
| "kafka_error_display api (Flush err) =
     ''Flush error: '' @ error_code_display (rd_kafka_err2str api) err"
| "kafka_error_display api (Global err) =
     ''Global error: '' @ error_code_display (rd_kafka_err2str api) err"
| "kafka_error_display api (GroupListFetch err) =
     ''Group list fetch error: '' @ error_code_display (rd_kafka_err2str api) err"
| "kafka_error_display api (MessageConsumption err) =
     ''Message consumption error: '' @ error_code_display (rd_kafka_err2str api) err"
| "kafka_error_display api (MessageConsumptionFatal err) =
     ''(Fatal) Message consumption error: '' @ error_code_display (rd_kafka_err2str api) err"
| "kafka_error_display api (MessageProduction err) =
     ''Message production error: '' @ error_code_display (rd_kafka_err2str api) err"
| "kafka_error_display api (MetadataFetch err) =
     ''Meta data fetch error: '' @ error_code_display (rd_kafka_err2str api) err"
| "kafka_error_display api NoMessageReceived = ''No message received within the given poll interval''"
| "kafka_error_display api (Nul _) = ''FFI nul error''"
| "kafka_error_display api (OffsetFetch err) =
     ''Offset fetch error: '' @ error_code_display (rd_kafka_err2str api) err"
| "kafka_error_display api (PartitionEOF part_n) = ''Partition EOF: '' @ show_int part_n"
| "kafka_error_display api (PauseResume err) = ''Pause/resume error: '' @ err"
| "kafka_error_display api (Rebalance err) =
     ''Rebalance error: '' @ error_code_display (rd_kafka_err2str api) err"
| "kafka_error_display api (Seek err) = ''Seek error: '' @ err"
| "kafka_error_display api (SetPartitionOffset err) =
     ''Set partition offset error: '' @ error_code_display (rd_kafka_err2str api) err"
| "kafka_error_display api (StoreOffset err) =
     ''Store offset error: '' @ error_code_display (rd_kafka_err2str api) err"
| "kafka_error_display api (Subscription err) = ''Subscription error: '' @ err"
| "kafka_error_display api (Transaction err) =
     ''Transaction error: '' @ rdkafka_error_display api err"
| "kafka_error_display api (MockClusterError err) =
     ''Mock cluster error: '' @ error_code_display (rd_kafka_err2str api) err"

text \<open>\<open>Error::source\<close> returns a trait object, here one of the two error types that occur.\<close>

datatype dyn_error = Dyn_ErrorCode RDKafkaErrorCode | Dyn_RDKafkaError RDKafkaError

fun kafka_error_source :: "KafkaError \<Rightarrow> dyn_error option" where
  "kafka_error_source (AdminOp _) = None"
| "kafka_error_source (AdminOpCreation _) = None"
| "kafka_error_source Canceled = None"
| "kafka_error_source (ClientConfigError _ _ _ _) = None"
| "kafka_error_source (ClientCreation _) = None"
| "kafka_error_source (ConsumerCommit err) = Some (Dyn_ErrorCode err)"
| "kafka_error_source (ConsumerQueueClose err) = Some (Dyn_ErrorCode err)"
| "kafka_error_source (Flush err) = Some (Dyn_ErrorCode err)"
| "kafka_error_source (Global err) = Some (Dyn_ErrorCode err)"
| "kafka_error_source (GroupListFetch err) = Some (Dyn_ErrorCode err)"
| "kafka_error_source (MessageConsumption err) = Some (Dyn_ErrorCode err)"
| "kafka_error_source (MessageConsumptionFatal err) = Some (Dyn_ErrorCode err)"
| "kafka_error_source (MessageProduction err) = Some (Dyn_ErrorCode err)"
| "kafka_error_source (MetadataFetch err) = Some (Dyn_ErrorCode err)"
| "kafka_error_source NoMessageReceived = None"
| "kafka_error_source (Nul _) = None"
| "kafka_error_source (OffsetFetch err) = Some (Dyn_ErrorCode err)"
| "kafka_error_source (PartitionEOF _) = None"
| "kafka_error_source (PauseResume _) = None"
| "kafka_error_source (Rebalance err) = Some (Dyn_ErrorCode err)"
| "kafka_error_source (Seek _) = None"
| "kafka_error_source (SetPartitionOffset err) = Some (Dyn_ErrorCode err)"
| "kafka_error_source (StoreOffset err) = Some (Dyn_ErrorCode err)"
| "kafka_error_source (Subscription _) = None"
| "kafka_error_source (Transaction err) = Some (Dyn_RDKafkaError err)"
| "kafka_error_source (MockClusterError err) = Some (Dyn_ErrorCode err)"

definition kafka_error_from_nul :: "nul_error \<Rightarrow> KafkaError" where
  "kafka_error_from_nul err = Nul err"

fun rdkafka_error_code :: "error_api \<Rightarrow> KafkaError \<Rightarrow> RDKafkaErrorCode option" where
  "rdkafka_error_code api (AdminOp _) = None"
| "rdkafka_error_code api (AdminOpCreation _) = None"
| "rdkafka_error_code api Canceled = None"
| "rdkafka_error_code api (ClientConfigError _ _ _ _) = None"
| "rdkafka_error_code api (ClientCreation _) = None"
| "rdkafka_error_code api (ConsumerCommit err) = Some err"
| "rdkafka_error_code api (ConsumerQueueClose err) = Some err"
| "rdkafka_error_code api (Flush err) = Some err"
| "rdkafka_error_code api (Global err) = Some err"
| "rdkafka_error_code api (GroupListFetch err) = Some err"
| "rdkafka_error_code api (MessageConsumption err) = Some err"
| "rdkafka_error_code api (MessageConsumptionFatal err) = Some err"
| "rdkafka_error_code api (MessageProduction err) = Some err"
| "rdkafka_error_code api (MetadataFetch err) = Some err"
| "rdkafka_error_code api NoMessageReceived = None"
| "rdkafka_error_code api (Nul _) = None"
| "rdkafka_error_code api (OffsetFetch err) = Some err"
| "rdkafka_error_code api (PartitionEOF _) = None"
| "rdkafka_error_code api (PauseResume _) = None"
| "rdkafka_error_code api (Rebalance err) = Some err"
| "rdkafka_error_code api (Seek _) = None"
| "rdkafka_error_code api (SetPartitionOffset err) = Some err"
| "rdkafka_error_code api (StoreOffset err) = Some err"
| "rdkafka_error_code api (Subscription _) = None"
| "rdkafka_error_code api (Transaction err) = Some (rdkafka_error_code_of api err)"
| "rdkafka_error_code api (MockClusterError err) = Some err"

text \<open>The derived \<open>PartialEq\<close> compares fields; transaction errors compare by their code.\<close>

definition kafka_error_eq :: "error_api \<Rightarrow> KafkaError \<Rightarrow> KafkaError \<Rightarrow> bool" where
  "kafka_error_eq api e e' =
     (case (e, e') of
        (Transaction err, Transaction err') \<Rightarrow> rdkafka_error_eq api err err'
      | _ \<Rightarrow> e = e')"

section \<open>Facts\<close>

text \<open>
  The contract of \<open>IsError\<close> as the crate uses it: a value \<open>ok\<close> is the only one that is no
  error, so \<open>if v.is_error() { return Err(..) }\<close> guards exactly the success path.
\<close>

locale is_error =
  fixes is_error :: "'a \<Rightarrow> bool" and ok :: 'a
  assumes is_error_iff [simp]: "is_error v \<longleftrightarrow> v \<noteq> ok"
begin

definition check :: "('a \<Rightarrow> 'e) \<Rightarrow> 'a \<Rightarrow> 'e + unit" where
  "check mk v = (if is_error v then Err (mk v) else Ok ())"

lemma check_Ok_iff: "check mk v = Ok () \<longleftrightarrow> v = ok"
  by (simp add: check_def)

lemma check_Err_iff: "check mk v = Err e \<longleftrightarrow> v \<noteq> ok \<and> e = mk v"
  by (auto simp: check_def)

end

interpretation resp_err: is_error resp_err_is_error RD_KAFKA_RESP_ERR_NO_ERROR
  by unfold_locales (simp add: resp_err_is_error_def)

interpretation conf_res: is_error conf_res_is_error RD_KAFKA_CONF_OK
  by unfold_locales (simp add: conf_res_is_error_def)

interpretation rdkafka_err: is_error rdkafka_error_is_error "RDKafkaError None"
  by unfold_locales (simp add: rdkafka_error_is_error_def split: RDKafkaError.splits)

lemma rdkafka_error_from_ptr_simps [simp]:
  "rdkafka_error_from_ptr 0 = RDKafkaError None"
  "p \<noteq> 0 \<Longrightarrow> rdkafka_error_from_ptr p = RDKafkaError (Some p)"
  by (simp_all add: rdkafka_error_from_ptr_def native_ptr_def)

lemma rdkafka_error_is_error_from_ptr [simp]:
  "rdkafka_error_is_error (rdkafka_error_from_ptr p) \<longleftrightarrow> p \<noteq> 0"
  by (cases "p = 0") simp_all

lemma rdkafka_error_ptr_from_ptr [simp]: "rdkafka_error_ptr (rdkafka_error_from_ptr p) = p"
  by (cases "p = 0") (simp_all add: rdkafka_error_ptr_def)

lemma into_code_NoError_iff:
  "e \<in> set RDKafkaRespErr_variants \<Longrightarrow> into_code e = EC_NoError \<longleftrightarrow> e = RD_KAFKA_RESP_ERR_NO_ERROR"
  by (cases e) (simp add: into_code_variant)

text \<open>The code that \<open>rdkafka_error_code\<close> reports is the code of the error's source: it
  is absent exactly when there is no source, and for a transaction error it is the code of
  the native error object.\<close>

theorem rdkafka_error_code_source:
  "rdkafka_error_code api e =
     map_option (\<lambda>s. case s of Dyn_ErrorCode c \<Rightarrow> c | Dyn_RDKafkaError err \<Rightarrow> rdkafka_error_code_of api err)
       (kafka_error_source e)"
  by (cases e) simp_all

text \<open>Errors that are equal for the derived \<open>PartialEq\<close> report the same code.\<close>

lemma kafka_error_eq_code:
  "kafka_error_eq api e e' \<Longrightarrow> rdkafka_error_code api e = rdkafka_error_code api e'"
  by (auto simp: kafka_error_eq_def rdkafka_error_eq_def split: KafkaError.splits)

lemma kafka_error_eq_refl [simp]: "kafka_error_eq api e e"
  by (auto simp: kafka_error_eq_def rdkafka_error_eq_def split: KafkaError.splits)

lemma kafka_error_eq_sym: "kafka_error_eq api e e' \<Longrightarrow> kafka_error_eq api e' e"
  by (auto simp: kafka_error_eq_def rdkafka_error_eq_def split: KafkaError.splits)

end
