(* ===== verification/Tpl.thy ===== *)
theory Tpl
  imports Errors
begin

text \<open>
  \<open>src/topic_partition_list.rs\<close>: offsets and their raw representation, the elements of a
  topic partition list, the operations on the list, and the conversions from and to maps
  and iterators. The native list is the C struct of \<open>bindings.rs\<close>; the functions of
  librdkafka on it are the fields of \<open>tpl_api\<close>, and \<open>tpl_api_ok\<close> states what its header
  documents of them.
\<close>

section \<open>Offsets\<close>

abbreviation PARTITION_UNASSIGNED :: int where "PARTITION_UNASSIGNED \<equiv> - 1"
abbreviation OFFSET_BEGINNING :: int where "OFFSET_BEGINNING \<equiv> - 2"
abbreviation OFFSET_END :: int where "OFFSET_END \<equiv> - 1"
abbreviation OFFSET_STORED :: int where "OFFSET_STORED \<equiv> - 1000"
abbreviation OFFSET_INVALID :: int where "OFFSET_INVALID \<equiv> - 1001"
abbreviation OFFSET_TAIL_BASE :: int where "OFFSET_TAIL_BASE \<equiv> - 2000"

datatype Offset = Beginning | End | Stored | Invalid | Offset int | OffsetTail int

definition from_raw :: "int \<Rightarrow> Offset" where
  "from_raw raw_offset =
     (if raw_offset = OFFSET_BEGINNING then Beginning
      else if raw_offset = OFFSET_END then End
      else if raw_offset = OFFSET_STORED then Stored
      else if raw_offset = OFFSET_INVALID then Invalid
      else if raw_offset \<le> OFFSET_TAIL_BASE then OffsetTail (- (raw_offset - OFFSET_TAIL_BASE))
      else Offset raw_offset)"

text \<open>The subtraction is on \<open>i64\<close>; it wraps around in a release build.\<close>

fun to_raw :: "Offset \<Rightarrow> int option" where
  "to_raw Beginning = Some OFFSET_BEGINNING"
| "to_raw End = Some OFFSET_END"
| "to_raw Stored = Some OFFSET_STORED"
| "to_raw Invalid = Some OFFSET_INVALID"
| "to_raw (Offset n) = (if n \<ge> 0 then Some n else None)"
| "to_raw (OffsetTail n) = (if n > 0 then Some (as_i64 (OFFSET_TAIL_BASE - n)) else None)"

fun offset_debug :: "Offset \<Rightarrow> bytes" where
  "offset_debug Beginning = ''Beginning''"
| "offset_debug End = ''End''"
| "offset_debug Stored = ''Stored''"
| "offset_debug Invalid = ''Invalid''"
| "offset_debug (Offset n) = ''Offset('' @ show_int n @ '')''"
| "offset_debug (OffsetTail n) = ''OffsetTail('' @ show_int n @ '')''"

text \<open>Values of the Rust type: the payload is an \<open>i64\<close>.\<close>

fun offset_typed :: "Offset \<Rightarrow> bool" where
  "offset_typed (Offset n) = i64_range n"
| "offset_typed (OffsetTail n) = i64_range n"
| "offset_typed _ = True"

section \<open>Native lists\<close>

record RDKafkaTopicPartition =
  tp_topic :: bytes
  tp_partition :: int
  tp_offset :: int
  tp_metadata :: "char ptr"
  tp_metadata_size :: nat
  tp_err :: RDKafkaRespErr

record RDKafkaTopicPartitionList =
  tpl_cnt :: int
  tpl_size :: int
  tpl_elems :: "RDKafkaTopicPartition list"

text \<open>
  An element pointer is an index into the list's array; the null pointer is \<open>None\<close>.
\<close>

record tpl_api =
  rd_kafka_topic_partition_list_new :: "int \<Rightarrow> RDKafkaTopicPartitionList option"
  rd_kafka_topic_partition_list_copy :: "RDKafkaTopicPartitionList \<Rightarrow> RDKafkaTopicPartitionList option"
  rd_kafka_topic_partition_list_add ::
    "RDKafkaTopicPartitionList \<Rightarrow> bytes \<Rightarrow> int \<Rightarrow> RDKafkaTopicPartitionList \<times> nat"
  rd_kafka_topic_partition_list_add_range ::
    "RDKafkaTopicPartitionList \<Rightarrow> bytes \<Rightarrow> int \<Rightarrow> int \<Rightarrow> RDKafkaTopicPartitionList"
  rd_kafka_topic_partition_list_set_offset ::
    "RDKafkaTopicPartitionList \<Rightarrow> bytes \<Rightarrow> int \<Rightarrow> int \<Rightarrow> RDKafkaTopicPartitionList \<times> RDKafkaRespErr"
  rd_kafka_topic_partition_list_find :: "RDKafkaTopicPartitionList \<Rightarrow> bytes \<Rightarrow> int \<Rightarrow> nat option"

section \<open>Elements\<close>

definition elem_topic :: "RDKafkaTopicPartition \<Rightarrow> bytes rust" where
  "elem_topic e = expect ''Topic name is not UTF-8'' (from_utf8 (cstr_bytes (tp_topic e)))"

definition elem_error :: "RDKafkaTopicPartition \<Rightarrow> unit KafkaResult" where
  "elem_error e =
     (let kafka_err = tp_err e in
      if resp_err_is_error kafka_err then Err (OffsetFetch (into_code kafka_err)) else Ok ())"

definition elem_partition :: "RDKafkaTopicPartition \<Rightarrow> int" where
  "elem_partition e = tp_partition e"

definition elem_offset :: "RDKafkaTopicPartition \<Rightarrow> Offset" where
  "elem_offset e = from_raw (tp_offset e)"

definition elem_set_offset ::
    "RDKafkaTopicPartition \<Rightarrow> Offset \<Rightarrow> RDKafkaTopicPartition \<times> unit KafkaResult" where
  "elem_set_offset e offset =
     (case to_raw offset of
        Some off \<Rightarrow> (e\<lparr>tp_offset := off\<rparr>, Ok ())
      | None \<Rightarrow> (e, Err (SetPartitionOffset EC_InvalidArgument)))"

definition elem_metadata :: "RDKafkaTopicPartition \<Rightarrow> bytes rust" where
  "elem_metadata e =
     expect ''Metadata is not UTF-8'' (from_utf8 (ptr_to_slice (tp_metadata e) (tp_metadata_size e)))"

definition elem_set_metadata :: "RDKafkaTopicPartition \<Rightarrow> bytes \<Rightarrow> RDKafkaTopicPartition" where
  "elem_set_metadata e metadata =
     e\<lparr>tp_metadata := Some metadata, tp_metadata_size := length metadata\<rparr>"

text \<open>\<open>&&\<close> evaluates its right operand only when the left one is true.\<close>

definition rust_and :: "bool rust \<Rightarrow> bool rust \<Rightarrow> bool rust" where
  "rust_and a b = rust_bind a (\<lambda>x. if x then b else Ret False)"

definition elem_eq :: "RDKafkaTopicPartition \<Rightarrow> RDKafkaTopicPartition \<Rightarrow> bool rust" where
  "elem_eq e e' =
     rust_and (rust_bind (elem_topic e) (\<lambda>t. rust_map (\<lambda>t'. t = t') (elem_topic e')))
       (if elem_partition e \<noteq> elem_partition e' then Ret False
        else if elem_offset e \<noteq> elem_offset e' then Ret False
        else rust_bind (elem_metadata e) (\<lambda>m. rust_map (\<lambda>m'. m = m') (elem_metadata e')))"

section \<open>Lists\<close>

type_synonym TopicPartitionList = RDKafkaTopicPartitionList

definition tpl_from_ptr :: "RDKafkaTopicPartitionList option \<Rightarrow> TopicPartitionList rust" where
  "tpl_from_ptr p = expect unwrap_none p"

definition tpl_with_capacity :: "tpl_api \<Rightarrow> nat \<Rightarrow> TopicPartitionList rust" where
  "tpl_with_capacity api capacity =
     tpl_from_ptr (rd_kafka_topic_partition_list_new api (as_i32 (int capacity)))"

definition tpl_new :: "tpl_api \<Rightarrow> TopicPartitionList rust" where
  "tpl_new api = tpl_with_capacity api 5"

definition tpl_clone :: "tpl_api \<Rightarrow> TopicPartitionList \<Rightarrow> TopicPartitionList rust" where
  "tpl_clone api tpl = tpl_from_ptr (rd_kafka_topic_partition_list_copy api tpl)"

definition tpl_count :: "TopicPartitionList \<Rightarrow> nat" where
  "tpl_count tpl = as_usize (tpl_cnt tpl)"

definition tpl_capacity :: "TopicPartitionList \<Rightarrow> nat" where
  "tpl_capacity tpl = as_usize (tpl_size tpl)"

text \<open>\<open>CString::new(topic).expect(..)\<close>\<close>

definition topic_cstring :: "bytes \<Rightarrow> bytes rust" where
  "topic_cstring topic =
     (case cstring_new topic of Inl _ \<Rightarrow> Panic ''Topic name is not UTF-8'' | Inr c \<Rightarrow> Ret c)"

definition add_partition ::
    "tpl_api \<Rightarrow> TopicPartitionList \<Rightarrow> bytes \<Rightarrow> int \<Rightarrow> (TopicPartitionList \<times> nat) rust" where
  "add_partition api tpl topic part =
     rust_map (\<lambda>topic_c. rd_kafka_topic_partition_list_add api tpl topic_c part)
       (topic_cstring topic)"

definition add_topic_unassigned ::
    "tpl_api \<Rightarrow> TopicPartitionList \<Rightarrow> bytes \<Rightarrow> (TopicPartitionList \<times> nat) rust" where
  "add_topic_unassigned api tpl topic = add_partition api tpl topic PARTITION_UNASSIGNED"

definition add_partition_range ::
    "tpl_api \<Rightarrow> TopicPartitionList \<Rightarrow> bytes \<Rightarrow> int \<Rightarrow> int \<Rightarrow> TopicPartitionList rust" where
  "add_partition_range api tpl topic start_partition stop_partition =
     rust_map (\<lambda>topic_c. rd_kafka_topic_partition_list_add_range api tpl topic_c start_partition stop_partition)
       (topic_cstring topic)"

definition set_partition_offset ::
    "tpl_api \<Rightarrow> TopicPartitionList \<Rightarrow> bytes \<Rightarrow> int \<Rightarrow> Offset
      \<Rightarrow> (TopicPartitionList \<times> unit KafkaResult) rust" where
  "set_partition_offset api tpl topic part offset =
     rust_map (\<lambda>topic_c.
       let (tpl', kafka_err) =
         (case to_raw offset of
            Some off \<Rightarrow> rd_kafka_topic_partition_list_set_offset api tpl topic_c part off
          | None \<Rightarrow> (tpl, RD_KAFKA_RESP_ERR__INVALID_ARG))
       in (tpl', if resp_err_is_error kafka_err then Err (SetPartitionOffset (into_code kafka_err)) else Ok ()))
     (topic_cstring topic)"

definition add_partition_offset ::
    "tpl_api \<Rightarrow> TopicPartitionList \<Rightarrow> bytes \<Rightarrow> int \<Rightarrow> Offset
      \<Rightarrow> (TopicPartitionList \<times> unit KafkaResult) rust" where
  "add_partition_offset api tpl topic part offset =
     rust_bind (add_partition api tpl topic part) (\<lambda>(tpl', _).
       set_partition_offset api tpl' topic part offset)"

definition find_partition ::
    "tpl_api \<Rightarrow> TopicPartitionList \<Rightarrow> bytes \<Rightarrow> int \<Rightarrow> nat option rust" where
  "find_partition api tpl topic part =
     rust_map (\<lambda>topic_c. rd_kafka_topic_partition_list_find api tpl topic_c part)
       (topic_cstring topic)"

text \<open>The loop of \<open>set_all_offsets\<close>: the elements after the first error are untouched.\<close>

fun set_offsets_loop ::
    "RDKafkaTopicPartition list \<Rightarrow> Offset \<Rightarrow> RDKafkaTopicPartition list \<times> unit KafkaResult" where
  "set_offsets_loop [] offset = ([], Ok ())"
| "set_offsets_loop (e # es) offset =
     (case elem_set_offset e offset of
        (e', Inl err) \<Rightarrow> (e' # es, Err err)
      | (e', Inr _) \<Rightarrow> (case set_offsets_loop es offset of (es', r) \<Rightarrow> (e' # es', r)))"

definition set_all_offsets :: "TopicPartitionList \<Rightarrow> Offset \<Rightarrow> TopicPartitionList \<times> unit KafkaResult" where
  "set_all_offsets tpl offset =
     (if tpl_count tpl = 0 then (tpl, Ok ())
      else
        let (es, r) = set_offsets_loop (take (tpl_count tpl) (tpl_elems tpl)) offset
        in (tpl\<lparr>tpl_elems := es @ drop (tpl_count tpl) (tpl_elems tpl)\<rparr>, r))"

definition elements :: "TopicPartitionList \<Rightarrow> RDKafkaTopicPartition list" where
  "elements tpl = (if tpl_count tpl = 0 then [] else take (tpl_count tpl) (tpl_elems tpl))"

fun topic_filter_loop :: "bytes \<Rightarrow> RDKafkaTopicPartition list \<Rightarrow> RDKafkaTopicPartition list rust" where
  "topic_filter_loop topic [] = Ret []"
| "topic_filter_loop topic (tp # tps) =
     rust_bind (elem_topic tp) (\<lambda>t.
     rust_map (\<lambda>vec. if t = topic then tp # vec else vec) (topic_filter_loop topic tps))"

definition elements_for_topic :: "TopicPartitionList \<Rightarrow> bytes \<Rightarrow> RDKafkaTopicPartition list rust" where
  "elements_for_topic tpl topic =
     (if tpl_count tpl = 0 then Ret []
      else topic_filter_loop topic (take (tpl_count tpl) (tpl_elems tpl)))"

text \<open>
  A \<open>HashMap\<close> that is built is a partial map, later insertions replacing earlier ones; one
  that is iterated over is the list of its entries in the order of the iteration.
\<close>

fun topic_map_loop ::
    "RDKafkaTopicPartition list \<Rightarrow> (bytes \<times> int \<rightharpoonup> Offset) \<Rightarrow> (bytes \<times> int \<rightharpoonup> Offset) rust" where
  "topic_map_loop [] m = Ret m"
| "topic_map_loop (e # es) m =
     rust_bind (elem_topic e) (\<lambda>t. topic_map_loop es (m((t, elem_partition e) \<mapsto> elem_offset e)))"

definition to_topic_map :: "TopicPartitionList \<Rightarrow> (bytes \<times> int \<rightharpoonup> Offset) rust" where
  "to_topic_map tpl = topic_map_loop (elements tpl) Map.empty"

fun from_topic_map_loop ::
    "tpl_api \<Rightarrow> ((bytes \<times> int) \<times> Offset) list \<Rightarrow> TopicPartitionList \<Rightarrow> TopicPartitionList KafkaResult rust" where
  "from_topic_map_loop api [] tpl = Ret (Ok tpl)"
| "from_topic_map_loop api (((topic_name, part), offset) # m) tpl =
     rust_bind (add_partition_offset api tpl topic_name part offset) (\<lambda>(tpl', r).
       case r of
         Inl err \<Rightarrow> Ret (Err err)
       | Inr _ \<Rightarrow> from_topic_map_loop api m tpl')"

definition from_topic_map ::
    "tpl_api \<Rightarrow> ((bytes \<times> int) \<times> Offset) list \<Rightarrow> TopicPartitionList KafkaResult rust" where
  "from_topic_map api topic_map =
     rust_bind (tpl_with_capacity api (length topic_map)) (from_topic_map_loop api topic_map)"

text \<open>\<open>Iterator::all\<close> stops at the first element that fails.\<close>

fun rust_all :: "('a \<Rightarrow> bool rust) \<Rightarrow> 'a list \<Rightarrow> bool rust" where
  "rust_all f [] = Ret True"
| "rust_all f (x # xs) = rust_bind (f x) (\<lambda>b. if b then rust_all f xs else Ret False)"

definition tpl_eq :: "tpl_api \<Rightarrow> TopicPartitionList \<Rightarrow> TopicPartitionList \<Rightarrow> bool rust" where
  "tpl_eq api self other =
     (if tpl_count self \<noteq> tpl_count other then Ret False
      else rust_all (\<lambda>elem.
        rust_bind (elem_topic elem) (\<lambda>topic.
        rust_bind (find_partition api other topic (elem_partition elem)) (\<lambda>found.
          case found of
            Some i \<Rightarrow> elem_eq elem (tpl_elems other ! i)
          | None \<Rightarrow> Ret False))) (elements self))"

definition collect_panic :: "error_api \<Rightarrow> bytes \<Rightarrow> int \<Rightarrow> Offset \<Rightarrow> KafkaError \<Rightarrow> string" where
  "collect_panic eapi topic part offset err =
     ''failed to set offset via collect() for '' @ topic @ '':'' @ show_int part
     @ '' (offset: '' @ offset_debug offset @ ''): '' @ kafka_error_debug eapi err"

fun from_iter_loop ::
    "tpl_api \<Rightarrow> error_api \<Rightarrow> (bytes \<times> int \<times> Offset) list \<Rightarrow> TopicPartitionList \<Rightarrow> TopicPartitionList rust" where
  "from_iter_loop api eapi [] tpl = Ret tpl"
| "from_iter_loop api eapi ((topic, part, offset) # iter) tpl =
     rust_bind (add_partition api tpl topic part) (\<lambda>(tpl', i).
       case elem_set_offset (tpl_elems tpl' ! i) offset of
         (e, Inr _) \<Rightarrow> from_iter_loop api eapi iter (tpl'\<lparr>tpl_elems := (tpl_elems tpl')[i := e]\<rparr>)
       | (_, Inl err) \<Rightarrow> Panic (collect_panic eapi topic part offset err))"

text \<open>\<open>size_hint\<close> of the iterator is its lower bound, which only sizes the allocation.\<close>

definition tpl_from_iter ::
    "tpl_api \<Rightarrow> error_api \<Rightarrow> nat \<Rightarrow> (bytes \<times> int \<times> Offset) list \<Rightarrow> TopicPartitionList rust" where
  "tpl_from_iter api eapi lower_bound iter =
     rust_bind (tpl_with_capacity api lower_bound) (from_iter_loop api eapi iter)"

definition tpl_from_iter_pairs ::
    "tpl_api \<Rightarrow> error_api \<Rightarrow> nat \<Rightarrow> ((bytes \<times> int) \<times> Offset) list \<Rightarrow> TopicPartitionList rust" where
  "tpl_from_iter_pairs api eapi lower_bound iter =
     tpl_from_iter api eapi lower_bound (map (\<lambda>((topic, part), offset). (topic, part, offset)) iter)"

section \<open>What librdkafka documents of its lists\<close>

definition new_elem :: "bytes \<Rightarrow> int \<Rightarrow> RDKafkaTopicPartition" where
  "new_elem topic part =
     \<lparr>tp_topic = topic, tp_partition = part, tp_offset = OFFSET_INVALID, tp_metadata = None,
      tp_metadata_size = 0, tp_err = RD_KAFKA_RESP_ERR_NO_ERROR\<rparr>"

definition elem_index :: "RDKafkaTopicPartition list \<Rightarrow> bytes \<Rightarrow> int \<Rightarrow> nat option" where
  "elem_index es topic part = position (\<lambda>e. tp_topic e = topic \<and> tp_partition e = part) es"

text \<open>The count field is the number of elements, an \<open>i32\<close>.\<close>

definition tpl_wf :: "RDKafkaTopicPartitionList \<Rightarrow> bool" where
  "tpl_wf l \<longleftrightarrow> tpl_cnt l = int (length (tpl_elems l)) \<and> length (tpl_elems l) < 2 ^ 31"

text \<open>
  A new list is empty; a copy has the same elements; adding appends an element with no
  offset and returns a pointer to it; a range adds every partition from start to stop
  inclusive; setting an offset and finding act on the first element with that topic and
  partition, and fail when there is none.
\<close>

definition tpl_api_ok :: "tpl_api \<Rightarrow> bool" where
  "tpl_api_ok api \<longleftrightarrow>
     (\<forall>n. \<exists>size. rd_kafka_topic_partition_list_new api n =
        Some \<lparr>tpl_cnt = 0, tpl_size = size, tpl_elems = []\<rparr>) \<and>
     (\<forall>l. tpl_wf l \<longrightarrow> (\<exists>size. rd_kafka_topic_partition_list_copy api l = Some (l\<lparr>tpl_size := size\<rparr>))) \<and>
     (\<forall>l topic part. tpl_wf l \<and> length (tpl_elems l) + 1 < 2 ^ 31 \<longrightarrow>
        (\<exists>size. rd_kafka_topic_partition_list_add api l topic part =
           (\<lparr>tpl_cnt = tpl_cnt l + 1, tpl_size = size, tpl_elems = tpl_elems l @ [new_elem topic part]\<rparr>,
            length (tpl_elems l)))) \<and>
     (\<forall>l topic a b. tpl_wf l \<and> length (tpl_elems l) + length [a..b] < 2 ^ 31 \<longrightarrow>
        (\<exists>size. rd_kafka_topic_partition_list_add_range api l topic a b =
           \<lparr>tpl_cnt = tpl_cnt l + int (length [a..b]), tpl_size = size,
            tpl_elems = tpl_elems l @ map (new_elem topic) [a..b]\<rparr>)) \<and>
     (\<forall>l topic part off. tpl_wf l \<longrightarrow>
        rd_kafka_topic_partition_list_set_offset api l topic part off =
          (case elem_index (tpl_elems l) topic part of
             None \<Rightarrow> (l, RD_KAFKA_RESP_ERR__UNKNOWN_PARTITION)
           | Some i \<Rightarrow> (l\<lparr>tpl_elems := (tpl_elems l)[i := (tpl_elems l ! i)\<lparr>tp_offset := off\<rparr>]\<rparr>,
                       RD_KAFKA_RESP_ERR_NO_ERROR))) \<and>
     (\<forall>l topic part. tpl_wf l \<longrightarrow>
        rd_kafka_topic_partition_list_find api l topic part = elem_index (tpl_elems l) topic part)"

text \<open>An instance that meets the contract, on which the hypotheses below are discharged.\<close>

definition tpl_instance :: tpl_api where
  "tpl_instance =
     \<lparr>rd_kafka_topic_partition_list_new = (\<lambda>n. Some \<lparr>tpl_cnt = 0, tpl_size = n, tpl_elems = []\<rparr>),
      rd_kafka_topic_partition_list_copy = Some,
      rd_kafka_topic_partition_list_add = (\<lambda>l topic part.
        (l\<lparr>tpl_cnt := tpl_cnt l + 1, tpl_elems := tpl_elems l @ [new_elem topic part]\<rparr>,
         length (tpl_elems l))),
      rd_kafka_topic_partition_list_add_range = (\<lambda>l topic a b.
        l\<lparr>tpl_cnt := tpl_cnt l + int (length [a..b]),
          tpl_elems := tpl_elems l @ map (new_elem topic) [a..b]\<rparr>),
      rd_kafka_topic_partition_list_set_offset = (\<lambda>l topic part off.
        case elem_index (tpl_elems l) topic part of
          None \<Rightarrow> (l, RD_KAFKA_RESP_ERR__UNKNOWN_PARTITION)
        | Some i \<Rightarrow> (l\<lparr>tpl_elems := (tpl_elems l)[i := (tpl_elems l ! i)\<lparr>tp_offset := off\<rparr>]\<rparr>,
                    RD_KAFKA_RESP_ERR_NO_ERROR)),
      rd_kafka_topic_partition_list_find = (\<lambda>l topic part. elem_index (tpl_elems l) topic part)\<rparr>"

lemma tpl_instance_ok: "tpl_api_ok tpl_instance"
  apply (auto simp: tpl_api_ok_def tpl_instance_def)
  subgoal for l by (cases l) simp
  subgoal for l by (cases l) simp
  subgoal for l by (cases l) simp
  subgoal for l by (cases l) simp
  done

section \<open>Facts on offsets\<close>

lemma as_i64_tail_wraps:
  assumes "2 ^ 63 - 2000 < n" and "i64_range n"
  shows "as_i64 (OFFSET_TAIL_BASE - n) = 2 ^ 64 - 2000 - n"
proof -
  define x where "x = OFFSET_TAIL_BASE - n + 2 ^ 63"
  have "x < 0" "- (2 ^ 64) \<le> x" using assms by (simp_all add: x_def i64_range_def)
  then have "x mod 2 ^ 64 = (x + 2 ^ 64) mod 2 ^ 64" "0 \<le> x + 2 ^ 64" "x + 2 ^ 64 < 2 ^ 64" by simp_all
  then have "x mod 2 ^ 64 = x + 2 ^ 64" by (metis mod_pos_pos_trivial)
  then show ?thesis by (simp add: as_i64_def x_def)
qed

lemma as_i64_tail:
  "0 < n \<Longrightarrow> n \<le> 2 ^ 63 - 2000 \<Longrightarrow> as_i64 (OFFSET_TAIL_BASE - n) = OFFSET_TAIL_BASE - n"
  by (rule as_i64_id) (simp add: i64_range_def)

text \<open>Reading back the raw form of an offset gives the offset, except for a tail
  offset beyond \<open>2^63 - 2000\<close>, for which \<open>OFFSET_TAIL_BASE - n\<close> overflows \<open>i64\<close> and (in a
  release build) wraps around to a positive absolute offset.\<close>

theorem offset_to_raw_from_raw:
  assumes "to_raw off = Some r" and "offset_typed off"
  shows "i64_range r \<and> (from_raw r = off \<longleftrightarrow> (\<forall>n. off = OffsetTail n \<longrightarrow> n \<le> 2 ^ 63 - 2000))"
proof (cases off)
  case (OffsetTail n)
  with assms have n: "0 < n" "i64_range n" "r = as_i64 (OFFSET_TAIL_BASE - n)"
    by (auto split: if_splits)
  show ?thesis
  proof (cases "n \<le> 2 ^ 63 - 2000")
    case True
    with n OffsetTail as_i64_range [of "OFFSET_TAIL_BASE - n"] show ?thesis
      by (simp add: as_i64_tail from_raw_def i64_range_def)
  next
    case False
    with n OffsetTail as_i64_range [of "OFFSET_TAIL_BASE - n"] show ?thesis
      by (simp add: as_i64_tail_wraps from_raw_def i64_range_def)
  qed
qed (use assms in \<open>auto simp: from_raw_def i64_range_def split: if_splits\<close>)

theorem offset_to_raw_from_raw_witness:
  "to_raw (OffsetTail 10) = Some (- 2010) \<and> i64_range (- 2010) \<and> from_raw (- 2010) = OffsetTail 10
   \<and> to_raw (OffsetTail (2 ^ 63 - 1)) = Some (2 ^ 63 - 1999)
   \<and> from_raw (2 ^ 63 - 1999) \<noteq> OffsetTail (2 ^ 63 - 1)"
proof -
  have a: "to_raw (OffsetTail 10) = Some (- 2010)" "offset_typed (OffsetTail 10)"
    and b: "to_raw (OffsetTail (2 ^ 63 - 1)) = Some (2 ^ 63 - 1999)" "offset_typed (OffsetTail (2 ^ 63 - 1))"
    by (simp_all add: as_i64_def i64_range_def)
  show ?thesis
    using a b offset_to_raw_from_raw [OF a] offset_to_raw_from_raw [OF b] by auto
qed

text \<open>Every raw offset that librdkafka can produce survives the round trip through
  \<open>Offset\<close>, except those that denote no offset: \<open>-2000\<close> (an empty tail) and the negative
  numbers above it that are none of the four named values, which \<open>to_raw\<close> rejects.\<close>

theorem offset_from_raw_to_raw:
  assumes "i64_range r"
  shows "to_raw (from_raw r) =
    (if 0 \<le> r \<or> r < OFFSET_TAIL_BASE \<or> r \<in> {OFFSET_BEGINNING, OFFSET_END, OFFSET_STORED, OFFSET_INVALID}
     then Some r else None)"
proof -
  have "r \<le> - 2000 \<Longrightarrow> as_i64 r = r" using assms by simp
  then show ?thesis by (auto simp: from_raw_def)
qed

theorem offset_from_raw_to_raw_witness:
  "i64_range (- 2500) \<and> to_raw (from_raw (- 2500)) = Some (- 2500) \<and> to_raw (from_raw (- 2000)) = None"
proof -
  have h: "i64_range (- 2500)" "i64_range (- 2000)" by (simp_all add: i64_range_def)
  show ?thesis using h offset_from_raw_to_raw [OF h(1)] offset_from_raw_to_raw [OF h(2)] by simp
qed

section \<open>Facts on lists\<close>

lemma tpl_count_wf [simp]: "tpl_wf l \<Longrightarrow> tpl_count l = length (tpl_elems l)"
  by (simp add: tpl_count_def tpl_wf_def)

lemma elements_wf [simp]: "tpl_wf l \<Longrightarrow> elements l = tpl_elems l"
  by (simp add: elements_def)

lemma topic_cstring_simps [simp]:
  "NUL \<notin> set t \<Longrightarrow> topic_cstring t = Ret t"
  "NUL \<in> set t \<Longrightarrow> topic_cstring t = Panic ''Topic name is not UTF-8''"
  by (simp_all add: topic_cstring_def)

lemma into_code_InvalidArg [simp]: "into_code RD_KAFKA_RESP_ERR__INVALID_ARG = EC_InvalidArgument"
  by (simp add: into_code_variant RDKafkaRespErr_variants_def local_resp_errs_def broker_resp_errs_def)

lemma position_append:
  "position P (xs @ ys) = (case position P xs of
     Some i \<Rightarrow> Some i | None \<Rightarrow> map_option (\<lambda>i. length xs + i) (position P ys))"
  by (induction xs) (cases "position P ys"; auto split: option.splits)+

lemma position_None_iff: "position P xs = None \<longleftrightarrow> (\<forall>x \<in> set xs. \<not> P x)"
  by (induction xs) auto

lemma position_Some_nth: "position P xs = Some i \<Longrightarrow> i < length xs \<and> P (xs ! i) \<and> (\<forall>j < i. \<not> P (xs ! j))"
  by (induction xs arbitrary: i) (auto split: if_splits simp: less_Suc_eq_0_disj nth_Cons')

lemma tpl_with_capacity_ok:
  "tpl_api_ok api \<Longrightarrow>
     \<exists>size. tpl_with_capacity api n = Ret \<lparr>tpl_cnt = 0, tpl_size = size, tpl_elems = []\<rparr>"
  by (auto simp: tpl_api_ok_def tpl_with_capacity_def tpl_from_ptr_def) (metis expect_simps(2))

lemma add_partition_ok:
  assumes "tpl_api_ok api" and "tpl_wf l" and "length (tpl_elems l) + 1 < 2 ^ 31" and "NUL \<notin> set topic"
  obtains l' where "add_partition api l topic part = Ret (l', length (tpl_elems l))"
    and "tpl_wf l'" and "tpl_elems l' = tpl_elems l @ [new_elem topic part]"
proof -
  from assms(1-3) obtain size where
    "rd_kafka_topic_partition_list_add api l topic part =
       (\<lparr>tpl_cnt = tpl_cnt l + 1, tpl_size = size, tpl_elems = tpl_elems l @ [new_elem topic part]\<rparr>,
        length (tpl_elems l))" (is "_ = (?l, _)")
    unfolding tpl_api_ok_def by blast
  with assms(4) have "add_partition api l topic part = Ret (?l, length (tpl_elems l))"
    by (simp add: add_partition_def)
  moreover from assms(2,3) have "tpl_wf ?l" by (simp add: tpl_wf_def)
  ultimately show thesis using that by simp
qed

lemma set_partition_offset_ok:
  assumes "tpl_api_ok api" and "tpl_wf l" and "NUL \<notin> set topic"
  shows "set_partition_offset api l topic part off =
    Ret (case to_raw off of
           None \<Rightarrow> (l, Err (SetPartitionOffset EC_InvalidArgument))
         | Some r \<Rightarrow>
             (case elem_index (tpl_elems l) topic part of
                None \<Rightarrow> (l, Err (SetPartitionOffset (into_code RD_KAFKA_RESP_ERR__UNKNOWN_PARTITION)))
              | Some i \<Rightarrow> (l\<lparr>tpl_elems := (tpl_elems l)[i := (tpl_elems l ! i)\<lparr>tp_offset := r\<rparr>]\<rparr>, Ok ())))"
proof -
  from assms(1,2) have "rd_kafka_topic_partition_list_set_offset api l topic part r =
      (case elem_index (tpl_elems l) topic part of
         None \<Rightarrow> (l, RD_KAFKA_RESP_ERR__UNKNOWN_PARTITION)
       | Some i \<Rightarrow> (l\<lparr>tpl_elems := (tpl_elems l)[i := (tpl_elems l ! i)\<lparr>tp_offset := r\<rparr>]\<rparr>,
                   RD_KAFKA_RESP_ERR_NO_ERROR))" for r
    unfolding tpl_api_ok_def by blast
  with assms(3) show ?thesis
    by (auto simp: set_partition_offset_def resp_err_is_error_def split: option.splits)
qed

lemma find_partition_ok:
  assumes "tpl_api_ok api" and "tpl_wf l" and "NUL \<notin> set topic"
  shows "find_partition api l topic part = Ret (elem_index (tpl_elems l) topic part)"
  using assms by (simp add: find_partition_def tpl_api_ok_def)

lemma tpl_wf_update [simp]:
  "length es = length (tpl_elems l) \<Longrightarrow> tpl_wf (l\<lparr>tpl_elems := es\<rparr>) = tpl_wf l"
  by (simp add: tpl_wf_def)

text \<open>Adding a partition with an offset, when the partition is not in the list yet.\<close>

lemma add_partition_offset_ok:
  assumes "tpl_api_ok api" and "tpl_wf l" and "length (tpl_elems l) + 1 < 2 ^ 31" and "NUL \<notin> set topic"
    and "to_raw off = Some r" and "elem_index (tpl_elems l) topic part = None"
  obtains l' where "add_partition_offset api l topic part off = Ret (l', Ok ())"
    and "tpl_wf l'" and "tpl_elems l' = tpl_elems l @ [(new_elem topic part)\<lparr>tp_offset := r\<rparr>]"
proof -
  obtain l1 where l1: "add_partition api l topic part = Ret (l1, length (tpl_elems l))" "tpl_wf l1"
      "tpl_elems l1 = tpl_elems l @ [new_elem topic part]"
    using assms(1-4) by (rule add_partition_ok)
  have i: "elem_index (tpl_elems l1) topic part = Some (length (tpl_elems l))"
    using assms(6) l1(3) by (simp add: elem_index_def position_append new_elem_def)
  show thesis
    by (rule that [of "l1\<lparr>tpl_elems := tpl_elems l @ [(new_elem topic part)\<lparr>tp_offset := r\<rparr>]\<rparr>"])
      (use l1 i assms(5) in \<open>simp_all add: add_partition_offset_def set_partition_offset_ok [OF assms(1) _ assms(4)]
         list_update_append\<close>)
qed

lemma add_partition_offset_unrepresentable:
  assumes "tpl_api_ok api" and "tpl_wf l" and "length (tpl_elems l) + 1 < 2 ^ 31" and "NUL \<notin> set topic"
    and "to_raw off = None"
  shows "\<exists>l'. add_partition_offset api l topic part off = Ret (l', Err (SetPartitionOffset EC_InvalidArgument))"
proof -
  obtain l1 where "add_partition api l topic part = Ret (l1, length (tpl_elems l))" "tpl_wf l1"
    using assms(1-4) by (rule add_partition_ok)
  with assms(5) show ?thesis
    by (simp add: add_partition_offset_def set_partition_offset_ok [OF assms(1) _ assms(4)])
qed

text \<open>Entries of a map that the crate can turn into a list.\<close>

definition entry_elem :: "(bytes \<times> int) \<times> Offset \<Rightarrow> RDKafkaTopicPartition" where
  "entry_elem en = (case en of ((topic, part), off) \<Rightarrow> (new_elem topic part)\<lparr>tp_offset := the (to_raw off)\<rparr>)"

definition elem_key :: "RDKafkaTopicPartition \<Rightarrow> bytes \<times> int" where
  "elem_key e = (tp_topic e, tp_partition e)"

lemma elem_key_entry [simp]: "elem_key (entry_elem en) = fst en"
  by (auto simp: entry_elem_def elem_key_def new_elem_def split: prod.splits)

lemma elem_key_new [simp]: "elem_key ((new_elem topic part)\<lparr>tp_offset := r\<rparr>) = (topic, part)"
  by (simp add: elem_key_def new_elem_def)

lemma elem_index_None_iff: "elem_index es topic part = None \<longleftrightarrow> (topic, part) \<notin> elem_key ` set es"
  by (auto simp: elem_index_def position_None_iff elem_key_def)

lemma from_topic_map_loop_ok:
  assumes "tpl_api_ok api" and "tpl_wf l" and "length (tpl_elems l) + length m < 2 ^ 31"
    and "distinct (map elem_key (tpl_elems l) @ map fst m)"
    and "\<forall>((topic, part), off) \<in> set m. NUL \<notin> set topic \<and> to_raw off \<noteq> None"
  shows "\<exists>l'. from_topic_map_loop api m l = Ret (Ok l') \<and> tpl_wf l'
    \<and> tpl_elems l' = tpl_elems l @ map entry_elem m"
  using assms(2-)
proof (induction m arbitrary: l)
  case (Cons en m)
  obtain topic part off where en: "en = ((topic, part), off)" by (metis prod.collapse)
  from Cons.prems en obtain r where r: "to_raw off = Some r" "NUL \<notin> set topic" by auto
  from Cons.prems en have "elem_index (tpl_elems l) topic part = None"
    by (auto simp: elem_index_None_iff)
  then obtain l1 where l1: "add_partition_offset api l topic part off = Ret (l1, Ok ())" "tpl_wf l1"
      "tpl_elems l1 = tpl_elems l @ [(new_elem topic part)\<lparr>tp_offset := r\<rparr>]"
    using add_partition_offset_ok [OF assms(1), of l topic off r part] Cons.prems r by auto
  then have "tpl_elems l1 = tpl_elems l @ [entry_elem en]" by (simp add: en entry_elem_def r)
  with Cons.IH [of l1] Cons.prems l1 en show ?case by auto
qed simp

lemma from_topic_map_loop_err:
  assumes "tpl_api_ok api" and "tpl_wf l" and "length (tpl_elems l) + length m < 2 ^ 31"
    and "distinct (map elem_key (tpl_elems l) @ map fst m)"
    and "\<forall>((topic, part), off) \<in> set m. NUL \<notin> set topic"
    and "\<exists>en \<in> set m. to_raw (snd en) = None"
  shows "from_topic_map_loop api m l = Ret (Err (SetPartitionOffset EC_InvalidArgument))"
  using assms(2-)
proof (induction m arbitrary: l)
  case (Cons en m)
  obtain topic part off where en: "en = ((topic, part), off)" by (metis prod.collapse)
  from Cons.prems en have nul: "NUL \<notin> set topic" by auto
  show ?case
  proof (cases "to_raw off")
    case None
    with add_partition_offset_unrepresentable [OF assms(1), of l topic off part] Cons.prems nul en
    show ?thesis by auto
  next
    case (Some r)
    from Cons.prems en have "elem_index (tpl_elems l) topic part = None"
      by (auto simp: elem_index_None_iff)
    then obtain l1 where l1: "add_partition_offset api l topic part off = Ret (l1, Ok ())" "tpl_wf l1"
        "tpl_elems l1 = tpl_elems l @ [(new_elem topic part)\<lparr>tp_offset := r\<rparr>]"
      using add_partition_offset_ok [OF assms(1), of l topic off r part] Cons.prems nul Some by auto
    then have "tpl_elems l1 = tpl_elems l @ [entry_elem en]" by (simp add: en entry_elem_def Some)
    with Cons.IH [of l1] Cons.prems l1 en Some show ?thesis by auto
  qed
qed simp

lemma topic_map_loop_ok:
  "\<forall>e \<in> set es. utf8_valid (tp_topic e) \<and> NUL \<notin> set (tp_topic e) \<Longrightarrow>
     topic_map_loop es m = Ret (m ++ map_of (rev (map (\<lambda>e. (elem_key e, elem_offset e)) es)))"
  by (induction es arbitrary: m)
    (auto simp: elem_topic_def elem_key_def elem_partition_def map_add_def fun_eq_iff split: option.splits)

text \<open>C10. A map of partitions to offsets with representable offsets becomes a list, and
  reading the list back gives exactly that map, whatever order the map is iterated in.\<close>

theorem topic_map_roundtrip:
  assumes "tpl_api_ok api" and "distinct (map fst m)" and "length m < 2 ^ 31"
    and "\<forall>((topic, part), off) \<in> set m. NUL \<notin> set topic \<and> utf8_valid topic
      \<and> (\<exists>r. to_raw off = Some r \<and> from_raw r = off)"
  shows "\<exists>tpl. from_topic_map api m = Ret (Ok tpl) \<and> tpl_count tpl = length m
    \<and> to_topic_map tpl = Ret (map_of m)"
proof -
  obtain size where "tpl_with_capacity api (length m) = Ret \<lparr>tpl_cnt = 0, tpl_size = size, tpl_elems = []\<rparr>"
    (is "_ = Ret ?l") using tpl_with_capacity_ok [OF assms(1)] by blast
  moreover have "tpl_wf ?l" by (simp add: tpl_wf_def)
  ultimately obtain tpl where tpl: "from_topic_map api m = Ret (Ok tpl)" "tpl_wf tpl"
      "tpl_elems tpl = map entry_elem m"
    using from_topic_map_loop_ok [OF assms(1), of ?l m] assms(2-4)
    by (fastforce simp: from_topic_map_def)
  have "(elem_key (entry_elem en), elem_offset (entry_elem en)) = en" if "en \<in> set m" for en
  proof -
    from that assms(4) obtain r where "to_raw (snd en) = Some r" "from_raw r = snd en" by fastforce
    then have "elem_offset (entry_elem en) = snd en"
      by (cases en) (auto simp: elem_offset_def entry_elem_def)
    then show ?thesis by simp
  qed
  then have "map (\<lambda>e. (elem_key e, elem_offset e)) (tpl_elems tpl) = m"
    by (simp add: tpl(3) map_idI del: elem_key_entry)
  moreover have "\<forall>e \<in> set (tpl_elems tpl). utf8_valid (tp_topic e) \<and> NUL \<notin> set (tp_topic e)"
    using assms(4) by (fastforce simp: tpl(3) entry_elem_def new_elem_def)
  ultimately have "to_topic_map tpl = Ret (map_of (rev m))"
    using tpl(2) by (simp add: to_topic_map_def topic_map_loop_ok)
  also have "map_of (rev m) = map_of m"
    using assms(2) by (intro map_of_inject_set [THEN iffD2]) (simp_all add: rev_map [symmetric])
  finally show ?thesis using tpl by (auto simp: tpl_wf_def)
qed

theorem topic_map_roundtrip_witness:
  "\<exists>tpl. from_topic_map tpl_instance [((''t'', 0), Offset 7), ((''t'', 1), End)] = Ret (Ok tpl)
     \<and> tpl_count tpl = length [((''t'', 0 :: int), Offset 7), ((''t'', 1), End)]
     \<and> to_topic_map tpl = Ret (map_of [((''t'', 0), Offset 7), ((''t'', 1), End)])"
proof (rule topic_map_roundtrip [OF tpl_instance_ok])
  have "utf8_valid ''t''" by (rule utf8_valid_ascii) (simp add: ascii_def byte_val_def)
  then show "\<forall>((topic, part), off) \<in> set [((''t'', 0), Offset 7), ((''t'', 1), End)].
      NUL \<notin> set topic \<and> utf8_valid topic \<and> (\<exists>r. to_raw off = Some r \<and> from_raw r = off)"
    by (simp add: from_raw_def)
qed simp_all

text \<open>An offset that librdkafka cannot represent makes the conversion fail with
  \<open>SetPartitionOffset(InvalidArgument)\<close>; no list is returned.\<close>

theorem from_topic_map_rejects:
  assumes "tpl_api_ok api" and "distinct (map fst m)" and "length m < 2 ^ 31"
    and "\<forall>en \<in> set m. NUL \<notin> set (fst (fst en))" and "\<exists>en \<in> set m. to_raw (snd en) = None"
  shows "from_topic_map api m = Ret (Err (SetPartitionOffset EC_InvalidArgument))"
proof -
  obtain size where "tpl_with_capacity api (length m) = Ret \<lparr>tpl_cnt = 0, tpl_size = size, tpl_elems = []\<rparr>"
    (is "_ = Ret ?l") using tpl_with_capacity_ok [OF assms(1)] by blast
  moreover have "tpl_wf ?l" by (simp add: tpl_wf_def)
  moreover have "\<forall>((topic, part), off) \<in> set m. NUL \<notin> set topic" using assms(4) by fastforce
  ultimately show ?thesis
    using from_topic_map_loop_err [OF assms(1), of ?l m] assms(2,3,5) by (simp add: from_topic_map_def)
qed

theorem from_topic_map_rejects_witness:
  "from_topic_map tpl_instance [((''t'', 0), Offset 7), ((''t'', 1), Offset (- 5))]
     = Ret (Err (SetPartitionOffset EC_InvalidArgument))"
  by (rule from_topic_map_rejects [OF tpl_instance_ok]) simp_all

lemma set_offsets_loop_Some:
  "to_raw off = Some r \<Longrightarrow> set_offsets_loop es off = (map (\<lambda>e. e\<lparr>tp_offset := r\<rparr>) es, Ok ())"
  by (induction es) (simp_all add: elem_set_offset_def)

lemma set_offsets_loop_None:
  "to_raw off = None \<Longrightarrow> es \<noteq> [] \<Longrightarrow>
     set_offsets_loop es off = (es, Err (SetPartitionOffset EC_InvalidArgument))"
  by (cases es) (simp_all add: elem_set_offset_def)

lemma set_all_offsets_wf:
  assumes "tpl_wf tpl"
  shows "set_all_offsets tpl off =
    (case to_raw off of
       Some r \<Rightarrow> (tpl\<lparr>tpl_elems := map (\<lambda>e. e\<lparr>tp_offset := r\<rparr>) (tpl_elems tpl)\<rparr>, Ok ())
     | None \<Rightarrow> (tpl, if tpl_elems tpl = [] then Ok () else Err (SetPartitionOffset EC_InvalidArgument)))"
  using assms
  by (auto simp: set_all_offsets_def set_offsets_loop_Some set_offsets_loop_None split: option.splits)

text \<open>\<open>set_all_offsets\<close> is all or nothing: on a representable offset every element gets
  it and keeps its other fields, otherwise (unless the list is empty) the list is
  unchanged and the error is reported.\<close>

theorem set_all_offsets_atomic:
  assumes "tpl_wf tpl"
  shows "set_all_offsets tpl off =
    (case to_raw off of
       Some r \<Rightarrow> (tpl\<lparr>tpl_elems := map (\<lambda>e. e\<lparr>tp_offset := r\<rparr>) (tpl_elems tpl)\<rparr>, Ok ())
     | None \<Rightarrow> (tpl, if tpl_elems tpl = [] then Ok () else Err (SetPartitionOffset EC_InvalidArgument)))"
  using assms by (rule set_all_offsets_wf)

theorem set_all_offsets_atomic_witness:
  "tpl_wf \<lparr>tpl_cnt = 1, tpl_size = 1, tpl_elems = [new_elem ''t'' 0]\<rparr> \<and>
   set_all_offsets \<lparr>tpl_cnt = 1, tpl_size = 1, tpl_elems = [new_elem ''t'' 0]\<rparr> (Offset (- 5)) =
     (\<lparr>tpl_cnt = 1, tpl_size = 1, tpl_elems = [new_elem ''t'' 0]\<rparr>, Err (SetPartitionOffset EC_InvalidArgument))"
proof -
  have h: "tpl_wf \<lparr>tpl_cnt = 1, tpl_size = 1, tpl_elems = [new_elem ''t'' 0]\<rparr>" by (simp add: tpl_wf_def)
  show ?thesis using h set_all_offsets_atomic [OF h, of "Offset (- 5)"] by simp
qed

text \<open>Elements whose texts the crate can read without panicking.\<close>

definition elem_readable :: "RDKafkaTopicPartition \<Rightarrow> bool" where
  "elem_readable e \<longleftrightarrow> NUL \<notin> set (tp_topic e) \<and> utf8_valid (tp_topic e)
     \<and> utf8_valid (ptr_to_slice (tp_metadata e) (tp_metadata_size e))"

text \<open>What \<open>PartialEq\<close> compares.\<close>

definition elem_view :: "RDKafkaTopicPartition \<Rightarrow> (bytes \<times> int) \<times> Offset \<times> bytes" where
  "elem_view e = (elem_key e, elem_offset e, ptr_to_slice (tp_metadata e) (tp_metadata_size e))"

lemma elem_topic_readable [simp]: "elem_readable e \<Longrightarrow> elem_topic e = Ret (tp_topic e)"
  by (simp add: elem_readable_def elem_topic_def)

lemma elem_eq_readable:
  "elem_readable e \<Longrightarrow> elem_readable e' \<Longrightarrow> elem_eq e e' = Ret (elem_view e = elem_view e')"
  by (auto simp: elem_eq_def rust_and_def elem_view_def elem_key_def elem_partition_def
      elem_metadata_def elem_readable_def elem_topic_def)

lemma topic_filter_loop_ok:
  "\<forall>e \<in> set es. elem_readable e \<Longrightarrow>
     topic_filter_loop topic es = Ret (filter (\<lambda>e. tp_topic e = topic) es)"
  by (induction es) auto

lemma topic_filter_loop_panic:
  "topic_filter_loop topic es = Panic msg \<longleftrightarrow>
     msg = ''Topic name is not UTF-8'' \<and> (\<exists>e \<in> set es. \<not> utf8_valid (cstr_bytes (tp_topic e)))"
proof (induction es)
  case (Cons e es)
  show ?case
  proof (cases "utf8_valid (cstr_bytes (tp_topic e))")
    case True
    with Cons show ?thesis
      by (cases "topic_filter_loop topic es") (auto simp: elem_topic_def)
  qed (auto simp: elem_topic_def from_utf8_def)
qed simp

text \<open>\<open>elements_for_topic\<close> returns the elements with that topic, in list order, when
  every topic in the list is UTF-8 (those of other topics too), and panics otherwise.\<close>

theorem elements_for_topic_filter:
  assumes "tpl_wf tpl"
  shows "elements_for_topic tpl topic =
    (if \<forall>e \<in> set (tpl_elems tpl). utf8_valid (cstr_bytes (tp_topic e))
     then Ret (filter (\<lambda>e. cstr_bytes (tp_topic e) = topic) (tpl_elems tpl))
     else Panic ''Topic name is not UTF-8'')"
proof -
  have loop: "topic_filter_loop topic es = Ret (filter (\<lambda>e. cstr_bytes (tp_topic e) = topic) es)"
    if "\<forall>e \<in> set es. utf8_valid (cstr_bytes (tp_topic e))" for es
    using that by (induction es) (auto simp: elem_topic_def)
  show ?thesis
    using assms by (auto simp: elements_for_topic_def loop topic_filter_loop_panic)
qed

theorem elements_for_topic_filter_witness:
  "tpl_wf \<lparr>tpl_cnt = 2, tpl_size = 5, tpl_elems = [new_elem [] 0, new_elem [CHR 0xFF] 1]\<rparr> \<and>
   elements_for_topic \<lparr>tpl_cnt = 2, tpl_size = 5, tpl_elems = [new_elem [] 0, new_elem [CHR 0xFF] 1]\<rparr> []
     = Panic ''Topic name is not UTF-8''"
proof -
  have h: "tpl_wf \<lparr>tpl_cnt = 2, tpl_size = 5, tpl_elems = [new_elem [] 0, new_elem [CHR 0xFF] 1]\<rparr>"
    by (simp add: tpl_wf_def)
  have "\<not> utf8_valid (cstr_bytes [CHR 0xFF])" by code_simp
  with h elements_for_topic_filter [OF h, of "[]"] show ?thesis by (simp add: new_elem_def)
qed

section \<open>Equality of lists\<close>

lemma rust_all_Ret: "\<forall>x \<in> set xs. f x = Ret (P x) \<Longrightarrow> rust_all f xs = Ret (list_all P xs)"
  by (induction xs) auto

lemma elem_index_Some:
  "elem_index es topic part = Some i \<Longrightarrow> i < length es \<and> elem_key (es ! i) = (topic, part)"
  unfolding elem_index_def by (auto dest: position_Some_nth simp: elem_key_def)

lemma tpl_eq_views:
  assumes "tpl_api_ok api" and "tpl_wf a" and "tpl_wf b"
    and "\<forall>e \<in> set (tpl_elems a) \<union> set (tpl_elems b). elem_readable e"
    and "distinct (map elem_key (tpl_elems b))"
  shows "tpl_eq api a b =
    Ret (length (tpl_elems a) = length (tpl_elems b)
         \<and> elem_view ` set (tpl_elems a) \<subseteq> elem_view ` set (tpl_elems b))"
proof -
  define f where "f elem = rust_bind (elem_topic elem) (\<lambda>topic.
      rust_bind (find_partition api b topic (elem_partition elem)) (\<lambda>found.
        case found of Some i \<Rightarrow> elem_eq elem (tpl_elems b ! i) | None \<Rightarrow> Ret False))" for elem
  have f: "f e = Ret (elem_view e \<in> elem_view ` set (tpl_elems b))" if e: "e \<in> set (tpl_elems a)" for e
  proof -
    have r: "elem_readable e" and nul: "NUL \<notin> set (tp_topic e)"
      using e assms(4) by (auto simp: elem_readable_def)
    let ?i = "elem_index (tpl_elems b) (tp_topic e) (tp_partition e)"
    have fe: "f e = (case ?i of Some i \<Rightarrow> elem_eq e (tpl_elems b ! i) | None \<Rightarrow> Ret False)"
      using r by (simp add: f_def elem_partition_def find_partition_ok [OF assms(1,3) nul])
    show ?thesis
    proof (cases ?i)
      case None
      then have "elem_key e \<notin> elem_key ` set (tpl_elems b)"
        by (simp add: elem_index_None_iff elem_key_def)
      then have "elem_view e \<notin> elem_view ` set (tpl_elems b)" by (auto simp: elem_view_def)
      with None fe show ?thesis by simp
    next
      case (Some i)
      then have i: "i < length (tpl_elems b)" "elem_key (tpl_elems b ! i) = elem_key e"
        using elem_index_Some by (fastforce simp: elem_key_def)+
      have "elem_view e \<in> elem_view ` set (tpl_elems b) \<longleftrightarrow> elem_view e = elem_view (tpl_elems b ! i)"
      proof
        assume "elem_view e \<in> elem_view ` set (tpl_elems b)"
        then obtain j where j: "j < length (tpl_elems b)" "elem_view e = elem_view (tpl_elems b ! j)"
          by (metis imageE in_set_conv_nth)
        then have "elem_key (tpl_elems b ! j) = elem_key (tpl_elems b ! i)"
          using i by (simp add: elem_view_def)
        then have "j = i" using i(1) j(1) nth_eq_iff_index_eq [OF assms(5), of j i] by simp
        with j show "elem_view e = elem_view (tpl_elems b ! i)" by simp
      qed (use i in auto)
      moreover have "elem_readable (tpl_elems b ! i)" using i(1) assms(4) by auto
      ultimately show ?thesis using Some fe r by (simp add: elem_eq_readable)
    qed
  qed
  have "rust_all f (tpl_elems a) = Ret (list_all (\<lambda>e. elem_view e \<in> elem_view ` set (tpl_elems b)) (tpl_elems a))"
    using f by (intro rust_all_Ret) blast
  then show ?thesis
    using assms(2,3) by (auto simp: tpl_eq_def f_def [abs_def] list_all_iff)
qed

text \<open>On lists without duplicate partitions, \<open>PartialEq\<close> is symmetric: it holds exactly
  when both lists hold the same entries, in whatever order.\<close>

theorem tpl_eq_symmetric:
  assumes "tpl_api_ok api" and "tpl_wf a" and "tpl_wf b"
    and "\<forall>e \<in> set (tpl_elems a) \<union> set (tpl_elems b). elem_readable e"
    and "distinct (map elem_key (tpl_elems a))" and "distinct (map elem_key (tpl_elems b))"
  shows "tpl_eq api a b = Ret (elem_view ` set (tpl_elems a) = elem_view ` set (tpl_elems b))
    \<and> tpl_eq api a b = tpl_eq api b a"
proof -
  let ?V = "\<lambda>l. elem_view ` set (tpl_elems l)"
  have dist: "distinct (map elem_view es)" if "distinct (map elem_key es)" for es
    using that by (auto simp: distinct_map inj_on_def elem_view_def)
  have card: "card (?V l) = length (tpl_elems l)" if "distinct (map elem_key (tpl_elems l))" for l
    using distinct_card [OF dist [OF that]] by simp
  have iff: "(length (tpl_elems x) = length (tpl_elems y) \<and> ?V x \<subseteq> ?V y) \<longleftrightarrow> ?V x = ?V y"
    if "distinct (map elem_key (tpl_elems x))" "distinct (map elem_key (tpl_elems y))" for x y
    using card [OF that(1)] card [OF that(2)] card_subset_eq [of "?V y" "?V x"] by auto
  have "tpl_eq api a b = Ret (?V a = ?V b)" "tpl_eq api b a = Ret (?V b = ?V a)"
    using tpl_eq_views [OF assms(1-4,6)] tpl_eq_views [OF assms(1,3,2), of] assms(4-6)
      iff [OF assms(5,6)] iff [OF assms(6,5)] by (auto simp: Un_commute)
  then show ?thesis by auto
qed

definition sample_tpl :: "(int \<times> int) list \<Rightarrow> TopicPartitionList" where
  "sample_tpl xs =
     \<lparr>tpl_cnt = int (length xs), tpl_size = 5,
      tpl_elems = map (\<lambda>(part, off). (new_elem ''t'' part)\<lparr>tp_offset := off\<rparr>) xs\<rparr>"

lemma sample_elem_readable: "elem_readable ((new_elem ''t'' part)\<lparr>tp_offset := off\<rparr>)"
proof -
  have "utf8_valid ''t''" by (rule utf8_valid_ascii) (simp add: ascii_def byte_val_def)
  then show ?thesis by (simp add: new_elem_def elem_readable_def ptr_to_slice_def)
qed

lemma sample_elem_topic: "elem_topic ((new_elem ''t'' part)\<lparr>tp_offset := off\<rparr>) = Ret ''t''"
  using elem_topic_readable [OF sample_elem_readable, of off part] by (simp add: new_elem_def)

theorem tpl_eq_symmetric_witness:
  "tpl_eq tpl_instance (sample_tpl [(0, 5), (1, 6)]) (sample_tpl [(1, 6), (0, 5)]) = Ret True"
proof -
  have "tpl_eq tpl_instance (sample_tpl [(0, 5), (1, 6)]) (sample_tpl [(1, 6), (0, 5)]) =
      Ret (elem_view ` set (tpl_elems (sample_tpl [(0, 5), (1, 6)]))
           = elem_view ` set (tpl_elems (sample_tpl [(1, 6), (0, 5)])))"
    using tpl_eq_symmetric [OF tpl_instance_ok, of "sample_tpl [(0, 5), (1, 6)]" "sample_tpl [(1, 6), (0, 5)]"]
    by (simp add: sample_tpl_def tpl_wf_def sample_elem_readable)
  then show ?thesis by (auto simp: sample_tpl_def)
qed

text \<open>With duplicate entries \<open>PartialEq\<close> is not symmetric: every element is compared
  with the first entry of its partition in the other list only.\<close>

theorem tpl_eq_duplicates_asymmetric:
  "tpl_eq tpl_instance (sample_tpl [(0, 5), (0, 5)]) (sample_tpl [(0, 5), (0, 6)]) = Ret True
   \<and> tpl_eq tpl_instance (sample_tpl [(0, 5), (0, 6)]) (sample_tpl [(0, 5), (0, 5)]) = Ret False"
  by (simp add: tpl_eq_def sample_tpl_def tpl_count_def as_usize_def elements_def sample_elem_topic
      elem_eq_readable [OF sample_elem_readable sample_elem_readable] find_partition_def
      tpl_instance_def elem_index_def elem_partition_def elem_view_def elem_offset_def from_raw_def)
    (auto simp: new_elem_def)

section \<open>Lists from iterators\<close>

text \<open>The list that \<open>collect()\<close> builds: one element per item, duplicates included.\<close>

definition item_elem :: "bytes \<times> int \<times> Offset \<Rightarrow> RDKafkaTopicPartition" where
  "item_elem it = (case it of (topic, part, off) \<Rightarrow> (new_elem topic part)\<lparr>tp_offset := the (to_raw off)\<rparr>)"

lemma from_iter_loop_ok:
  assumes "tpl_api_ok api" and "tpl_wf l" and "length (tpl_elems l) + length items < 2 ^ 31"
    and "\<forall>(topic, part, off) \<in> set items. NUL \<notin> set topic \<and> to_raw off \<noteq> None"
  shows "\<exists>l'. from_iter_loop api eapi items l = Ret l' \<and> tpl_wf l'
    \<and> tpl_elems l' = tpl_elems l @ map item_elem items"
  using assms(2-)
proof (induction items arbitrary: l)
  case (Cons it items)
  obtain topic part off where it: "it = (topic, part, off)" by (metis prod.collapse)
  from Cons.prems it obtain r where r: "to_raw off = Some r" "NUL \<notin> set topic" by auto
  obtain l1 where l1: "add_partition api l topic part = Ret (l1, length (tpl_elems l))" "tpl_wf l1"
      "tpl_elems l1 = tpl_elems l @ [new_elem topic part]"
    using add_partition_ok [OF assms(1), of l topic part] Cons.prems r by auto
  let ?l2 = "l1\<lparr>tpl_elems := tpl_elems l @ [(new_elem topic part)\<lparr>tp_offset := r\<rparr>]\<rparr>"
  have "tpl_wf ?l2" using l1 by simp
  moreover have "tpl_elems ?l2 = tpl_elems l @ [item_elem it]" by (simp add: it item_elem_def r)
  moreover have "from_iter_loop api eapi (it # items) l = from_iter_loop api eapi items ?l2"
    using l1 r by (simp add: it elem_set_offset_def list_update_append)
  ultimately show ?case using Cons.IH [of ?l2] Cons.prems by (simp add: split_beta)
qed simp

lemma from_iter_loop_panics:
  assumes "tpl_api_ok api" and "tpl_wf l" and "length (tpl_elems l) + length items < 2 ^ 31"
    and "\<exists>(topic, part, off) \<in> set items. NUL \<in> set topic \<or> to_raw off = None"
  shows "\<exists>msg. from_iter_loop api eapi items l = Panic msg"
  using assms(2-)
proof (induction items arbitrary: l)
  case (Cons it items)
  obtain topic part off where it: "it = (topic, part, off)" by (metis prod.collapse)
  show ?case
  proof (cases "NUL \<in> set topic")
    case True
    then show ?thesis by (simp add: it add_partition_def)
  next
    case False
    obtain l1 where l1: "add_partition api l topic part = Ret (l1, length (tpl_elems l))" "tpl_wf l1"
        "tpl_elems l1 = tpl_elems l @ [new_elem topic part]"
      using add_partition_ok [OF assms(1), of l topic part] Cons.prems False by auto
    show ?thesis
    proof (cases "to_raw off")
      case None
      with l1 show ?thesis by (simp add: it elem_set_offset_def)
    next
      case (Some r)
      let ?l2 = "l1\<lparr>tpl_elems := tpl_elems l @ [(new_elem topic part)\<lparr>tp_offset := r\<rparr>]\<rparr>"
      have "from_iter_loop api eapi (it # items) l = from_iter_loop api eapi items ?l2"
        using l1 Some by (simp add: it elem_set_offset_def list_update_append)
      then show ?thesis using Cons.IH [of ?l2] Cons.prems l1 Some False it by auto
    qed
  qed
qed simp

text \<open>\<open>collect()\<close> into a list panics exactly when some item has a topic with a NUL or
  an offset that librdkafka cannot represent; otherwise the list holds one element per
  item in iteration order with that item's own offset, even when a partition occurs twice.\<close>

theorem tpl_from_iter_elements:
  assumes "tpl_api_ok api" and "length items < 2 ^ 31"
  shows "if list_all (\<lambda>(topic, part, off). NUL \<notin> set topic \<and> to_raw off \<noteq> None) items
    then \<exists>tpl. tpl_from_iter api eapi n items = Ret tpl \<and> elements tpl = map item_elem items
    else \<exists>msg. tpl_from_iter api eapi n items = Panic msg"
proof -
  obtain size where new: "tpl_with_capacity api n = Ret \<lparr>tpl_cnt = 0, tpl_size = size, tpl_elems = []\<rparr>"
    (is "_ = Ret ?l") using tpl_with_capacity_ok [OF assms(1)] by blast
  have wf: "tpl_wf ?l" by (simp add: tpl_wf_def)
  have eq: "tpl_from_iter api eapi n items = from_iter_loop api eapi items ?l"
    by (simp add: tpl_from_iter_def new)
  show ?thesis
  proof (cases "list_all (\<lambda>(topic, part, off). NUL \<notin> set topic \<and> to_raw off \<noteq> None) items")
    case True
    then show ?thesis
      using from_iter_loop_ok [OF assms(1) wf, of items eapi] assms(2) eq
      by (auto simp: list_all_iff)
  next
    case False
    then have "\<exists>(topic, part, off) \<in> set items. NUL \<in> set topic \<or> to_raw off = None"
      by (auto simp: list_all_iff)
    with False show ?thesis
      using from_iter_loop_panics [OF assms(1) wf, of items eapi] assms(2) eq by auto
  qed
qed

theorem tpl_from_iter_elements_witness:
  "\<exists>tpl. tpl_from_iter tpl_instance error_instance 0 [(''t'', 0, Offset 5), (''t'', 0, Offset 6)] = Ret tpl
     \<and> elements tpl = map item_elem [(''t'', 0, Offset 5), (''t'', 0, Offset 6)]"
  using tpl_from_iter_elements [OF tpl_instance_ok, of "[(''t'', 0, Offset 5), (''t'', 0, Offset 6)]" error_instance 0]
  by simp

end
