(* ===== verification/Message.thy ===== *)
theory Message
  imports Tpl
begin

text \<open>
  \<open>src/message.rs\<close>: timestamps, the \<open>Headers\<close> trait with its default methods and its
  iterator, borrowed and owned headers, borrowed messages (views of a native message),
  owned messages and the conversion between them, delivery results, and the conversions
  from and to bytes. A native header list is a value of an abstract type \<open>'h\<close>; the functions
  of librdkafka on headers and messages are the fields of \<open>headers_api\<close> and \<open>message_api\<close>.
\<close>

section \<open>Timestamps\<close>

datatype Timestamp = NotAvailable | CreateTime int | LogAppendTime int

definition to_millis :: "Timestamp \<Rightarrow> int option" where
  "to_millis ts =
     (case ts of
        NotAvailable \<Rightarrow> None
      | CreateTime t \<Rightarrow> if t = - 1 then None else Some t
      | LogAppendTime t \<Rightarrow> if t = - 1 then None else Some t)"

definition timestamp_from_i64 :: "int \<Rightarrow> Timestamp" where
  "timestamp_from_i64 system_time = CreateTime system_time"

definition timestamp_from_system_time :: "int \<Rightarrow> Timestamp" where
  "timestamp_from_system_time system_time = CreateTime (millis_to_epoch system_time)"

section \<open>Conversions from and to bytes\<close>

datatype utf8_error = Utf8Error

definition slice_from_bytes :: "bytes \<Rightarrow> unit + bytes" where
  "slice_from_bytes bs = Ok bs"

definition str_from_bytes :: "bytes \<Rightarrow> utf8_error + bytes" where
  "str_from_bytes bs = (case from_utf8 bs of Some s \<Rightarrow> Ok s | None \<Rightarrow> Err Utf8Error)"

definition slice_to_bytes :: "bytes \<Rightarrow> bytes" where
  "slice_to_bytes bs = bs"

definition str_to_bytes :: "bytes \<Rightarrow> bytes" where
  "str_to_bytes s = s"

definition unit_to_bytes :: "unit \<Rightarrow> bytes" where
  "unit_to_bytes _ = []"

text \<open>
  The pair of traits \<open>ToBytes\<close> and \<open>FromBytes\<close>: what was encoded is decoded back, for the
  values of the type (every byte sequence for \<open>[u8]\<close>, UTF-8 for \<open>str\<close>).
\<close>

locale bytes_codec =
  fixes to_bytes :: "'v \<Rightarrow> bytes"
    and from_bytes :: "bytes \<Rightarrow> 'e + 'v"
    and valid :: "'v \<Rightarrow> bool"
  assumes from_to [simp]: "valid v \<Longrightarrow> from_bytes (to_bytes v) = Ok v"
begin

lemma view_encoded: "pred_option valid v \<Longrightarrow> map_option from_bytes (map_option to_bytes v) = map_option Ok v"
  by (cases v) auto

lemma to_bytes_inj: "valid v \<Longrightarrow> valid v' \<Longrightarrow> to_bytes v = to_bytes v' \<longleftrightarrow> v = v'"
  by (metis from_to sum.inject(2))

end

interpretation slice_codec: bytes_codec slice_to_bytes slice_from_bytes "\<lambda>_. True"
  by unfold_locales (simp add: slice_to_bytes_def slice_from_bytes_def)

interpretation str_codec: bytes_codec str_to_bytes str_from_bytes utf8_valid
  by unfold_locales (simp add: str_to_bytes_def str_from_bytes_def)

section \<open>Headers\<close>

record 'v Header =
  hdr_key :: bytes
  hdr_value :: "'v option"

definition header_parse :: "(bytes \<Rightarrow> 'e + 'v) \<Rightarrow> bytes Header \<Rightarrow> 'e + 'v Header" where
  "header_parse from_bytes h =
     (case hdr_value h of
        None \<Rightarrow> Ok \<lparr>hdr_key = hdr_key h, hdr_value = None\<rparr>
      | Some bs \<Rightarrow> and_then (from_bytes bs) (\<lambda>v. Ok \<lparr>hdr_key = hdr_key h, hdr_value = Some v\<rparr>))"

text \<open>
  The default methods of the trait, over the two methods \<open>count\<close> and \<open>try_get\<close> that an
  implementation provides.
\<close>

definition out_of_bounds :: "nat \<Rightarrow> nat \<Rightarrow> string" where
  "out_of_bounds n idx =
     ''headers index out of bounds: the count is '' @ show_nat n @ '' but the index is '' @ show_nat idx"

definition headers_get ::
    "('h \<Rightarrow> nat) \<Rightarrow> ('h \<Rightarrow> nat \<Rightarrow> bytes Header option rust) \<Rightarrow> 'h \<Rightarrow> nat \<Rightarrow> bytes Header rust" where
  "headers_get count try_get h idx =
     rust_bind (try_get h idx) (expect (out_of_bounds (count h) idx))"

definition headers_try_get_as ::
    "('h \<Rightarrow> nat \<Rightarrow> bytes Header option rust) \<Rightarrow> (bytes \<Rightarrow> 'e + 'v) \<Rightarrow> 'h \<Rightarrow> nat
      \<Rightarrow> ('e + 'v Header) option rust" where
  "headers_try_get_as try_get from_bytes h idx =
     rust_map (map_option (header_parse from_bytes)) (try_get h idx)"

definition headers_get_as ::
    "('h \<Rightarrow> nat) \<Rightarrow> ('h \<Rightarrow> nat \<Rightarrow> bytes Header option rust) \<Rightarrow> (bytes \<Rightarrow> 'e + 'v) \<Rightarrow> 'h \<Rightarrow> nat
      \<Rightarrow> ('e + 'v Header) rust" where
  "headers_get_as count try_get from_bytes h idx =
     rust_bind (headers_try_get_as try_get from_bytes h idx) (expect (out_of_bounds (count h) idx))"

record 'h HeadersIter =
  hi_headers :: 'h
  hi_index :: nat

definition headers_iter :: "'h \<Rightarrow> 'h HeadersIter" where
  "headers_iter h = \<lparr>hi_headers = h, hi_index = 0\<rparr>"

definition headers_iter_next ::
    "('h \<Rightarrow> nat) \<Rightarrow> ('h \<Rightarrow> nat \<Rightarrow> bytes Header option rust) \<Rightarrow> 'h HeadersIter
      \<Rightarrow> (bytes Header option \<times> 'h HeadersIter) rust" where
  "headers_iter_next count try_get it =
     (if hi_index it < count (hi_headers it)
      then rust_map (\<lambda>item. (Some item, it\<lparr>hi_index := hi_index it + 1\<rparr>))
             (headers_get count try_get (hi_headers it) (hi_index it))
      else Ret (None, it))"

lemma rust_bind_cong [fundef_cong]:
  "r = r' \<Longrightarrow> (\<And>x. r' = Ret x \<Longrightarrow> f x = g x) \<Longrightarrow> rust_bind r f = rust_bind r' g"
  by (cases r') auto

text \<open>A \<open>for\<close> loop over the iterator: call \<open>next\<close> until it returns \<open>None\<close>.\<close>

function headers_collect ::
    "('h \<Rightarrow> nat) \<Rightarrow> ('h \<Rightarrow> nat \<Rightarrow> bytes Header option rust) \<Rightarrow> 'h HeadersIter \<Rightarrow> bytes Header list rust" where
  "headers_collect count try_get it =
     rust_bind (headers_iter_next count try_get it) (\<lambda>p.
       case fst p of
         None \<Rightarrow> Ret []
       | Some item \<Rightarrow> rust_map (Cons item) (headers_collect count try_get (snd p)))"
  by pat_completeness auto
termination
  by (relation "measure (\<lambda>(count, try_get, it). count (hi_headers it) - hi_index it)")
    (auto simp: headers_iter_next_def split: if_splits)

declare headers_collect.simps [simp del]

section \<open>Native headers\<close>

record 'h headers_api =
  rd_kafka_headers_new :: "nat \<Rightarrow> 'h option"
  rd_kafka_headers_copy :: "'h \<Rightarrow> 'h option"
  rd_kafka_header_add :: "'h \<Rightarrow> bytes \<Rightarrow> int \<Rightarrow> char ptr \<Rightarrow> int \<Rightarrow> 'h \<times> RDKafkaRespErr"
  rd_kafka_header_cnt :: "'h \<Rightarrow> nat"
  rd_kafka_header_get_all :: "'h \<Rightarrow> nat \<Rightarrow> RDKafkaRespErr \<times> bytes \<times> char ptr \<times> nat"

definition result_unwrap_msg :: string where
  "result_unwrap_msg = ''called `Result::unwrap()` on an `Err` value''"

definition borrowed_count :: "'h headers_api \<Rightarrow> 'h \<Rightarrow> nat" where
  "borrowed_count api h = rd_kafka_header_cnt api h"

definition borrowed_try_get :: "'h headers_api \<Rightarrow> 'h \<Rightarrow> nat \<Rightarrow> bytes Header option rust" where
  "borrowed_try_get api h idx =
     (case rd_kafka_header_get_all api h idx of
        (err, name_ptr, value_ptr, value_size) \<Rightarrow>
          if resp_err_is_error err then Ret None
          else rust_map (\<lambda>key. Some \<lparr>hdr_key = key,
                 hdr_value = (if value_ptr \<noteq> None then Some (ptr_to_slice value_ptr value_size) else None)\<rparr>)
               (expect result_unwrap_msg (from_utf8 (cstr_bytes name_ptr))))"

datatype 'h OwnedHeaders = OwnedHeaders (oh_ptr: 'h)

definition borrowed_detach :: "'h headers_api \<Rightarrow> 'h \<Rightarrow> 'h OwnedHeaders rust" where
  "borrowed_detach api h = rust_map OwnedHeaders (expect unwrap_none (rd_kafka_headers_copy api h))"

definition owned_new_with_capacity :: "'h headers_api \<Rightarrow> nat \<Rightarrow> 'h OwnedHeaders rust" where
  "owned_new_with_capacity api initial_capacity =
     rust_map OwnedHeaders (expect unwrap_none (rd_kafka_headers_new api initial_capacity))"

definition owned_new :: "'h headers_api \<Rightarrow> 'h OwnedHeaders rust" where
  "owned_new api = owned_new_with_capacity api 5"

text \<open>The value is passed as a pointer and a length, a missing one as null.\<close>

definition owned_insert ::
    "'h headers_api \<Rightarrow> ('v \<Rightarrow> bytes) \<Rightarrow> 'h OwnedHeaders \<Rightarrow> 'v Header \<Rightarrow> 'h OwnedHeaders rust" where
  "owned_insert api to_bytes self header =
     (let (value_ptr, value_len) =
        (case hdr_value header of
           None \<Rightarrow> (None, 0)
         | Some value \<Rightarrow> (Some (to_bytes value), int (length (to_bytes value))));
        (h', err) = rd_kafka_header_add api (oh_ptr self) (hdr_key header) (int (length (hdr_key header)))
                      value_ptr value_len
      in if \<not> resp_err_is_error err then Ret (OwnedHeaders h')
         else Panic ''assertion failed: !err.is_error()'')"

definition owned_as_borrowed :: "'h OwnedHeaders \<Rightarrow> 'h" where
  "owned_as_borrowed h = oh_ptr h"

definition owned_count :: "'h headers_api \<Rightarrow> 'h OwnedHeaders \<Rightarrow> nat" where
  "owned_count api h = rd_kafka_header_cnt api (oh_ptr h)"

definition owned_try_get :: "'h headers_api \<Rightarrow> 'h OwnedHeaders \<Rightarrow> nat \<Rightarrow> bytes Header option rust" where
  "owned_try_get api h idx = borrowed_try_get api (owned_as_borrowed h) idx"

definition owned_clone :: "'h headers_api \<Rightarrow> 'h OwnedHeaders \<Rightarrow> 'h OwnedHeaders rust" where
  "owned_clone api h = rust_map OwnedHeaders (expect unwrap_none (rd_kafka_headers_copy api (oh_ptr h)))"

section \<open>Native and borrowed messages\<close>

datatype rd_kafka_timestamp_type =
    RD_KAFKA_TIMESTAMP_NOT_AVAILABLE
  | RD_KAFKA_TIMESTAMP_CREATE_TIME
  | RD_KAFKA_TIMESTAMP_LOG_APPEND_TIME

record RDKafkaMessage =
  msg_ptr :: addr
  msg_err :: RDKafkaRespErr
  msg_rkt :: addr
  msg_partition :: int
  msg_payload :: "char ptr"
  msg_len :: nat
  msg_key :: "char ptr"
  msg_key_len :: nat
  msg_offset :: int
  msg_private :: addr

record 'h message_api =
  rd_kafka_topic_name :: "addr \<Rightarrow> bytes"
  rd_kafka_message_timestamp :: "addr \<Rightarrow> int \<times> rd_kafka_timestamp_type"
  rd_kafka_message_headers :: "addr \<Rightarrow> RDKafkaRespErr \<times> 'h"

text \<open>The message and the event that owns it.\<close>

record BorrowedMessage =
  bm_ptr :: RDKafkaMessage
  bm_event :: addr

definition from_client :: "RDKafkaMessage \<Rightarrow> addr \<Rightarrow> BorrowedMessage KafkaResult" where
  "from_client p event =
     (if resp_err_is_error (msg_err p) then
        Err (if msg_err p = RD_KAFKA_RESP_ERR__PARTITION_EOF then PartitionEOF (msg_partition p)
             else MessageConsumption (into_code (msg_err p)))
      else Ok \<lparr>bm_ptr = p, bm_event = event\<rparr>)"

type_synonym DeliveryResult = "(KafkaError \<times> BorrowedMessage) + BorrowedMessage"

definition from_dr_event :: "RDKafkaMessage option \<Rightarrow> addr \<Rightarrow> DeliveryResult rust" where
  "from_dr_event ptr event =
     rust_map (\<lambda>p.
       let borrowed_message = \<lparr>bm_ptr = p, bm_event = event\<rparr> in
       if resp_err_is_error (msg_err p)
       then Err (MessageProduction (into_code (msg_err p)), borrowed_message)
       else Ok borrowed_message)
     (expect unwrap_none ptr)"

definition bm_topic_ptr :: "BorrowedMessage \<Rightarrow> addr" where
  "bm_topic_ptr m = msg_rkt (bm_ptr m)"

definition bm_key_len :: "BorrowedMessage \<Rightarrow> nat" where
  "bm_key_len m = msg_key_len (bm_ptr m)"

definition bm_payload_len :: "BorrowedMessage \<Rightarrow> nat" where
  "bm_payload_len m = msg_len (bm_ptr m)"

definition bm_key :: "BorrowedMessage \<Rightarrow> bytes option" where
  "bm_key m = ptr_to_opt_slice (msg_key (bm_ptr m)) (msg_key_len (bm_ptr m))"

definition bm_payload :: "BorrowedMessage \<Rightarrow> bytes option" where
  "bm_payload m = ptr_to_opt_slice (msg_payload (bm_ptr m)) (msg_len (bm_ptr m))"

definition bm_topic :: "'h message_api \<Rightarrow> BorrowedMessage \<Rightarrow> bytes rust" where
  "bm_topic api m =
     expect ''Topic name is not valid UTF-8'' (from_utf8 (cstr_bytes (rd_kafka_topic_name api (msg_rkt (bm_ptr m)))))"

definition bm_partition :: "BorrowedMessage \<Rightarrow> int" where
  "bm_partition m = msg_partition (bm_ptr m)"

definition bm_offset :: "BorrowedMessage \<Rightarrow> int" where
  "bm_offset m = msg_offset (bm_ptr m)"

definition bm_timestamp :: "'h message_api \<Rightarrow> BorrowedMessage \<Rightarrow> Timestamp" where
  "bm_timestamp api m =
     (case rd_kafka_message_timestamp api (msg_ptr (bm_ptr m)) of
        (timestamp, timestamp_type) \<Rightarrow>
          if timestamp = - 1 then NotAvailable
          else (case timestamp_type of
             RD_KAFKA_TIMESTAMP_NOT_AVAILABLE \<Rightarrow> NotAvailable
           | RD_KAFKA_TIMESTAMP_CREATE_TIME \<Rightarrow> CreateTime timestamp
           | RD_KAFKA_TIMESTAMP_LOG_APPEND_TIME \<Rightarrow> LogAppendTime timestamp))"

definition bm_headers :: "'h message_api \<Rightarrow> BorrowedMessage \<Rightarrow> 'h option" where
  "bm_headers api m =
     (case rd_kafka_message_headers api (msg_ptr (bm_ptr m)) of
        (err, native_headers_ptr) \<Rightarrow>
          if into_code err = EC_NoError then Some native_headers_ptr
          else if into_code err = EC_NoEnt then None
          else None)"

text \<open>The default methods \<open>payload_view\<close> and \<open>key_view\<close> of the \<open>Message\<close> trait.\<close>

definition payload_view :: "(bytes \<Rightarrow> 'e + 'v) \<Rightarrow> bytes option \<Rightarrow> ('e + 'v) option" where
  "payload_view from_bytes payload = map_option from_bytes payload"

definition key_view :: "(bytes \<Rightarrow> 'e + 'v) \<Rightarrow> bytes option \<Rightarrow> ('e + 'v) option" where
  "key_view from_bytes key = map_option from_bytes key"

section \<open>Owned messages\<close>

record 'h OwnedMessage =
  om_payload :: "bytes option"
  om_key :: "bytes option"
  om_topic :: bytes
  om_timestamp :: Timestamp
  om_partition :: int
  om_offset :: int
  om_headers :: "'h OwnedHeaders option"

definition owned_message_new ::
    "bytes option \<Rightarrow> bytes option \<Rightarrow> bytes \<Rightarrow> Timestamp \<Rightarrow> int \<Rightarrow> int \<Rightarrow> 'h OwnedHeaders option
      \<Rightarrow> 'h OwnedMessage" where
  "owned_message_new payload key topic timestamp part offset headers =
     \<lparr>om_payload = payload, om_key = key, om_topic = topic, om_timestamp = timestamp,
      om_partition = part, om_offset = offset, om_headers = headers\<rparr>"

definition detach :: "'h headers_api \<Rightarrow> 'h message_api \<Rightarrow> BorrowedMessage \<Rightarrow> 'h OwnedMessage rust" where
  "detach hapi mapi m =
     rust_bind (bm_topic mapi m) (\<lambda>topic.
     rust_map (\<lambda>headers.
       \<lparr>om_payload = bm_payload m, om_key = bm_key m, om_topic = topic, om_timestamp = bm_timestamp mapi m,
        om_partition = bm_partition m, om_offset = bm_offset m, om_headers = headers\<rparr>)
     (case bm_headers mapi m of
        None \<Rightarrow> Ret None
      | Some h \<Rightarrow> rust_map Some (borrowed_detach hapi h)))"

definition om_detach_headers :: "'h OwnedMessage \<Rightarrow> 'h OwnedMessage \<times> 'h OwnedHeaders option" where
  "om_detach_headers m = (m\<lparr>om_headers := None\<rparr>, om_headers m)"

definition om_replace_headers :: "'h OwnedMessage \<Rightarrow> 'h OwnedHeaders option \<Rightarrow> 'h OwnedMessage" where
  "om_replace_headers m headers =
     (case headers of Some h \<Rightarrow> m\<lparr>om_headers := Some h\<rparr> | None \<Rightarrow> m\<lparr>om_headers := None\<rparr>)"

definition om_set_payload :: "'h OwnedMessage \<Rightarrow> bytes option \<Rightarrow> 'h OwnedMessage" where
  "om_set_payload m payload =
     (case payload of Some p \<Rightarrow> m\<lparr>om_payload := Some p\<rparr> | None \<Rightarrow> m\<lparr>om_payload := None\<rparr>)"

definition om_set_key :: "'h OwnedMessage \<Rightarrow> bytes option \<Rightarrow> 'h OwnedMessage" where
  "om_set_key m key = (case key of Some k \<Rightarrow> m\<lparr>om_key := Some k\<rparr> | None \<Rightarrow> m\<lparr>om_key := None\<rparr>)"

definition om_set_topic :: "'h OwnedMessage \<Rightarrow> bytes \<Rightarrow> 'h OwnedMessage" where
  "om_set_topic m topic = m\<lparr>om_topic := topic\<rparr>"

definition om_set_timestamp :: "'h OwnedMessage \<Rightarrow> Timestamp \<Rightarrow> 'h OwnedMessage" where
  "om_set_timestamp m timestamp = m\<lparr>om_timestamp := timestamp\<rparr>"

definition om_set_partition :: "'h OwnedMessage \<Rightarrow> int \<Rightarrow> 'h OwnedMessage" where
  "om_set_partition m part = m\<lparr>om_partition := part\<rparr>"

definition om_set_offset :: "'h OwnedMessage \<Rightarrow> int \<Rightarrow> 'h OwnedMessage" where
  "om_set_offset m offset = m\<lparr>om_offset := offset\<rparr>"

section \<open>What librdkafka documents of headers\<close>

text \<open>
  \<open>view\<close> reads the headers of a native list in order. A new list is empty, a copy has the
  same headers, adding appends, and reading by index gives the NUL-terminated name, the
  value pointer (null for a header without value) and its size, or \<open>NOENT\<close> past the end.
\<close>

definition value_size :: "bytes option \<Rightarrow> nat" where
  "value_size v = (case v of None \<Rightarrow> 0 | Some bs \<Rightarrow> length bs)"

definition headers_api_ok :: "'h headers_api \<Rightarrow> ('h \<Rightarrow> (bytes \<times> bytes option) list) \<Rightarrow> bool" where
  "headers_api_ok api view \<longleftrightarrow>
     (\<forall>n. \<exists>h. rd_kafka_headers_new api n = Some h \<and> view h = []) \<and>
     (\<forall>h. \<exists>h'. rd_kafka_headers_copy api h = Some h' \<and> view h' = view h) \<and>
     (\<forall>h k v. \<exists>h'. rd_kafka_header_add api h k (int (length k)) v (int (value_size v))
         = (h', RD_KAFKA_RESP_ERR_NO_ERROR) \<and> view h' = view h @ [(k, v)]) \<and>
     (\<forall>h. rd_kafka_header_cnt api h = length (view h)) \<and>
     (\<forall>h i. i < length (view h) \<longrightarrow> rd_kafka_header_get_all api h i =
         (RD_KAFKA_RESP_ERR_NO_ERROR, fst (view h ! i) @ [NUL], snd (view h ! i), value_size (snd (view h ! i)))) \<and>
     (\<forall>h i. length (view h) \<le> i \<longrightarrow> fst (rd_kafka_header_get_all api h i) = RD_KAFKA_RESP_ERR__NOENT)"

text \<open>An instance: the list of names and values itself.\<close>

definition headers_instance :: "(bytes \<times> bytes option) list headers_api" where
  "headers_instance =
     \<lparr>rd_kafka_headers_new = (\<lambda>_. Some []),
      rd_kafka_headers_copy = Some,
      rd_kafka_header_add = (\<lambda>h k n v m. (h @ [(k, v)], RD_KAFKA_RESP_ERR_NO_ERROR)),
      rd_kafka_header_cnt = length,
      rd_kafka_header_get_all = (\<lambda>h i.
        if i < length h
        then (RD_KAFKA_RESP_ERR_NO_ERROR, fst (h ! i) @ [NUL], snd (h ! i), value_size (snd (h ! i)))
        else (RD_KAFKA_RESP_ERR__NOENT, [], None, 0))\<rparr>"

lemma headers_instance_ok: "headers_api_ok headers_instance (\<lambda>h. h)"
  by (simp add: headers_api_ok_def headers_instance_def)

definition header_of :: "bytes \<times> bytes option \<Rightarrow> bytes Header" where
  "header_of kv = \<lparr>hdr_key = fst kv, hdr_value = snd kv\<rparr>"

text \<open>Header names that survive being a C string: UTF-8 without NUL.\<close>

definition key_ok :: "bytes \<Rightarrow> bool" where
  "key_ok k \<longleftrightarrow> NUL \<notin> set k \<and> utf8_valid k"

section \<open>The Headers trait\<close>

text \<open>
  The contract of an implementation: on a header list that satisfies \<open>inv\<close>, \<open>count\<close> and
  \<open>try_get\<close> describe one list of contents. What follows for the default methods and the
  iterator is proved once and holds for borrowed and owned headers.
\<close>

locale headers_trait =
  fixes count :: "'h \<Rightarrow> nat"
    and try_get :: "'h \<Rightarrow> nat \<Rightarrow> bytes Header option rust"
    and inv :: "'h \<Rightarrow> bool"
    and contents :: "'h \<Rightarrow> bytes Header list"
  assumes count_contents: "inv h \<Longrightarrow> count h = length (contents h)"
    and try_get_contents:
      "inv h \<Longrightarrow> try_get h i = Ret (if i < length (contents h) then Some (contents h ! i) else None)"
begin

lemma get_contents:
  "inv h \<Longrightarrow> headers_get count try_get h i =
     (if i < length (contents h) then Ret (contents h ! i)
      else Panic (out_of_bounds (length (contents h)) i))"
  by (simp add: headers_get_def try_get_contents count_contents)

lemma get_as_contents:
  "inv h \<Longrightarrow> headers_get_as count try_get from_bytes h i =
     (if i < length (contents h) then Ret (header_parse from_bytes (contents h ! i))
      else Panic (out_of_bounds (length (contents h)) i))"
  by (simp add: headers_get_as_def headers_try_get_as_def try_get_contents count_contents)

lemma collect_from:
  assumes "inv h"
  shows "headers_collect count try_get \<lparr>hi_headers = h, hi_index = i\<rparr> = Ret (drop i (contents h))"
  using assms
proof (induction "length (contents h) - i" arbitrary: i)
  case 0
  then show ?case
    by (subst headers_collect.simps) (simp add: headers_iter_next_def count_contents)
next
  case (Suc n)
  then have i: "i < length (contents h)" and n: "n = length (contents h) - Suc i" by simp_all
  from Suc.hyps(1) [OF n assms] i assms show ?case
    by (subst headers_collect.simps)
      (simp add: headers_iter_next_def count_contents get_contents Cons_nth_drop_Suc)
qed

lemma collect_contents:
  "inv h \<Longrightarrow> headers_collect count try_get (headers_iter h) = Ret (contents h)"
  by (simp add: headers_iter_def collect_from)

end

definition headers_inv ::
    "'h headers_api \<Rightarrow> ('h \<Rightarrow> (bytes \<times> bytes option) list) \<Rightarrow> 'h \<Rightarrow> bool" where
  "headers_inv api view h \<longleftrightarrow> headers_api_ok api view \<and> list_all (\<lambda>kv. key_ok (fst kv)) (view h)"

lemma ptr_to_slice_value [simp]: "ptr_to_slice (Some bs) (length bs) = bs"
  by (simp add: ptr_to_slice_def)

lemma borrowed_try_get_ok:
  assumes "headers_inv api view h"
  shows "borrowed_try_get api h i =
    Ret (if i < length (map header_of (view h)) then Some (map header_of (view h) ! i) else None)"
proof (cases "i < length (view h)")
  case True
  with assms have get: "rd_kafka_header_get_all api h i =
      (RD_KAFKA_RESP_ERR_NO_ERROR, fst (view h ! i) @ [NUL], snd (view h ! i), value_size (snd (view h ! i)))"
    and key: "key_ok (fst (view h ! i))"
    by (auto simp: headers_inv_def headers_api_ok_def list_all_length)
  have "cstr_bytes (fst (view h ! i) @ [NUL]) = fst (view h ! i)"
    using key by (simp add: key_ok_def cstr_bytes_append)
  with True get key show ?thesis
    by (cases "snd (view h ! i)") (auto simp: borrowed_try_get_def header_of_def key_ok_def value_size_def)
next
  case False
  with assms have "fst (rd_kafka_header_get_all api h i) = RD_KAFKA_RESP_ERR__NOENT"
    by (simp add: headers_inv_def headers_api_ok_def)
  with False show ?thesis
    by (cases "rd_kafka_header_get_all api h i") (simp add: borrowed_try_get_def)
qed

lemma header_cnt_ok: "headers_inv api view h \<Longrightarrow> rd_kafka_header_cnt api h = length (view h)"
  by (simp add: headers_inv_def headers_api_ok_def)

interpretation borrowed_headers:
  headers_trait "borrowed_count api" "borrowed_try_get api" "headers_inv api view"
    "\<lambda>h. map header_of (view h)" for api :: "'h headers_api" and view
  by unfold_locales
    (simp_all add: borrowed_try_get_ok borrowed_count_def header_cnt_ok)

interpretation owned_headers:
  headers_trait "owned_count api" "owned_try_get api" "\<lambda>h. headers_inv api view (oh_ptr h)"
    "\<lambda>h. map header_of (view (oh_ptr h))" for api :: "'h headers_api" and view
  by unfold_locales
    (simp_all add: owned_try_get_def owned_as_borrowed_def borrowed_try_get_ok owned_count_def header_cnt_ok)

section \<open>Properties\<close>

text \<open>Iterating over the headers of a message yields every header once, in order, and
  ends; \<open>get\<close> panics exactly past the last index.\<close>

theorem headers_iter_in_order:
  assumes "headers_inv api view h"
  shows "headers_collect (borrowed_count api) (borrowed_try_get api) (headers_iter h) = Ret (map header_of (view h))
    \<and> headers_get (borrowed_count api) (borrowed_try_get api) h i =
       (if i < length (view h) then Ret (header_of (view h ! i)) else Panic (out_of_bounds (length (view h)) i))"
  using borrowed_headers.collect_contents [OF assms] borrowed_headers.get_contents [OF assms, of i] by simp

lemma key_ok_ascii: "ascii k \<Longrightarrow> NUL \<notin> set k \<Longrightarrow> key_ok k"
  by (simp add: key_ok_def utf8_valid_ascii)

theorem headers_iter_in_order_witness:
  "headers_inv headers_instance (\<lambda>h. h) [(''k'', Some ''v'')] \<and>
   headers_collect (borrowed_count headers_instance) (borrowed_try_get headers_instance) (headers_iter [(''k'', Some ''v'')])
     = Ret (map header_of [(''k'', Some ''v'')])"
proof -
  have h: "headers_inv headers_instance (\<lambda>h. h) [(''k'', Some ''v'')]"
    by (simp add: headers_inv_def headers_instance_ok key_ok_ascii ascii_def byte_val_def)
  show ?thesis using h headers_iter_in_order [OF h] by simp
qed

lemma owned_insert_ok:
  assumes "headers_api_ok api view"
  obtains h' where "owned_insert api to_bytes self header = Ret h'"
    and "view (oh_ptr h') = view (oh_ptr self) @ [(hdr_key header, map_option to_bytes (hdr_value header))]"
proof -
  let ?v = "map_option to_bytes (hdr_value header)"
  from assms obtain h' where add: "rd_kafka_header_add api (oh_ptr self) (hdr_key header)
      (int (length (hdr_key header))) ?v (int (value_size ?v)) = (h', RD_KAFKA_RESP_ERR_NO_ERROR)"
      "view h' = view (oh_ptr self) @ [(hdr_key header, ?v)]"
    unfolding headers_api_ok_def by blast
  then have "owned_insert api to_bytes self header = Ret (OwnedHeaders h')"
    by (cases "hdr_value header") (simp_all add: owned_insert_def value_size_def)
  with add(2) that show thesis by simp
qed

text \<open>A header inserted into owned headers is read back at the next index with its key
  and value, decoded to the type it was encoded from (here \<open>str\<close>); the headers before it
  are unchanged and the count grows by one.\<close>

theorem headers_insert_get:
  assumes "headers_inv api view (oh_ptr h)" and "key_ok (hdr_key hdr)"
    and "pred_option utf8_valid (hdr_value hdr)"
  shows "\<exists>h'. owned_insert api str_to_bytes h hdr = Ret h'
    \<and> owned_count api h' = owned_count api h + 1
    \<and> headers_get_as (owned_count api) (owned_try_get api) str_from_bytes h' (owned_count api h)
        = Ret (Ok \<lparr>hdr_key = hdr_key hdr, hdr_value = hdr_value hdr\<rparr>)
    \<and> (\<forall>i < owned_count api h. headers_get (owned_count api) (owned_try_get api) h' i
        = headers_get (owned_count api) (owned_try_get api) h i)"
proof -
  from assms(1) have ok: "headers_api_ok api view" by (simp add: headers_inv_def)
  obtain h' where h': "owned_insert api str_to_bytes h hdr = Ret h'"
      "view (oh_ptr h') = view (oh_ptr h) @ [(hdr_key hdr, map_option str_to_bytes (hdr_value hdr))]"
    using owned_insert_ok [OF ok] by blast
  have inv': "headers_inv api view (oh_ptr h')" using assms(1,2) h'(2) by (simp add: headers_inv_def)
  note count = owned_headers.count_contents [of api view]
  have "header_parse str_from_bytes (header_of (hdr_key hdr, map_option str_to_bytes (hdr_value hdr)))
      = Ok \<lparr>hdr_key = hdr_key hdr, hdr_value = hdr_value hdr\<rparr>"
    using assms(3) by (cases "hdr_value hdr") (simp_all add: header_parse_def header_of_def)
  then show ?thesis
    using h' assms(1) inv' by (auto simp: count owned_headers.get_as_contents [OF inv']
        owned_headers.get_contents [OF inv'] owned_headers.get_contents [OF assms(1)] nth_append)
qed

theorem headers_insert_get_witness:
  "\<exists>h'. owned_insert headers_instance str_to_bytes (OwnedHeaders []) \<lparr>hdr_key = ''k'', hdr_value = Some ''v''\<rparr> = Ret h'
    \<and> headers_get_as (owned_count headers_instance) (owned_try_get headers_instance) str_from_bytes h' 0
        = Ret (Ok \<lparr>hdr_key = ''k'', hdr_value = Some ''v''\<rparr>)"
proof -
  have 1: "headers_inv headers_instance (\<lambda>h. h) (oh_ptr (OwnedHeaders []))"
    by (simp add: headers_inv_def headers_instance_ok)
  have 2: "key_ok (hdr_key \<lparr>hdr_key = ''k'', hdr_value = Some ''v''\<rparr>)"
    by (simp add: key_ok_ascii ascii_def byte_val_def)
  have 3: "pred_option utf8_valid (hdr_value \<lparr>hdr_key = ''k'', hdr_value = Some ''v''\<rparr>)"
    by (simp add: utf8_valid_ascii ascii_def byte_val_def)
  have "owned_count headers_instance (OwnedHeaders []) = 0"
    by (simp add: owned_count_def headers_instance_def)
  with headers_insert_get [OF 1 2 3] show ?thesis by auto
qed

text \<open>
  The view that the \<open>Message\<close> trait gives of a message, with the headers read as a list.
\<close>

record message_view =
  mv_key :: "bytes option"
  mv_payload :: "bytes option"
  mv_topic :: bytes
  mv_partition :: int
  mv_offset :: int
  mv_timestamp :: Timestamp
  mv_headers :: "bytes Header list option"

definition bm_view ::
    "('h \<Rightarrow> (bytes \<times> bytes option) list) \<Rightarrow> 'h message_api \<Rightarrow> BorrowedMessage \<Rightarrow> message_view rust" where
  "bm_view view api m =
     rust_map (\<lambda>topic.
       \<lparr>mv_key = bm_key m, mv_payload = bm_payload m, mv_topic = topic, mv_partition = bm_partition m,
        mv_offset = bm_offset m, mv_timestamp = bm_timestamp api m,
        mv_headers = map_option (\<lambda>h. map header_of (view h)) (bm_headers api m)\<rparr>)
     (bm_topic api m)"

definition om_view ::
    "('h \<Rightarrow> (bytes \<times> bytes option) list) \<Rightarrow> 'h OwnedMessage \<Rightarrow> message_view" where
  "om_view view m =
     \<lparr>mv_key = om_key m, mv_payload = om_payload m, mv_topic = om_topic m, mv_partition = om_partition m,
      mv_offset = om_offset m, mv_timestamp = om_timestamp m,
      mv_headers = map_option (\<lambda>h. map header_of (view (oh_ptr h))) (om_headers m)\<rparr>"

lemma borrowed_detach_ok:
  "headers_api_ok api view \<Longrightarrow> \<exists>h'. borrowed_detach api h = Ret h' \<and> view (oh_ptr h') = view h"
  unfolding headers_api_ok_def borrowed_detach_def
  by (metis OwnedHeaders.sel expect_simps(2) rust_map.simps(1))

lemma detach_om_view:
  assumes "headers_api_ok hapi view"
  shows "rust_map (om_view view) (detach hapi mapi m) = bm_view view mapi m"
proof (cases "bm_headers mapi m")
  case None
  then show ?thesis
    by (cases "bm_topic mapi m") (simp_all add: detach_def bm_view_def om_view_def)
next
  case (Some h)
  obtain h' where "borrowed_detach hapi h = Ret h'" "view (oh_ptr h') = view h"
    using borrowed_detach_ok [OF assms] by blast
  with Some show ?thesis
    by (cases "bm_topic mapi m") (simp_all add: detach_def bm_view_def om_view_def)
qed

text \<open>C32. \<open>detach\<close> copies a message: the owned message shows, through the \<open>Message\<close> trait,
  the same key, payload, topic, partition, offset, timestamp and headers as the borrowed
  one, and it panics only where reading the topic of the borrowed one does.\<close>

theorem detach_same_view:
  assumes "headers_api_ok hapi view"
  shows "rust_map (om_view view) (detach hapi mapi m) = bm_view view mapi m"
  using assms by (rule detach_om_view)

definition sample_message :: BorrowedMessage where
  "sample_message =
     \<lparr>bm_ptr = \<lparr>msg_ptr = 8, msg_err = RD_KAFKA_RESP_ERR_NO_ERROR, msg_rkt = 16, msg_partition = 3,
       msg_payload = Some ''payload'', msg_len = 7, msg_key = None, msg_key_len = 0, msg_offset = 42,
       msg_private = 0\<rparr>, bm_event = 4\<rparr>"

definition message_instance :: "(bytes \<times> bytes option) list message_api" where
  "message_instance =
     \<lparr>rd_kafka_topic_name = (\<lambda>_. ''t'' @ [NUL]),
      rd_kafka_message_timestamp = (\<lambda>_. (1000, RD_KAFKA_TIMESTAMP_CREATE_TIME)),
      rd_kafka_message_headers = (\<lambda>_. (RD_KAFKA_RESP_ERR_NO_ERROR, [(''k'', None)]))\<rparr>"

theorem detach_same_view_witness:
  "headers_api_ok headers_instance (\<lambda>h. h) \<and>
   rust_map (om_view (\<lambda>h. h)) (detach headers_instance message_instance sample_message)
     = bm_view (\<lambda>h. h) message_instance sample_message"
  using headers_instance_ok detach_same_view [OF headers_instance_ok] by blast

lemma from_dr_event_Some [simp]:
  "from_dr_event (Some p) event =
     Ret (if msg_err p = RD_KAFKA_RESP_ERR_NO_ERROR then Ok \<lparr>bm_ptr = p, bm_event = event\<rparr>
          else Err (MessageProduction (into_code (msg_err p)), \<lparr>bm_ptr = p, bm_event = event\<rparr>))"
  by (simp add: from_dr_event_def)

end
