(* ===== verification/Config.thy ===== *)
theory Config
  imports Message
begin

text \<open>
  \<open>src/config.rs\<close>: log levels, the client configuration with its sanitised views, and the
  native configuration that is built from it. The configuration map is a \<open>HashMap\<close>, whose
  iteration order is a parameter; a native configuration is a value of an abstract type
  \<open>'c\<close> that the functions of \<open>conf_api\<close> read and update.
\<close>

definition SENSITIVE_CONFIG_KEYS :: "bytes list" where
  "SENSITIVE_CONFIG_KEYS =
     [''sasl.password'', ''ssl.key.password'', ''ssl.keystore.password'', ''ssl.truststore.password'',
      ''sasl.oauthbearer.client.secret'']"

definition SANITIZED_VALUE_PLACEHOLDER :: bytes where
  "SANITIZED_VALUE_PLACEHOLDER = ''[sanitized for safety]''"

section \<open>Log levels\<close>

datatype RDKafkaLogLevel =
  Level_Emerg | Level_Alert | Level_Critical | Level_Error | Level_Warning | Level_Notice | Level_Info | Level_Debug

fun log_level_discriminant :: "RDKafkaLogLevel \<Rightarrow> int" where
  "log_level_discriminant Level_Emerg = 0"
| "log_level_discriminant Level_Alert = 1"
| "log_level_discriminant Level_Critical = 2"
| "log_level_discriminant Level_Error = 3"
| "log_level_discriminant Level_Warning = 4"
| "log_level_discriminant Level_Notice = 5"
| "log_level_discriminant Level_Info = 6"
| "log_level_discriminant Level_Debug = 7"

definition log_level_from_int :: "int \<Rightarrow> RDKafkaLogLevel" where
  "log_level_from_int level =
     (if level = 0 then Level_Emerg
      else if level = 1 then Level_Alert
      else if level = 2 then Level_Critical
      else if level = 3 then Level_Error
      else if level = 4 then Level_Warning
      else if level = 5 then Level_Notice
      else if level = 6 then Level_Info
      else Level_Debug)"

text \<open>The levels of the \<open>log\<close> crate; \<open>log_enabled\<close> tells which of them are on.\<close>

datatype log_level = DEBUG | INFO | WARN | ERROR

definition log_level_from_global_config :: "(log_level \<Rightarrow> bool) \<Rightarrow> RDKafkaLogLevel" where
  "log_level_from_global_config log_enabled =
     (if log_enabled DEBUG then Level_Debug
      else if log_enabled INFO then Level_Info
      else if log_enabled WARN then Level_Warning
      else Level_Error)"

section \<open>Client configuration\<close>

record ClientConfig =
  conf_map :: "bytes \<rightharpoonup> bytes"
  log_level :: RDKafkaLogLevel

type_synonym map_iter = "(bytes \<rightharpoonup> bytes) \<Rightarrow> (bytes \<times> bytes) list"

text \<open>Iterating over a \<open>HashMap\<close> visits every entry once, in some order.\<close>

definition map_iter_ok :: "map_iter \<Rightarrow> (bytes \<rightharpoonup> bytes) \<Rightarrow> bool" where
  "map_iter_ok iter m \<longleftrightarrow> distinct (map fst (iter m)) \<and> map_of (iter m) = m"

definition client_config_new :: "(log_level \<Rightarrow> bool) \<Rightarrow> ClientConfig" where
  "client_config_new log_enabled =
     \<lparr>conf_map = Map.empty, log_level = log_level_from_global_config log_enabled\<rparr>"

definition config_get :: "ClientConfig \<Rightarrow> bytes \<Rightarrow> bytes option" where
  "config_get cfg key = conf_map cfg key"

definition config_set :: "ClientConfig \<Rightarrow> bytes \<Rightarrow> bytes \<Rightarrow> ClientConfig" where
  "config_set cfg key value = cfg\<lparr>conf_map := (conf_map cfg)(key \<mapsto> value)\<rparr>"

definition config_remove :: "ClientConfig \<Rightarrow> bytes \<Rightarrow> ClientConfig" where
  "config_remove cfg key = cfg\<lparr>conf_map := (conf_map cfg)(key := None)\<rparr>"

definition config_set_log_level :: "ClientConfig \<Rightarrow> RDKafkaLogLevel \<Rightarrow> ClientConfig" where
  "config_set_log_level cfg level = cfg\<lparr>log_level := level\<rparr>"

definition config_extend :: "ClientConfig \<Rightarrow> (bytes \<times> bytes) list \<Rightarrow> ClientConfig" where
  "config_extend cfg iter = cfg\<lparr>conf_map := foldl (\<lambda>m (k, v). m(k \<mapsto> v)) (conf_map cfg) iter\<rparr>"

definition config_from_iter :: "(log_level \<Rightarrow> bool) \<Rightarrow> (bytes \<times> bytes) list \<Rightarrow> ClientConfig" where
  "config_from_iter log_enabled iter = config_extend (client_config_new log_enabled) iter"

text \<open>\<open>collect()\<close> into a map inserts the items one after the other.\<close>

definition collect_map :: "(bytes \<times> bytes) list \<Rightarrow> (bytes \<rightharpoonup> bytes)" where
  "collect_map items = foldl (\<lambda>m (k, v). m(k \<mapsto> v)) Map.empty items"

definition config_map :: "map_iter \<Rightarrow> ClientConfig \<Rightarrow> (bytes \<rightharpoonup> bytes)" where
  "config_map iter cfg =
     collect_map (map (\<lambda>(key, value).
       if List.member SENSITIVE_CONFIG_KEYS key then (key, SANITIZED_VALUE_PLACEHOLDER) else (key, value))
       (iter (conf_map cfg)))"

text \<open>\<open>Debug\<close> prints the log level and the map without its sensitive entries.\<close>

definition config_debug :: "map_iter \<Rightarrow> ClientConfig \<Rightarrow> RDKafkaLogLevel \<times> (bytes \<rightharpoonup> bytes)" where
  "config_debug iter cfg =
     (log_level cfg,
      collect_map (List.map_filter (\<lambda>(key, value).
        if List.member SENSITIVE_CONFIG_KEYS key then None else Some (key, value)) (iter (conf_map cfg))))"

section \<open>Native configuration\<close>

text \<open>
  \<open>rd_kafka_conf_get\<close> takes the destination buffer (none for \<open>NULL\<close>) and its size and
  returns the buffer as written and the size of the value.
\<close>

record 'c conf_api =
  rd_kafka_conf_new :: "'c option"
  rd_kafka_conf_get :: "'c \<Rightarrow> bytes \<Rightarrow> bytes option \<Rightarrow> nat \<Rightarrow> RDKafkaConfRes \<times> bytes option \<times> nat"
  rd_kafka_conf_set :: "'c \<Rightarrow> bytes \<Rightarrow> bytes \<Rightarrow> ErrBuf \<Rightarrow> 'c \<times> RDKafkaConfRes \<times> ErrBuf"

definition conf_from_ptr :: "'c option \<Rightarrow> 'c rust" where
  "conf_from_ptr p = expect unwrap_none p"

fun conf_res_text :: "RDKafkaConfRes \<Rightarrow> bytes" where
  "conf_res_text RD_KAFKA_CONF_UNKNOWN = ''Unknown configuration name''"
| "conf_res_text RD_KAFKA_CONF_INVALID = ''Invalid configuration value''"
| "conf_res_text RD_KAFKA_CONF_OK = ''OK''"

definition native_config_get :: "'c conf_api \<Rightarrow> 'c \<Rightarrow> bytes \<Rightarrow> bytes KafkaResult" where
  "native_config_get api conf key =
     (let make_err = (\<lambda>res. ClientConfigError res (conf_res_text res) key []) in
      and_then (map_err kafka_error_from_nul (cstring_new key)) (\<lambda>key_c.
        case rd_kafka_conf_get api conf key_c None 0 of
          (res, _, sz) \<Rightarrow>
            if conf_res_is_error res then Err (make_err res)
            else (case rd_kafka_conf_get api conf key_c (Some (replicate sz NUL)) sz of
              (res, buf', _) \<Rightarrow>
                if conf_res_is_error res then Err (make_err res)
                else Ok (trim_nul (to_string_lossy (case buf' of None \<Rightarrow> [] | Some b \<Rightarrow> b))))))"

definition native_config_set ::
    "'c conf_api \<Rightarrow> 'c \<Rightarrow> bytes \<Rightarrow> bytes \<Rightarrow> ('c \<times> unit KafkaResult) rust" where
  "native_config_set api conf key value =
     (case map_err kafka_error_from_nul (cstring_new key) of
        Inl e \<Rightarrow> Ret (conf, Err e)
      | Inr key_c \<Rightarrow>
          (case map_err kafka_error_from_nul (cstring_new value) of
             Inl e \<Rightarrow> Ret (conf, Err e)
           | Inr value_c \<Rightarrow>
               (case rd_kafka_conf_set api conf key_c value_c errbuf_new of
                  (conf', ret, err_buf) \<Rightarrow>
                    if conf_res_is_error ret
                    then rust_map (\<lambda>text. (conf', Err (ClientConfigError ret text key value)))
                           (errbuf_to_string err_buf)
                    else Ret (conf', Ok ()))))"

fun native_config_loop :: "'c conf_api \<Rightarrow> (bytes \<times> bytes) list \<Rightarrow> 'c \<Rightarrow> 'c KafkaResult rust" where
  "native_config_loop api [] conf = Ret (Ok conf)"
| "native_config_loop api ((key, value) # entries) conf =
     rust_bind (native_config_set api conf key value) (\<lambda>(conf', r).
       case r of
         Inl e \<Rightarrow> Ret (Err e)
       | Inr _ \<Rightarrow> native_config_loop api entries conf')"

definition create_native_config :: "'c conf_api \<Rightarrow> map_iter \<Rightarrow> ClientConfig \<Rightarrow> 'c KafkaResult rust" where
  "create_native_config api iter cfg =
     rust_bind (conf_from_ptr (rd_kafka_conf_new api)) (native_config_loop api (iter (conf_map cfg)))"

section \<open>What librdkafka documents of configurations\<close>

text \<open>
  \<open>lookup\<close> is librdkafka's current value of a property (a C string). Without a buffer only
  the full size is returned; with a large enough one the value and its terminator are
  written to it. An unknown property is \<open>CONF_UNKNOWN\<close>. Setting leaves a C string in the
  error buffer.
\<close>

definition conf_api_ok :: "'c conf_api \<Rightarrow> ('c \<Rightarrow> bytes \<Rightarrow> bytes option) \<Rightarrow> bool" where
  "conf_api_ok api lookup \<longleftrightarrow>
     rd_kafka_conf_new api \<noteq> None \<and>
     (\<forall>c k v. lookup c k = Some v \<longrightarrow> NUL \<notin> set v) \<and>
     (\<forall>c k n b. lookup c k = None \<longrightarrow> fst (rd_kafka_conf_get api c k b n) = RD_KAFKA_CONF_UNKNOWN) \<and>
     (\<forall>c k v n. lookup c k = Some v \<longrightarrow>
        rd_kafka_conf_get api c k None n = (RD_KAFKA_CONF_OK, None, length v + 1)) \<and>
     (\<forall>c k v b. lookup c k = Some v \<and> length v < length b \<longrightarrow>
        rd_kafka_conf_get api c k (Some b) (length b)
          = (RD_KAFKA_CONF_OK, Some (v @ [NUL] @ drop (length v + 1) b), length v + 1)) \<and>
     (\<forall>c k v c' ret b. rd_kafka_conf_set api c k v errbuf_new = (c', ret, b) \<longrightarrow> errbuf_ok b)"

section \<open>Facts\<close>

lemma log_level_from_int_discriminant [simp]: "log_level_from_int (log_level_discriminant l) = l"
  by (cases l) (simp_all add: log_level_from_int_def)

lemma foldl_map_upd: "foldl (\<lambda>m (k, v). m(k \<mapsto> v)) m xs = m ++ map_of (rev xs)"
  by (induction xs arbitrary: m) (auto simp: map_add_def fun_eq_iff split: option.splits)

lemma collect_map_distinct: "distinct (map fst xs) \<Longrightarrow> collect_map xs = map_of xs"
proof -
  assume "distinct (map fst xs)"
  then have "map_of (rev xs) = map_of xs"
    by (intro map_of_inject_set [THEN iffD2]) (simp_all add: rev_map [symmetric])
  then show ?thesis by (simp add: collect_map_def foldl_map_upd)
qed

text \<open>What a configuration is after \<open>set\<close>, \<open>remove\<close> and \<open>extend\<close>.\<close>

lemma config_get_set [simp]:
  "config_get (config_set cfg k v) k' = (if k' = k then Some v else config_get cfg k')"
  by (simp add: config_get_def config_set_def)

lemma config_get_remove [simp]:
  "config_get (config_remove cfg k) k' = (if k' = k then None else config_get cfg k')"
  by (simp add: config_get_def config_remove_def)

lemma config_get_extend:
  "config_get (config_extend cfg xs) k =
     (case map_of (rev xs) k of Some v \<Rightarrow> Some v | None \<Rightarrow> config_get cfg k)"
  by (simp add: config_get_def config_extend_def foldl_map_upd map_add_def
      split: option.split)

lemma map_of_map_value:
  "map_of (map (\<lambda>(k, v). (k, f k v)) xs) k = map_option (f k) (map_of xs k)"
  by (induction xs) auto

lemma config_map_spec:
  assumes "map_iter_ok iter (conf_map cfg)"
  shows "config_map iter cfg k =
    (if k \<in> set SENSITIVE_CONFIG_KEYS then map_option (\<lambda>_. SANITIZED_VALUE_PLACEHOLDER) (conf_map cfg k)
     else conf_map cfg k)"
proof -
  let ?f = "\<lambda>k v. if k \<in> set SENSITIVE_CONFIG_KEYS then SANITIZED_VALUE_PLACEHOLDER else v"
  let ?xs = "iter (conf_map cfg)"
  from assms have xs: "distinct (map fst ?xs)" "map_of ?xs = conf_map cfg" by (simp_all add: map_iter_ok_def)
  have eq: "map (\<lambda>(key, value). if List.member SENSITIVE_CONFIG_KEYS key
      then (key, SANITIZED_VALUE_PLACEHOLDER) else (key, value)) ?xs = map (\<lambda>(k, v). (k, ?f k v)) ?xs"
    by auto
  have "distinct (map fst (map (\<lambda>(k, v). (k, ?f k v)) ?xs))"
    using xs(1) by (simp add: o_def split_def)
  then have "config_map iter cfg = map_of (map (\<lambda>(k, v). (k, ?f k v)) ?xs)"
    unfolding config_map_def eq by (rule collect_map_distinct)
  then show ?thesis by (cases "conf_map cfg k") (simp_all add: map_of_map_value xs(2))
qed

lemma map_filter_sensitive:
  "List.map_filter (\<lambda>(k, v). if P k then None else Some (k, v)) xs = filter (\<lambda>(k, v). \<not> P k) xs"
  by (induction xs) (auto simp: List.map_filter_simps)

lemma map_of_filter_key: "map_of (filter (\<lambda>(k, v). P k) xs) k = (if P k then map_of xs k else None)"
  by (induction xs) auto

lemma config_debug_spec:
  assumes "map_iter_ok iter (conf_map cfg)"
  shows "config_debug iter cfg =
    (log_level cfg, \<lambda>k. if k \<in> set SENSITIVE_CONFIG_KEYS then None else conf_map cfg k)"
proof -
  let ?xs = "iter (conf_map cfg)"
  from assms have xs: "distinct (map fst ?xs)" "map_of ?xs = conf_map cfg" by (simp_all add: map_iter_ok_def)
  have "distinct (map fst (filter (\<lambda>(k, v). k \<notin> set SENSITIVE_CONFIG_KEYS) ?xs))"
    using xs(1) by (simp add: distinct_map_filter)
  then show ?thesis
    by (simp add: config_debug_def map_filter_sensitive collect_map_distinct map_of_filter_key xs(2) fun_eq_iff)
qed

text \<open>C35. Neither the sanitised map nor the \<open>Debug\<close> output of a configuration depends on the
  value of a sensitive key: configurations that differ only in those values look the same.\<close>

theorem config_views_hide_secrets:
  assumes "map_iter_ok iter (conf_map cfg)" and "map_iter_ok iter (conf_map cfg')"
    and "dom (conf_map cfg') = dom (conf_map cfg)" and "log_level cfg' = log_level cfg"
    and "\<forall>k. k \<notin> set SENSITIVE_CONFIG_KEYS \<longrightarrow> conf_map cfg' k = conf_map cfg k"
  shows "config_map iter cfg' = config_map iter cfg \<and> config_debug iter cfg' = config_debug iter cfg"
proof -
  have "map_option (\<lambda>_. SANITIZED_VALUE_PLACEHOLDER) (conf_map cfg' k)
      = map_option (\<lambda>_. SANITIZED_VALUE_PLACEHOLDER) (conf_map cfg k)" for k
  proof -
    have "conf_map cfg' k = None \<longleftrightarrow> conf_map cfg k = None"
      using assms(3) by (metis domIff)
    then show ?thesis by (cases "conf_map cfg' k"; cases "conf_map cfg k") simp_all
  qed
  then have "config_map iter cfg' = config_map iter cfg"
    using assms(5) by (auto simp: fun_eq_iff config_map_spec [OF assms(1)] config_map_spec [OF assms(2)])
  moreover have "config_debug iter cfg' = config_debug iter cfg"
    using assms(4,5) by (auto simp: fun_eq_iff config_debug_spec [OF assms(1)] config_debug_spec [OF assms(2)])
  ultimately show ?thesis ..
qed

theorem config_views_hide_secrets_witness:
  "config_map (\<lambda>m. [(''sasl.password'', the (m ''sasl.password''))])
     \<lparr>conf_map = [''sasl.password'' \<mapsto> ''a''], log_level = Level_Info\<rparr>
   = config_map (\<lambda>m. [(''sasl.password'', the (m ''sasl.password''))])
     \<lparr>conf_map = [''sasl.password'' \<mapsto> ''b''], log_level = Level_Info\<rparr>"
  by (rule config_views_hide_secrets [THEN conjunct1])
    (auto simp: map_iter_ok_def fun_eq_iff SENSITIVE_CONFIG_KEYS_def)

lemma utf8_step_NUL: "s \<noteq> [] \<Longrightarrow> utf8_step (s @ [NUL]) = utf8_step s"
proof -
  have n: "\<not> second_ok c NUL" "\<not> is_cont NUL" for c
    by (simp_all add: second_ok_def is_cont_def byte_val_def)
  assume "s \<noteq> []"
  then obtain c cs where "s = c # cs" by (cases s) auto
  then show ?thesis by (auto simp: n split: list.splits)
qed

lemma to_string_lossy_NUL: "to_string_lossy (s @ [NUL]) = to_string_lossy s @ [NUL]"
proof (induction s rule: to_string_lossy.induct)
  case (1 s)
  show ?case
  proof (cases "s = []")
    case True
    have "utf8_step [NUL] = (True, 1)" by (simp add: char_width_def byte_val_def)
    with True show ?thesis by (simp add: to_string_lossy.simps [of "[NUL]"])
  next
    case False
    obtain v n where st: "utf8_step s = (v, n)" by (cases "utf8_step s")
    then have n: "n \<le> length s" using utf8_step_le [of s] by simp
    from False "1.IH" st have "to_string_lossy (drop n s @ [NUL]) = to_string_lossy (drop n s) @ [NUL]" by simp
    with False st n utf8_step_NUL [OF False] show ?thesis
      by (simp add: to_string_lossy.simps [of s] to_string_lossy.simps [of "s @ [NUL]"])
  qed
qed

lemma to_string_lossy_no_NUL: "NUL \<notin> set s \<Longrightarrow> NUL \<notin> set (to_string_lossy s)"
proof (induction s rule: to_string_lossy.induct)
  case (1 s)
  then show ?case
    by (subst to_string_lossy.simps) (auto dest: in_set_takeD in_set_dropD)
qed

text \<open>C23. Asking the native configuration for a property returns librdkafka's value of it,
  decoded lossily (unchanged when it is UTF-8), for values of any length; an unknown
  property is the corresponding error, and a name with a NUL never reaches librdkafka.\<close>

theorem native_config_get_value:
  assumes "conf_api_ok api lookup"
  shows "native_config_get api c key =
    (if NUL \<in> set key then Err (Nul (NulError (length (takeWhile (\<lambda>x. x \<noteq> NUL) key)) key))
     else case lookup c key of
       Some v \<Rightarrow> Ok (to_string_lossy v)
     | None \<Rightarrow> Err (ClientConfigError RD_KAFKA_CONF_UNKNOWN ''Unknown configuration name'' key []))"
proof (cases "NUL \<in> set key")
  case True
  then show ?thesis by (simp add: native_config_get_def kafka_error_from_nul_def)
next
  case False
  show ?thesis
  proof (cases "lookup c key")
    case None
    with assms have "fst (rd_kafka_conf_get api c key None 0) = RD_KAFKA_CONF_UNKNOWN"
      by (simp add: conf_api_ok_def)
    with False None show ?thesis
      by (cases "rd_kafka_conf_get api c key None 0") (simp add: native_config_get_def)
  next
    case (Some v)
    let ?n = "length v + 1"
    from assms Some have v: "NUL \<notin> set v"
      and get1: "rd_kafka_conf_get api c key None 0 = (RD_KAFKA_CONF_OK, None, ?n)"
      by (auto simp: conf_api_ok_def)
    have "rd_kafka_conf_get api c key (Some b) (length b)
        = (RD_KAFKA_CONF_OK, Some (v @ [NUL] @ drop ?n b), ?n)" if "length v < length b" for b
      using assms Some that unfolding conf_api_ok_def by blast
    from this [of "replicate ?n NUL"] have get2: "rd_kafka_conf_get api c key (Some (replicate ?n NUL)) ?n
        = (RD_KAFKA_CONF_OK, Some (v @ [NUL]), ?n)" by (simp del: replicate_Suc)
    have "trim_nul (to_string_lossy (v @ [NUL])) = to_string_lossy v"
      using trim_nul_padded [OF to_string_lossy_no_NUL [OF v], of 1] by (simp add: to_string_lossy_NUL)
    with False Some get1 get2 show ?thesis by (simp add: native_config_get_def)
  qed
qed

text \<open>An instance: the properties set so far, in an association list; every set succeeds.\<close>

definition conf_instance :: "(bytes \<times> bytes) list conf_api" where
  "conf_instance =
     \<lparr>rd_kafka_conf_new = Some [],
      rd_kafka_conf_get = (\<lambda>c k b n.
        case map_of c k of
          None \<Rightarrow> (RD_KAFKA_CONF_UNKNOWN, b, n)
        | Some v \<Rightarrow> (RD_KAFKA_CONF_OK,
            map_option (\<lambda>b. cstr_bytes v @ [NUL] @ drop (length (cstr_bytes v) + 1) b) b,
            length (cstr_bytes v) + 1)),
      rd_kafka_conf_set = (\<lambda>c k v b. ((k, v) # c, RD_KAFKA_CONF_OK, b))\<rparr>"

lemma errbuf_new_ok [simp]: "errbuf_ok errbuf_new"
  by (simp add: errbuf_ok_def errbuf_new_def MAX_ERR_LEN_def)

lemma conf_instance_ok: "conf_api_ok conf_instance (\<lambda>c k. map_option cstr_bytes (map_of c k))"
  by (auto simp: conf_api_ok_def conf_instance_def)

theorem native_config_get_value_witness:
  "native_config_get conf_instance [(''group.id'', ''g'')] ''group.id'' = Ok ''g''"
proof -
  have "to_string_lossy ''g'' = ''g''"
    by (intro to_string_lossy_valid utf8_valid_ascii) (simp add: ascii_def byte_val_def)
  then show ?thesis
    using native_config_get_value [OF conf_instance_ok, of "[(''group.id'', ''g'')]" "''group.id''"] by simp
qed

text \<open>
  The error that an entry is reported with when the configuration is \<open>c\<close>: where the first NUL of
  the key or the value is, or what librdkafka answered when it was asked to set the entry, its
  result code and the text in the error buffer.
\<close>

definition entry_error :: "'c conf_api \<Rightarrow> 'c \<Rightarrow> bytes \<Rightarrow> bytes \<Rightarrow> KafkaError \<Rightarrow> bool" where
  "entry_error api c k v e \<longleftrightarrow>
     (if NUL \<in> set k then e = Nul (NulError (length (takeWhile (\<lambda>x. x \<noteq> NUL) k)) k)
      else if NUL \<in> set v then e = Nul (NulError (length (takeWhile (\<lambda>x. x \<noteq> NUL) v)) v)
      else case rd_kafka_conf_set api c k v errbuf_new of
             (c', ret, b) \<Rightarrow> ret \<noteq> RD_KAFKA_CONF_OK \<and> e = ClientConfigError ret (to_string_lossy (cstr_bytes (buf b))) k v)"

text \<open>The entries were handed to librdkafka one after the other and it accepted each.\<close>

fun conf_accepts :: "'c conf_api \<Rightarrow> 'c \<Rightarrow> (bytes \<times> bytes) list \<Rightarrow> 'c \<Rightarrow> bool" where
  "conf_accepts api c [] c' \<longleftrightarrow> c' = c"
| "conf_accepts api c ((k, v) # es) c' \<longleftrightarrow>
     NUL \<notin> set k \<and> NUL \<notin> set v
     \<and> (case rd_kafka_conf_set api c k v errbuf_new of
          (c1, ret, _) \<Rightarrow> ret = RD_KAFKA_CONF_OK \<and> conf_accepts api c1 es c')"

text \<open>An entry is set, in the configuration that librdkafka made of it, or it has its error.\<close>

lemma native_config_set_cases:
  assumes "conf_api_ok api lookup"
  obtains (set) c' b where "NUL \<notin> set k" "NUL \<notin> set v" "rd_kafka_conf_set api c k v errbuf_new = (c', RD_KAFKA_CONF_OK, b)"
      "native_config_set api c k v = Ret (c', Ok ())"
    | (refused) c' e where "native_config_set api c k v = Ret (c', Err e)" "\<And>e'. entry_error api c k v e' \<longleftrightarrow> e' = e"
      "\<And>es c''. \<not> conf_accepts api c ((k, v) # es) c''"
proof (cases "NUL \<in> set k \<or> NUL \<in> set v")
  case True
  then show thesis
    by (intro refused [of c "if NUL \<in> set k then Nul (NulError (length (takeWhile (\<lambda>x. x \<noteq> NUL) k)) k)
        else Nul (NulError (length (takeWhile (\<lambda>x. x \<noteq> NUL) v)) v)"])
      (auto simp: native_config_set_def kafka_error_from_nul_def entry_error_def)
next
  case False
  obtain c' ret b where call: "rd_kafka_conf_set api c k v errbuf_new = (c', ret, b)"
    by (cases "rd_kafka_conf_set api c k v errbuf_new")
  with assms have "errbuf_ok b" unfolding conf_api_ok_def by blast
  then have shown: "errbuf_to_string b = Ret (to_string_lossy (cstr_bytes (buf b)))"
    by (simp add: errbuf_ok_def errbuf_to_string_def errbuf_filled_eq from_bytes_with_nul_def)
  show thesis
  proof (cases "ret = RD_KAFKA_CONF_OK")
    case True
    with False call show thesis by (intro set [of c' b]) (simp_all add: native_config_set_def)
  next
    case ret: False
    with False call shown show thesis
      by (intro refused [of c' "ClientConfigError ret (to_string_lossy (cstr_bytes (buf b))) k v"])
        (auto simp: native_config_set_def entry_error_def)
  qed
qed

lemma split_first:
  "(\<exists>before k' v' after. (k, v) # es = before @ (k', v') # after \<and> P before k' v') \<longleftrightarrow>
     P [] k v \<or> (\<exists>before k' v' after. es = before @ (k', v') # after \<and> P ((k, v) # before) k' v')"
proof
  assume "\<exists>before k' v' after. (k, v) # es = before @ (k', v') # after \<and> P before k' v'"
  then obtain before k' v' after where b: "(k, v) # es = before @ (k', v') # after" "P before k' v'" by blast
  then show "P [] k v \<or> (\<exists>before k' v' after. es = before @ (k', v') # after \<and> P ((k, v) # before) k' v')"
    by (cases before) auto
next
  assume "P [] k v \<or> (\<exists>before k' v' after. es = before @ (k', v') # after \<and> P ((k, v) # before) k' v')"
  then show "\<exists>before k' v' after. (k, v) # es = before @ (k', v') # after \<and> P before k' v'"
    by (metis append_Cons append_Nil)
qed

lemma native_config_loop_result:
  assumes "conf_api_ok api lookup"
  shows "(\<exists>r. native_config_loop api es c = Ret r)
    \<and> (\<forall>c'. native_config_loop api es c = Ret (Ok c') \<longleftrightarrow> conf_accepts api c es c')
    \<and> (\<forall>e. native_config_loop api es c = Ret (Err e) \<longleftrightarrow>
         (\<exists>before k v after c1. es = before @ (k, v) # after \<and> conf_accepts api c before c1 \<and> entry_error api c1 k v e))"
proof (induction es arbitrary: c)
  case (Cons en es)
  obtain k v where en: "en = (k, v)" by (cases en)
  have split: "(\<exists>before k' v' after c1. en # es = before @ (k', v') # after \<and> conf_accepts api c before c1 \<and> entry_error api c1 k' v' e)
      \<longleftrightarrow> entry_error api c k v e \<or>
        (\<exists>before k' v' after c1. es = before @ (k', v') # after \<and> conf_accepts api c ((k, v) # before) c1 \<and> entry_error api c1 k' v' e)" for e
    using split_first [of k v es "\<lambda>before k' v'. \<exists>c1. conf_accepts api c before c1 \<and> entry_error api c1 k' v' e"]
    by (simp add: en)
  from assms show ?case
  proof (cases rule: native_config_set_cases [where c = c and k = k and v = v])
    case (set c' b)
    then have "\<not> entry_error api c k v e" for e by (simp add: entry_error_def)
    with set Cons.IH [of c'] show ?thesis unfolding split by (simp add: en)
  next
    case (refused c' e)
    then show ?thesis unfolding split by (simp add: en del: conf_accepts.simps) auto
  qed
qed auto

text \<open>C34. Building the native configuration never panics. It succeeds if and only if no key or value
  has a NUL and librdkafka accepts every entry in turn, and then with the configuration librdkafka
  made of them. It fails if and only if some entry of the configuration is the first that is not
  accepted, and then with that entry's error: the place of the NUL, or the key, the value and the
  result code and text that librdkafka answered with.\<close>

theorem create_native_config_result:
  assumes "conf_api_ok api lookup" and "map_iter_ok iter (conf_map cfg)"
  shows "(\<exists>r. create_native_config api iter cfg = Ret r)
    \<and> (\<forall>c. create_native_config api iter cfg = Ret (Ok c) \<longleftrightarrow>
         conf_accepts api (the (rd_kafka_conf_new api)) (iter (conf_map cfg)) c)
    \<and> (\<forall>e. create_native_config api iter cfg = Ret (Err e) \<longleftrightarrow>
         (\<exists>before k v after c. iter (conf_map cfg) = before @ (k, v) # after \<and> conf_map cfg k = Some v
            \<and> conf_accepts api (the (rd_kafka_conf_new api)) before c \<and> entry_error api c k v e))"
proof -
  from assms(1) obtain c0 where c0: "rd_kafka_conf_new api = Some c0" by (auto simp: conf_api_ok_def)
  have "conf_map cfg k = Some v" if "iter (conf_map cfg) = before @ (k, v) # after" for before k v after
    using that assms(2) unfolding map_iter_ok_def by (metis in_set_conv_decomp map_of_is_SomeI)
  then have "(\<exists>before k v after c. iter (conf_map cfg) = before @ (k, v) # after \<and> conf_map cfg k = Some v
        \<and> conf_accepts api c0 before c \<and> entry_error api c k v e)
      \<longleftrightarrow> (\<exists>before k v after c. iter (conf_map cfg) = before @ (k, v) # after \<and> conf_accepts api c0 before c \<and> entry_error api c k v e)" for e
    by blast
  with c0 native_config_loop_result [OF assms(1), of "iter (conf_map cfg)" c0] show ?thesis
    by (simp add: create_native_config_def conf_from_ptr_def)
qed

text \<open>A configuration with two entries, one of them empty, and one with a NUL in a value.\<close>

theorem create_native_config_result_witness:
  "create_native_config conf_instance (\<lambda>_. [(''group.id'', ''g''), (''client.rack'', [])])
      \<lparr>conf_map = [''group.id'' \<mapsto> ''g'', ''client.rack'' \<mapsto> []], log_level = Level_Info\<rparr>
      = Ret (Ok [(''client.rack'', []), (''group.id'', ''g'')])
   \<and> create_native_config conf_instance (\<lambda>_. [(''group.id'', ''g'' @ [NUL])])
      \<lparr>conf_map = [''group.id'' \<mapsto> ''g'' @ [NUL]], log_level = Level_Info\<rparr>
      = Ret (Err (Nul (NulError 1 (''g'' @ [NUL]))))"
proof
  have iter: "map_iter_ok (\<lambda>_. [(''group.id'', ''g''), (''client.rack'', [])])
      (conf_map \<lparr>conf_map = [''group.id'' \<mapsto> ''g'', ''client.rack'' \<mapsto> []], log_level = Level_Info\<rparr>)"
    by (auto simp: map_iter_ok_def fun_eq_iff)
  show "create_native_config conf_instance (\<lambda>_. [(''group.id'', ''g''), (''client.rack'', [])])
      \<lparr>conf_map = [''group.id'' \<mapsto> ''g'', ''client.rack'' \<mapsto> []], log_level = Level_Info\<rparr>
      = Ret (Ok [(''client.rack'', []), (''group.id'', ''g'')])"
    using create_native_config_result [OF conf_instance_ok iter] by (simp add: conf_instance_def)
  have iter': "map_iter_ok (\<lambda>_. [(''group.id'', ''g'' @ [NUL])])
      (conf_map \<lparr>conf_map = [''group.id'' \<mapsto> ''g'' @ [NUL]], log_level = Level_Info\<rparr>)"
    by (auto simp: map_iter_ok_def fun_eq_iff)
  have "entry_error conf_instance [] ''group.id'' (''g'' @ [NUL]) (Nul (NulError 1 (''g'' @ [NUL])))"
    by (simp add: entry_error_def)
  then have "\<exists>before k v after c. [(''group.id'', ''g'' @ [NUL])] = before @ (k, v) # after
      \<and> [''group.id'' \<mapsto> ''g'' @ [NUL]] k = Some v
      \<and> conf_accepts conf_instance (the (rd_kafka_conf_new conf_instance)) before c
      \<and> entry_error conf_instance c k v (Nul (NulError 1 (''g'' @ [NUL])))"
    by (intro exI [of _ "[]"] exI [of _ "''group.id''"] exI [of _ "''g'' @ [NUL]"]) (simp add: conf_instance_def)
  with create_native_config_result [OF conf_instance_ok iter']
  show "create_native_config conf_instance (\<lambda>_. [(''group.id'', ''g'' @ [NUL])])
      \<lparr>conf_map = [''group.id'' \<mapsto> ''g'' @ [NUL]], log_level = Level_Info\<rparr>
      = Ret (Err (Nul (NulError 1 (''g'' @ [NUL]))))" by simp
qed

end
