(* ===== verification/World.thy ===== *)
theory World
  imports Config
begin

text \<open>
  The world that the stateful components act on. \<open>'w\<close> is the state of librdkafka and of
  everything outside the crate; its functions, passed in API records, map a state to a new
  state and a result. The crate's side keeps the monotonic clock as last read and the trace
  of effects: the callbacks made into the user's context and the calls into librdkafka
  whose order and number matter.

  A native event is the record of what librdkafka's accessors return for it.
\<close>

section \<open>Events\<close>

abbreviation RD_KAFKA_EVENT_DR :: int where "RD_KAFKA_EVENT_DR \<equiv> 1"
abbreviation RD_KAFKA_EVENT_FETCH :: int where "RD_KAFKA_EVENT_FETCH \<equiv> 2"
abbreviation RD_KAFKA_EVENT_LOG :: int where "RD_KAFKA_EVENT_LOG \<equiv> 4"
abbreviation RD_KAFKA_EVENT_ERROR :: int where "RD_KAFKA_EVENT_ERROR \<equiv> 8"
abbreviation RD_KAFKA_EVENT_REBALANCE :: int where "RD_KAFKA_EVENT_REBALANCE \<equiv> 16"
abbreviation RD_KAFKA_EVENT_OFFSET_COMMIT :: int where "RD_KAFKA_EVENT_OFFSET_COMMIT \<equiv> 32"
abbreviation RD_KAFKA_EVENT_STATS :: int where "RD_KAFKA_EVENT_STATS \<equiv> 64"
abbreviation RD_KAFKA_EVENT_OAUTHBEARER_TOKEN_REFRESH :: int where
  "RD_KAFKA_EVENT_OAUTHBEARER_TOKEN_REFRESH \<equiv> 256"

record event_log =
  log_result :: int
  log_fac :: bytes
  log_str :: bytes
  log_lvl :: int

text \<open>
  \<open>ev_messages\<close> are the pointers that successive calls of \<open>rd_kafka_event_message_next\<close>
  return before the null pointer; \<open>ev_tpl\<close> is the event's topic partition list.
\<close>

record RDKafkaEvent =
  ev_ptr :: addr
  ev_type :: int
  ev_error :: RDKafkaRespErr
  ev_error_string :: bytes
  ev_is_fatal :: int
  ev_log :: event_log
  ev_stats :: bytes
  ev_config_string :: "bytes option"
  ev_messages :: "RDKafkaMessage list"
  ev_message_count :: nat
  ev_tpl :: "RDKafkaTopicPartitionList option"

section \<open>Effects\<close>

datatype RebalanceInfo =
    Rebalance_Assign TopicPartitionList
  | Rebalance_Revoke TopicPartitionList
  | Rebalance_Error KafkaError

datatype effect =
    Ctx_log RDKafkaLogLevel bytes bytes
  | Ctx_stats_raw bytes
  | Ctx_error KafkaError bytes
  | Ctx_generate_oauth_token "bytes option"
  | Ctx_delivery DeliveryResult addr
  | Ctx_pre_rebalance RebalanceInfo
  | Ctx_post_rebalance RebalanceInfo
  | Ctx_commit_callback "unit KafkaResult" TopicPartitionList
  | Native_set_token bytes int bytes
  | Native_set_token_failure bytes
  | Native_topic_destroy addr
  | Native_metadata int addr int
  | Native_event_destroy addr
  | Native_queue_destroy addr
  | Native_client_destroy addr
  | Native_conf_destroy
  | Native_headers_destroy addr
  | Native_producev bytes int addr
  | Native_flush int
  | Native_purge int
  | Native_commit_transaction int
  | Native_abort_transaction int
  | Native_assign "TopicPartitionList option"
  | Native_incremental_assign TopicPartitionList
  | Native_incremental_unassign TopicPartitionList
  | Native_topic_partition_destroy
  | Native_poll_set_consumer
  | Native_queue_forward addr addr
  | Native_queue_callback addr bool
  | Native_close_queue addr
  | Native_subscribe TopicPartitionList
  | Native_seek addr int int int
  | Native_commit "TopicPartitionList option" int
  | Native_offset_store addr int int
  | Native_offsets_for_times TopicPartitionList int
  | Native_mock_cluster_destroy addr
  | Task_wake nat

section \<open>The world\<close>

record 'w world =
  native :: 'w
  clock :: instant
  trace :: "effect list"

definition emit :: "effect \<Rightarrow> 'w world \<Rightarrow> 'w world" where
  "emit e w = w\<lparr>trace := trace w @ [e]\<rparr>"

text \<open>
  \<open>Instant::now()\<close>: the environment says how much time has passed since the last reading,
  so readings never decrease.
\<close>

type_synonym 'w ticks = "'w \<Rightarrow> 'w \<times> duration"

definition instant_now :: "'w ticks \<Rightarrow> 'w world \<Rightarrow> 'w world \<times> instant" where
  "instant_now tick w =
     (case tick (native w) of (n, d) \<Rightarrow> (w\<lparr>native := n, clock := clock w + d\<rparr>, clock w + d))"

text \<open>Time goes on: between two readings at least a nanosecond passes.\<close>

definition clock_advances :: "'w ticks \<Rightarrow> bool" where
  "clock_advances tick \<longleftrightarrow> (\<forall>n. 0 < snd (tick n))"

lemma emit_simps [simp]:
  "native (emit e w) = native w" "clock (emit e w) = clock w" "trace (emit e w) = trace w @ [e]"
  by (simp_all add: emit_def)

lemma instant_now_simps [simp]:
  "trace (fst (instant_now tick w)) = trace w"
  "clock (fst (instant_now tick w)) = snd (instant_now tick w)"
  "snd (instant_now tick w) = clock w + snd (tick (native w))"
  "native (fst (instant_now tick w)) = fst (tick (native w))"
  by (simp_all add: instant_now_def split: prod.splits)

lemma clock_advancesD: "clock_advances tick \<Longrightarrow> 0 < snd (tick n)"
  by (simp add: clock_advances_def)

text \<open>The effects that were added between two states of the world.\<close>

definition new_effects :: "'w world \<Rightarrow> 'w world \<Rightarrow> effect list" where
  "new_effects w w' = drop (length (trace w)) (trace w')"

lemma new_effects_append [simp]: "trace w' = trace w @ es \<Longrightarrow> new_effects w w' = es"
  by (simp add: new_effects_def)

end
