(* ===== verification/Client.thy ===== *)
theory Client
  imports World
begin

text \<open>
  \<open>src/client.rs\<close>: creating a client, polling a queue for one event and dispatching it to
  the context, refreshing OAuth tokens, and the metadata, watermark, cluster and group
  queries.
\<close>

section \<open>The context\<close>

record OAuthToken =
  oauth_token :: bytes
  oauth_principal_name :: bytes
  oauth_lifetime_ms :: int

text \<open>
  What the crate asks of a context: whether tokens are refreshed by it, and a token or the
  text of an error. Its other methods are callbacks, recorded in the trace.
\<close>

record client_context =
  ENABLE_REFRESH_OAUTH_TOKEN :: bool
  generate_oauth_token :: "bytes option \<Rightarrow> bytes + OAuthToken"

definition default_generate_oauth_token :: "bytes option \<Rightarrow> bytes + OAuthToken" where
  "default_generate_oauth_token _ =
     Err ''Default implementation of generate_oauth_token must be overridden''"

definition DefaultClientContext :: client_context where
  "DefaultClientContext =
     \<lparr>ENABLE_REFRESH_OAUTH_TOKEN = False, generate_oauth_token = default_generate_oauth_token\<rparr>"

text \<open>The default \<open>log\<close> callback: the level of the \<open>log\<close> crate and the line it writes.\<close>

definition default_log :: "RDKafkaLogLevel \<Rightarrow> bytes \<Rightarrow> bytes \<Rightarrow> log_level \<times> bytes" where
  "default_log level fac log_message =
     (case level of
        Level_Emerg \<Rightarrow> ERROR
      | Level_Alert \<Rightarrow> ERROR
      | Level_Critical \<Rightarrow> ERROR
      | Level_Error \<Rightarrow> ERROR
      | Level_Warning \<Rightarrow> WARN
      | Level_Notice \<Rightarrow> INFO
      | Level_Info \<Rightarrow> INFO
      | Level_Debug \<Rightarrow> DEBUG,
      ''librdkafka: '' @ fac @ '' '' @ log_message)"

section \<open>The functions of librdkafka on clients\<close>

datatype RDKafkaType = RD_KAFKA_PRODUCER | RD_KAFKA_CONSUMER

record 'w client_api =
  tick :: "'w ticks"
  rd_kafka_queue_poll :: "'w \<Rightarrow> addr \<Rightarrow> int \<Rightarrow> 'w \<times> RDKafkaEvent option"
  rd_kafka_oauthbearer_set_token :: "'w \<Rightarrow> bytes \<Rightarrow> int \<Rightarrow> bytes \<Rightarrow> ErrBuf \<Rightarrow> 'w \<times> RDKafkaRespErr \<times> ErrBuf"
  rd_kafka_oauthbearer_set_token_failure :: "'w \<Rightarrow> bytes \<Rightarrow> 'w"
  rd_kafka_topic_new :: "'w \<Rightarrow> bytes \<Rightarrow> 'w \<times> addr"
  rd_kafka_metadata :: "'w \<Rightarrow> int \<Rightarrow> addr \<Rightarrow> int \<Rightarrow> 'w \<times> RDKafkaRespErr \<times> addr"
  rd_kafka_query_watermark_offsets :: "'w \<Rightarrow> bytes \<Rightarrow> int \<Rightarrow> int \<Rightarrow> 'w \<times> RDKafkaRespErr \<times> int \<times> int"
  rd_kafka_clusterid :: "'w \<Rightarrow> int \<Rightarrow> 'w \<times> bytes option"
  rd_kafka_list_groups :: "'w \<Rightarrow> bytes option \<Rightarrow> int \<Rightarrow> 'w \<times> RDKafkaRespErr \<times> addr"
  rd_kafka_fatal_error :: "'w \<Rightarrow> ErrBuf \<Rightarrow> RDKafkaRespErr \<times> ErrBuf"
  rd_kafka_queue_new :: "'w \<Rightarrow> 'w \<times> addr"
  rd_kafka_queue_get_consumer :: "'w \<Rightarrow> 'w \<times> addr"
  rd_kafka_queue_get_main :: "'w \<Rightarrow> 'w \<times> addr"
  rd_kafka_rebalance_protocol :: "'w \<Rightarrow> bytes option"

section \<open>Queues and events\<close>

definition queue_poll :: "'w client_api \<Rightarrow> 'w world \<Rightarrow> addr \<Rightarrow> timeout \<Rightarrow> 'w world \<times> RDKafkaEvent option" where
  "queue_poll api w queue t =
     (case rd_kafka_queue_poll api (native w) queue (timeout_as_millis t) of
        (n, ev) \<Rightarrow> (w\<lparr>native := n\<rparr>, ev))"

definition handle_log_event :: "RDKafkaEvent \<Rightarrow> 'w world \<Rightarrow> 'w world" where
  "handle_log_event event w =
     (if log_result (ev_log event) = 0
      then emit (Ctx_log (log_level_from_int (log_lvl (ev_log event)))
             (trim (to_string_lossy (cstr_bytes (log_fac (ev_log event)))))
             (trim (to_string_lossy (cstr_bytes (log_str (ev_log event)))))) w
      else w)"

definition handle_stats_event :: "RDKafkaEvent \<Rightarrow> 'w world \<Rightarrow> 'w world" where
  "handle_stats_event event w = emit (Ctx_stats_raw (cstr_bytes (ev_stats event))) w"

definition handle_error_event :: "RDKafkaEvent \<Rightarrow> 'w world \<Rightarrow> 'w world" where
  "handle_error_event event w =
     emit (Ctx_error (Global (into_code (ev_error event)))
       (trim (to_string_lossy (cstr_bytes (ev_error_string event))))) w"

text \<open>\<open>Display\<close> of a \<open>NulError\<close>.\<close>

fun nul_error_display :: "nul_error \<Rightarrow> bytes" where
  "nul_error_display (NulError n _) = ''nul byte found in provided data at position: '' @ show_nat n"

text \<open>The closure that asks the context for a token and makes C strings of it.\<close>

definition oauth_token_strings :: "client_context \<Rightarrow> bytes option \<Rightarrow> bytes + (bytes \<times> bytes \<times> int)" where
  "oauth_token_strings ctx config =
     and_then (generate_oauth_token ctx config) (\<lambda>token_info.
     and_then (map_err nul_error_display (cstring_new (oauth_token token_info))) (\<lambda>token.
     and_then (map_err nul_error_display (cstring_new (oauth_principal_name token_info)))
       (\<lambda>principal_name. Ok (token, principal_name, oauth_lifetime_ms token_info))))"

definition handle_oauth_refresh_event ::
    "'w client_api \<Rightarrow> client_context \<Rightarrow> RDKafkaEvent \<Rightarrow> 'w world \<Rightarrow> 'w world" where
  "handle_oauth_refresh_event api ctx event w =
     (let config = map_option (\<lambda>c. to_string_lossy (cstr_bytes c)) (ev_config_string event);
          w = emit (Ctx_generate_oauth_token config) w
      in case oauth_token_strings ctx config of
        Inr (token, principal_name, lifetime_ms) \<Rightarrow>
          (case rd_kafka_oauthbearer_set_token api (native w) token lifetime_ms principal_name errbuf_new of
             (n, code, err_buf) \<Rightarrow>
               let w = emit (Native_set_token token lifetime_ms principal_name) (w\<lparr>native := n\<rparr>) in
               if code = RD_KAFKA_RESP_ERR_NO_ERROR then w
               else
                 let msg = cstr_bytes (buf err_buf) in
                 emit (Native_set_token_failure msg)
                   (w\<lparr>native := rd_kafka_oauthbearer_set_token_failure api (native w) msg\<rparr>))
      | Inl e \<Rightarrow>
          let msg = (case cstring_new e of
              Inr m \<Rightarrow> m
            | Inl _ \<Rightarrow> ''error while refreshing OAuth token has embedded null character'')
          in emit (Native_set_token_failure msg)
               (w\<lparr>native := rd_kafka_oauthbearer_set_token_failure api (native w) msg\<rparr>))"

datatype 'e EventPollResult = Poll_None | Poll_EventConsumed | Poll_Event 'e

fun event_poll_result_into_option :: "'e EventPollResult \<Rightarrow> 'e option" where
  "event_poll_result_into_option Poll_None = None"
| "event_poll_result_into_option Poll_EventConsumed = None"
| "event_poll_result_into_option (Poll_Event evt) = Some evt"

text \<open>Dropping a \<open>NativeEvent\<close>.\<close>

definition drop_event :: "RDKafkaEvent \<Rightarrow> 'w world \<Rightarrow> 'w world" where
  "drop_event ev w = emit (Native_event_destroy (ev_ptr ev)) w"

definition poll_event ::
    "'w client_api \<Rightarrow> client_context \<Rightarrow> 'w world \<Rightarrow> addr \<Rightarrow> timeout \<Rightarrow> 'w world \<times> RDKafkaEvent EventPollResult" where
  "poll_event api ctx w queue timeout =
     (case queue_poll api w queue timeout of
        (w, None) \<Rightarrow> (w, Poll_None)
      | (w, Some ev) \<Rightarrow>
          if ev_type ev = RD_KAFKA_EVENT_LOG then
            (drop_event ev (handle_log_event ev w), Poll_EventConsumed)
          else if ev_type ev = RD_KAFKA_EVENT_STATS then
            (drop_event ev (handle_stats_event ev w), Poll_EventConsumed)
          else if ev_type ev = RD_KAFKA_EVENT_ERROR then
            (handle_error_event ev w, Poll_Event ev)
          else if ev_type ev = RD_KAFKA_EVENT_OAUTHBEARER_TOKEN_REFRESH then
            (drop_event ev
               (if ENABLE_REFRESH_OAUTH_TOKEN ctx then handle_oauth_refresh_event api ctx ev w else w),
             Poll_EventConsumed)
          else (w, Poll_Event ev))"

section \<open>Queries\<close>

text \<open>
  \<open>native_topic\<close> panics on a null topic. In \<open>fetch_metadata\<close> the handle is moved into the
  closure \<open>|t| t.ptr()\<close> and dropped when it returns, before \<open>rd_kafka_metadata\<close> is called
  with the pointer.
\<close>

definition native_topic :: "'w client_api \<Rightarrow> 'w world \<Rightarrow> bytes \<Rightarrow> ('w world \<times> addr KafkaResult) rust" where
  "native_topic api w topic =
     (case map_err kafka_error_from_nul (cstring_new topic) of
        Inl e \<Rightarrow> Ret (w, Err e)
      | Inr topic_c \<Rightarrow>
          (case rd_kafka_topic_new api (native w) topic_c of
             (n, t) \<Rightarrow> rust_map (\<lambda>p. (w\<lparr>native := n\<rparr>, Ok p)) (expect unwrap_none (native_ptr t))))"

definition fetch_metadata ::
    "'w client_api \<Rightarrow> 'w world \<Rightarrow> bytes option \<Rightarrow> timeout \<Rightarrow> ('w world \<times> addr KafkaResult) rust" where
  "fetch_metadata api w topic timeout =
     rust_bind
       (case topic of
          Some topic_name \<Rightarrow> rust_map (\<lambda>(w, r). (w, map_sum id (\<lambda>p. (0, Some p)) r)) (native_topic api w topic_name)
        | None \<Rightarrow> Ret (w, Ok (1, None)))
       (\<lambda>(w, r).
          case r of
            Inl e \<Rightarrow> Ret (w, Err e)
          | Inr (flag, nt) \<Rightarrow>
              let (w, p) = (case nt of Some t \<Rightarrow> (emit (Native_topic_destroy t) w, t) | None \<Rightarrow> (w, 0)) in
              (case rd_kafka_metadata api (native w) flag p (timeout_as_millis timeout) of
                 (n, ret, metadata_ptr) \<Rightarrow>
                   let w = emit (Native_metadata flag p (timeout_as_millis timeout)) (w\<lparr>native := n\<rparr>) in
                   if resp_err_is_error ret then Ret (w, Err (MetadataFetch (into_code ret)))
                   else rust_map (\<lambda>m. (w, Ok m)) (expect unwrap_none (native_ptr metadata_ptr))))"

definition fetch_watermarks ::
    "'w client_api \<Rightarrow> 'w world \<Rightarrow> bytes \<Rightarrow> int \<Rightarrow> timeout \<Rightarrow> 'w world \<times> (int \<times> int) KafkaResult" where
  "fetch_watermarks api w topic part timeout =
     (case map_err kafka_error_from_nul (cstring_new topic) of
        Inl e \<Rightarrow> (w, Err e)
      | Inr topic_c \<Rightarrow>
          (case rd_kafka_query_watermark_offsets api (native w) topic_c part (timeout_as_millis timeout) of
             (n, ret, low, high) \<Rightarrow>
               (w\<lparr>native := n\<rparr>,
                if resp_err_is_error ret then Err (MetadataFetch (into_code ret)) else Ok (low, high))))"

definition fetch_cluster_id :: "'w client_api \<Rightarrow> 'w world \<Rightarrow> timeout \<Rightarrow> 'w world \<times> bytes option" where
  "fetch_cluster_id api w timeout =
     (case rd_kafka_clusterid api (native w) (timeout_as_millis timeout) of
        (n, cluster_id) \<Rightarrow>
          (w\<lparr>native := n\<rparr>,
           case cluster_id of None \<Rightarrow> None | Some c \<Rightarrow> from_utf8 (cstr_bytes c)))"

definition fetch_group_list ::
    "'w client_api \<Rightarrow> 'w world \<Rightarrow> bytes option \<Rightarrow> timeout \<Rightarrow> ('w world \<times> addr KafkaResult) rust" where
  "fetch_group_list api w grp timeout =
     (case map_err kafka_error_from_nul (cstring_new (case grp of None \<Rightarrow> [] | Some g \<Rightarrow> g)) of
        Inl e \<Rightarrow> Ret (w, Err e)
      | Inr group_c \<Rightarrow>
          let group_c_ptr = (if grp \<noteq> None then Some group_c else None) in
          (case rd_kafka_list_groups api (native w) group_c_ptr (timeout_as_millis timeout) of
             (n, ret, group_list_ptr) \<Rightarrow>
               if resp_err_is_error ret then Ret (w\<lparr>native := n\<rparr>, Err (GroupListFetch (into_code ret)))
               else rust_map (\<lambda>p. (w\<lparr>native := n\<rparr>, Ok p)) (expect unwrap_none (native_ptr group_list_ptr))))"

definition fatal_error :: "'w client_api \<Rightarrow> 'w world \<Rightarrow> (RDKafkaErrorCode \<times> bytes) option rust" where
  "fatal_error api w =
     (case rd_kafka_fatal_error api (native w) errbuf_new of
        (code, err_buf) \<Rightarrow>
          if code = RD_KAFKA_RESP_ERR_NO_ERROR then Ret None
          else rust_map (\<lambda>text. Some (into_code code, text)) (errbuf_to_string err_buf))"

definition new_native_queue :: "'w client_api \<Rightarrow> 'w world \<Rightarrow> ('w world \<times> addr) rust" where
  "new_native_queue api w =
     (case rd_kafka_queue_new api (native w) of
        (n, q) \<Rightarrow> rust_map (\<lambda>p. (w\<lparr>native := n\<rparr>, p)) (expect unwrap_none (native_ptr q)))"

definition consumer_queue :: "'w client_api \<Rightarrow> 'w world \<Rightarrow> 'w world \<times> addr option" where
  "consumer_queue api w =
     (case rd_kafka_queue_get_consumer api (native w) of (n, q) \<Rightarrow> (w\<lparr>native := n\<rparr>, native_ptr q))"

definition main_queue :: "'w client_api \<Rightarrow> 'w world \<Rightarrow> ('w world \<times> addr) rust" where
  "main_queue api w =
     (case rd_kafka_queue_get_main api (native w) of
        (n, q) \<Rightarrow> rust_map (\<lambda>p. (w\<lparr>native := n\<rparr>, p)) (expect unwrap_none (native_ptr q)))"

datatype RebalanceProtocol = Protocol_None | Protocol_Eager | Protocol_Cooperative

definition rebalance_protocol :: "'w client_api \<Rightarrow> 'w world \<Rightarrow> RebalanceProtocol rust" where
  "rebalance_protocol api w =
     (case rd_kafka_rebalance_protocol api (native w) of
        None \<Rightarrow> Ret Protocol_None
      | Some s \<Rightarrow>
          let protocol = cstr_bytes s in
          if protocol = ''NONE'' then Ret Protocol_None
          else if protocol = ''EAGER'' then Ret Protocol_Eager
          else if protocol = ''COOPERATIVE'' then Ret Protocol_Cooperative
          else Panic ''internal error: entered unreachable code'')"

section \<open>Creating a client\<close>

record ('w, 'c) create_api =
  rd_kafka_conf_set_opaque :: "'c \<Rightarrow> addr \<Rightarrow> 'c"
  rd_kafka_new :: "'w \<Rightarrow> RDKafkaType \<Rightarrow> 'c \<Rightarrow> ErrBuf \<Rightarrow> 'w \<times> addr \<times> ErrBuf"
  rd_kafka_set_log_queue :: "'w \<Rightarrow> addr \<Rightarrow> addr \<Rightarrow> 'w \<times> RDKafkaRespErr"
  rd_kafka_set_log_level :: "'w \<Rightarrow> addr \<Rightarrow> int \<Rightarrow> 'w"

record Client =
  client_native :: addr
  client_arc :: arc

text \<open>
  The native configuration is dropped on the early return of \<open>?\<close>; afterwards it is wrapped
  in \<open>ManuallyDrop\<close>, so that no path destroys it.
\<close>

definition new_context_arc ::
    "'w client_api \<Rightarrow> ('w, 'c) create_api \<Rightarrow> 'c conf_api \<Rightarrow> 'w world \<Rightarrow> ClientConfig \<Rightarrow> 'c \<Rightarrow> RDKafkaType \<Rightarrow> arc
      \<Rightarrow> ('w world \<times> Client KafkaResult) rust" where
  "new_context_arc api capi conf w config native_config rd_kafka_type context =
     (let native_config = rd_kafka_conf_set_opaque capi native_config (arc_into_ptr context) in
      rust_bind (native_config_set conf native_config ''log.queue'' ''true'') (\<lambda>(native_config, r).
        case r of
          Inl e \<Rightarrow> Ret (emit Native_conf_destroy w, Err e)
        | Inr _ \<Rightarrow>
            (case rd_kafka_new capi (native w) rd_kafka_type native_config errbuf_new of
               (n, client_ptr, err_buf) \<Rightarrow>
                 let w = w\<lparr>native := n\<rparr> in
                 if client_ptr = 0
                 then rust_map (\<lambda>text. (w, Err (ClientCreation text))) (errbuf_to_string err_buf)
                 else
                   (case rd_kafka_queue_get_main api (native w) of
                      (n, q) \<Rightarrow>
                        (case rd_kafka_set_log_queue capi n client_ptr q of
                           (n, ret) \<Rightarrow>
                             if resp_err_is_error ret
                             then Ret (w\<lparr>native := n\<rparr>, Err (Global (into_code ret)))
                             else
                               Ret (w\<lparr>native := rd_kafka_set_log_level capi n client_ptr
                                        (log_level_discriminant (log_level config))\<rparr>,
                                    Ok \<lparr>client_native = client_ptr, client_arc = context\<rparr>))))))"

section \<open>Facts\<close>

lemma handle_log_event_trace:
  "\<exists>es. trace (handle_log_event ev w) = trace w @ es \<and> length es \<le> 1
    \<and> (\<forall>p. Native_event_destroy p \<notin> set es)"
  by (auto simp: handle_log_event_def)

lemma handle_oauth_refresh_trace:
  "trace (handle_oauth_refresh_event api ctx ev w) = trace w @
     (let config = map_option (\<lambda>c. to_string_lossy (cstr_bytes c)) (ev_config_string ev) in
      Ctx_generate_oauth_token config #
      (case oauth_token_strings ctx config of
         Inl e \<Rightarrow> [Native_set_token_failure
            (if NUL \<in> set e then ''error while refreshing OAuth token has embedded null character'' else e)]
       | Inr (token, princ, lifetime) \<Rightarrow>
           Native_set_token token lifetime princ #
           (case rd_kafka_oauthbearer_set_token api (native w) token lifetime princ errbuf_new of
              (_, code, err_buf) \<Rightarrow>
                if code = RD_KAFKA_RESP_ERR_NO_ERROR then []
                else [Native_set_token_failure (cstr_bytes (buf err_buf))])))"
proof -
  let ?config = "map_option (\<lambda>c. to_string_lossy (cstr_bytes c)) (ev_config_string ev)"
  show ?thesis
  proof (cases "oauth_token_strings ctx ?config")
    case (Inl e)
    then show ?thesis
      by (cases "NUL \<in> set e") (simp_all add: handle_oauth_refresh_event_def Let_def)
  next
    case (Inr t)
    obtain token princ lifetime where t: "t = (token, princ, lifetime)" by (cases t)
    obtain n code b where
      "rd_kafka_oauthbearer_set_token api (native w) token lifetime princ errbuf_new = (n, code, b)"
      by (cases "rd_kafka_oauthbearer_set_token api (native w) token lifetime princ errbuf_new")
    with Inr t show ?thesis by (simp add: handle_oauth_refresh_event_def Let_def)
  qed
qed

lemma oauth_token_strings_ok:
  "oauth_token_strings ctx config = Inr (token, princ, lifetime) \<Longrightarrow> NUL \<notin> set token \<and> NUL \<notin> set princ"
proof -
  assume "oauth_token_strings ctx config = Inr (token, princ, lifetime)"
  moreover have "map_err nul_error_display (cstring_new s) = Inr t \<longleftrightarrow> NUL \<notin> set s \<and> t = s" for s t
    by (cases "NUL \<in> set s") auto
  ultimately show ?thesis by (auto simp: oauth_token_strings_def)
qed

text \<open>Polling a queue never leaks an event or destroys it twice: an event that is consumed (log, statistics, token refresh) is destroyed
  exactly once, as the last effect; an event that is handed on is not destroyed, and its
  only effect is the error callback, made exactly for error events.\<close>

theorem poll_event_ownership:
  assumes "poll_event api ctx w queue t = (w', r)"
  shows "\<exists>es. trace w' = trace w @ es \<and>
    (case r of
       Poll_None \<Rightarrow> es = []
     | Poll_EventConsumed \<Rightarrow>
         \<exists>ev cb. snd (queue_poll api w queue t) = Some ev \<and> es = cb @ [Native_event_destroy (ev_ptr ev)]
           \<and> (\<forall>p. Native_event_destroy p \<notin> set cb)
           \<and> ev_type ev \<in> {RD_KAFKA_EVENT_LOG, RD_KAFKA_EVENT_STATS, RD_KAFKA_EVENT_OAUTHBEARER_TOKEN_REFRESH}
     | Poll_Event ev \<Rightarrow>
         snd (queue_poll api w queue t) = Some ev
         \<and> es = (if ev_type ev = RD_KAFKA_EVENT_ERROR
                 then [Ctx_error (Global (into_code (ev_error ev)))
                         (trim (to_string_lossy (cstr_bytes (ev_error_string ev))))] else []))"
proof -
  obtain w1 e where q: "queue_poll api w queue t = (w1, e)" by (cases "queue_poll api w queue t")
  have w1: "trace w1 = trace w" using q by (auto simp: queue_poll_def split: prod.splits)
  show ?thesis
  proof (cases e)
    case None
    with assms q w1 show ?thesis by (auto simp: poll_event_def)
  next
    case (Some ev)
    note defs = poll_event_def drop_event_def handle_stats_event_def handle_error_event_def
    consider "ev_type ev = RD_KAFKA_EVENT_LOG" | "ev_type ev = RD_KAFKA_EVENT_STATS"
      | "ev_type ev = RD_KAFKA_EVENT_ERROR" | "ev_type ev = RD_KAFKA_EVENT_OAUTHBEARER_TOKEN_REFRESH"
      | "ev_type ev \<notin> {RD_KAFKA_EVENT_LOG, RD_KAFKA_EVENT_STATS, RD_KAFKA_EVENT_ERROR,
           RD_KAFKA_EVENT_OAUTHBEARER_TOKEN_REFRESH}" by blast
    then show ?thesis
    proof cases
      case 1
      with assms q Some w1 handle_log_event_trace [of ev w1] show ?thesis by (auto simp: defs)
    next
      case 4
      have "\<exists>cb. trace (handle_oauth_refresh_event api ctx ev w1) = trace w1 @ cb
          \<and> (\<forall>p. Native_event_destroy p \<notin> set cb)"
        by (simp add: handle_oauth_refresh_trace Let_def split: sum.splits prod.splits)
      with assms q Some w1 4 show ?thesis by (auto simp: defs)
    qed (use assms q Some w1 in \<open>auto simp: defs\<close>)
  qed
qed

text \<open>
  An instance of the API for the witnesses: the state is the list of events still to be
  delivered, each poll takes the first, and each reading of the clock takes a nanosecond.
\<close>

definition client_instance :: "RDKafkaEvent list client_api" where
  "client_instance =
     \<lparr>tick = (\<lambda>n. (n, 1)),
      rd_kafka_queue_poll = (\<lambda>n q ms. case n of [] \<Rightarrow> ([], None) | ev # evs \<Rightarrow> (evs, Some ev)),
      rd_kafka_oauthbearer_set_token = (\<lambda>n t l p b. (n, RD_KAFKA_RESP_ERR_NO_ERROR, b)),
      rd_kafka_oauthbearer_set_token_failure = (\<lambda>n m. n),
      rd_kafka_topic_new = (\<lambda>n t. (n, 1)),
      rd_kafka_metadata = (\<lambda>n f t ms. (n, RD_KAFKA_RESP_ERR_NO_ERROR, 1)),
      rd_kafka_query_watermark_offsets = (\<lambda>n t p ms. (n, RD_KAFKA_RESP_ERR_NO_ERROR, 0, 0)),
      rd_kafka_clusterid = (\<lambda>n ms. (n, None)),
      rd_kafka_list_groups = (\<lambda>n g ms. (n, RD_KAFKA_RESP_ERR_NO_ERROR, 1)),
      rd_kafka_fatal_error = (\<lambda>n b. (RD_KAFKA_RESP_ERR_NO_ERROR, b)),
      rd_kafka_queue_new = (\<lambda>n. (n, 1)), rd_kafka_queue_get_consumer = (\<lambda>n. (n, 1)),
      rd_kafka_queue_get_main = (\<lambda>n. (n, 1)), rd_kafka_rebalance_protocol = (\<lambda>n. None)\<rparr>"

definition sample_event :: "int \<Rightarrow> RDKafkaEvent" where
  "sample_event ty =
     \<lparr>ev_ptr = 7, ev_type = ty, ev_error = RD_KAFKA_RESP_ERR__ALL_BROKERS_DOWN, ev_error_string = [NUL],
      ev_is_fatal = 0, ev_log = \<lparr>log_result = 0, log_fac = [NUL], log_str = [NUL], log_lvl = 3\<rparr>,
      ev_stats = [NUL], ev_config_string = None, ev_messages = [], ev_message_count = 0, ev_tpl = None\<rparr>"

definition sample_world :: "'w \<Rightarrow> 'w world" where
  "sample_world n = \<lparr>native = n, clock = 0, trace = []\<rparr>"

theorem poll_event_ownership_witness:
  "\<exists>es. trace (fst (poll_event client_instance DefaultClientContext
       (sample_world [sample_event RD_KAFKA_EVENT_STATS]) 1 Never)) = es
     \<and> count_list es (Native_event_destroy 7) = 1"
proof -
  let ?w = "sample_world [sample_event RD_KAFKA_EVENT_STATS]"
  obtain w' r where pe: "poll_event client_instance DefaultClientContext ?w 1 Never = (w', r)"
    by (cases "poll_event client_instance DefaultClientContext ?w 1 Never")
  then have "r = Poll_EventConsumed"
    by (auto simp: poll_event_def queue_poll_def client_instance_def sample_world_def sample_event_def)
  with poll_event_ownership [OF pe] pe show ?thesis
    by (auto simp: queue_poll_def client_instance_def sample_world_def sample_event_def count_list_0_iff)
qed

text \<open>Every token refresh ends with librdkafka being told the outcome: the token, when
  the context made one that is free of NULs, followed by a failure report with librdkafka's
  own message if it rejects the token; otherwise a failure report alone. No string with a
  NUL reaches librdkafka.\<close>

theorem oauth_refresh_always_answered:
  "\<exists>es. trace (handle_oauth_refresh_event api ctx ev w) =
      trace w @ Ctx_generate_oauth_token (map_option (\<lambda>c. to_string_lossy (cstr_bytes c)) (ev_config_string ev)) # es
    \<and> (case generate_oauth_token ctx (map_option (\<lambda>c. to_string_lossy (cstr_bytes c)) (ev_config_string ev)) of
         Inl e \<Rightarrow> es = [Native_set_token_failure
            (if NUL \<in> set e then ''error while refreshing OAuth token has embedded null character'' else e)]
       | Inr tok \<Rightarrow>
           if NUL \<in> set (oauth_token tok) \<or> NUL \<in> set (oauth_principal_name tok)
           then \<exists>m. NUL \<notin> set m \<and> es = [Native_set_token_failure m]
           else es = Native_set_token (oauth_token tok) (oauth_lifetime_ms tok) (oauth_principal_name tok) #
             (case rd_kafka_oauthbearer_set_token api (native w) (oauth_token tok) (oauth_lifetime_ms tok)
                     (oauth_principal_name tok) errbuf_new of
                (_, code, err_buf) \<Rightarrow>
                  if code = RD_KAFKA_RESP_ERR_NO_ERROR then []
                  else [Native_set_token_failure (cstr_bytes (buf err_buf))]))"
proof -
  let ?cfg = "map_option (\<lambda>c. to_string_lossy (cstr_bytes c)) (ev_config_string ev)"
  have disp: "NUL \<notin> set (nul_error_display e)" for e
    using show_nat_no_sign [of NUL] by (cases e) auto
  show ?thesis
  proof (cases "generate_oauth_token ctx ?cfg")
    case (Inl e)
    then show ?thesis by (simp add: handle_oauth_refresh_trace oauth_token_strings_def Let_def)
  next
    case (Inr tok)
    show ?thesis
    proof (cases "NUL \<in> set (oauth_token tok) \<or> NUL \<in> set (oauth_principal_name tok)")
      case True
      then obtain e where "oauth_token_strings ctx ?cfg = Inl (nul_error_display e)"
        using Inr by (cases "NUL \<in> set (oauth_token tok)")
          (auto simp: oauth_token_strings_def simp del: nul_error_display.simps)
      with Inr True disp [of e] show ?thesis by (simp add: handle_oauth_refresh_trace Let_def)
    next
      case False
      with Inr have "oauth_token_strings ctx ?cfg =
          Inr (oauth_token tok, oauth_principal_name tok, oauth_lifetime_ms tok)"
        by (simp add: oauth_token_strings_def)
      with Inr False show ?thesis by (simp add: handle_oauth_refresh_trace Let_def)
    qed
  qed
qed

text \<open>\<open>fetch_metadata\<close> for a topic releases its topic handle before it uses the pointer:
  whenever it gets as far as calling \<open>rd_kafka_metadata\<close>, the call comes after
  \<open>rd_kafka_topic_destroy\<close> on the very handle that is passed.\<close>

theorem fetch_metadata_topic_destroyed_first:
  assumes "NUL \<notin> set topic" and "rd_kafka_topic_new api (native w) topic = (n, p)" and "p \<noteq> 0"
    and "fetch_metadata api w (Some topic) t = Ret (w', r)"
  shows "trace w' = trace w @ [Native_topic_destroy p, Native_metadata 0 p (timeout_as_millis t)]"
  using assms
  by (auto simp: fetch_metadata_def native_topic_def native_ptr_def Let_def split: prod.splits if_splits)

theorem fetch_metadata_topic_destroyed_first_witness:
  "trace (case fetch_metadata client_instance (sample_world []) (Some ''t'') Never of Ret (w, _) \<Rightarrow> w | Panic _ \<Rightarrow> sample_world [])
     = [Native_topic_destroy 1, Native_metadata 0 1 (- 1)]"
proof -
  obtain w' r where f: "fetch_metadata client_instance (sample_world []) (Some ''t'') Never = Ret (w', r)"
    by (simp add: fetch_metadata_def native_topic_def client_instance_def native_ptr_def)
  show ?thesis
    using fetch_metadata_topic_destroyed_first [OF _ _ _ f, of "[]" 1] f
    by (simp add: client_instance_def sample_world_def timeout_as_millis_def)
qed

text \<open>When librdkafka refuses to create a client, the error carries its message, but
  the native configuration, which librdkafka has not taken over in that case, is never
  destroyed; likewise a client whose log queue cannot be set is not destroyed.\<close>

theorem client_creation_failure_leaks:
  assumes "native_config_set conf (rd_kafka_conf_set_opaque capi c (arc_into_ptr context)) ''log.queue'' ''true''
      = Ret (c', Ok ())"
    and "rd_kafka_new capi (native w) ty c' errbuf_new = (n, p, b)" and "errbuf_ok b"
  shows "\<exists>w' r. new_context_arc api capi conf w config c ty context = Ret (w', r) \<and> trace w' = trace w \<and>
    r = (if p = 0 then Err (ClientCreation (to_string_lossy (cstr_bytes (buf b))))
         else
           let (n1, q) = rd_kafka_queue_get_main api n;
               ret = snd (rd_kafka_set_log_queue capi n1 p q)
           in if ret = RD_KAFKA_RESP_ERR_NO_ERROR then Ok \<lparr>client_native = p, client_arc = context\<rparr>
              else Err (Global (into_code ret)))"
proof -
  have "errbuf_to_string b = Ret (to_string_lossy (cstr_bytes (buf b)))"
    using assms(3) by (simp add: errbuf_ok_def errbuf_to_string_def errbuf_filled_eq from_bytes_with_nul_def)
  with assms(1,2) show ?thesis
    by (auto simp: new_context_arc_def Let_def split: prod.splits)
qed

definition create_instance :: "(RDKafkaEvent list, (bytes \<times> bytes) list) create_api" where
  "create_instance =
     \<lparr>rd_kafka_conf_set_opaque = (\<lambda>c p. c), rd_kafka_new = (\<lambda>n ty c b. (n, 0, b)),
      rd_kafka_set_log_queue = (\<lambda>n p q. (n, RD_KAFKA_RESP_ERR_NO_ERROR)), rd_kafka_set_log_level = (\<lambda>n p l. n)\<rparr>"

theorem client_creation_failure_leaks_witness:
  "\<exists>w'. new_context_arc client_instance create_instance conf_instance (sample_world [])
      (client_config_new (\<lambda>_. True)) [] RD_KAFKA_PRODUCER (Arc 1)
    = Ret (w', Err (ClientCreation [])) \<and> Native_conf_destroy \<notin> set (trace w')"
proof -
  have 1: "native_config_set conf_instance (rd_kafka_conf_set_opaque create_instance [] (arc_into_ptr (Arc 1)))
      ''log.queue'' ''true'' = Ret ([(''log.queue'', ''true'')], Ok ())"
    by (simp add: native_config_set_def conf_instance_def create_instance_def)
  have 2: "rd_kafka_new create_instance (native (sample_world [])) RD_KAFKA_PRODUCER
      [(''log.queue'', ''true'')] errbuf_new = ([], 0, errbuf_new)"
    by (simp add: create_instance_def sample_world_def)
  have "cstr_bytes (buf errbuf_new) = []"
    by (simp add: cstr_bytes_def errbuf_new_def MAX_ERR_LEN_def)
  with client_creation_failure_leaks [OF 1 2 errbuf_new_ok,
      of client_instance "client_config_new (\<lambda>_. True)"] show ?thesis
    by (fastforce simp: sample_world_def)
qed

end
