(* ===== verification/Producer.thy ===== *)
theory Producer
  imports Client
begin

text \<open>
  \<open>src/producer/mod.rs\<close> and \<open>src/producer/base_producer.rs\<close>: purge settings, partitioners,
  records, and the base producer with its event loop, \<open>send\<close>, \<open>flush\<close>, \<open>purge\<close>, the
  transaction operations and its \<open>Drop\<close>. The loops of \<open>poll\<close> and \<open>flush\<close> are partial
  functions: \<open>None\<close> is a call that never returns.
\<close>

unbundle bit_operations_syntax

section \<open>Purge settings\<close>

record PurgeConfig =
  flag_bits :: "32 word"

abbreviation RD_KAFKA_PURGE_F_QUEUE :: "32 word" where "RD_KAFKA_PURGE_F_QUEUE \<equiv> 1"
abbreviation RD_KAFKA_PURGE_F_INFLIGHT :: "32 word" where "RD_KAFKA_PURGE_F_INFLIGHT \<equiv> 2"
abbreviation RD_KAFKA_PURGE_F_NON_BLOCKING :: "32 word" where "RD_KAFKA_PURGE_F_NON_BLOCKING \<equiv> 4"

definition purge_default :: PurgeConfig where
  "purge_default = \<lparr>flag_bits = 0\<rparr>"

definition purge_queue :: "PurgeConfig \<Rightarrow> PurgeConfig" where
  "purge_queue c = \<lparr>flag_bits = flag_bits c OR RD_KAFKA_PURGE_F_QUEUE\<rparr>"

definition purge_inflight :: "PurgeConfig \<Rightarrow> PurgeConfig" where
  "purge_inflight c = \<lparr>flag_bits = flag_bits c OR RD_KAFKA_PURGE_F_INFLIGHT\<rparr>"

definition purge_non_blocking :: "PurgeConfig \<Rightarrow> PurgeConfig" where
  "purge_non_blocking c = \<lparr>flag_bits = flag_bits c OR RD_KAFKA_PURGE_F_NON_BLOCKING\<rparr>"

text \<open>The methods that the macro generates for each setter, and what \<open>Debug\<close> shows of it.\<close>

definition purge_unset :: "(PurgeConfig \<Rightarrow> PurgeConfig) \<Rightarrow> PurgeConfig \<Rightarrow> PurgeConfig" where
  "purge_unset set_fn c = \<lparr>flag_bits = flag_bits c AND NOT (flag_bits (set_fn purge_default))\<rparr>"

definition purge_no_queue :: "PurgeConfig \<Rightarrow> PurgeConfig" where
  "purge_no_queue = purge_unset purge_queue"

definition purge_no_inflight :: "PurgeConfig \<Rightarrow> PurgeConfig" where
  "purge_no_inflight = purge_unset purge_inflight"

definition purge_blocking :: "PurgeConfig \<Rightarrow> PurgeConfig" where
  "purge_blocking = purge_unset purge_non_blocking"

definition purge_shows :: "(PurgeConfig \<Rightarrow> PurgeConfig) \<Rightarrow> PurgeConfig \<Rightarrow> bool" where
  "purge_shows set_fn c \<longleftrightarrow> flag_bits c AND flag_bits (set_fn purge_default) \<noteq> 0"

section \<open>Partitioners\<close>

abbreviation PARTITION_UA :: int where "PARTITION_UA \<equiv> - 1"

type_synonym partitioner = "bytes \<Rightarrow> bytes option \<Rightarrow> int \<Rightarrow> (int \<Rightarrow> bool) \<Rightarrow> int rust"

definition NoCustomPartitioner_partition :: partitioner where
  "NoCustomPartitioner_partition _ _ _ _ = Panic ''NoCustomPartitioner should not be called''"

text \<open>
  The callback that librdkafka runs for a message; \<open>topic_name\<close> and \<open>available\<close> stand for
  \<open>rd_kafka_topic_name\<close> and \<open>rd_kafka_topic_partition_available\<close>.
\<close>

definition partitioner_cb ::
    "(addr \<Rightarrow> bytes) \<Rightarrow> (addr \<Rightarrow> int \<Rightarrow> int) \<Rightarrow> partitioner option \<Rightarrow> addr \<Rightarrow> char ptr \<Rightarrow> nat \<Rightarrow> int \<Rightarrow> int rust" where
  "partitioner_cb topic_name available custom_partitioner topic keydata keylen partition_cnt =
     (let name = cstr_bytes (topic_name topic);
          is_partition_available = (\<lambda>p. available topic p = 1);
          key = (case keydata of None \<Rightarrow> None | Some m \<Rightarrow> Some (take keylen m))
      in rust_bind (expect ''custom partitioner is not set'' custom_partitioner) (\<lambda>f.
           f name key partition_cnt is_partition_available))"

section \<open>Records\<close>

record ('k, 'p, 'd, 'h) BaseRecord =
  br_topic :: bytes
  br_partition :: "int option"
  br_payload :: "'p option"
  br_key :: "'k option"
  br_timestamp :: "int option"
  br_headers :: "'h OwnedHeaders option"
  br_delivery_opaque :: 'd

definition with_opaque_to :: "bytes \<Rightarrow> 'd \<Rightarrow> ('k, 'p, 'd, 'h) BaseRecord" where
  "with_opaque_to topic delivery_opaque =
     \<lparr>br_topic = topic, br_partition = None, br_payload = None, br_key = None, br_timestamp = None,
      br_headers = None, br_delivery_opaque = delivery_opaque\<rparr>"

definition record_to :: "bytes \<Rightarrow> ('k, 'p, unit, 'h) BaseRecord" where
  "record_to topic =
     \<lparr>br_topic = topic, br_partition = None, br_payload = None, br_key = None, br_timestamp = None,
      br_headers = None, br_delivery_opaque = ()\<rparr>"

definition br_set_partition :: "('k, 'p, 'd, 'h) BaseRecord \<Rightarrow> int \<Rightarrow> ('k, 'p, 'd, 'h) BaseRecord" where
  "br_set_partition r part = r\<lparr>br_partition := Some part\<rparr>"

definition br_set_payload :: "('k, 'p, 'd, 'h) BaseRecord \<Rightarrow> 'p \<Rightarrow> ('k, 'p, 'd, 'h) BaseRecord" where
  "br_set_payload r payload = r\<lparr>br_payload := Some payload\<rparr>"

definition br_set_key :: "('k, 'p, 'd, 'h) BaseRecord \<Rightarrow> 'k \<Rightarrow> ('k, 'p, 'd, 'h) BaseRecord" where
  "br_set_key r key = r\<lparr>br_key := Some key\<rparr>"

definition br_set_timestamp :: "('k, 'p, 'd, 'h) BaseRecord \<Rightarrow> int \<Rightarrow> ('k, 'p, 'd, 'h) BaseRecord" where
  "br_set_timestamp r timestamp = r\<lparr>br_timestamp := Some timestamp\<rparr>"

definition br_set_headers :: "('k, 'p, 'd, 'h) BaseRecord \<Rightarrow> 'h OwnedHeaders \<Rightarrow> ('k, 'p, 'd, 'h) BaseRecord" where
  "br_set_headers r headers = r\<lparr>br_headers := Some headers\<rparr>"

definition br_set_topic :: "('k, 'p, 'd, 'h) BaseRecord \<Rightarrow> bytes \<Rightarrow> ('k, 'p, 'd, 'h) BaseRecord" where
  "br_set_topic r topic = r\<lparr>br_topic := topic\<rparr>"

definition br_set_delivery_opaque :: "('k, 'p, 'd, 'h) BaseRecord \<Rightarrow> 'd \<Rightarrow> ('k, 'p, 'd, 'h) BaseRecord" where
  "br_set_delivery_opaque r delivery_opaque = r\<lparr>br_delivery_opaque := delivery_opaque\<rparr>"

section \<open>The functions of librdkafka on producers\<close>

text \<open>The tagged arguments of \<open>rd_kafka_producev\<close>.\<close>

record 'h producev_args =
  pv_topic :: bytes
  pv_partition :: int
  pv_msgflags :: int
  pv_value :: "char ptr"
  pv_value_len :: nat
  pv_key :: "char ptr"
  pv_key_len :: nat
  pv_opaque :: addr
  pv_timestamp :: int
  pv_headers :: "'h option"

record ('w, 'h) producer_api =
  rd_kafka_producev :: "'w \<Rightarrow> 'h producev_args \<Rightarrow> 'w \<times> RDKafkaRespErr"
  rd_kafka_flush :: "'w \<Rightarrow> int \<Rightarrow> 'w \<times> RDKafkaRespErr"
  rd_kafka_purge :: "'w \<Rightarrow> 32 word \<Rightarrow> 'w \<times> RDKafkaRespErr"
  rd_kafka_outq_len :: "'w \<Rightarrow> int"
  rd_kafka_init_transactions :: "'w \<Rightarrow> int \<Rightarrow> 'w \<times> addr"
  rd_kafka_begin_transaction :: "'w \<Rightarrow> 'w \<times> addr"
  rd_kafka_send_offsets_to_transaction :: "'w \<Rightarrow> TopicPartitionList \<Rightarrow> addr \<Rightarrow> int \<Rightarrow> 'w \<times> addr"
  rd_kafka_commit_transaction :: "'w \<Rightarrow> int \<Rightarrow> 'w \<times> addr"
  rd_kafka_abort_transaction :: "'w \<Rightarrow> int \<Rightarrow> 'w \<times> addr"

abbreviation RD_KAFKA_MSG_F_COPY :: int where "RD_KAFKA_MSG_F_COPY \<equiv> 2"

section \<open>Reading deadlines\<close>

text \<open>
  The conversions between timeouts and deadlines that read the clock. A deadline that
  never elapses is handled without reading it.
\<close>

definition deadline_of_timeout :: "'w ticks \<Rightarrow> 'w world \<Rightarrow> timeout \<Rightarrow> ('w world \<times> deadline) rust" where
  "deadline_of_timeout tk w t =
     (case t of
        After d \<Rightarrow> (case instant_now tk w of (w, now) \<Rightarrow> rust_map (\<lambda>dl. (w, dl)) (deadline_from_timeout now t))
      | Never \<Rightarrow> rust_map (\<lambda>dl. (w, dl)) (deadline_from_timeout 0 t))"

definition read_remaining :: "'w ticks \<Rightarrow> 'w world \<Rightarrow> deadline \<Rightarrow> 'w world \<times> duration" where
  "read_remaining tk w d =
     (case d of
        Deadline_At _ \<Rightarrow> (case instant_now tk w of (w, now) \<Rightarrow> (w, deadline_remaining now d))
      | Deadline_Never \<Rightarrow> (w, deadline_remaining 0 d))"

definition read_timeout :: "'w ticks \<Rightarrow> 'w world \<Rightarrow> deadline \<Rightarrow> 'w world \<times> timeout" where
  "read_timeout tk w d =
     (case d of
        Deadline_At _ \<Rightarrow> (case instant_now tk w of (w, now) \<Rightarrow> (w, timeout_from_deadline now d))
      | Deadline_Never \<Rightarrow> (w, timeout_from_deadline 0 d))"

definition read_elapsed :: "'w ticks \<Rightarrow> 'w world \<Rightarrow> deadline \<Rightarrow> 'w world \<times> bool" where
  "read_elapsed tk w d =
     (case read_remaining tk w d of (w, r) \<Rightarrow> (w, r \<le> 0))"

section \<open>The event loop\<close>

fun deliver_messages :: "RDKafkaMessage list \<Rightarrow> addr \<Rightarrow> 'w world \<Rightarrow> 'w world rust" where
  "deliver_messages [] ev w = Ret w"
| "deliver_messages (msg # messages) ev w =
     rust_bind (from_dr_event (Some msg) ev) (\<lambda>delivery_result.
       deliver_messages messages ev (emit (Ctx_delivery delivery_result (msg_private msg)) w))"

definition handle_delivery_report_event :: "RDKafkaEvent \<Rightarrow> 'w world \<Rightarrow> 'w world rust" where
  "handle_delivery_report_event event w =
     (let max_messages = ev_message_count event;
          messages = take max_messages (ev_messages event)
      in rust_map (drop_event event) (deliver_messages messages (ev_ptr event) w))"

definition producer_handle_error_event :: "RDKafkaEvent \<Rightarrow> 'w world \<Rightarrow> 'w world" where
  "producer_handle_error_event event w =
     drop_event event
       (emit (Ctx_error (Global (into_code (ev_error event)))
          (trim (to_string_lossy (cstr_bytes (ev_error_string event))))) w)"

definition producer_handle_event :: "RDKafkaEvent \<Rightarrow> 'w world \<Rightarrow> 'w world rust" where
  "producer_handle_event ev w =
     (if ev_type ev = RD_KAFKA_EVENT_DR then handle_delivery_report_event ev w
      else if ev_type ev = RD_KAFKA_EVENT_ERROR then Ret (producer_handle_error_event ev w)
      else Ret (drop_event ev w))"

definition producer_poll_once ::
    "'w client_api \<Rightarrow> client_context \<Rightarrow> addr \<Rightarrow> deadline \<Rightarrow> 'w world \<Rightarrow> 'w world rust" where
  "producer_poll_once api ctx queue deadline w =
     (let (w, t) = read_timeout (tick api) w deadline;
          (w, event) = poll_event api ctx w queue t
      in case event of
           Poll_Event ev \<Rightarrow> producer_handle_event ev w
         | _ \<Rightarrow> Ret w)"

partial_function (option) producer_poll_loop ::
    "'w client_api \<Rightarrow> client_context \<Rightarrow> addr \<Rightarrow> deadline \<Rightarrow> 'w world \<Rightarrow> 'w world rust option" where
  "producer_poll_loop api ctx queue deadline w =
     (case producer_poll_once api ctx queue deadline w of
        Panic m \<Rightarrow> Some (Panic m)
      | Ret w \<Rightarrow>
          (case read_elapsed (tick api) w deadline of
             (w, elapsed) \<Rightarrow>
               if elapsed then Some (Ret w) else producer_poll_loop api ctx queue deadline w))"

definition producer_poll ::
    "'w client_api \<Rightarrow> client_context \<Rightarrow> addr \<Rightarrow> timeout \<Rightarrow> 'w world \<Rightarrow> 'w world rust option" where
  "producer_poll api ctx queue timeout w =
     (case deadline_of_timeout (tick api) w timeout of
        Panic m \<Rightarrow> Some (Panic m)
      | Ret (w, deadline) \<Rightarrow> producer_poll_loop api ctx queue deadline w)"

section \<open>Sending\<close>

definition as_bytes :: "('v \<Rightarrow> bytes) \<Rightarrow> 'v option \<Rightarrow> char ptr \<times> nat" where
  "as_bytes to_bytes opt =
     (case map_option to_bytes opt of None \<Rightarrow> (None, 0) | Some p \<Rightarrow> (Some p, length p))"

definition producer_send ::
    "('w, 'h) producer_api \<Rightarrow> ('k \<Rightarrow> bytes) \<Rightarrow> ('p \<Rightarrow> bytes) \<Rightarrow> ('d \<Rightarrow> addr) \<Rightarrow> (addr \<Rightarrow> 'd) \<Rightarrow> 'w world
      \<Rightarrow> ('k, 'p, 'd, 'h) BaseRecord \<Rightarrow> 'w world \<times> ((KafkaError \<times> ('k, 'p, 'd, 'h) BaseRecord) + unit)" where
  "producer_send papi key_bytes payload_bytes into_ptr from_ptr w record =
     (let (payload_ptr, payload_len) = as_bytes payload_bytes (br_payload record);
          (key_ptr, key_len) = as_bytes key_bytes (br_key record)
      in case cstring_new (br_topic record) of
           Inl nul_error \<Rightarrow> (w, Err (kafka_error_from_nul nul_error, record))
         | Inr topic_c \<Rightarrow>
             let opaque_ptr = into_ptr (br_delivery_opaque record);
                 part = (case br_partition record of None \<Rightarrow> - 1 | Some p \<Rightarrow> p);
                 (n, produce_error) = rd_kafka_producev papi (native w)
                   \<lparr>pv_topic = topic_c, pv_partition = part, pv_msgflags = RD_KAFKA_MSG_F_COPY,
                    pv_value = payload_ptr, pv_value_len = payload_len, pv_key = key_ptr, pv_key_len = key_len,
                    pv_opaque = opaque_ptr,
                    pv_timestamp = (case br_timestamp record of None \<Rightarrow> 0 | Some ts \<Rightarrow> ts),
                    pv_headers = map_option oh_ptr (br_headers record)\<rparr>;
                 w = emit (Native_producev topic_c part opaque_ptr) (w\<lparr>native := n\<rparr>)
             in if resp_err_is_error produce_error
                then (w, Err (MessageProduction (into_code produce_error),
                              record\<lparr>br_delivery_opaque := from_ptr opaque_ptr\<rparr>))
                else (w, Ok ()))"

section \<open>Flush, purge and transactions\<close>

definition call_flush :: "('w, 'h) producer_api \<Rightarrow> 'w world \<Rightarrow> int \<Rightarrow> 'w world \<times> RDKafkaRespErr" where
  "call_flush papi w ms =
     (case rd_kafka_flush papi (native w) ms of (n, err) \<Rightarrow> (emit (Native_flush ms) (w\<lparr>native := n\<rparr>), err))"

partial_function (option) producer_flush_loop ::
    "'w client_api \<Rightarrow> ('w, 'h) producer_api \<Rightarrow> client_context \<Rightarrow> addr \<Rightarrow> deadline \<Rightarrow> 'w world
      \<Rightarrow> ('w world \<times> unit KafkaResult) rust option" where
  "producer_flush_loop api papi ctx queue deadline w =
     (case call_flush papi w 0 of
        (w, err) \<Rightarrow>
          if err = RD_KAFKA_RESP_ERR_NO_ERROR then Some (Ret (w, Ok ()))
          else if err = RD_KAFKA_RESP_ERR__TIMED_OUT then
            (case read_elapsed (tick api) w deadline of
               (w, elapsed) \<Rightarrow>
                 if elapsed then Some (Ret (w, Err (Flush (into_code err))))
                 else
                   (case read_remaining (tick api) w deadline of
                      (w, remaining) \<Rightarrow>
                        Option.bind (producer_poll api ctx queue (After (min remaining (from_millis 100))) w) (\<lambda>r.
                          case r of
                            Panic m \<Rightarrow> Some (Panic m)
                          | Ret w \<Rightarrow> producer_flush_loop api papi ctx queue deadline w)))
          else Some (Ret (w, Err (Flush (into_code err)))))"

definition producer_flush ::
    "'w client_api \<Rightarrow> ('w, 'h) producer_api \<Rightarrow> client_context \<Rightarrow> addr \<Rightarrow> timeout \<Rightarrow> 'w world
      \<Rightarrow> ('w world \<times> unit KafkaResult) rust option" where
  "producer_flush api papi ctx queue timeout w =
     (case deadline_of_timeout (tick api) w timeout of
        Panic m \<Rightarrow> Some (Panic m)
      | Ret (w, deadline) \<Rightarrow> producer_flush_loop api papi ctx queue deadline w)"

definition producer_purge ::
    "error_api \<Rightarrow> ('w, 'h) producer_api \<Rightarrow> 'w world \<Rightarrow> PurgeConfig \<Rightarrow> 'w world rust" where
  "producer_purge eapi papi w flags =
     (case rd_kafka_purge papi (native w) (flag_bits flags) of
        (n, ret) \<Rightarrow>
          if resp_err_is_error ret
          then Panic (''According to librdkafka's doc, calling this with valid arguments on a producer can only result in a success, but it still failed: ''
                 @ error_code_display (rd_kafka_err2str eapi) (into_code ret))
          else Ret (emit (Native_purge (sint (flag_bits flags))) (w\<lparr>native := n\<rparr>)))"

definition in_flight_count :: "('w, 'h) producer_api \<Rightarrow> 'w world \<Rightarrow> int" where
  "in_flight_count papi w = rd_kafka_outq_len papi (native w)"

text \<open>A null error pointer is success, any other is a transaction error.\<close>

definition transaction_result :: "addr \<Rightarrow> unit KafkaResult" where
  "transaction_result p =
     (let ret = rdkafka_error_from_ptr p in
      if rdkafka_error_is_error ret then Err (Transaction ret) else Ok ())"

definition init_transactions ::
    "('w, 'h) producer_api \<Rightarrow> 'w world \<Rightarrow> timeout \<Rightarrow> 'w world \<times> unit KafkaResult" where
  "init_transactions papi w timeout =
     (case rd_kafka_init_transactions papi (native w) (timeout_as_millis timeout) of
        (n, p) \<Rightarrow> (w\<lparr>native := n\<rparr>, transaction_result p))"

definition begin_transaction :: "('w, 'h) producer_api \<Rightarrow> 'w world \<Rightarrow> 'w world \<times> unit KafkaResult" where
  "begin_transaction papi w =
     (case rd_kafka_begin_transaction papi (native w) of (n, p) \<Rightarrow> (w\<lparr>native := n\<rparr>, transaction_result p))"

definition send_offsets_to_transaction ::
    "('w, 'h) producer_api \<Rightarrow> 'w world \<Rightarrow> TopicPartitionList \<Rightarrow> addr \<Rightarrow> timeout \<Rightarrow> 'w world \<times> unit KafkaResult" where
  "send_offsets_to_transaction papi w offsets cgm timeout =
     (case rd_kafka_send_offsets_to_transaction papi (native w) offsets cgm (timeout_as_millis timeout) of
        (n, p) \<Rightarrow> (w\<lparr>native := n\<rparr>, transaction_result p))"

definition commit_transaction ::
    "'w client_api \<Rightarrow> ('w, 'h) producer_api \<Rightarrow> client_context \<Rightarrow> addr \<Rightarrow> timeout \<Rightarrow> 'w world
      \<Rightarrow> ('w world \<times> unit KafkaResult) rust option" where
  "commit_transaction api papi ctx queue timeout w =
     Option.bind (producer_flush api papi ctx queue timeout w) (\<lambda>r.
       case r of
         Panic m \<Rightarrow> Some (Panic m)
       | Ret (w, Inl e) \<Rightarrow> Some (Ret (w, Err e))
       | Ret (w, Inr _) \<Rightarrow>
           (case rd_kafka_commit_transaction papi (native w) (timeout_as_millis timeout) of
              (n, p) \<Rightarrow>
                Some (Ret (emit (Native_commit_transaction (timeout_as_millis timeout)) (w\<lparr>native := n\<rparr>),
                           transaction_result p))))"

definition abort_transaction ::
    "('w, 'h) producer_api \<Rightarrow> 'w world \<Rightarrow> timeout \<Rightarrow> 'w world \<times> unit KafkaResult" where
  "abort_transaction papi w timeout =
     (case rd_kafka_abort_transaction papi (native w) (timeout_as_millis timeout) of
        (n, p) \<Rightarrow>
          (emit (Native_abort_transaction (timeout_as_millis timeout)) (w\<lparr>native := n\<rparr>), transaction_result p))"

text \<open>\<open>Drop\<close>: purge what is queued or in flight, then flush for at most half a second.\<close>

definition base_producer_drop ::
    "'w client_api \<Rightarrow> ('w, 'h) producer_api \<Rightarrow> error_api \<Rightarrow> client_context \<Rightarrow> addr \<Rightarrow> 'w world \<Rightarrow> 'w world rust option" where
  "base_producer_drop api papi eapi ctx queue w =
     (case producer_purge eapi papi w (purge_inflight (purge_queue purge_default)) of
        Panic m \<Rightarrow> Some (Panic m)
      | Ret w \<Rightarrow>
          Option.bind (producer_flush api papi ctx queue (After (from_millis 500)) w) (\<lambda>r. Some (rust_map fst r)))"

section \<open>Creating a base producer\<close>

record BaseProducer =
  bp_client :: Client
  bp_queue :: addr

text \<open>
  The calls on the native configuration: registering the partitioner callback with the
  context as its opaque in the default topic configuration, and choosing the event types
  that are delivered through the queue.
\<close>

record 'c producer_conf_api =
  rd_kafka_topic_conf_set_partitioner :: "'c \<Rightarrow> addr \<Rightarrow> 'c"
  rd_kafka_conf_set_events :: "'c \<Rightarrow> int \<Rightarrow> 'c"

definition base_producer_from_client ::
    "'w client_api \<Rightarrow> 'w world \<Rightarrow> Client \<Rightarrow> ('w world \<times> BaseProducer) rust" where
  "base_producer_from_client api w client =
     rust_map (\<lambda>(w, queue). (w, \<lparr>bp_client = client, bp_queue = queue\<rparr>)) (main_queue api w)"

definition base_producer_from_config_and_context ::
    "'w client_api \<Rightarrow> ('w, 'c) create_api \<Rightarrow> 'c conf_api \<Rightarrow> 'c producer_conf_api \<Rightarrow> map_iter \<Rightarrow> 'w world
      \<Rightarrow> ClientConfig \<Rightarrow> arc \<Rightarrow> bool \<Rightarrow> ('w world \<times> BaseProducer KafkaResult) rust" where
  "base_producer_from_config_and_context api capi conf pconf iter w config context has_partitioner =
     rust_bind (create_native_config conf iter config) (\<lambda>r.
       case r of
         Inl e \<Rightarrow> Ret (w, Err e)
       | Inr c \<Rightarrow>
           let c = (if has_partitioner then rd_kafka_topic_conf_set_partitioner pconf c (arc_into_ptr context) else c);
               c = rd_kafka_conf_set_events pconf c
                     (RD_KAFKA_EVENT_DR OR RD_KAFKA_EVENT_STATS OR RD_KAFKA_EVENT_ERROR
                       OR RD_KAFKA_EVENT_OAUTHBEARER_TOKEN_REFRESH)
           in rust_bind (new_context_arc api capi conf w config c RD_KAFKA_PRODUCER context) (\<lambda>(w, r).
                case r of
                  Inl e \<Rightarrow> Ret (w, Err e)
                | Inr client \<Rightarrow> rust_map (\<lambda>(w, p). (w, Ok p)) (base_producer_from_client api w client)))"

section \<open>Facts on the clock and the trace\<close>

lemma handle_oauth_refresh_clock [simp]: "clock (handle_oauth_refresh_event api ctx ev w) = clock w"
  by (simp add: handle_oauth_refresh_event_def Let_def split: sum.splits prod.splits)

lemma poll_event_clock: "poll_event api ctx w q t = (w', r) \<Longrightarrow> clock w' = clock w"
  by (auto simp: poll_event_def queue_poll_def drop_event_def handle_log_event_def handle_stats_event_def
      handle_error_event_def split: prod.splits option.splits if_splits)

definition delivery_result_of :: "addr \<Rightarrow> RDKafkaMessage \<Rightarrow> DeliveryResult" where
  "delivery_result_of ev m =
     (if msg_err m = RD_KAFKA_RESP_ERR_NO_ERROR then Ok \<lparr>bm_ptr = m, bm_event = ev\<rparr>
      else Err (MessageProduction (into_code (msg_err m)), \<lparr>bm_ptr = m, bm_event = ev\<rparr>))"

lemma deliver_messages_eq:
  "deliver_messages ms ev w =
     Ret (w\<lparr>trace := trace w @ map (\<lambda>m. Ctx_delivery (delivery_result_of ev m) (msg_private m)) ms\<rparr>)"
  by (induction ms arbitrary: w) (simp_all add: delivery_result_of_def emit_def)

definition event_messages :: "RDKafkaEvent \<Rightarrow> RDKafkaMessage list" where
  "event_messages ev = take (ev_message_count ev) (ev_messages ev)"

text \<open>The effects of handling one event, and that handling it never panics.\<close>

definition producer_effects :: "RDKafkaEvent \<Rightarrow> effect list" where
  "producer_effects ev =
     (if ev_type ev = RD_KAFKA_EVENT_DR
      then map (\<lambda>m. Ctx_delivery (delivery_result_of (ev_ptr ev) m) (msg_private m)) (event_messages ev)
      else if ev_type ev = RD_KAFKA_EVENT_ERROR
      then [Ctx_error (Global (into_code (ev_error ev))) (trim (to_string_lossy (cstr_bytes (ev_error_string ev))))]
      else []) @ [Native_event_destroy (ev_ptr ev)]"

lemma producer_handle_event_eq:
  "producer_handle_event ev w = Ret (w\<lparr>trace := trace w @ producer_effects ev\<rparr>)"
  by (simp add: producer_handle_event_def handle_delivery_report_event_def producer_handle_error_event_def
      deliver_messages_eq producer_effects_def event_messages_def drop_event_def emit_def Let_def)

lemma read_remaining_mono: "read_remaining tk w d = (w', r) \<Longrightarrow> clock w \<le> clock w' \<and> trace w' = trace w"
  by (auto simp: read_remaining_def instant_now_def split: deadline.splits prod.splits)

lemma read_timeout_mono: "read_timeout tk w d = (w', t) \<Longrightarrow> clock w \<le> clock w' \<and> trace w' = trace w"
  by (auto simp: read_timeout_def instant_now_def split: deadline.splits prod.splits)

lemma read_elapsed_at:
  "read_elapsed tk w (Deadline_At i) = (w', e) \<Longrightarrow>
     clock w' = clock w + snd (tk (native w)) \<and> (e \<longleftrightarrow> i \<le> clock w') \<and> trace w' = trace w"
  by (auto simp: read_elapsed_def read_remaining_def instant_now_def split: prod.splits)

lemma read_elapsed_never: "read_elapsed tk w Deadline_Never = (w, False)"
  by (simp add: read_elapsed_def read_remaining_def duration_max_def)

lemma producer_poll_once_Ret:
  obtains w' where "producer_poll_once api ctx q d w = Ret w'" and "clock w \<le> clock w'"
proof -
  obtain w1 t where 1: "read_timeout (tick api) w d = (w1, t)" by (cases "read_timeout (tick api) w d")
  obtain w2 r where 2: "poll_event api ctx w1 q t = (w2, r)" by (cases "poll_event api ctx w1 q t")
  have "clock w \<le> clock w2" using read_timeout_mono [OF 1] poll_event_clock [OF 2] by simp
  then show thesis
    using that 1 2
    by (cases r) (auto simp: producer_poll_once_def producer_handle_event_eq)
qed

section \<open>Termination of the event loop\<close>

lemma producer_poll_loop_terminates:
  assumes "clock_advances (tick api)"
  shows "\<exists>w'. producer_poll_loop api ctx q (Deadline_At i) w = Some (Ret w') \<and> i \<le> clock w' \<and> clock w \<le> clock w'"
proof (induction "i - clock w" arbitrary: w rule: less_induct)
  case less
  obtain w1 where 1: "producer_poll_once api ctx q (Deadline_At i) w = Ret w1" "clock w \<le> clock w1"
    by (rule producer_poll_once_Ret)
  obtain w2 e where 2: "read_elapsed (tick api) w1 (Deadline_At i) = (w2, e)"
    by (cases "read_elapsed (tick api) w1 (Deadline_At i)")
  have c2: "clock w1 < clock w2" "e \<longleftrightarrow> i \<le> clock w2"
    using read_elapsed_at [OF 2] clock_advancesD [OF assms, of "native w1"] by simp_all
  have step: "producer_poll_loop api ctx q (Deadline_At i) w =
      (if e then Some (Ret w2) else producer_poll_loop api ctx q (Deadline_At i) w2)"
    by (subst producer_poll_loop.simps) (simp add: 1 2)
  show ?case
  proof (cases e)
    case True
    with step c2 1 show ?thesis by auto
  next
    case False
    with c2 1 have "i - clock w2 < i - clock w" by simp
    from less [OF this] step False c2 1 show ?thesis by fastforce
  qed
qed

lemma producer_poll_loop_never:
  assumes "producer_poll_loop api ctx q d w = Some r"
  shows "d \<noteq> Deadline_Never"
proof (rule producer_poll_loop.raw_induct [where P = "\<lambda>_ _ _ d _ _. d \<noteq> Deadline_Never", OF _ assms])
  fix f :: "'a client_api \<Rightarrow> client_context \<Rightarrow> addr \<Rightarrow> deadline \<Rightarrow> 'a world \<Rightarrow> 'a world rust option"
    and api ctx q d and w :: "'a world" and r
  assume IH: "\<And>api ctx q d w r. f api ctx q d w = Some r \<Longrightarrow> d \<noteq> Deadline_Never"
    and body: "(case producer_poll_once api ctx q d w of
        Panic m \<Rightarrow> Some (Panic m)
      | Ret w \<Rightarrow> (case read_elapsed (tick api) w d of
           (w, elapsed) \<Rightarrow> if elapsed then Some (Ret w) else f api ctx q d w)) = Some r"
  obtain w1 where "producer_poll_once api ctx q d w = Ret w1" by (rule producer_poll_once_Ret)
  with body IH [of api ctx q d w1 r] show "d \<noteq> Deadline_Never" by (auto simp: read_elapsed_never)
qed

text \<open>\<open>BaseProducer::poll\<close> with a finite timeout returns, provided that time passes, and
  it returns only after the whole timeout has elapsed, however many events it served.\<close>

theorem producer_poll_returns:
  assumes "clock_advances (tick api)" and "clock w + snd (tick api (native w)) + d < instant_limit"
  shows "\<exists>w'. producer_poll api ctx q (After d) w = Some (Ret w') \<and> clock w + d \<le> clock w'"
proof -
  define now where "now = clock w + snd (tick api (native w))"
  obtain w1 where w1: "instant_now (tick api) w = (w1, now)"
    by (cases "tick api (native w)") (simp add: instant_now_def now_def)
  have "clock w1 = now" using w1 by (auto simp: instant_now_def split: prod.splits)
  have "deadline_of_timeout (tick api) w (After d) = Ret (w1, Deadline_At (now + d))"
    using assms(2) by (simp add: deadline_of_timeout_def w1 deadline_from_timeout_def deadline_new_def
        instant_add_def now_def)
  then have "producer_poll api ctx q (After d) w = producer_poll_loop api ctx q (Deadline_At (now + d)) w1"
    by (simp add: producer_poll_def)
  with producer_poll_loop_terminates [OF assms(1), of ctx q "now + d" w1] show ?thesis
    by (fastforce simp: now_def)
qed

theorem producer_poll_returns_witness:
  "\<exists>w'. producer_poll client_instance DefaultClientContext 1 (After 5) (sample_world []) = Some (Ret w') \<and> 5 \<le> clock w'"
proof -
  have 1: "clock_advances (tick client_instance)" by (simp add: clock_advances_def client_instance_def)
  have 2: "clock (sample_world []) + snd (tick client_instance (native (sample_world []))) + 5 < instant_limit"
    by (simp add: sample_world_def client_instance_def instant_limit_def)
  show ?thesis using producer_poll_returns [OF 1 2] by (simp add: sample_world_def)
qed

text \<open>\<open>BaseProducer::poll(Timeout::Never)\<close> never returns, whatever events arrive: its
  loop ends only on an elapsed deadline.\<close>

theorem producer_poll_never_diverges: "producer_poll api ctx q Never w = None"
proof (rule ccontr)
  assume "producer_poll api ctx q Never w \<noteq> None"
  then obtain r where "producer_poll_loop api ctx q Deadline_Never w = Some r"
    by (auto simp: producer_poll_def deadline_of_timeout_def deadline_from_timeout_def deadline_new_def)
  then show False using producer_poll_loop_never by blast
qed

section \<open>Delivery reports and errors\<close>

text \<open>C6. A delivery report event makes exactly one delivery callback per message, in the
  order of the event, each with the message's result and the opaque that was passed to
  \<open>send\<close>, and only then is the event, which owns the messages, destroyed; nothing panics.\<close>

theorem delivery_reports_once_in_order:
  assumes "ev_type ev = RD_KAFKA_EVENT_DR" and "\<forall>d. from_ptr (into_ptr d) = d"
    and "map msg_private (event_messages ev) = map into_ptr opaques"
  shows "\<exists>w'. producer_handle_event ev w = Ret w' \<and>
    trace w' = trace w @ map (\<lambda>m. Ctx_delivery (delivery_result_of (ev_ptr ev) m) (msg_private m)) (event_messages ev)
      @ [Native_event_destroy (ev_ptr ev)]
    \<and> map (\<lambda>m. from_ptr (msg_private m)) (event_messages ev) = opaques"
proof -
  have "map (\<lambda>m. from_ptr (msg_private m)) (event_messages ev) = map from_ptr (map into_ptr opaques)"
    using assms(3) by (metis (no_types, lifting) map_eq_conv map_map o_apply)
  then have "map (\<lambda>m. from_ptr (msg_private m)) (event_messages ev) = opaques"
    using assms(2) by (simp add: map_idI)
  with assms(1) show ?thesis by (simp add: producer_handle_event_eq producer_effects_def)
qed

definition sample_dr_event :: RDKafkaEvent where
  "sample_dr_event = (sample_event RD_KAFKA_EVENT_DR)
     \<lparr>ev_messages := [(bm_ptr sample_message)\<lparr>msg_private := 11\<rparr>, (bm_ptr sample_message)\<lparr>msg_private := 12\<rparr>],
      ev_message_count := 2\<rparr>"

theorem delivery_reports_once_in_order_witness:
  "\<exists>w'. producer_handle_event sample_dr_event (sample_world ()) = Ret w' \<and> length (trace w') = 3"
proof -
  have "\<exists>w'. producer_handle_event sample_dr_event (sample_world ()) = Ret w' \<and>
      trace w' = trace (sample_world ()) @
        map (\<lambda>m. Ctx_delivery (delivery_result_of (ev_ptr sample_dr_event) m) (msg_private m)) (event_messages sample_dr_event)
        @ [Native_event_destroy (ev_ptr sample_dr_event)]
      \<and> map (\<lambda>m. usize_from_ptr (msg_private m)) (event_messages sample_dr_event) = [11, 12]"
    by (rule delivery_reports_once_in_order [where into_ptr = usize_into_ptr])
      (simp_all add: sample_dr_event_def sample_event_def event_messages_def usize_into_ptr_def usize_from_ptr_def)
  then show ?thesis
    by (auto simp: sample_world_def event_messages_def sample_dr_event_def)
qed

text \<open>One error event makes the producer call the context's \<open>error\<close> callback twice with
  the same error: once in \<open>Client::poll_event\<close> and once in the producer's own handler.\<close>

theorem producer_error_reported_twice:
  assumes "read_timeout (tick api) w d = (w1, t)" and "queue_poll api w1 q t = (w2, Some ev)"
    and "ev_type ev = RD_KAFKA_EVENT_ERROR"
  shows "\<exists>w'. producer_poll_once api ctx q d w = Ret w' \<and>
    trace w' = trace w @
      [Ctx_error (Global (into_code (ev_error ev))) (trim (to_string_lossy (cstr_bytes (ev_error_string ev)))),
       Ctx_error (Global (into_code (ev_error ev))) (trim (to_string_lossy (cstr_bytes (ev_error_string ev)))),
       Native_event_destroy (ev_ptr ev)]"
proof -
  have "poll_event api ctx w1 q t = (handle_error_event ev w2, Poll_Event ev)"
    using assms(2,3) by (simp add: poll_event_def)
  moreover have "trace w2 = trace w"
    using assms(2) read_timeout_mono [OF assms(1)] by (auto simp: queue_poll_def split: prod.splits)
  ultimately show ?thesis
    using assms(1,3)
    by (simp add: producer_poll_once_def producer_handle_event_eq producer_effects_def handle_error_event_def)
qed

theorem producer_error_reported_twice_witness:
  "\<exists>w'. producer_poll_once client_instance DefaultClientContext 1 Deadline_Never
        (sample_world [sample_event RD_KAFKA_EVENT_ERROR]) = Ret w' \<and> length (trace w') = 3"
proof -
  have 1: "read_timeout (tick client_instance) (sample_world [sample_event RD_KAFKA_EVENT_ERROR]) Deadline_Never
      = (sample_world [sample_event RD_KAFKA_EVENT_ERROR], Never)"
    by (simp add: read_timeout_def timeout_from_deadline_def)
  have 2: "queue_poll client_instance (sample_world [sample_event RD_KAFKA_EVENT_ERROR]) 1 Never
      = (sample_world [], Some (sample_event RD_KAFKA_EVENT_ERROR))"
    by (simp add: queue_poll_def client_instance_def sample_world_def)
  have 3: "ev_type (sample_event RD_KAFKA_EVENT_ERROR) = RD_KAFKA_EVENT_ERROR"
    by (simp add: sample_event_def)
  show ?thesis
    using producer_error_reported_twice [OF 1 2 3, of DefaultClientContext] by (auto simp: sample_world_def)
qed

section \<open>Sending\<close>

text \<open>What \<open>send\<close> hands to librdkafka for a record.\<close>

definition record_args ::
    "('k \<Rightarrow> bytes) \<Rightarrow> ('p \<Rightarrow> bytes) \<Rightarrow> ('d \<Rightarrow> addr) \<Rightarrow> ('k, 'p, 'd, 'h) BaseRecord \<Rightarrow> 'h producev_args" where
  "record_args key_bytes payload_bytes into_ptr r =
     \<lparr>pv_topic = br_topic r, pv_partition = (case br_partition r of None \<Rightarrow> PARTITION_UA | Some p \<Rightarrow> p),
      pv_msgflags = RD_KAFKA_MSG_F_COPY,
      pv_value = map_option payload_bytes (br_payload r),
      pv_value_len = (case br_payload r of None \<Rightarrow> 0 | Some p \<Rightarrow> length (payload_bytes p)),
      pv_key = map_option key_bytes (br_key r),
      pv_key_len = (case br_key r of None \<Rightarrow> 0 | Some k \<Rightarrow> length (key_bytes k)),
      pv_opaque = into_ptr (br_delivery_opaque r),
      pv_timestamp = (case br_timestamp r of None \<Rightarrow> 0 | Some ts \<Rightarrow> ts),
      pv_headers = map_option oh_ptr (br_headers r)\<rparr>"

context into_opaque
begin

lemma send_result:
  "producer_send papi kb pb into_ptr from_ptr w r =
     (if NUL \<in> set (br_topic r)
      then (w, Err (Nul (NulError (length (takeWhile (\<lambda>c. c \<noteq> NUL) (br_topic r))) (br_topic r)), r))
      else
        let (n, err) = rd_kafka_producev papi (native w) (record_args kb pb into_ptr r)
        in (emit (Native_producev (br_topic r) (pv_partition (record_args kb pb into_ptr r))
                   (into_ptr (br_delivery_opaque r))) (w\<lparr>native := n\<rparr>),
            if err = RD_KAFKA_RESP_ERR_NO_ERROR then Ok () else Err (MessageProduction (into_code err), r)))"
proof (cases "NUL \<in> set (br_topic r)")
  case True
  then show ?thesis
    by (simp add: producer_send_def as_bytes_def kafka_error_from_nul_def split: prod.splits)
next
  case False
  have args: "\<lparr>pv_topic = br_topic r, pv_partition = (case br_partition r of None \<Rightarrow> - 1 | Some p \<Rightarrow> p),
      pv_msgflags = RD_KAFKA_MSG_F_COPY,
      pv_value = fst (as_bytes pb (br_payload r)), pv_value_len = snd (as_bytes pb (br_payload r)),
      pv_key = fst (as_bytes kb (br_key r)), pv_key_len = snd (as_bytes kb (br_key r)),
      pv_opaque = into_ptr (br_delivery_opaque r),
      pv_timestamp = (case br_timestamp r of None \<Rightarrow> 0 | Some ts \<Rightarrow> ts),
      pv_headers = map_option oh_ptr (br_headers r)\<rparr> = record_args kb pb into_ptr r"
    by (simp add: record_args_def as_bytes_def split: option.splits)
  have part: "pv_partition (record_args kb pb into_ptr r) = (case br_partition r of None \<Rightarrow> - 1 | Some p \<Rightarrow> p)"
    by (simp add: record_args_def)
  show ?thesis
    using False
    by (cases "rd_kafka_producev papi (native w) (record_args kb pb into_ptr r)")
      (simp add: producer_send_def split_def args part Let_def)
qed

end

text \<open>C5. \<open>send\<close> hands librdkafka exactly the record's content (missing fields as null, -1 and
  0), once; if it is not accepted, the caller gets the error and the original record back,
  delivery opaque and headers included, and a topic with a NUL is refused before
  librdkafka is involved. Stated for every opaque type that keeps the \<open>IntoOpaque\<close> contract.\<close>

theorem send_hands_over_or_returns_record:
  assumes "into_opaque into_ptr from_ptr"
  shows "producer_send papi kb pb into_ptr from_ptr w r =
     (if NUL \<in> set (br_topic r)
      then (w, Err (Nul (NulError (length (takeWhile (\<lambda>c. c \<noteq> NUL) (br_topic r))) (br_topic r)), r))
      else
        let (n, err) = rd_kafka_producev papi (native w) (record_args kb pb into_ptr r)
        in (emit (Native_producev (br_topic r) (pv_partition (record_args kb pb into_ptr r))
                   (into_ptr (br_delivery_opaque r))) (w\<lparr>native := n\<rparr>),
            if err = RD_KAFKA_RESP_ERR_NO_ERROR then Ok () else Err (MessageProduction (into_code err), r)))"
  using assms by (rule into_opaque.send_result)

text \<open>
  An instance: messages are accepted while fewer than one is queued; the state is the list
  of accepted messages, which flushing empties.
\<close>

definition producer_instance :: "('h producev_args list, 'h) producer_api" where
  "producer_instance =
     \<lparr>rd_kafka_producev = (\<lambda>n a. if n = [] then ([a], RD_KAFKA_RESP_ERR_NO_ERROR)
        else (n, RD_KAFKA_RESP_ERR__QUEUE_FULL)),
      rd_kafka_flush = (\<lambda>n ms. ([], RD_KAFKA_RESP_ERR_NO_ERROR)),
      rd_kafka_purge = (\<lambda>n f. ([], RD_KAFKA_RESP_ERR_NO_ERROR)),
      rd_kafka_outq_len = (\<lambda>n. int (length n)),
      rd_kafka_init_transactions = (\<lambda>n ms. (n, 0)), rd_kafka_begin_transaction = (\<lambda>n. (n, 0)),
      rd_kafka_send_offsets_to_transaction = (\<lambda>n l c ms. (n, 0)),
      rd_kafka_commit_transaction = (\<lambda>n ms. (n, 0)), rd_kafka_abort_transaction = (\<lambda>n ms. ([], 0))\<rparr>"

theorem send_hands_over_or_returns_record_witness:
  "let r = br_set_payload (with_opaque_to ''t'' (Box 9) :: (bytes, bytes, box, unit) BaseRecord) ''v'';
       (w1, r1) = producer_send producer_instance str_to_bytes str_to_bytes box_into_ptr box_from_ptr (sample_world []) r;
       (w2, r2) = producer_send producer_instance str_to_bytes str_to_bytes box_into_ptr box_from_ptr w1 r
   in r1 = Ok () \<and> r2 = Err (MessageProduction (into_code RD_KAFKA_RESP_ERR__QUEUE_FULL), r)"
  using box_opaque.into_opaque_axioms
  by (simp add: send_hands_over_or_returns_record br_set_payload_def with_opaque_to_def producer_instance_def
      sample_world_def)

section \<open>Flush and transactions\<close>

text \<open>
  How \<open>flush\<close> with a deadline may end: librdkafka reported that nothing is outstanding;
  it did not and the deadline has passed; or it reported another error.
\<close>

definition flush_outcome :: "('w, 'h) producer_api \<Rightarrow> instant \<Rightarrow> 'w world \<Rightarrow> unit KafkaResult \<Rightarrow> bool" where
  "flush_outcome papi i w r \<longleftrightarrow>
     (\<exists>n n' es err. rd_kafka_flush papi n 0 = (n', err) \<and> trace w = es @ [Native_flush 0] \<and>
        (if err = RD_KAFKA_RESP_ERR_NO_ERROR then r = Ok () \<and> native w = n'
         else r = Err (Flush (into_code err)) \<and> (err = RD_KAFKA_RESP_ERR__TIMED_OUT \<longrightarrow> i \<le> clock w)))"

lemma producer_poll_total:
  assumes "clock_advances (tick api)"
  shows "(\<exists>m. producer_poll api ctx q (After d) w = Some (Panic m) \<and> instant_limit \<le> clock w + snd (tick api (native w)) + d)
    \<or> (\<exists>w'. producer_poll api ctx q (After d) w = Some (Ret w') \<and> clock w \<le> clock w')"
proof (cases "deadline_of_timeout (tick api) w (After d)")
  case (Panic m)
  then have "instant_limit \<le> clock w + snd (tick api (native w)) + d"
    by (auto simp: deadline_of_timeout_def deadline_from_timeout_def deadline_new_def instant_now_def instant_add_def
        split: prod.splits if_splits)
  with Panic show ?thesis by (simp add: producer_poll_def)
next
  case (Ret p)
  then obtain w1 i where p: "p = (w1, Deadline_At i)" and w1: "clock w \<le> clock w1"
    by (auto simp: deadline_of_timeout_def deadline_from_timeout_def deadline_new_def instant_now_def
        split: prod.splits)
  obtain w' where "producer_poll_loop api ctx q (Deadline_At i) w1 = Some (Ret w')" "clock w1 \<le> clock w'"
    using producer_poll_loop_terminates [OF assms] by blast
  with Ret p w1 show ?thesis by (auto simp: producer_poll_def)
qed

text \<open>Between two readings of the clock at most \<open>step\<close> passes.\<close>

definition clock_steps :: "'w ticks \<Rightarrow> duration \<Rightarrow> bool" where
  "clock_steps tk step \<longleftrightarrow> (\<forall>n. snd (tk n) \<le> step)"

text \<open>
  The polls of the loop end within two readings of the clock after its deadline, so they can
  only panic if that is no instant any more.
\<close>

lemma producer_flush_loop_total:
  assumes "clock_advances (tick api)"
  shows "\<exists>r. producer_flush_loop api papi ctx q (Deadline_At i) w = Some r
    \<and> (\<forall>w' res. r = Ret (w', res) \<longrightarrow> flush_outcome papi i w' res)
    \<and> (clock_steps (tick api) step \<and> i + 2 * step \<le> instant_limit \<longrightarrow> (\<exists>p. r = Ret p))"
proof (induction "i - clock w" arbitrary: w rule: less_induct)
  case less
  obtain n err where f: "rd_kafka_flush papi (native w) 0 = (n, err)" by (cases "rd_kafka_flush papi (native w) 0")
  let ?w1 = "emit (Native_flush 0) (w\<lparr>native := n\<rparr>)"
  have call: "call_flush papi w 0 = (?w1, err)" by (simp add: call_flush_def f)
  show ?case
  proof (cases "err = RD_KAFKA_RESP_ERR__TIMED_OUT")
    case False
    have "flush_outcome papi i ?w1 (if err = RD_KAFKA_RESP_ERR_NO_ERROR then Ok () else Err (Flush (into_code err)))"
      using False f unfolding flush_outcome_def
      by (intro exI [of _ "native w"] exI [of _ n] exI [of _ "trace w"] exI [of _ err]) simp
    with False show ?thesis by (subst producer_flush_loop.simps) (auto simp: call split: if_splits)
  next
    case True
    obtain w2 e where el: "read_elapsed (tick api) ?w1 (Deadline_At i) = (w2, e)"
      by (cases "read_elapsed (tick api) ?w1 (Deadline_At i)")
    have w2: "clock w < clock w2" "e \<longleftrightarrow> i \<le> clock w2" "trace w2 = trace w @ [Native_flush 0]"
      using read_elapsed_at [OF el] clock_advancesD [OF assms, of n] by simp_all
    show ?thesis
    proof (cases e)
      case e: True
      have "flush_outcome papi i w2 (Err (Flush (into_code err)))"
        using True f w2 e unfolding flush_outcome_def
        by (intro exI [of _ "native w"] exI [of _ n] exI [of _ "trace w"] exI [of _ err]) simp
      with True e show ?thesis by (subst producer_flush_loop.simps) (simp add: call el)
    next
      case e: False
      obtain w3 rem where r: "read_remaining (tick api) w2 (Deadline_At i) = (w3, rem)"
        by (cases "read_remaining (tick api) w2 (Deadline_At i)")
      have "clock w2 \<le> clock w3" using read_remaining_mono [OF r] by simp
      have early: "clock w3 + snd (tick api (native w3)) + rem < i + 2 * step" if "clock_steps (tick api) step"
      proof -
        have "snd (tick api (native w3)) \<le> step" "snd (tick api (native w2)) \<le> step" "0 < snd (tick api (native w2))"
          using that clock_advancesD [OF assms] by (simp_all add: clock_steps_def)
        moreover have "clock w3 = clock w2 + snd (tick api (native w2))" "rem = i - clock w3"
          using r by (auto simp: read_remaining_def instant_now_def split: prod.splits)
        ultimately show ?thesis using w2(2) e by linarith
      qed
      have unroll: "producer_flush_loop api papi ctx q (Deadline_At i) w =
          Option.bind (producer_poll api ctx q (After (min rem (from_millis 100))) w3) (\<lambda>r.
            case r of Panic m \<Rightarrow> Some (Panic m) | Ret w \<Rightarrow> producer_flush_loop api papi ctx q (Deadline_At i) w)"
        using True e by (subst producer_flush_loop.simps) (simp add: call el r)
      from producer_poll_total [OF assms, of ctx q "min rem (from_millis 100)" w3] show ?thesis
      proof
        assume "\<exists>m. producer_poll api ctx q (After (min rem (from_millis 100))) w3 = Some (Panic m)
          \<and> instant_limit \<le> clock w3 + snd (tick api (native w3)) + min rem (from_millis 100)"
        with unroll early show ?thesis by fastforce
      next
        assume "\<exists>w'. producer_poll api ctx q (After (min rem (from_millis 100))) w3 = Some (Ret w') \<and> clock w3 \<le> clock w'"
        then obtain w4 where w4: "producer_poll api ctx q (After (min rem (from_millis 100))) w3 = Some (Ret w4)"
            "clock w3 \<le> clock w4" by blast
        have "i - clock w4 < i - clock w" using w2 e \<open>clock w2 \<le> clock w3\<close> w4 by simp
        from less [OF this] unroll w4 show ?thesis by simp
      qed
    qed
  qed
qed

lemma producer_flush_total:
  assumes "clock_advances (tick api)"
  shows "\<exists>r. producer_flush api papi ctx q (After d) w = Some r
    \<and> (\<forall>w' res. r = Ret (w', res) \<longrightarrow> flush_outcome papi (clock w + d) w' res)"
proof (cases "deadline_of_timeout (tick api) w (After d)")
  case (Panic m)
  then show ?thesis by (simp add: producer_flush_def)
next
  case (Ret p)
  then obtain w1 i where p: "p = (w1, Deadline_At i)" and i: "clock w + d \<le> i"
    by (auto simp: deadline_of_timeout_def deadline_from_timeout_def deadline_new_def instant_now_def
        instant_add_def split: prod.splits if_splits)
  have mono: "flush_outcome papi i w' res \<Longrightarrow> flush_outcome papi (clock w + d) w' res" for w' res
    using i unfolding flush_outcome_def by (meson order_trans)
  show ?thesis
    using producer_flush_loop_total [OF assms, of papi ctx q i w1 0] Ret p mono
    by (auto simp: producer_flush_def)
qed

lemma producer_flush_no_panic:
  assumes "clock_advances (tick api)" and "clock_steps (tick api) step" and "clock w + d + 3 * step < instant_limit"
  shows "\<exists>p. producer_flush api papi ctx q (After d) w = Some (Ret p)"
proof -
  have "snd (tick api (native w)) \<le> step" using assms(2) by (simp add: clock_steps_def)
  then obtain w1 i where "deadline_of_timeout (tick api) w (After d) = Ret (w1, Deadline_At i)" "i + 2 * step \<le> instant_limit"
    using assms(3) by (cases "tick api (native w)") (auto simp: deadline_of_timeout_def deadline_from_timeout_def
        deadline_new_def instant_now_def instant_add_def)
  with producer_flush_loop_total [OF assms(1), of papi ctx q i w1 step] assms(2) show ?thesis
    by (auto simp: producer_flush_def)
qed

text \<open>C30. \<open>flush\<close> with a finite timeout returns, and does not panic, provided that time passes, in
  bounded steps, and that the clock can represent the deadline, with some room for the polls in
  between. If it returns \<open>Ok\<close>, its last call into librdkafka was a flush that found nothing
  outstanding; if it gives up, that last flush had not finished and the timeout had elapsed, or it
  failed with the error that is reported.\<close>

theorem producer_flush_returns:
  assumes "clock_advances (tick api)" and "clock_steps (tick api) step" and "clock w + d + 3 * step < instant_limit"
  shows "\<exists>w' res. producer_flush api papi ctx q (After d) w = Some (Ret (w', res))
    \<and> flush_outcome papi (clock w + d) w' res"
  using producer_flush_no_panic [OF assms, of papi ctx q] producer_flush_total [OF assms(1), of papi ctx q d w] by auto

text \<open>An instance of the client API on any state, with no events and a running clock.\<close>

definition idle_client :: "'w client_api" where
  "idle_client =
     \<lparr>tick = (\<lambda>n. (n, 1)), rd_kafka_queue_poll = (\<lambda>n q ms. (n, None)),
      rd_kafka_oauthbearer_set_token = (\<lambda>n t l p b. (n, RD_KAFKA_RESP_ERR_NO_ERROR, b)),
      rd_kafka_oauthbearer_set_token_failure = (\<lambda>n m. n), rd_kafka_topic_new = (\<lambda>n t. (n, 1)),
      rd_kafka_metadata = (\<lambda>n f t ms. (n, RD_KAFKA_RESP_ERR_NO_ERROR, 1)),
      rd_kafka_query_watermark_offsets = (\<lambda>n t p ms. (n, RD_KAFKA_RESP_ERR_NO_ERROR, 0, 0)),
      rd_kafka_clusterid = (\<lambda>n ms. (n, None)),
      rd_kafka_list_groups = (\<lambda>n g ms. (n, RD_KAFKA_RESP_ERR_NO_ERROR, 1)),
      rd_kafka_fatal_error = (\<lambda>n b. (RD_KAFKA_RESP_ERR_NO_ERROR, b)),
      rd_kafka_queue_new = (\<lambda>n. (n, 1)), rd_kafka_queue_get_consumer = (\<lambda>n. (n, 1)),
      rd_kafka_queue_get_main = (\<lambda>n. (n, 1)), rd_kafka_rebalance_protocol = (\<lambda>n. None)\<rparr>"

lemma idle_client_advances: "clock_advances (tick idle_client)"
  by (simp add: clock_advances_def idle_client_def)

lemma idle_client_steps: "clock_steps (tick idle_client) 1"
  by (simp add: clock_steps_def idle_client_def)

theorem producer_flush_returns_witness:
  "\<exists>w'. producer_flush idle_client (producer_instance :: (unit producev_args list, unit) producer_api)
        DefaultClientContext 1 (After 5) (sample_world []) = Some (Ret (w', Ok ()))"
proof -
  have "clock (sample_world []) + 5 + 3 * 1 < instant_limit" by (simp add: sample_world_def instant_limit_def)
  from producer_flush_returns [OF idle_client_advances idle_client_steps this,
      of "producer_instance :: (unit producev_args list, unit) producer_api" DefaultClientContext 1]
  show ?thesis by (auto simp: flush_outcome_def producer_instance_def split: if_splits)
qed

lemma bind_rust_Some:
  "Option.bind x (\<lambda>r. case r of Panic m \<Rightarrow> Some (Panic m) | Ret w \<Rightarrow> g w) = Some y \<longleftrightarrow>
     (\<exists>m. x = Some (Panic m) \<and> y = Panic m) \<or> (\<exists>w. x = Some (Ret w) \<and> g w = Some y)"
proof (cases x)
  case (Some r)
  then show ?thesis by (cases r) auto
qed simp

lemma flush_loop_ok_last:
  assumes "producer_flush_loop api papi ctx q d w = Some r"
  shows "\<forall>w'. r = Ret (w', Ok ()) \<longrightarrow>
    (\<exists>n n' es. rd_kafka_flush papi n 0 = (n', RD_KAFKA_RESP_ERR_NO_ERROR) \<and> native w' = n'
       \<and> trace w' = es @ [Native_flush 0])"
proof (rule producer_flush_loop.raw_induct [where P = "\<lambda>_ papi _ _ _ _ r. \<forall>w'. r = Ret (w', Ok ()) \<longrightarrow>
    (\<exists>n n' es. rd_kafka_flush papi n 0 = (n', RD_KAFKA_RESP_ERR_NO_ERROR) \<and> native w' = n'
       \<and> trace w' = es @ [Native_flush 0])", OF _ assms], goal_cases)
  case (1 f api papi ctx q d w r)
  obtain n err where fl: "rd_kafka_flush papi (native w) 0 = (n, err)" by (cases "rd_kafka_flush papi (native w) 0")
  show ?case
  proof (cases "err = RD_KAFKA_RESP_ERR_NO_ERROR")
    case True
    then have "r = Ret (emit (Native_flush 0) (w\<lparr>native := n\<rparr>), Ok ())"
      using 1(2) fl by (simp add: call_flush_def)
    with fl True show ?thesis by auto
  next
    case False
    show ?thesis
    proof (intro allI impI)
      fix w' assume "r = Ret (w', Ok ())"
      with 1(2) fl False obtain w3 where "f api papi ctx q d w3 = Some r"
        by (auto simp: call_flush_def bind_rust_Some split: if_splits prod.splits)
      with 1(1) \<open>r = Ret (w', Ok ())\<close> show "\<exists>n n' es. rd_kafka_flush papi n 0 = (n', RD_KAFKA_RESP_ERR_NO_ERROR)
          \<and> native w' = n' \<and> trace w' = es @ [Native_flush 0]" by blast
    qed
  qed
qed

lemma commit_transaction_flushed:
  assumes "commit_transaction api papi ctx q t w = Some (Ret (w', r))"
  shows "(\<exists>n n' es. rd_kafka_flush papi n 0 = (n', RD_KAFKA_RESP_ERR_NO_ERROR)
        \<and> trace w' = es @ [Native_flush 0, Native_commit_transaction (timeout_as_millis t)]
        \<and> native w' = fst (rd_kafka_commit_transaction papi n' (timeout_as_millis t))
        \<and> r = transaction_result (snd (rd_kafka_commit_transaction papi n' (timeout_as_millis t))))
    \<or> (\<exists>e. r = Err e \<and> producer_flush api papi ctx q t w = Some (Ret (w', Err e)))"
proof -
  from assms obtain fr where fl: "producer_flush api papi ctx q t w = Some fr"
    by (auto simp: commit_transaction_def Option.bind_eq_Some_conv)
  show ?thesis
  proof (cases "\<exists>w1. fr = Ret (w1, Ok ())")
    case True
    then obtain w1 where fr: "fr = Ret (w1, Ok ())" by blast
    from fl fr obtain w0 d where "producer_flush_loop api papi ctx q d w0 = Some (Ret (w1, Ok ()))"
      by (auto simp: producer_flush_def split: rust.splits prod.splits)
    from flush_loop_ok_last [OF this] obtain n n' es where
      "rd_kafka_flush papi n 0 = (n', RD_KAFKA_RESP_ERR_NO_ERROR)" "native w1 = n'" "trace w1 = es @ [Native_flush 0]"
      by blast
    with assms fl fr show ?thesis
      by (intro disjI1 exI [of _ n] exI [of _ n'] exI [of _ es])
        (auto simp: commit_transaction_def split: prod.splits)
  next
    case False
    with assms fl show ?thesis
      by (auto simp: commit_transaction_def split: rust.splits prod.splits sum.splits)
  qed
qed

text \<open>C2. A transaction is committed only when nothing is outstanding: if
  \<open>commit_transaction\<close> asks librdkafka to commit, then the call right before it was a flush
  that returned success, and the commit is issued in the state that flush left; in every
  other case the error of the flush is returned and no commit is issued. This holds for
  every timeout.\<close>

theorem commit_only_after_flush:
  assumes "commit_transaction api papi ctx q t w = Some (Ret (w', r))"
  shows "(\<exists>n n' es. rd_kafka_flush papi n 0 = (n', RD_KAFKA_RESP_ERR_NO_ERROR)
        \<and> trace w' = es @ [Native_flush 0, Native_commit_transaction (timeout_as_millis t)]
        \<and> native w' = fst (rd_kafka_commit_transaction papi n' (timeout_as_millis t))
        \<and> r = transaction_result (snd (rd_kafka_commit_transaction papi n' (timeout_as_millis t))))
    \<or> (\<exists>e. r = Err e \<and> producer_flush api papi ctx q t w = Some (Ret (w', Err e)))"
  using assms by (rule commit_transaction_flushed)

theorem commit_only_after_flush_witness:
  "\<exists>w'. commit_transaction idle_client (producer_instance :: (unit producev_args list, unit) producer_api)
        DefaultClientContext 1 Never (sample_world []) = Some (Ret (w', Ok ()))
     \<and> (\<exists>es. trace w' = es @ [Native_flush 0, Native_commit_transaction (- 1)])"
proof -
  obtain w' where c: "commit_transaction idle_client (producer_instance :: (unit producev_args list, unit) producer_api)
      DefaultClientContext 1 Never (sample_world []) = Some (Ret (w', Ok ()))"
    by (simp add: commit_transaction_def producer_flush_def deadline_of_timeout_def deadline_from_timeout_def
        deadline_new_def producer_flush_loop.simps call_flush_def producer_instance_def transaction_result_def)
  from commit_only_after_flush [OF c] c show ?thesis by (auto simp: timeout_as_millis_def)
qed

section \<open>Purging and dropping\<close>

lemma purge_setter_simps [simp]:
  "flag_bits purge_default = 0" "flag_bits (purge_queue c) = flag_bits c OR 1"
  "flag_bits (purge_inflight c) = flag_bits c OR 2" "flag_bits (purge_non_blocking c) = flag_bits c OR 4"
  "flag_bits (purge_unset s c) = flag_bits c AND NOT (flag_bits (s purge_default))"
  by (simp_all add: purge_default_def purge_queue_def purge_inflight_def purge_non_blocking_def purge_unset_def)

lemma purge_shows_bit:
  "purge_shows purge_queue c \<longleftrightarrow> bit (flag_bits c) 0"
  "purge_shows purge_inflight c \<longleftrightarrow> bit (flag_bits c) 1"
  "purge_shows purge_non_blocking c \<longleftrightarrow> bit (flag_bits c) 2"
  using bit_iff_and_push_bit_not_eq_0 [of "flag_bits c" 0] bit_iff_and_push_bit_not_eq_0 [of "flag_bits c" 1]
    bit_iff_and_push_bit_not_eq_0 [of "flag_bits c" 2]
  by (simp_all add: purge_shows_def)

lemma bit_purge_flags:
  "bit (1 :: 32 word) n \<longleftrightarrow> n = 0" "bit (2 :: 32 word) n \<longleftrightarrow> n = 1" "bit (4 :: 32 word) n \<longleftrightarrow> n = 2"
  using bit_exp_iff [where 'a = "32 word", of 1 n] bit_exp_iff [where 'a = "32 word", of 2 n]
  by (auto simp: bit_1_iff)

text \<open>The purge settings are independent flags: setting one shows that one and leaves
  the others as they were, and the generated method that unsets one clears exactly it.\<close>

theorem purge_flags_independent:
  "purge_shows purge_queue (purge_queue c) \<and> purge_shows purge_inflight (purge_inflight c)
   \<and> purge_shows purge_non_blocking (purge_non_blocking c)
   \<and> purge_shows purge_inflight (purge_queue c) = purge_shows purge_inflight c
   \<and> purge_shows purge_non_blocking (purge_queue c) = purge_shows purge_non_blocking c
   \<and> purge_shows purge_queue (purge_inflight c) = purge_shows purge_queue c
   \<and> purge_shows purge_non_blocking (purge_inflight c) = purge_shows purge_non_blocking c
   \<and> purge_shows purge_queue (purge_non_blocking c) = purge_shows purge_queue c
   \<and> purge_shows purge_inflight (purge_non_blocking c) = purge_shows purge_inflight c
   \<and> \<not> purge_shows purge_queue (purge_no_queue c)
   \<and> purge_shows purge_inflight (purge_no_queue c) = purge_shows purge_inflight c
   \<and> purge_shows purge_non_blocking (purge_no_queue c) = purge_shows purge_non_blocking c
   \<and> \<not> purge_shows purge_inflight (purge_no_inflight c)
   \<and> purge_shows purge_queue (purge_no_inflight c) = purge_shows purge_queue c
   \<and> purge_shows purge_non_blocking (purge_no_inflight c) = purge_shows purge_non_blocking c
   \<and> \<not> purge_shows purge_non_blocking (purge_blocking c)
   \<and> purge_shows purge_queue (purge_blocking c) = purge_shows purge_queue c
   \<and> purge_shows purge_inflight (purge_blocking c) = purge_shows purge_inflight c"
  by (simp add: purge_shows_bit bit_or_iff bit_and_iff bit_not_iff_eq bit_purge_flags purge_no_queue_def
      purge_no_inflight_def purge_blocking_def)

text \<open>Dropping a producer purges first (queued and in-flight messages, bits 1 and 2) and
  the flush that follows always returns, so that \<open>drop\<close> does not hang once time passes.\<close>

theorem base_producer_drop_returns:
  assumes "clock_advances (tick api)"
    and "rd_kafka_purge papi (native w) 3 = (n, RD_KAFKA_RESP_ERR_NO_ERROR)"
  shows "\<exists>r. base_producer_drop api papi eapi ctx q w = Some r \<and>
    producer_purge eapi papi w (purge_inflight (purge_queue purge_default)) = Ret (emit (Native_purge 3) (w\<lparr>native := n\<rparr>))"
proof -
  have three: "(1 :: 32 word) OR 2 = 3" by simp
  have purge: "producer_purge eapi papi w (purge_inflight (purge_queue purge_default)) =
      Ret (emit (Native_purge 3) (w\<lparr>native := n\<rparr>))"
    using assms(2) by (simp add: producer_purge_def three)
  moreover obtain r where "producer_flush api papi ctx q (After (from_millis 500)) (emit (Native_purge 3) (w\<lparr>native := n\<rparr>)) = Some r"
    using producer_flush_total [OF assms(1)] by blast
  ultimately show ?thesis by (simp add: base_producer_drop_def)
qed

theorem base_producer_drop_returns_witness:
  "\<exists>r. base_producer_drop idle_client (producer_instance :: (unit producev_args list, unit) producer_api)
     error_instance DefaultClientContext 1 (sample_world []) = Some r"
proof -
  have "rd_kafka_purge (producer_instance :: (unit producev_args list, unit) producer_api) (native (sample_world [])) 3
      = ([], RD_KAFKA_RESP_ERR_NO_ERROR)"
    by (simp add: producer_instance_def)
  from base_producer_drop_returns [OF idle_client_advances this] show ?thesis by blast
qed

end
