(* ===== verification/Threaded_Producer.thy ===== *)
theory Threaded_Producer
  imports Producer
begin

text \<open>
  The life cycle of \<open>ThreadedProducer\<close> (\<open>src/producer/base_producer.rs\<close>): its handles, the
  polling thread, the stop flag, the join in \<open>Drop\<close>, and the reference counts that decide
  when the base producer inside is dropped. Handles and the thread run concurrently; the
  step relation interleaves their atomic actions in every order. A delivery callback of the
  application may panic and so end the polling thread.
\<close>

section \<open>State\<close>

text \<open>
  \<open>tp_handles\<close> are the live \<open>ThreadedProducer\<close> values, which share one \<open>Arc<JoinHandle>\<close>. A drop
  first gives up its share of that \<open>Arc\<close>. The one that was the last goes through the phases of
  \<open>last_drop\<close>; \<open>tp_leaving\<close> counts the others that have not yet dropped their remaining fields.
  \<open>tp_join_failed\<close> says that the join returned \<open>Err\<close>. \<open>tp_base_refs\<close> is the strong count of
  \<open>Arc<BaseProducer>\<close> and \<open>tp_base_drops\<close> counts the runs of \<open>BaseProducer::drop\<close>.
\<close>

datatype thread_state = Thread_Polling | Thread_Checking | Thread_Finished | Thread_Panicked

datatype last_drop = Drop_None | Drop_Stopping | Drop_Joining | Drop_Joined | Drop_Done

record threaded =
  tp_handles :: nat
  tp_leaving :: nat
  tp_last :: last_drop
  tp_should_stop :: bool
  tp_thread :: thread_state
  tp_join_failed :: bool
  tp_base_refs :: nat
  tp_base_drops :: nat

definition release_base :: "threaded \<Rightarrow> threaded" where
  "release_base s =
     s\<lparr>tp_base_refs := tp_base_refs s - 1,
       tp_base_drops := (if tp_base_refs s = 1 then tp_base_drops s + 1 else tp_base_drops s)\<rparr>"

section \<open>Operations\<close>

text \<open>\<open>from_config_and_context\<close>: one handle and the thread, each with a reference to the base.\<close>

definition threaded_new :: threaded where
  "threaded_new =
     \<lparr>tp_handles = 1, tp_leaving = 0, tp_last = Drop_None, tp_should_stop = False, tp_thread = Thread_Polling,
      tp_join_failed = False, tp_base_refs = 2, tp_base_drops = 0\<rparr>"

definition threaded_clone :: "threaded \<Rightarrow> threaded" where
  "threaded_clone s = s\<lparr>tp_handles := tp_handles s + 1, tp_base_refs := tp_base_refs s + 1\<rparr>"

text \<open>
  \<open>Drop\<close>, up to the \<open>if let\<close>: \<open>Arc::into_inner\<close> yields the join handle to the last handle only;
  any other handle goes on to drop its fields.
\<close>

definition threaded_drop :: "threaded \<Rightarrow> threaded" where
  "threaded_drop s =
     (if tp_handles s = 1 then s\<lparr>tp_handles := 0, tp_last := Drop_Stopping\<rparr>
      else s\<lparr>tp_handles := tp_handles s - 1, tp_leaving := tp_leaving s + 1\<rparr>)"

definition drop_store :: "threaded \<Rightarrow> threaded" where
  "drop_store s = s\<lparr>tp_should_stop := True, tp_last := Drop_Joining\<rparr>"

text \<open>\<open>handle.join()\<close> returns \<open>Err\<close> for a thread that panicked; both arms only log.\<close>

definition drop_join :: "threaded \<Rightarrow> threaded" where
  "drop_join s = s\<lparr>tp_join_failed := (tp_thread s = Thread_Panicked), tp_last := Drop_Joined\<rparr>"

text \<open>The fields of the last handle, and those of any other, are dropped after the body of \<open>drop\<close>.\<close>

definition drop_fields_last :: "threaded \<Rightarrow> threaded" where
  "drop_fields_last s = release_base (s\<lparr>tp_last := Drop_Done\<rparr>)"

definition drop_fields :: "threaded \<Rightarrow> threaded" where
  "drop_fields s = release_base (s\<lparr>tp_leaving := tp_leaving s - 1\<rparr>)"

text \<open>
  The thread: \<open>poll\<close>, which may panic in a callback, then the test of the flag; on the way out,
  also of a panic, it drops its reference.
\<close>

definition thread_poll_done :: "threaded \<Rightarrow> threaded" where
  "thread_poll_done s = s\<lparr>tp_thread := Thread_Checking\<rparr>"

definition thread_panic :: "threaded \<Rightarrow> threaded" where
  "thread_panic s = release_base (s\<lparr>tp_thread := Thread_Panicked\<rparr>)"

definition thread_check :: "threaded \<Rightarrow> threaded" where
  "thread_check s =
     (if tp_should_stop s then release_base (s\<lparr>tp_thread := Thread_Finished\<rparr>)
      else s\<lparr>tp_thread := Thread_Polling\<rparr>)"

abbreviation thread_over :: "threaded \<Rightarrow> bool" where
  "thread_over s \<equiv> tp_thread s \<in> {Thread_Finished, Thread_Panicked}"

inductive threaded_step :: "threaded \<Rightarrow> threaded \<Rightarrow> bool" where
  step_clone: "0 < tp_handles s \<Longrightarrow> threaded_step s (threaded_clone s)"
| step_drop: "0 < tp_handles s \<Longrightarrow> threaded_step s (threaded_drop s)"
| step_store: "tp_last s = Drop_Stopping \<Longrightarrow> threaded_step s (drop_store s)"
| step_join: "tp_last s = Drop_Joining \<Longrightarrow> thread_over s \<Longrightarrow> threaded_step s (drop_join s)"
| step_fields_last: "tp_last s = Drop_Joined \<Longrightarrow> threaded_step s (drop_fields_last s)"
| step_fields: "0 < tp_leaving s \<Longrightarrow> threaded_step s (drop_fields s)"
| step_poll: "tp_thread s = Thread_Polling \<Longrightarrow> threaded_step s (thread_poll_done s)"
| step_panic: "tp_thread s = Thread_Polling \<Longrightarrow> threaded_step s (thread_panic s)"
| step_check: "tp_thread s = Thread_Checking \<Longrightarrow> threaded_step s (thread_check s)"

inductive threaded_reachable :: "threaded \<Rightarrow> bool" where
  reach_new: "threaded_reachable threaded_new"
| reach_step: "threaded_reachable s \<Longrightarrow> threaded_step s s' \<Longrightarrow> threaded_reachable s'"

section \<open>Invariant\<close>

definition threaded_inv :: "threaded \<Rightarrow> bool" where
  "threaded_inv s \<longleftrightarrow>
     (tp_last s = Drop_None \<longleftrightarrow> 0 < tp_handles s)
     \<and> tp_base_refs s = tp_handles s + tp_leaving s
         + (if tp_last s \<in> {Drop_Stopping, Drop_Joining, Drop_Joined} then 1 else 0) + (if thread_over s then 0 else 1)
     \<and> tp_base_drops s = (if tp_base_refs s = 0 then 1 else 0)
     \<and> (tp_should_stop s \<longleftrightarrow> tp_last s \<in> {Drop_Joining, Drop_Joined, Drop_Done})
     \<and> (tp_thread s = Thread_Finished \<longrightarrow> tp_should_stop s)
     \<and> (tp_last s \<in> {Drop_Joined, Drop_Done} \<longrightarrow> thread_over s \<and> (tp_join_failed s \<longleftrightarrow> tp_thread s = Thread_Panicked))"

lemmas threaded_ops =
  threaded_clone_def threaded_drop_def drop_store_def drop_join_def drop_fields_last_def drop_fields_def
  thread_poll_done_def thread_panic_def thread_check_def release_base_def

lemma threaded_inv_new: "threaded_inv threaded_new"
  by (simp add: threaded_inv_def threaded_new_def)

lemma threaded_inv_step:
  assumes "threaded_step s s'" and "threaded_inv s"
  shows "threaded_inv s'"
  using assms(1)
proof cases
  case step_drop
  with assms(2) show ?thesis by (cases "tp_handles s = 1") (auto simp: threaded_inv_def threaded_ops split: if_splits)
next
  case step_check
  with assms(2) show ?thesis by (cases "tp_should_stop s") (auto simp: threaded_inv_def threaded_ops split: if_splits)
qed (use assms(2) in \<open>auto simp: threaded_inv_def threaded_ops split: if_splits\<close>)

lemma threaded_reachable_inv: "threaded_reachable s \<Longrightarrow> threaded_inv s"
  by (induction rule: threaded_reachable.induct) (auto intro: threaded_inv_new threaded_inv_step)

text \<open>C8. In every interleaving of clones, drops and the polling thread, with panics in the
  thread: the stop flag is set only after the last handle has been dropped, and the thread ends only
  after that or by a panic; the last drop comes back from the join only when the thread is over, and
  the join fails exactly when it panicked. The base producer is dropped at most once, exactly when
  every handle has dropped its fields, the last one after its join; so a live handle always has its
  base producer, also after a panic of the thread.\<close>

theorem threaded_producer_lifecycle:
  assumes "threaded_reachable s"
  shows "(tp_should_stop s \<longrightarrow> tp_handles s = 0)
    \<and> (tp_thread s = Thread_Finished \<longrightarrow> tp_should_stop s)
    \<and> (tp_last s \<in> {Drop_Joined, Drop_Done} \<longrightarrow>
         tp_should_stop s \<and> (if tp_join_failed s then tp_thread s = Thread_Panicked else tp_thread s = Thread_Finished))
    \<and> tp_base_drops s = (if tp_handles s = 0 \<and> tp_leaving s = 0 \<and> tp_last s = Drop_Done then 1 else 0)"
  using threaded_reachable_inv [OF assms] unfolding threaded_inv_def
  by (cases "tp_last s"; cases "tp_thread s") (simp_all split: if_splits)

text \<open>The handle is cloned, the thread panics, both handles are dropped and the join fails.\<close>

definition panic_run :: threaded where
  "panic_run =
     drop_fields (drop_fields_last (drop_join (drop_store (threaded_drop (threaded_drop (thread_panic (threaded_clone threaded_new)))))))"

theorem threaded_producer_lifecycle_witness:
  "threaded_reachable panic_run \<and> tp_last panic_run = Drop_Done \<and> tp_join_failed panic_run
   \<and> tp_thread panic_run = Thread_Panicked \<and> tp_should_stop panic_run \<and> tp_base_drops panic_run = 1"
proof -
  have r: "threaded_reachable panic_run"
    unfolding panic_run_def
    by (rule reach_step [OF _ step_fields] reach_step [OF _ step_fields_last] reach_step [OF _ step_join]
        reach_step [OF _ step_store] reach_step [OF _ step_drop] reach_step [OF _ step_panic]
        reach_step [OF _ step_clone] reach_new)+ (simp_all add: threaded_ops threaded_new_def)
  have "tp_last panic_run = Drop_Done" "tp_join_failed panic_run" "tp_handles panic_run = 0" "tp_leaving panic_run = 0"
    by (simp_all add: panic_run_def threaded_ops threaded_new_def)
  with r threaded_producer_lifecycle [OF r] show ?thesis by simp
qed

section \<open>The drop completes\<close>

text \<open>How many steps are left until the base producer is dropped, once there is no handle.\<close>

definition drop_steps_left :: "threaded \<Rightarrow> nat" where
  "drop_steps_left s =
     tp_leaving s + (case tp_last s of Drop_Stopping \<Rightarrow> 3 | Drop_Joining \<Rightarrow> 2 | Drop_Joined \<Rightarrow> 1 | _ \<Rightarrow> 0)
     + (case tp_thread s of Thread_Polling \<Rightarrow> 2 | Thread_Checking \<Rightarrow> 1 | _ \<Rightarrow> 0)"

lemma drop_progress:
  assumes "threaded_inv s" and "tp_handles s = 0" and "drop_steps_left s = Suc n"
  shows "\<exists>s'. threaded_step s s' \<and> tp_handles s' = 0 \<and> drop_steps_left s' = n
    \<and> (tp_thread s' = Thread_Panicked \<longleftrightarrow> tp_thread s = Thread_Panicked)"
proof -
  consider (fields) "0 < tp_leaving s" | (store) "tp_last s = Drop_Stopping"
    | (poll) "tp_last s = Drop_Joining" "tp_thread s = Thread_Polling"
    | (check) "tp_last s = Drop_Joining" "tp_thread s = Thread_Checking"
    | (join) "tp_last s = Drop_Joining" "thread_over s" | (last) "tp_last s = Drop_Joined"
    | (none) "tp_leaving s = 0" "tp_last s \<in> {Drop_None, Drop_Done}"
    by (cases "tp_last s"; cases "tp_thread s") auto
  then show ?thesis
  proof cases
    case fields
    from step_fields [OF this] assms fields show ?thesis
      by (intro exI [of _ "drop_fields s"]) (simp add: drop_steps_left_def threaded_ops)
  next
    case store
    from step_store [OF this] assms store show ?thesis
      by (intro exI [of _ "drop_store s"]) (simp add: drop_steps_left_def threaded_ops)
  next
    case poll
    from step_poll [OF poll(2)] assms poll show ?thesis
      by (intro exI [of _ "thread_poll_done s"]) (simp add: drop_steps_left_def threaded_ops)
  next
    case check
    from step_check [OF check(2)] assms check show ?thesis
      by (intro exI [of _ "thread_check s"]) (simp add: drop_steps_left_def threaded_inv_def threaded_ops)
  next
    case join
    from step_join [OF this] assms join show ?thesis
      by (intro exI [of _ "drop_join s"]) (simp add: drop_steps_left_def threaded_ops)
  next
    case last
    from step_fields_last [OF this] assms last show ?thesis
      by (intro exI [of _ "drop_fields_last s"]) (simp add: drop_steps_left_def threaded_ops)
  next
    case none
    with assms show ?thesis by (auto simp: drop_steps_left_def threaded_inv_def split: if_splits)
  qed
qed

lemma drop_run:
  assumes "threaded_inv s" and "tp_handles s = 0"
  shows "\<exists>s'. (threaded_step ^^ drop_steps_left s) s s' \<and> threaded_inv s' \<and> tp_handles s' = 0 \<and> drop_steps_left s' = 0
    \<and> (tp_thread s' = Thread_Panicked \<longleftrightarrow> tp_thread s = Thread_Panicked)"
  using assms
proof (induction "drop_steps_left s" arbitrary: s)
  case 0
  then show ?case by (intro exI [of _ s]) simp
next
  case (Suc n)
  from drop_progress [OF Suc.prems Suc.hyps(2) [symmetric]] obtain s1
    where s1: "threaded_step s s1" "tp_handles s1 = 0" "drop_steps_left s1 = n"
      "tp_thread s1 = Thread_Panicked \<longleftrightarrow> tp_thread s = Thread_Panicked" by blast
  from Suc.hyps(1) [OF s1(3) [symmetric] threaded_inv_step [OF s1(1) Suc.prems(1)] s1(2)] s1 Suc.hyps(2) [symmetric]
  show ?case by (metis relpowp_Suc_I2)
qed

text \<open>C17. The drop of the last handle does not wait forever and the base producer is
  released: from every reachable state without handles, a run of at most five steps, and one for
  each other drop under way (the store of the flag, the end of the poll, the test of the flag, the
  join, and the drops of the fields) leads to a state in which the thread has finished, if it had
  not panicked already, and the base producer has been dropped once.\<close>

theorem threaded_drop_completes:
  assumes "threaded_reachable s" and "tp_handles s = 0"
  shows "\<exists>s' k. k \<le> tp_leaving s + 5 \<and> (threaded_step ^^ k) s s' \<and> tp_last s' = Drop_Done \<and> tp_base_drops s' = 1
    \<and> tp_thread s' = (if tp_thread s = Thread_Panicked then Thread_Panicked else Thread_Finished)"
proof -
  obtain s' where s': "(threaded_step ^^ drop_steps_left s) s s'" "threaded_inv s'" "tp_handles s' = 0" "drop_steps_left s' = 0"
      "tp_thread s' = Thread_Panicked \<longleftrightarrow> tp_thread s = Thread_Panicked"
    using drop_run [OF threaded_reachable_inv [OF assms(1)] assms(2)] by blast
  have "tp_last s' = Drop_Done" "thread_over s'" "tp_leaving s' = 0"
    using s'(2-4) by (auto simp: drop_steps_left_def threaded_inv_def split: last_drop.splits thread_state.splits)
  moreover from this s'(2,3) have "tp_base_drops s' = 1" by (auto simp: threaded_inv_def)
  moreover have "drop_steps_left s \<le> tp_leaving s + 5"
    by (auto simp: drop_steps_left_def split: last_drop.split thread_state.split)
  ultimately show ?thesis using s'(1,5) by auto
qed

theorem threaded_drop_completes_witness:
  "\<exists>s' k. k \<le> 5 \<and> (threaded_step ^^ k) (threaded_drop threaded_new) s' \<and> tp_base_drops s' = 1 \<and> tp_thread s' = Thread_Finished"
proof -
  have "threaded_reachable (threaded_drop threaded_new)"
    by (rule reach_step [OF reach_new step_drop]) (simp add: threaded_new_def)
  moreover have "tp_handles (threaded_drop threaded_new) = 0" "tp_leaving (threaded_drop threaded_new) = 0"
      "tp_thread (threaded_drop threaded_new) \<noteq> Thread_Panicked"
    by (simp_all add: threaded_drop_def threaded_new_def)
  ultimately show ?thesis using threaded_drop_completes [of "threaded_drop threaded_new"] by auto
qed

end
