(* ===== verification/Future_Producer.thy ===== *)
theory Future_Producer
  imports Threaded_Producer
begin

text \<open>
  \<open>src/producer/future_producer.rs\<close>: records without an opaque, the context that completes a
  oneshot channel on delivery, and \<open>send\<close> with its retry loop on a full queue and
  \<open>send_result\<close>. The sender of the channel is a \<open>Box\<close> whose address is the opaque.
\<close>

section \<open>Records\<close>

record ('k, 'p, 'h) FutureRecord =
  fr_topic :: bytes
  fr_partition :: "int option"
  fr_payload :: "'p option"
  fr_key :: "'k option"
  fr_timestamp :: "int option"
  fr_headers :: "'h OwnedHeaders option"

definition future_record_to :: "bytes \<Rightarrow> ('k, 'p, 'h) FutureRecord" where
  "future_record_to topic =
     \<lparr>fr_topic = topic, fr_partition = None, fr_payload = None, fr_key = None, fr_timestamp = None,
      fr_headers = None\<rparr>"

definition from_base_record :: "('k, 'p, 'd, 'h) BaseRecord \<Rightarrow> ('k, 'p, 'h) FutureRecord" where
  "from_base_record r =
     \<lparr>fr_topic = br_topic r, fr_partition = br_partition r, fr_payload = br_payload r, fr_key = br_key r,
      fr_timestamp = br_timestamp r, fr_headers = br_headers r\<rparr>"

definition fr_set_partition :: "('k, 'p, 'h) FutureRecord \<Rightarrow> int \<Rightarrow> ('k, 'p, 'h) FutureRecord" where
  "fr_set_partition r part = r\<lparr>fr_partition := Some part\<rparr>"

definition fr_set_payload :: "('k, 'p, 'h) FutureRecord \<Rightarrow> 'p \<Rightarrow> ('k, 'p, 'h) FutureRecord" where
  "fr_set_payload r payload = r\<lparr>fr_payload := Some payload\<rparr>"

definition fr_set_key :: "('k, 'p, 'h) FutureRecord \<Rightarrow> 'k \<Rightarrow> ('k, 'p, 'h) FutureRecord" where
  "fr_set_key r key = r\<lparr>fr_key := Some key\<rparr>"

definition fr_set_timestamp :: "('k, 'p, 'h) FutureRecord \<Rightarrow> int \<Rightarrow> ('k, 'p, 'h) FutureRecord" where
  "fr_set_timestamp r timestamp = r\<lparr>fr_timestamp := Some timestamp\<rparr>"

definition fr_set_headers :: "('k, 'p, 'h) FutureRecord \<Rightarrow> 'h OwnedHeaders \<Rightarrow> ('k, 'p, 'h) FutureRecord" where
  "fr_set_headers r headers = r\<lparr>fr_headers := Some headers\<rparr>"

definition into_base_record :: "('k, 'p, 'h) FutureRecord \<Rightarrow> 'd \<Rightarrow> ('k, 'p, 'd, 'h) BaseRecord" where
  "into_base_record r delivery_opaque =
     \<lparr>br_topic = fr_topic r, br_partition = fr_partition r, br_payload = fr_payload r, br_key = fr_key r,
      br_timestamp = fr_timestamp r, br_headers = fr_headers r, br_delivery_opaque = delivery_opaque\<rparr>"

section \<open>Delivery\<close>

record Delivery =
  dl_partition :: int
  dl_offset :: int
  dl_timestamp :: Timestamp

type_synonym 'h OwnedDeliveryResult = "(KafkaError \<times> 'h OwnedMessage) + Delivery"

text \<open>\<open>FutureProducerContext\<close> delegates to the wrapped context; its own callback is \<open>delivery\<close>.\<close>

definition future_context :: "client_context \<Rightarrow> client_context" where
  "future_context wrapped =
     \<lparr>ENABLE_REFRESH_OAUTH_TOKEN = ENABLE_REFRESH_OAUTH_TOKEN wrapped,
      generate_oauth_token = (\<lambda>config. generate_oauth_token wrapped config)\<rparr>"

definition future_delivery ::
    "'h headers_api \<Rightarrow> 'h message_api \<Rightarrow> DeliveryResult \<Rightarrow> 'h OwnedDeliveryResult rust" where
  "future_delivery hapi mapi delivery_result =
     (case delivery_result of
        Inr message \<Rightarrow>
          Ret (Ok \<lparr>dl_partition = bm_partition message, dl_offset = bm_offset message,
                   dl_timestamp = bm_timestamp mapi message\<rparr>)
      | Inl (error, message) \<Rightarrow> rust_map (\<lambda>m. Err (error, m)) (detach hapi mapi message))"

section \<open>Sending\<close>

text \<open>
  What the producer needs of its asynchronous runtime and its channel: \<open>delay_for\<close> lets the
  world go on for a while, and \<open>await_rx\<close> is what the receiver yields for a sender that was
  handed over (\<open>None\<close> when the sender was dropped without a message).
\<close>

record ('w, 'h) runtime_api =
  delay_for :: "'w \<Rightarrow> duration \<Rightarrow> 'w"
  await_rx :: "'w \<Rightarrow> box \<Rightarrow> 'w \<times> 'h OwnedDeliveryResult option"

definition can_retry :: "'w ticks \<Rightarrow> instant \<Rightarrow> timeout \<Rightarrow> 'w world \<Rightarrow> 'w world \<times> bool" where
  "can_retry tk start_time queue_timeout w =
     (case queue_timeout of
        Never \<Rightarrow> (w, True)
      | After t \<Rightarrow> (case instant_now tk w of (w, now) \<Rightarrow> (w, now - start_time < t)))"

definition record_message ::
    "('k \<Rightarrow> bytes) \<Rightarrow> ('p \<Rightarrow> bytes) \<Rightarrow> ('k, 'p, 'd, 'h) BaseRecord \<Rightarrow> 'h OwnedMessage" where
  "record_message kb pb record =
     owned_message_new (map_option pb (br_payload record)) (map_option kb (br_key record)) (br_topic record)
       (case br_timestamp record of None \<Rightarrow> NotAvailable | Some t \<Rightarrow> CreateTime t)
       (case br_partition record of None \<Rightarrow> - 1 | Some p \<Rightarrow> p) 0 (br_headers record)"

partial_function (option) future_send_loop ::
    "'w client_api \<Rightarrow> ('w, 'h) producer_api \<Rightarrow> ('w, 'h) runtime_api \<Rightarrow> ('k \<Rightarrow> bytes) \<Rightarrow> ('p \<Rightarrow> bytes)
      \<Rightarrow> instant \<Rightarrow> timeout \<Rightarrow> ('k, 'p, box, 'h) BaseRecord \<Rightarrow> 'w world
      \<Rightarrow> ('w world \<times> 'h OwnedDeliveryResult) rust option" where
  "future_send_loop api papi rt kb pb start_time queue_timeout base_record w =
     (case producer_send papi kb pb box_into_ptr box_from_ptr w base_record of
        (w, Inr _) \<Rightarrow>
          (case await_rx rt (native w) (br_delivery_opaque base_record) of
             (n, r) \<Rightarrow>
               Some (rust_map (\<lambda>res. (w\<lparr>native := n\<rparr>, res)) (expect ''producer unexpectedly dropped'' r)))
      | (w, Inl (e, record)) \<Rightarrow>
          (case (if e = MessageProduction EC_QueueFull
                 then can_retry (tick api) start_time queue_timeout w else (w, False)) of
             (w, retry) \<Rightarrow>
               if retry
               then future_send_loop api papi rt kb pb start_time queue_timeout record
                      (w\<lparr>native := delay_for rt (native w) (from_millis 100)\<rparr>)
               else Some (Ret (w, Err (e, record_message kb pb record)))))"

definition future_send ::
    "'w client_api \<Rightarrow> ('w, 'h) producer_api \<Rightarrow> ('w, 'h) runtime_api \<Rightarrow> ('k \<Rightarrow> bytes) \<Rightarrow> ('p \<Rightarrow> bytes)
      \<Rightarrow> box \<Rightarrow> ('k, 'p, 'h) FutureRecord \<Rightarrow> timeout \<Rightarrow> 'w world
      \<Rightarrow> ('w world \<times> 'h OwnedDeliveryResult) rust option" where
  "future_send api papi rt kb pb tx record queue_timeout w =
     (case instant_now (tick api) w of
        (w, start_time) \<Rightarrow>
          future_send_loop api papi rt kb pb start_time queue_timeout (into_base_record record tx) w)"

text \<open>\<open>send_result\<close> returns the future (its receiver, named by the sender) or the record.\<close>

definition send_result ::
    "('w, 'h) producer_api \<Rightarrow> ('k \<Rightarrow> bytes) \<Rightarrow> ('p \<Rightarrow> bytes) \<Rightarrow> box \<Rightarrow> ('k, 'p, 'h) FutureRecord \<Rightarrow> 'w world
      \<Rightarrow> 'w world \<times> ((KafkaError \<times> ('k, 'p, 'h) FutureRecord) + box)" where
  "send_result papi kb pb tx record w =
     (case producer_send papi kb pb box_into_ptr box_from_ptr w (into_base_record record tx) of
        (w, Inr _) \<Rightarrow> (w, Ok tx)
      | (w, Inl (e, r)) \<Rightarrow> (w, Err (e, from_base_record r)))"

section \<open>Facts\<close>

lemma from_into_base_record [simp]: "from_base_record (into_base_record r d) = r"
  by (simp add: from_base_record_def into_base_record_def)

lemma br_opaque_into_base_record [simp]: "br_delivery_opaque (into_base_record r d) = d"
  by (simp add: into_base_record_def)

text \<open>Every attempt hands over the same record, because the opaque comes back unchanged.\<close>

lemma producer_send_box_err:
  "producer_send papi kb pb box_into_ptr box_from_ptr w r = (w', Inl (e, r')) \<Longrightarrow> r' = r"
  by (auto simp: box_opaque.send_result Let_def split: if_splits prod.splits)

lemma producer_send_clock:
  "producer_send papi kb pb box_into_ptr box_from_ptr w r = (w', x) \<Longrightarrow> clock w' = clock w"
  by (auto simp: box_opaque.send_result Let_def split: if_splits prod.splits)

text \<open>
  How a call of \<open>send\<close> may end: the record was accepted and the awaited delivery result is
  returned (or the awaited sender was dropped, a panic); it was refused for another reason
  than a full queue; or the queue was still full after the whole timeout. A refused record
  comes back as a message with the record's content.
\<close>

definition send_outcome ::
    "('w, 'h) producer_api \<Rightarrow> ('w, 'h) runtime_api \<Rightarrow> ('k \<Rightarrow> bytes) \<Rightarrow> ('p \<Rightarrow> bytes) \<Rightarrow> ('k, 'p, box, 'h) BaseRecord
      \<Rightarrow> instant \<Rightarrow> timeout \<Rightarrow> ('w world \<times> 'h OwnedDeliveryResult) rust \<Rightarrow> bool" where
  "send_outcome papi rt kb pb r start t res \<longleftrightarrow>
     (\<exists>n n'. rd_kafka_producev papi n (record_args kb pb box_into_ptr r) = (n', RD_KAFKA_RESP_ERR_NO_ERROR)
        \<and> (case await_rx rt n' (br_delivery_opaque r) of
             (_, Some d) \<Rightarrow> (\<exists>w'. res = Ret (w', d))
           | (_, None) \<Rightarrow> res = Panic ''producer unexpectedly dropped''))
     \<or> (\<exists>w' e. res = Ret (w', Err (e, record_message kb pb r))
        \<and> (e = MessageProduction EC_QueueFull \<longrightarrow> (\<exists>d. t = After d \<and> d \<le> clock w' - start)))"

lemma send_accepted:
  assumes "producer_send papi kb pb box_into_ptr box_from_ptr w r = (w1, Inr u)"
    and "await_rx rt (native w1) (br_delivery_opaque r) = (n, d)"
  shows "send_outcome papi rt kb pb r start t
    (rust_map (\<lambda>res. (w1\<lparr>native := n\<rparr>, res)) (expect ''producer unexpectedly dropped'' d))"
proof -
  from assms(1) obtain n1 where p: "rd_kafka_producev papi (native w) (record_args kb pb box_into_ptr r)
      = (n1, RD_KAFKA_RESP_ERR_NO_ERROR)" and n1: "native w1 = n1"
    by (auto simp: box_opaque.send_result Let_def split: if_splits prod.splits)
  show ?thesis
    unfolding send_outcome_def
    using p assms(2) n1
    by (intro disjI1 exI [of _ "native w"] exI [of _ n1]) (cases d; simp)
qed

lemma future_send_loop_terminates:
  assumes "clock_advances (tick api)" and "start \<le> clock w"
  shows "\<exists>res. future_send_loop api papi rt kb pb start (After t) r w = Some res
    \<and> send_outcome papi rt kb pb r start (After t) res"
  using assms(2)
proof (induction "start + t - clock w" arbitrary: w rule: less_induct)
  case less
  obtain w1 x where s: "producer_send papi kb pb box_into_ptr box_from_ptr w r = (w1, x)"
    by (cases "producer_send papi kb pb box_into_ptr box_from_ptr w r")
  have c1: "clock w1 = clock w" using s by (rule producer_send_clock)
  show ?case
  proof (cases x)
    case (Inr u)
    obtain n d where a: "await_rx rt (native w1) (br_delivery_opaque r) = (n, d)"
      by (cases "await_rx rt (native w1) (br_delivery_opaque r)")
    have "future_send_loop api papi rt kb pb start (After t) r w =
        Some (rust_map (\<lambda>res. (w1\<lparr>native := n\<rparr>, res)) (expect ''producer unexpectedly dropped'' d))"
      by (subst future_send_loop.simps) (simp add: s Inr a)
    with send_accepted [OF _ a] s Inr show ?thesis by blast
  next
    case (Inl er)
    then obtain e where er: "er = (e, r)" using s producer_send_box_err by (cases er) blast
    show ?thesis
    proof (cases "e = MessageProduction EC_QueueFull")
      case False
      then have "future_send_loop api papi rt kb pb start (After t) r w =
          Some (Ret (w1, Err (e, record_message kb pb r)))"
        by (subst future_send_loop.simps) (simp add: s Inl er)
      with False show ?thesis by (auto simp: send_outcome_def)
    next
      case full: True
      obtain w2 now where n: "instant_now (tick api) w1 = (w2, now)" by (cases "instant_now (tick api) w1")
      have w2: "clock w2 = now" "clock w < now"
        using n c1 clock_advancesD [OF assms(1), of "native w1"] by (auto simp: instant_now_def split: prod.splits)
      show ?thesis
      proof (cases "now - start < t")
        case False
        then have "future_send_loop api papi rt kb pb start (After t) r w =
            Some (Ret (w2, Err (e, record_message kb pb r)))"
          using full by (subst future_send_loop.simps) (simp add: s Inl er can_retry_def n)
        with False w2 show ?thesis by (auto simp: send_outcome_def)
      next
        case True
        let ?w3 = "w2\<lparr>native := delay_for rt (native w2) (from_millis 100)\<rparr>"
        have "future_send_loop api papi rt kb pb start (After t) r w =
            future_send_loop api papi rt kb pb start (After t) r ?w3"
          using True full by (subst future_send_loop.simps) (simp add: s Inl er can_retry_def n)
        moreover have "start + t - clock ?w3 < start + t - clock w" "start \<le> clock ?w3"
          using True w2 less.prems by simp_all
        ultimately show ?thesis using less.hyps [of ?w3] by simp
      qed
    qed
  qed
qed

text \<open>C7. \<open>FutureProducer::send\<close> with a finite queue timeout gets past queueing: provided that
  time passes, it ends, and a \<open>QueueFull\<close> error is reported only after the whole timeout;
  any other error is reported at once; an accepted record yields what the delivery
  callback sends. A refused record comes back with its key, payload, topic, timestamp,
  partition (or -1) and headers, however many times it was retried.\<close>

theorem future_send_queue_phase:
  assumes "clock_advances (tick api)"
  shows "\<exists>res. future_send api papi rt kb pb tx record (After t) w = Some res
    \<and> send_outcome papi rt kb pb (into_base_record record tx) (snd (instant_now (tick api) w)) (After t) res"
proof -
  obtain w1 now where n: "instant_now (tick api) w = (w1, now)" by (cases "instant_now (tick api) w")
  then have "clock w1 = now" by (auto simp: instant_now_def split: prod.splits)
  with future_send_loop_terminates [OF assms, of now w1] n show ?thesis
    by (simp add: future_send_def)
qed

definition runtime_instance :: "(unit producev_args list, unit) runtime_api" where
  "runtime_instance =
     \<lparr>delay_for = (\<lambda>n d. n),
      await_rx = (\<lambda>n tx. (n, Some (Ok \<lparr>dl_partition = 0, dl_offset = 5, dl_timestamp = NotAvailable\<rparr>)))\<rparr>"

theorem future_send_queue_phase_witness:
  "\<exists>res. future_send idle_client producer_instance runtime_instance str_to_bytes str_to_bytes (Box 9)
      (future_record_to ''t'') (After 3) (sample_world []) = Some res"
  using future_send_queue_phase [OF idle_client_advances] by blast

text \<open>\<open>send_result\<close> either hands over the record with the sender as its opaque, or gives
  back the very record that was passed, with the error.\<close>

theorem send_result_returns_record:
  "send_result papi kb pb tx record w =
     (case producer_send papi kb pb box_into_ptr box_from_ptr w (into_base_record record tx) of
        (w', Inr _) \<Rightarrow> (w', Ok tx)
      | (w', Inl (e, _)) \<Rightarrow> (w', Err (e, record)))"
  by (auto simp: send_result_def split: prod.splits sum.splits dest: producer_send_box_err)

text \<open>Completing a delivery: a successful report resolves the future with the partition,
  offset and timestamp of the message, a failed one with the same error and an owned copy
  of the message that shows the same content.\<close>

theorem future_delivery_result:
  assumes "headers_api_ok hapi view"
  shows "rust_map (map_sum (\<lambda>(e, m). (e, om_view view m)) id) (future_delivery hapi mapi dr) =
    (case dr of
       Inr m \<Rightarrow> Ret (Ok \<lparr>dl_partition = bm_partition m, dl_offset = bm_offset m, dl_timestamp = bm_timestamp mapi m\<rparr>)
     | Inl (e, m) \<Rightarrow> rust_map (\<lambda>v. Err (e, v)) (bm_view view mapi m))"
proof (cases dr)
  case (Inl er)
  obtain e m where er: "er = (e, m)" by (cases er)
  have "rust_map (om_view view) (detach hapi mapi m) = bm_view view mapi m"
    using assms by (rule detach_om_view)
  with Inl er show ?thesis
    by (cases "detach hapi mapi m"; cases "bm_view view mapi m") (simp_all add: future_delivery_def)
qed (simp add: future_delivery_def)

theorem future_delivery_result_witness:
  "future_delivery headers_instance message_instance (Inr sample_message) =
     Ret (Ok \<lparr>dl_partition = 3, dl_offset = 42, dl_timestamp = CreateTime 1000\<rparr>)"
proof -
  have "rust_map (map_sum (\<lambda>(e, m). (e, om_view (\<lambda>h. h) m)) id)
      (future_delivery headers_instance message_instance (Inr sample_message)) =
      Ret (Ok \<lparr>dl_partition = 3, dl_offset = 42, dl_timestamp = CreateTime 1000\<rparr>)"
    by (subst future_delivery_result [OF headers_instance_ok])
      (simp add: sample_message_def bm_partition_def bm_offset_def bm_timestamp_def message_instance_def)
  then show ?thesis by (auto simp: future_delivery_def)
qed

end
