(* ===== verification/Oneshot.thy ===== *)
theory Oneshot
  imports Util
begin

text \<open>
  The abstract specification of requests that are answered through oneshot channels, which
  the admin client (\<open>admin.rs\<close>) and the future producer (\<open>future_producer.rs\<close>) both implement:
  the sender of a fresh channel travels through librdkafka as an opaque pointer, librdkafka
  answers with an event that carries the pointer, and the thread that polls the queue sends
  the answer into the channel. The locale \<open>oneshot_system\<close> is the contract of an
  implementation; what a caller may rely on is proved in it once.
\<close>

section \<open>The specification\<close>

record 'a oneshot =
  os_pending :: "addr set"
  os_answered :: "addr \<rightharpoonup> 'a"
  os_delivered :: "addr \<rightharpoonup> 'a"

definition oneshot_empty :: "'a oneshot" where
  "oneshot_empty = \<lparr>os_pending = {}, os_answered = Map.empty, os_delivered = Map.empty\<rparr>"

definition os_issued :: "'a oneshot \<Rightarrow> addr set" where
  "os_issued s = os_pending s \<union> dom (os_answered s) \<union> dom (os_delivered s)"

inductive oneshot_step :: "'a oneshot \<Rightarrow> 'a oneshot \<Rightarrow> bool" where
  os_issue: "tx \<notin> os_issued s \<Longrightarrow> oneshot_step s (s\<lparr>os_pending := insert tx (os_pending s)\<rparr>)"
| os_answer: "tx \<in> os_pending s \<Longrightarrow>
    oneshot_step s (s\<lparr>os_pending := os_pending s - {tx}, os_answered := (os_answered s)(tx \<mapsto> a)\<rparr>)"
| os_deliver: "os_answered s tx = Some a \<Longrightarrow>
    oneshot_step s (s\<lparr>os_answered := (os_answered s)(tx := None), os_delivered := (os_delivered s)(tx \<mapsto> a)\<rparr>)"

inductive_cases oneshot_stepE: "oneshot_step s s'"

section \<open>What the specification promises\<close>

text \<open>A request is in one of the three states only.\<close>

definition oneshot_inv :: "'a oneshot \<Rightarrow> bool" where
  "oneshot_inv s \<longleftrightarrow>
     os_pending s \<inter> dom (os_answered s) = {} \<and> os_pending s \<inter> dom (os_delivered s) = {}
     \<and> dom (os_answered s) \<inter> dom (os_delivered s) = {}"

lemma oneshot_inv_empty: "oneshot_inv oneshot_empty"
  by (simp add: oneshot_inv_def oneshot_empty_def)

lemma oneshot_inv_step: "oneshot_step s s' \<Longrightarrow> oneshot_inv s \<Longrightarrow> oneshot_inv s'"
  by (elim oneshot_stepE) (auto simp: oneshot_inv_def os_issued_def)

text \<open>The answer a request has, wherever it is on its way.\<close>

definition os_result :: "'a oneshot \<Rightarrow> addr \<rightharpoonup> 'a" where
  "os_result s = os_answered s ++ os_delivered s"

lemma oneshot_invD:
  assumes "oneshot_inv s"
  shows "os_answered s tx = Some a \<Longrightarrow> os_delivered s tx = None"
    and "tx \<in> os_pending s \<Longrightarrow> os_answered s tx = None \<and> os_delivered s tx = None"
  using assms by (auto simp: oneshot_inv_def domIff disjoint_iff)

lemma oneshot_step_keeps:
  assumes "oneshot_step s s'" and "oneshot_inv s"
  shows "os_delivered s \<subseteq>\<^sub>m os_delivered s' \<and> os_result s \<subseteq>\<^sub>m os_result s' \<and> os_issued s \<subseteq> os_issued s'"
  using assms(1)
proof cases
  case (os_issue tx)
  then show ?thesis by (auto simp: os_result_def os_issued_def)
next
  case (os_answer tx a)
  with oneshot_invD(2) [OF assms(2) os_answer(2)] show ?thesis
    by (auto simp: os_result_def os_issued_def map_le_def map_add_def split: option.splits)
next
  case (os_deliver tx a)
  with oneshot_invD(1) [OF assms(2) os_deliver(2)] show ?thesis
    by (auto simp: os_result_def os_issued_def map_le_def map_add_def dom_def split: option.splits)
qed

lemma oneshot_steps:
  assumes "oneshot_step\<^sup>*\<^sup>* s s'" and "oneshot_inv s"
  shows "oneshot_inv s'" and "os_delivered s \<subseteq>\<^sub>m os_delivered s'" and "os_result s \<subseteq>\<^sub>m os_result s'"
    and "os_issued s \<subseteq> os_issued s'"
proof -
  have "oneshot_inv s' \<and> os_delivered s \<subseteq>\<^sub>m os_delivered s' \<and> os_result s \<subseteq>\<^sub>m os_result s' \<and> os_issued s \<subseteq> os_issued s'"
    using assms
  proof (induction rule: rtranclp_induct)
    case (step s1 s2)
    then show ?case
      using oneshot_inv_step [OF step.hyps(2)] oneshot_step_keeps [OF step.hyps(2)] map_le_trans by blast
  qed simp
  then show "oneshot_inv s'" "os_delivered s \<subseteq>\<^sub>m os_delivered s'" "os_result s \<subseteq>\<^sub>m os_result s'" "os_issued s \<subseteq> os_issued s'"
    by blast+
qed

lemma oneshot_deliver_result:
  assumes "oneshot_inv s" and "os_delivered s tx = Some a"
  shows "os_result s tx = Some a"
  using assms by (simp add: os_result_def map_add_def)

text \<open>Queues of answers as association lists.\<close>

lemma map_of_forget_head: "distinct (map fst ((k, v) # ps)) \<Longrightarrow> (map_of ((k, v) # ps))(k := None) = map_of ps"
  by (rule ext) (auto simp: map_of_eq_None_iff [symmetric])

lemma map_of_snoc_fresh:
  assumes "k \<notin> fst ` set ps"
  shows "map_of (ps @ [(k, v)]) = (map_of ps)(k \<mapsto> v)"
proof -
  have "map_of ps k = None" using assms by (simp only: map_of_eq_None_iff not_False_eq_True)
  then show ?thesis by (intro ext) (auto simp: map_add_def split: option.splits)
qed

section \<open>Implementations\<close>

text \<open>
  An implementation has a step relation, an invariant and an abstraction to the
  specification under which each of its steps is a sequence of abstract ones.
\<close>

locale oneshot_system =
  fixes step :: "'s \<Rightarrow> 's \<Rightarrow> bool" and init :: 's and good :: "'s \<Rightarrow> bool" and abs :: "'s \<Rightarrow> 'a oneshot"
  assumes good_init: "good init" and abs_init: "abs init = oneshot_empty"
    and good_step: "good s \<Longrightarrow> step s s' \<Longrightarrow> good s'"
    and simulation: "good s \<Longrightarrow> step s s' \<Longrightarrow> oneshot_step\<^sup>*\<^sup>* (abs s) (abs s')"
begin

lemma reachable:
  assumes "step\<^sup>*\<^sup>* init s"
  shows "good s" and "oneshot_step\<^sup>*\<^sup>* oneshot_empty (abs s)"
proof -
  have "good s \<and> oneshot_step\<^sup>*\<^sup>* oneshot_empty (abs s)"
    using assms
  proof (induction rule: rtranclp_induct)
    case base
    show ?case by (simp add: good_init abs_init)
  next
    case (step s1 s2)
    then show ?case using good_step simulation by (meson rtranclp_trans)
  qed
  then show "good s" "oneshot_step\<^sup>*\<^sup>* oneshot_empty (abs s)" by blast+
qed

lemma abs_inv: "step\<^sup>*\<^sup>* init s \<Longrightarrow> oneshot_inv (abs s)"
  using oneshot_steps(1) [OF reachable(2) oneshot_inv_empty] .

lemma run_simulated:
  assumes "good s" and "step\<^sup>*\<^sup>* s s'"
  shows "good s' \<and> oneshot_step\<^sup>*\<^sup>* (abs s) (abs s')"
  using assms(2)
proof (induction rule: rtranclp_induct)
  case base
  show ?case using assms(1) by simp
next
  case (step s1 s2)
  then show ?case using good_step simulation by (meson rtranclp_trans)
qed

text \<open>A resolved future stays resolved with the same answer, and the answer a request once
  has is the one its future resolves with, if it does.\<close>

lemma resolved_once:
  assumes "step\<^sup>*\<^sup>* init s" and "step\<^sup>*\<^sup>* s s'" and "os_delivered (abs s) tx = Some a"
  shows "os_delivered (abs s') tx = Some a"
proof -
  from run_simulated [OF reachable(1) [OF assms(1)] assms(2)] have "oneshot_step\<^sup>*\<^sup>* (abs s) (abs s')" by blast
  from oneshot_steps(2) [OF this abs_inv [OF assms(1)]] assms(3) show ?thesis
    by (auto simp: map_le_def dom_def)
qed

lemma resolves_with_answer:
  assumes "step\<^sup>*\<^sup>* init s" and "step\<^sup>*\<^sup>* s s'" and "os_result (abs s) tx = Some a" and "os_delivered (abs s') tx = Some b"
  shows "a = b"
proof -
  from run_simulated [OF reachable(1) [OF assms(1)] assms(2)] have run: "oneshot_step\<^sup>*\<^sup>* (abs s) (abs s')" by blast
  have "oneshot_inv (abs s')" using oneshot_steps(1) [OF run abs_inv [OF assms(1)]] .
  then have "os_result (abs s') tx = Some b" using assms(4) by (rule oneshot_deliver_result)
  moreover have "os_result (abs s') tx = Some a"
    using oneshot_steps(3) [OF run abs_inv [OF assms(1)]] assms(3) by (auto simp: map_le_def dom_def)
  ultimately show ?thesis by simp
qed

lemma never_issued_never_resolved:
  assumes "step\<^sup>*\<^sup>* init s" and "os_delivered (abs s) tx = Some a"
  shows "tx \<in> os_issued (abs s) \<and> tx \<notin> os_pending (abs s)"
  using abs_inv [OF assms(1)] assms(2) by (auto simp: oneshot_inv_def os_issued_def)

end

end
