(* ===== verification/Delivery_System.thy ===== *)
theory Delivery_System
  imports Future_Producer Oneshot
begin

text \<open>
  The future producer as a whole: \<open>send_result\<close> hands a record and the sender of a channel to
  librdkafka, librdkafka reports deliveries in events, and whoever polls the producer serves
  the events, which completes the channels (\<open>future_producer.rs\<close> over \<open>base_producer.rs\<close>). The
  system implements the specification of \<open>Oneshot\<close>.
\<close>

section \<open>Completing channels\<close>

text \<open>
  The delivery callbacks among the effects of handling an event, run in order: each sends its
  result into the channel whose sender is the opaque. A callback that panics stops.
\<close>

fun complete_deliveries ::
    "'h headers_api \<Rightarrow> 'h message_api \<Rightarrow> effect list \<Rightarrow> (addr \<rightharpoonup> 'h OwnedDeliveryResult) \<Rightarrow> (addr \<rightharpoonup> 'h OwnedDeliveryResult) rust" where
  "complete_deliveries hapi mapi [] channel = Ret channel"
| "complete_deliveries hapi mapi (Ctx_delivery delivery_result opaque # es) channel =
     rust_bind (future_delivery hapi mapi delivery_result) (\<lambda>r.
       complete_deliveries hapi mapi es (channel(opaque \<mapsto> r)))"
| "complete_deliveries hapi mapi (e # es) channel = complete_deliveries hapi mapi es channel"

section \<open>The system\<close>

text \<open>
  Senders are named by their opaque, and different senders by different names. \<open>ds_inflight\<close>
  are the messages librdkafka has accepted and not reported, \<open>ds_queue\<close> the delivery events
  that wait to be polled, \<open>ds_channel\<close> what was sent into each channel.
\<close>

record ('w, 'h) delivery_sys =
  ds_world :: "'w world"
  ds_issued :: "addr set"
  ds_inflight :: "addr set"
  ds_queue :: "RDKafkaEvent list"
  ds_channel :: "addr \<rightharpoonup> 'h OwnedDeliveryResult"

definition delivery_init :: "'w world \<Rightarrow> ('w, 'h) delivery_sys" where
  "delivery_init w = \<lparr>ds_world = w, ds_issued = {}, ds_inflight = {}, ds_queue = [], ds_channel = Map.empty\<rparr>"

definition event_opaques :: "RDKafkaEvent \<Rightarrow> addr list" where
  "event_opaques ev = map msg_private (event_messages ev)"

definition delivery_serve ::
    "'h headers_api \<Rightarrow> 'h message_api \<Rightarrow> ('w, 'h) delivery_sys \<Rightarrow> ('w, 'h) delivery_sys rust" where
  "delivery_serve hapi mapi s =
     (case ds_queue s of
        [] \<Rightarrow> Ret s
      | ev # q \<Rightarrow>
          rust_bind (producer_handle_event ev (ds_world s)) (\<lambda>w.
          rust_map (\<lambda>channel. s\<lparr>ds_world := w, ds_queue := q, ds_channel := channel\<rparr>)
            (complete_deliveries hapi mapi (new_effects (ds_world s) w) (ds_channel s))))"

text \<open>
  \<open>DeliveryFuture::poll\<close> asks the receiver of its channel. A dropped sender would make it
  ready with \<open>Canceled\<close>, the left case; but a sender that was handed over exists only as the
  raw pointer that librdkafka keeps, so nothing drops it.
\<close>

datatype 'a future_poll = Future_Pending | Future_Ready "unit + 'a"

definition delivery_future_poll :: "('w, 'h) delivery_sys \<Rightarrow> addr \<Rightarrow> 'h OwnedDeliveryResult future_poll" where
  "delivery_future_poll s rx = (case ds_channel s rx of None \<Rightarrow> Future_Pending | Some r \<Rightarrow> Future_Ready (Ok r))"

text \<open>
  librdkafka reports a message once, with the opaque it was sent with, after it accepted it.
  Time passes and other calls go on between the steps, so the world may change in between.
\<close>

inductive delivery_step ::
    "('w, 'h) producer_api \<Rightarrow> ('k \<Rightarrow> bytes) \<Rightarrow> ('p \<Rightarrow> bytes) \<Rightarrow> 'h headers_api \<Rightarrow> 'h message_api
      \<Rightarrow> ('w, 'h) delivery_sys \<Rightarrow> ('w, 'h) delivery_sys \<Rightarrow> bool"
  for papi :: "('w, 'h) producer_api" and kb :: "'k \<Rightarrow> bytes" and pb :: "'p \<Rightarrow> bytes"
    and hapi :: "'h headers_api" and mapi :: "'h message_api" where
  ds_send: "box_into_ptr tx \<notin> ds_issued s \<Longrightarrow> send_result papi kb pb tx record (ds_world s) = (w, Ok rx) \<Longrightarrow>
     delivery_step papi kb pb hapi mapi s
       (s\<lparr>ds_world := w, ds_issued := insert (box_into_ptr rx) (ds_issued s), ds_inflight := insert (box_into_ptr rx) (ds_inflight s)\<rparr>)"
| ds_refused: "send_result papi kb pb tx record (ds_world s) = (w, Err e) \<Longrightarrow>
     delivery_step papi kb pb hapi mapi s (s\<lparr>ds_world := w\<rparr>)"
| ds_report: "ev_type ev = RD_KAFKA_EVENT_DR \<Longrightarrow> distinct (event_opaques ev) \<Longrightarrow> set (event_opaques ev) \<subseteq> ds_inflight s \<Longrightarrow>
     delivery_step papi kb pb hapi mapi s
       (s\<lparr>ds_inflight := ds_inflight s - set (event_opaques ev), ds_queue := ds_queue s @ [ev]\<rparr>)"
| ds_elapse: "delivery_step papi kb pb hapi mapi s (s\<lparr>ds_world := w\<rparr>)"
| ds_serve: "delivery_serve hapi mapi s = Ret s' \<Longrightarrow> delivery_step papi kb pb hapi mapi s s'"

section \<open>Refinement of the specification\<close>

text \<open>What the queued events will deliver.\<close>

definition event_results ::
    "'h headers_api \<Rightarrow> 'h message_api \<Rightarrow> RDKafkaEvent \<Rightarrow> (addr \<times> 'h OwnedDeliveryResult rust) list" where
  "event_results hapi mapi ev =
     map (\<lambda>m. (msg_private m, future_delivery hapi mapi (delivery_result_of (ev_ptr ev) m))) (event_messages ev)"

definition delivery_abs ::
    "'h headers_api \<Rightarrow> 'h message_api \<Rightarrow> ('w, 'h) delivery_sys \<Rightarrow> 'h OwnedDeliveryResult rust oneshot" where
  "delivery_abs hapi mapi s =
     \<lparr>os_pending = ds_inflight s, os_answered = map_of (concat (map (event_results hapi mapi) (ds_queue s))),
      os_delivered = map_option Ret \<circ> ds_channel s\<rparr>"

definition delivery_inv :: "('w, 'h) delivery_sys \<Rightarrow> bool" where
  "delivery_inv s \<longleftrightarrow>
     ds_issued s = ds_inflight s \<union> set (concat (map event_opaques (ds_queue s))) \<union> dom (ds_channel s)
     \<and> distinct (concat (map event_opaques (ds_queue s)))
     \<and> ds_inflight s \<inter> set (concat (map event_opaques (ds_queue s))) = {}
     \<and> ds_inflight s \<inter> dom (ds_channel s) = {}
     \<and> set (concat (map event_opaques (ds_queue s))) \<inter> dom (ds_channel s) = {}
     \<and> (\<forall>ev \<in> set (ds_queue s). ev_type ev = RD_KAFKA_EVENT_DR)"

lemma fst_event_results [simp]: "map fst (event_results hapi mapi ev) = event_opaques ev"
  by (simp add: event_results_def event_opaques_def)

lemma fst_queue_results [simp]:
  "map fst (concat (map (event_results hapi mapi) evs)) = concat (map event_opaques evs)"
  by (induction evs) simp_all

lemma dom_queue_results [simp]:
  "dom (map_of (concat (map (event_results hapi mapi) evs))) = set (concat (map event_opaques evs))"
  using fst_queue_results [of hapi mapi evs] by (metis dom_map_of_conv_image_fst set_map)

lemma map_option_upd: "map_option f \<circ> m(k \<mapsto> v) = (map_option f \<circ> m)(k \<mapsto> f v)"
  by auto

text \<open>Completing the channels of an event delivers its results one after the other.\<close>

lemma complete_deliveries_simulated:
  assumes "complete_deliveries hapi mapi
      (map (\<lambda>m. Ctx_delivery (delivery_result_of p m) (msg_private m)) ms @ [Native_event_destroy p]) channel = Ret channel'"
    and "distinct (map msg_private ms @ map fst rest)"
  shows "oneshot_step\<^sup>*\<^sup>*
      \<lparr>os_pending = P, os_answered = map_of (map (\<lambda>m. (msg_private m, future_delivery hapi mapi (delivery_result_of p m))) ms @ rest),
       os_delivered = map_option Ret \<circ> channel\<rparr>
      \<lparr>os_pending = P, os_answered = map_of rest, os_delivered = map_option Ret \<circ> channel'\<rparr>
    \<and> dom channel' = dom channel \<union> set (map msg_private ms)"
  using assms
proof (induction ms arbitrary: channel)
  case Nil
  then show ?case by simp
next
  case (Cons m ms)
  let ?f = "\<lambda>m. (msg_private m, future_delivery hapi mapi (delivery_result_of p m))"
  obtain x where x: "future_delivery hapi mapi (delivery_result_of p m) = Ret x"
    and rec: "complete_deliveries hapi mapi
      (map (\<lambda>m. Ctx_delivery (delivery_result_of p m) (msg_private m)) ms @ [Native_event_destroy p])
      (channel(msg_private m \<mapsto> x)) = Ret channel'"
    using Cons.prems(1) by (auto split: rust.splits)
  have d: "distinct (map fst ((msg_private m, Ret x) # (map ?f ms @ rest)))" using Cons.prems(2) by (simp add: comp_def)
  let ?s = "\<lparr>os_pending = P, os_answered = map_of (map ?f (m # ms) @ rest), os_delivered = map_option Ret \<circ> channel\<rparr>"
  have "oneshot_step ?s (?s\<lparr>os_answered := (os_answered ?s)(msg_private m := None),
      os_delivered := (os_delivered ?s)(msg_private m \<mapsto> Ret x)\<rparr>)"
    by (rule os_deliver) (simp add: x)
  moreover have "(os_answered ?s)(msg_private m := None) = map_of (map ?f ms @ rest)"
    using map_of_forget_head [OF d] x by simp
  moreover have "(os_delivered ?s)(msg_private m \<mapsto> Ret x) = map_option Ret \<circ> channel(msg_private m \<mapsto> x)"
    by (simp only: oneshot.simps map_option_upd)
  ultimately have first: "oneshot_step ?s \<lparr>os_pending = P, os_answered = map_of (map ?f ms @ rest),
      os_delivered = map_option Ret \<circ> channel(msg_private m \<mapsto> x)\<rparr>"
    by (simp only: oneshot.simps oneshot.update_convs)
  have rest: "distinct (map msg_private ms @ map fst rest)" using Cons.prems(2) by simp
  note IH = Cons.IH [OF rec rest]
  have "dom channel' = dom channel \<union> set (map msg_private (m # ms))" using IH by auto
  moreover from first IH [THEN conjunct1] have "oneshot_step\<^sup>*\<^sup>* ?s
      \<lparr>os_pending = P, os_answered = map_of rest, os_delivered = map_option Ret \<circ> channel'\<rparr>"
    by (rule converse_rtranclp_into_rtranclp)
  ultimately show ?case by blast
qed

lemma delivery_serve_simulated:
  assumes "delivery_serve hapi mapi s = Ret s'" and "delivery_inv s"
  shows "delivery_inv s' \<and> oneshot_step\<^sup>*\<^sup>* (delivery_abs hapi mapi s) (delivery_abs hapi mapi s')"
proof (cases "ds_queue s")
  case Nil
  with assms show ?thesis by (simp add: delivery_serve_def)
next
  case (Cons ev q)
  have dr: "ev_type ev = RD_KAFKA_EVENT_DR" using assms(2) Cons by (simp add: delivery_inv_def)
  let ?w = "(ds_world s)\<lparr>trace := trace (ds_world s) @ producer_effects ev\<rparr>"
  have "new_effects (ds_world s) ?w = producer_effects ev" by (rule new_effects_append) simp
  with assms(1) Cons obtain channel' where ch: "complete_deliveries hapi mapi (producer_effects ev) (ds_channel s) = Ret channel'"
      and s': "s' = s\<lparr>ds_world := ?w, ds_queue := q, ds_channel := channel'\<rparr>"
    by (auto simp: delivery_serve_def producer_handle_event_eq)
  let ?rest = "concat (map (event_results hapi mapi) q)"
  have rest: "map fst ?rest = concat (map event_opaques q)" by simp
  have "distinct (map msg_private (event_messages ev) @ map fst ?rest)"
    unfolding rest using assms(2) Cons by (simp add: delivery_inv_def event_opaques_def)
  from complete_deliveries_simulated [OF _ this, of hapi mapi "ev_ptr ev" "ds_channel s" channel' "ds_inflight s"] ch dr
  have sim: "oneshot_step\<^sup>*\<^sup>* (delivery_abs hapi mapi s) (delivery_abs hapi mapi s')"
    and dom: "dom channel' = dom (ds_channel s) \<union> set (event_opaques ev)"
    by (simp_all add: producer_effects_def delivery_abs_def Cons s' event_results_def event_opaques_def)
  have "delivery_inv s'" using assms(2) Cons dom unfolding delivery_inv_def s' by auto
  with sim show ?thesis by blast
qed

lemma send_result_ok: "send_result papi kb pb tx record w = (w', Ok rx) \<Longrightarrow> rx = tx"
  by (auto simp: send_result_def split: prod.splits sum.splits)

text \<open>A report answers its messages one after the other.\<close>

lemma report_simulated:
  assumes "distinct (map fst rs)" and "set (map fst rs) \<subseteq> P" and "P \<inter> fst ` set ans = {}"
  shows "oneshot_step\<^sup>*\<^sup>* \<lparr>os_pending = P, os_answered = map_of ans, os_delivered = D\<rparr>
    \<lparr>os_pending = P - set (map fst rs), os_answered = map_of (ans @ rs), os_delivered = D\<rparr>"
  using assms
proof (induction rs rule: rev_induct)
  case Nil
  then show ?case by simp
next
  case (snoc r rs)
  obtain tx v where r: "r = (tx, v)" by (cases r)
  let ?s = "\<lparr>os_pending = P - set (map fst rs), os_answered = map_of (ans @ rs), os_delivered = D\<rparr>"
  have "oneshot_step ?s (?s\<lparr>os_pending := os_pending ?s - {tx}, os_answered := (os_answered ?s)(tx \<mapsto> v)\<rparr>)"
    using snoc.prems r by (intro os_answer) auto
  moreover have "(map_of (ans @ rs))(tx \<mapsto> v) = map_of (ans @ rs @ [r])"
  proof -
    have "tx \<notin> fst ` set (ans @ rs)" using snoc.prems r by auto
    from map_of_snoc_fresh [OF this, of v] show ?thesis using r by simp
  qed
  moreover have "P - set (map fst rs) - {tx} = P - set (map fst (rs @ [r]))" using r by auto
  ultimately show ?case using snoc by (simp add: r)
qed

lemma delivery_step_simulated:
  assumes "delivery_step papi kb pb hapi mapi s s'" and "delivery_inv s"
  shows "delivery_inv s' \<and> oneshot_step\<^sup>*\<^sup>* (delivery_abs hapi mapi s) (delivery_abs hapi mapi s')"
  using assms(1)
proof cases
  case (ds_send tx rec w rx)
  have rx: "rx = tx" using ds_send(3) by (rule send_result_ok)
  have "oneshot_step (delivery_abs hapi mapi s) ((delivery_abs hapi mapi s)
      \<lparr>os_pending := insert (box_into_ptr tx) (os_pending (delivery_abs hapi mapi s))\<rparr>)"
    using ds_send(2) assms(2) by (intro os_issue) (auto simp: delivery_inv_def delivery_abs_def os_issued_def)
  with ds_send rx assms(2) show ?thesis by (auto simp: delivery_inv_def delivery_abs_def)
next
  case (ds_refused tx rec w e)
  with assms(2) show ?thesis by (simp add: delivery_inv_def delivery_abs_def)
next
  case (ds_report ev)
  have "oneshot_step\<^sup>*\<^sup>* (delivery_abs hapi mapi s) (delivery_abs hapi mapi s')"
  proof -
    let ?ans = "concat (map (event_results hapi mapi) (ds_queue s))"
    have "set (map fst ?ans) = set (concat (map event_opaques (ds_queue s)))" by (simp only: fst_queue_results)
    then have "ds_inflight s \<inter> fst ` set ?ans = {}"
      using assms(2) unfolding delivery_inv_def set_map by metis
    from report_simulated [OF _ _ this, of "event_results hapi mapi ev" "map_option Ret \<circ> ds_channel s"] ds_report
    show ?thesis by (simp add: delivery_abs_def)
  qed
  moreover have "delivery_inv s'" using ds_report assms(2) by (auto simp: delivery_inv_def)
  ultimately show ?thesis by blast
next
  case (ds_elapse w)
  with assms(2) show ?thesis by (simp add: delivery_inv_def delivery_abs_def)
next
  case ds_serve
  with delivery_serve_simulated assms(2) show ?thesis by blast
qed

lemma delivery_inv_init: "delivery_inv (delivery_init w)"
  by (simp add: delivery_inv_def delivery_init_def)

lemma delivery_abs_init: "delivery_abs hapi mapi (delivery_init w) = oneshot_empty"
  by (simp add: delivery_abs_def delivery_init_def oneshot_empty_def)

interpretation delivery: oneshot_system "delivery_step papi kb pb hapi mapi" "delivery_init w" delivery_inv "delivery_abs hapi mapi"
  by unfold_locales (use delivery_step_simulated delivery_inv_init delivery_abs_init in blast)+

section \<open>What the caller of \<open>send_result\<close> may rely on\<close>

lemma delivered_iff: "os_delivered (delivery_abs hapi mapi s) tx = Some r \<longleftrightarrow> (\<exists>d. r = Ret d \<and> ds_channel s tx = Some d)"
  by (auto simp: delivery_abs_def)

lemma queued_result:
  assumes "delivery_inv s" and "ev \<in> set (ds_queue s)" and "m \<in> set (event_messages ev)"
  shows "os_result (delivery_abs hapi mapi s) (msg_private m) = Some (future_delivery hapi mapi (delivery_result_of (ev_ptr ev) m))"
proof -
  let ?ans = "concat (map (event_results hapi mapi) (ds_queue s))"
  have "(msg_private m, future_delivery hapi mapi (delivery_result_of (ev_ptr ev) m)) \<in> set ?ans"
    using assms(2,3) by (auto simp: event_results_def)
  moreover have "distinct (map fst ?ans)" unfolding fst_queue_results using assms(1) by (simp only: delivery_inv_def)
  ultimately have 1: "map_of ?ans (msg_private m) = Some (future_delivery hapi mapi (delivery_result_of (ev_ptr ev) m))"
    by (rule map_of_is_SomeI [rotated])
  have "msg_private m \<in> set (concat (map event_opaques (ds_queue s)))" using assms(2,3) by (auto simp: event_opaques_def)
  then have "ds_channel s (msg_private m) = None" using assms(1) unfolding delivery_inv_def by blast
  with 1 show ?thesis by (simp add: os_result_def delivery_abs_def map_add_def)
qed

lemma delivery_future_poll_iff: "delivery_future_poll s rx = Future_Ready (Ok r) \<longleftrightarrow> ds_channel s rx = Some r"
  by (simp add: delivery_future_poll_def split: option.splits)

lemma delivery_serve_issued: "delivery_serve hapi mapi d = Ret d' \<Longrightarrow> ds_issued d' = ds_issued d"
  by (auto simp: delivery_serve_def split: list.splits rust.splits)

text \<open>What was sent into a channel stays there.\<close>

lemma delivery_channel_grows:
  assumes "(delivery_step papi kb pb hapi mapi)\<^sup>*\<^sup>* (delivery_init w) s" and "(delivery_step papi kb pb hapi mapi)\<^sup>*\<^sup>* s s'"
  shows "ds_channel s \<subseteq>\<^sub>m ds_channel s'"
  unfolding map_le_def
proof
  fix k assume "k \<in> dom (ds_channel s)"
  then obtain v where "ds_channel s k = Some v" by blast
  with delivery.resolved_once [OF assms, of k "Ret v"] show "ds_channel s k = ds_channel s' k"
    by (simp add: delivered_iff)
qed

text \<open>C13. The future of \<open>send_result\<close> resolves at most once, with the report of its own
  message: in every run, a future that resolves was accepted by librdkafka and has been
  reported, keeps its result from then on, and if its report was seen in a queued event, the
  result is what the context makes of that message.\<close>

theorem delivery_future_own_report:
  assumes "(delivery_step papi kb pb hapi mapi)\<^sup>*\<^sup>* (delivery_init w) s"
    and "(delivery_step papi kb pb hapi mapi)\<^sup>*\<^sup>* s s'"
  shows "(\<forall>tx r. delivery_future_poll s tx = Future_Ready (Ok r) \<longrightarrow>
      tx \<in> ds_issued s \<and> tx \<notin> ds_inflight s \<and> delivery_future_poll s' tx = Future_Ready (Ok r))
    \<and> (\<forall>ev m r. ev \<in> set (ds_queue s) \<and> m \<in> set (event_messages ev)
        \<and> delivery_future_poll s' (msg_private m) = Future_Ready (Ok r) \<longrightarrow>
         future_delivery hapi mapi (delivery_result_of (ev_ptr ev) m) = Ret r)"
  unfolding delivery_future_poll_iff
proof (intro conjI allI impI)
  have inv: "delivery_inv s" using assms(1) by (rule delivery.reachable)
  fix tx r
  assume ch: "ds_channel s tx = Some r"
  then show "tx \<in> ds_issued s" "tx \<notin> ds_inflight s" using inv by (auto simp: delivery_inv_def)
  show "ds_channel s' tx = Some r"
    using delivery.resolved_once [OF assms, of tx "Ret r"] ch by (simp add: delivered_iff)
next
  have inv: "delivery_inv s" using assms(1) by (rule delivery.reachable)
  fix ev m r
  assume "ev \<in> set (ds_queue s) \<and> m \<in> set (event_messages ev) \<and> ds_channel s' (msg_private m) = Some r"
  then have "os_result (delivery_abs hapi mapi s) (msg_private m) = Some (future_delivery hapi mapi (delivery_result_of (ev_ptr ev) m))"
      "os_delivered (delivery_abs hapi mapi s') (msg_private m) = Some (Ret r)"
    using queued_result [OF inv] by (auto simp: delivered_iff)
  from delivery.resolves_with_answer [OF assms this]
  show "future_delivery hapi mapi (delivery_result_of (ev_ptr ev) m) = Ret r" .
qed

section \<open>Every report is delivered\<close>

definition event_readable :: "'h message_api \<Rightarrow> RDKafkaEvent \<Rightarrow> bool" where
  "event_readable mapi ev \<longleftrightarrow> (\<forall>m \<in> set (event_messages ev). utf8_valid (cstr_bytes (rd_kafka_topic_name mapi (msg_rkt m))))"

lemma future_delivery_total:
  assumes "headers_api_ok hapi view" and "utf8_valid (cstr_bytes (rd_kafka_topic_name mapi (msg_rkt m)))"
  shows "\<exists>r. future_delivery hapi mapi (delivery_result_of p m) = Ret r"
proof -
  have "\<exists>r. detach hapi mapi \<lparr>bm_ptr = m, bm_event = p\<rparr> = Ret r"
    using assms(2) borrowed_detach_ok [OF assms(1)]
    by (cases "bm_headers mapi \<lparr>bm_ptr = m, bm_event = p\<rparr>") (fastforce simp: detach_def bm_topic_def)+
  then show ?thesis by (auto simp: future_delivery_def delivery_result_of_def)
qed

lemma complete_deliveries_total:
  assumes "headers_api_ok hapi view" and "\<forall>m \<in> set ms. utf8_valid (cstr_bytes (rd_kafka_topic_name mapi (msg_rkt m)))"
  shows "\<exists>c. complete_deliveries hapi mapi
      (map (\<lambda>m. Ctx_delivery (delivery_result_of p m) (msg_private m)) ms @ [Native_event_destroy p]) channel = Ret c"
  using assms(2)
proof (induction ms arbitrary: channel)
  case (Cons m ms)
  with future_delivery_total [OF assms(1), of mapi m p] show ?case by auto
qed simp

lemma delivery_serve_total:
  assumes "delivery_inv s" and "headers_api_ok hapi view" and "ds_queue s = ev # q" and "event_readable mapi ev"
  shows "\<exists>s'. delivery_serve hapi mapi s = Ret s' \<and> ds_queue s' = q \<and> ds_inflight s' = ds_inflight s \<and> ds_issued s' = ds_issued s"
proof -
  let ?w = "(ds_world s)\<lparr>trace := trace (ds_world s) @ producer_effects ev\<rparr>"
  have dr: "ev_type ev = RD_KAFKA_EVENT_DR" using assms(1,3) by (simp add: delivery_inv_def)
  obtain c where "complete_deliveries hapi mapi (producer_effects ev) (ds_channel s) = Ret c"
    using complete_deliveries_total [OF assms(2), of "event_messages ev" mapi "ev_ptr ev"] assms(4) dr
    by (auto simp: event_readable_def producer_effects_def)
  moreover have "new_effects (ds_world s) ?w = producer_effects ev" by (rule new_effects_append) simp
  ultimately show ?thesis using assms(3) by (simp add: delivery_serve_def producer_handle_event_eq)
qed

text \<open>C25. Every report that librdkafka queues reaches its future: polling once per queued
  event empties the queue and resolves the future of every accepted record that has been
  reported. When nothing is in flight any more, as after a successful flush, no future is
  left unresolved.\<close>

theorem delivery_queue_drains:
  assumes "(delivery_step papi kb pb hapi mapi)\<^sup>*\<^sup>* (delivery_init w) s"
    and "headers_api_ok hapi view" and "list_all (event_readable mapi) (ds_queue s)"
  shows "\<exists>s'. (delivery_step papi kb pb hapi mapi ^^ length (ds_queue s)) s s' \<and> ds_queue s' = []
    \<and> dom (ds_channel s') = ds_issued s - ds_inflight s"
proof -
  have "delivery_inv s" using assms(1) by (rule delivery.reachable)
  then have "\<exists>s'. (delivery_step papi kb pb hapi mapi ^^ length (ds_queue s)) s s' \<and> ds_queue s' = []
      \<and> delivery_inv s' \<and> ds_issued s' = ds_issued s \<and> ds_inflight s' = ds_inflight s"
    using assms(3)
  proof (induction "ds_queue s" arbitrary: s)
    case Nil
    then show ?case by auto
  next
    case (Cons ev q)
    from delivery_serve_total [OF Cons.prems(1) assms(2) Cons.hyps(2) [symmetric]] Cons.prems(2) Cons.hyps(2)
    obtain s1 where s1: "delivery_serve hapi mapi s = Ret s1" "ds_queue s1 = q" "ds_inflight s1 = ds_inflight s"
        "ds_issued s1 = ds_issued s"
      by (metis list.pred_inject(2))
    have "delivery_inv s1" using delivery_serve_simulated [OF s1(1) Cons.prems(1)] by blast
    moreover have "list_all (event_readable mapi) (ds_queue s1)" using Cons.prems(2) Cons.hyps(2) s1(2) by (metis list.pred_inject(2))
    ultimately obtain s' where "(delivery_step papi kb pb hapi mapi ^^ length (ds_queue s1)) s1 s'" "ds_queue s' = []"
        "delivery_inv s'" "ds_issued s' = ds_issued s1" "ds_inflight s' = ds_inflight s1"
      using Cons.hyps(1) [of s1] s1(2) by blast
    moreover have "delivery_step papi kb pb hapi mapi s s1" using s1(1) by (rule ds_serve)
    ultimately show ?case
      using s1 Cons.hyps(2) by (metis length_Cons relpowp_Suc_I2)
  qed
  then obtain s' where s': "(delivery_step papi kb pb hapi mapi ^^ length (ds_queue s)) s s'" "ds_queue s' = []"
      "delivery_inv s'" "ds_issued s' = ds_issued s" "ds_inflight s' = ds_inflight s"
    by blast
  then have "dom (ds_channel s') = ds_issued s - ds_inflight s"
    unfolding delivery_inv_def by auto
  with s' show ?thesis by blast
qed

section \<open>A run\<close>

type_synonym sample_headers = "(bytes \<times> bytes option) list"

abbreviation sample_papi :: "(sample_headers producev_args list, sample_headers) producer_api" where
  "sample_papi \<equiv> producer_instance\<lparr>rd_kafka_producev := \<lambda>n a. (n @ [a], RD_KAFKA_RESP_ERR_NO_ERROR)\<rparr>"

abbreviation sample_delivery_step ::
    "(sample_headers producev_args list, sample_headers) delivery_sys \<Rightarrow> (sample_headers producev_args list, sample_headers) delivery_sys \<Rightarrow> bool" where
  "sample_delivery_step \<equiv> delivery_step sample_papi str_to_bytes str_to_bytes headers_instance message_instance"

definition sample_send :: "nat \<Rightarrow> (sample_headers producev_args list, sample_headers) delivery_sys
    \<Rightarrow> (sample_headers producev_args list, sample_headers) delivery_sys" where
  "sample_send tx s =
     s\<lparr>ds_world := fst (send_result sample_papi str_to_bytes str_to_bytes (Box tx) (future_record_to ''t'') (ds_world s)),
       ds_issued := insert tx (ds_issued s), ds_inflight := insert tx (ds_inflight s)\<rparr>"

lemma sample_send_step: "tx \<notin> ds_issued s \<Longrightarrow> sample_delivery_step s (sample_send tx s)"
proof -
  assume new: "tx \<notin> ds_issued s"
  have "\<exists>w. send_result sample_papi str_to_bytes str_to_bytes (Box tx) (future_record_to ''t'') (ds_world s) = (w, Ok (Box tx))"
    by (simp add: send_result_def producer_send_def future_record_to_def into_base_record_def Let_def as_bytes_def)
  then obtain w where w: "send_result sample_papi str_to_bytes str_to_bytes (Box tx) (future_record_to ''t'') (ds_world s) = (w, Ok (Box tx))" ..
  have "sample_send tx s = s\<lparr>ds_world := w, ds_issued := insert (box_into_ptr (Box tx)) (ds_issued s),
      ds_inflight := insert (box_into_ptr (Box tx)) (ds_inflight s)\<rparr>"
    using w by (simp add: sample_send_def box_into_ptr_def)
  moreover have "box_into_ptr (Box tx) \<notin> ds_issued s" using new by (simp add: box_into_ptr_def)
  ultimately show ?thesis using ds_send [OF _ w] by metis
qed

definition sample_reported :: "(sample_headers producev_args list, sample_headers) delivery_sys" where
  "sample_reported =
     (let s = sample_send 12 (sample_send 11 (delivery_init (sample_world [])))
      in s\<lparr>ds_inflight := ds_inflight s - set (event_opaques sample_dr_event), ds_queue := ds_queue s @ [sample_dr_event]\<rparr>)"

lemma sample_reported_simps [simp]:
  "ds_queue sample_reported = [sample_dr_event]" "ds_issued sample_reported = {11, 12}" "ds_inflight sample_reported = {}"
  by (auto simp: sample_reported_def sample_send_def delivery_init_def Let_def event_opaques_def event_messages_def
      sample_dr_event_def sample_event_def)

lemma sample_reported_reachable: "sample_delivery_step\<^sup>*\<^sup>* (delivery_init (sample_world [])) sample_reported"
proof -
  let ?s0 = "delivery_init (sample_world []) :: (sample_headers producev_args list, sample_headers) delivery_sys"
  let ?s2 = "sample_send 12 (sample_send 11 ?s0)"
  have 1: "sample_delivery_step ?s0 (sample_send 11 ?s0)" by (rule sample_send_step) (simp add: delivery_init_def)
  have 2: "sample_delivery_step (sample_send 11 ?s0) ?s2"
    by (rule sample_send_step) (simp add: sample_send_def delivery_init_def)
  have "sample_delivery_step ?s2 (?s2\<lparr>ds_inflight := ds_inflight ?s2 - set (event_opaques sample_dr_event),
      ds_queue := ds_queue ?s2 @ [sample_dr_event]\<rparr>)"
    by (rule ds_report)
      (simp_all add: sample_dr_event_def sample_event_def event_opaques_def event_messages_def sample_send_def delivery_init_def)
  with 1 2 show ?thesis by (simp add: sample_reported_def Let_def)
qed

lemma sample_reported_readable: "list_all (event_readable message_instance) (ds_queue sample_reported)"
  by (simp add: event_readable_def event_messages_def sample_dr_event_def sample_message_def message_instance_def
      utf8_valid_ascii ascii_def byte_val_def cstr_bytes_def)

lemma sample_reported_served:
  "\<exists>s' r. sample_delivery_step sample_reported s' \<and> delivery_future_poll s' 11 = Future_Ready (Ok r)"
proof -
  have inv: "delivery_inv sample_reported" using sample_reported_reachable by (rule delivery.reachable)
  have "event_readable message_instance sample_dr_event" using sample_reported_readable by simp
  from delivery_serve_total [OF inv headers_instance_ok sample_reported_simps(1) this]
  obtain s' where s': "delivery_serve headers_instance message_instance sample_reported = Ret s'" "ds_queue s' = []"
      "ds_inflight s' = {}" "ds_issued s' = {11, 12}" by auto
  have "delivery_inv s'" using delivery_serve_simulated [OF s'(1) inv] by blast
  then have "dom (ds_channel s') = {11, 12}" using s' by (simp add: delivery_inv_def)
  then have "11 \<in> dom (ds_channel s')" by blast
  with ds_serve [OF s'(1)] show ?thesis by (auto simp: delivery_future_poll_iff)
qed

theorem delivery_queue_drains_witness:
  "\<exists>s'. (sample_delivery_step ^^ 1) sample_reported s' \<and> ds_queue s' = [] \<and> dom (ds_channel s') = {11, 12}"
  using delivery_queue_drains [OF sample_reported_reachable headers_instance_ok sample_reported_readable] by simp

theorem delivery_future_own_report_witness:
  "\<exists>s' r. sample_delivery_step sample_reported s' \<and> delivery_future_poll s' 11 = Future_Ready (Ok r)
     \<and> future_delivery headers_instance message_instance
         (delivery_result_of (ev_ptr sample_dr_event) ((bm_ptr sample_message)\<lparr>msg_private := 11\<rparr>)) = Ret r"
proof -
  let ?m = "(bm_ptr sample_message)\<lparr>msg_private := 11\<rparr>"
  from sample_reported_served obtain s' r
    where s': "sample_delivery_step sample_reported s'" "delivery_future_poll s' 11 = Future_Ready (Ok r)" by blast
  then have "delivery_future_poll s' (msg_private ?m) = Future_Ready (Ok r)" by simp
  moreover have "sample_dr_event \<in> set (ds_queue sample_reported)" by simp
  moreover have "?m \<in> set (event_messages sample_dr_event)"
    by (simp add: event_messages_def sample_dr_event_def)
  moreover note delivery_future_own_report [OF sample_reported_reachable r_into_rtranclp [of sample_delivery_step, OF s'(1)], THEN conjunct2,
      THEN spec, of sample_dr_event, THEN spec, of ?m, THEN spec, of r]
  ultimately have "future_delivery headers_instance message_instance (delivery_result_of (ev_ptr sample_dr_event) ?m) = Ret r"
    by (simp only: simp_thms)
  with s' show ?thesis by blast
qed

end
