(* ===== verification/Send_Future.thy ===== *)
theory Send_Future
  imports Delivery_System
begin

text \<open>
  \<open>FutureProducer::send\<close> (\<open>future_producer.rs\<close>) as the state machine that an executor drives:
  between two suspension points the asynchronous function makes one attempt to queue its
  record. The loop of the function in one piece is \<open>future_send_loop\<close>; the two agree
  (\<open>send_states_equiv\<close>).
\<close>

section \<open>The states of a call\<close>

text \<open>
  A call is about to try to queue its record, after its start or after a delay; it waits for
  the delivery report, with the sender handed over; or it has its result.
\<close>

datatype ('k, 'p, 'h) send_state =
    Send_Queue instant "('k, 'p, box, 'h) BaseRecord"
  | Send_Wait box
  | Send_Done "'h OwnedDeliveryResult"

definition send_start ::
    "'w client_api \<Rightarrow> box \<Rightarrow> ('k, 'p, 'h) FutureRecord \<Rightarrow> 'w world \<Rightarrow> 'w world \<times> ('k, 'p, 'h) send_state" where
  "send_start api tx record w =
     (case instant_now (tick api) w of (w, start_time) \<Rightarrow> (w, Send_Queue start_time (into_base_record record tx)))"

definition send_try ::
    "'w client_api \<Rightarrow> ('w, 'h) producer_api \<Rightarrow> ('k \<Rightarrow> bytes) \<Rightarrow> ('p \<Rightarrow> bytes) \<Rightarrow> timeout \<Rightarrow> instant
      \<Rightarrow> ('k, 'p, box, 'h) BaseRecord \<Rightarrow> 'w world \<Rightarrow> 'w world \<times> ('k, 'p, 'h) send_state" where
  "send_try api papi kb pb queue_timeout start_time base_record w =
     (case producer_send papi kb pb box_into_ptr box_from_ptr w base_record of
        (w, Inr _) \<Rightarrow> (w, Send_Wait (br_delivery_opaque base_record))
      | (w, Inl (e, record)) \<Rightarrow>
          (case (if e = MessageProduction EC_QueueFull
                 then can_retry (tick api) start_time queue_timeout w else (w, False)) of
             (w, retry) \<Rightarrow>
               (w, if retry then Send_Queue start_time record else Send_Done (Err (e, record_message kb pb record)))))"

section \<open>The states are those of the loop\<close>

text \<open>The task sleeps before it tries to queue its record again.\<close>

definition send_delay ::
    "('w, 'h) runtime_api \<Rightarrow> 'w world \<times> ('k, 'p, 'h) send_state \<Rightarrow> 'w world \<times> ('k, 'p, 'h) send_state" where
  "send_delay rt ws =
     (case ws of
        (w, Send_Queue start_time record) \<Rightarrow>
          (w\<lparr>native := delay_for rt (native w) (from_millis 100)\<rparr>, Send_Queue start_time record)
      | _ \<Rightarrow> ws)"

text \<open>An executor that drives a call to its end: attempts, each with its delay, and the wait for the report.\<close>

partial_function (option) send_drive ::
    "'w client_api \<Rightarrow> ('w, 'h) producer_api \<Rightarrow> ('w, 'h) runtime_api \<Rightarrow> ('k \<Rightarrow> bytes) \<Rightarrow> ('p \<Rightarrow> bytes) \<Rightarrow> timeout
      \<Rightarrow> 'w world \<times> ('k, 'p, 'h) send_state \<Rightarrow> ('w world \<times> 'h OwnedDeliveryResult) rust option" where
  "send_drive api papi rt kb pb queue_timeout ws =
     (case ws of
        (w, Send_Queue start_time record) \<Rightarrow>
          send_drive api papi rt kb pb queue_timeout (send_delay rt (send_try api papi kb pb queue_timeout start_time record w))
      | (w, Send_Wait tx) \<Rightarrow>
          (case await_rx rt (native w) tx of
             (n, r) \<Rightarrow> Some (rust_map (\<lambda>res. (w\<lparr>native := n\<rparr>, res)) (expect ''producer unexpectedly dropped'' r)))
      | (w, Send_Done res) \<Rightarrow> Some (Ret (w, res)))"

lemma send_drive_over [simp]:
  "send_drive api papi rt kb pb t (w, Send_Wait tx) =
     (case await_rx rt (native w) tx of
        (n, r) \<Rightarrow> Some (rust_map (\<lambda>res. (w\<lparr>native := n\<rparr>, res)) (expect ''producer unexpectedly dropped'' r)))"
  "send_drive api papi rt kb pb t (w, Send_Done res) = Some (Ret (w, res))"
  by (subst send_drive.simps, simp)+

lemma send_drive_queue:
  "send_drive api papi rt kb pb t (w, Send_Queue start r) =
     send_drive api papi rt kb pb t (send_delay rt (send_try api papi kb pb t start r w))"
  by (subst send_drive.simps) simp

text \<open>One round of the loop, with what follows it left open.\<close>

lemma send_try_round:
  "(case producer_send papi kb pb box_into_ptr box_from_ptr w r of
      (w, Inr _) \<Rightarrow>
        (case await_rx rt (native w) (br_delivery_opaque r) of
           (n, r) \<Rightarrow> Some (rust_map (\<lambda>res. (w\<lparr>native := n\<rparr>, res)) (expect ''producer unexpectedly dropped'' r)))
    | (w, Inl (e, record)) \<Rightarrow>
        (case (if e = MessageProduction EC_QueueFull then can_retry (tick api) start t w else (w, False)) of
           (w, retry) \<Rightarrow>
             if retry then next record (w\<lparr>native := delay_for rt (native w) (from_millis 100)\<rparr>)
             else Some (Ret (w, Err (e, record_message kb pb record)))))
   = (case send_delay rt (send_try api papi kb pb t start r w) of
        (w, Send_Queue _ r) \<Rightarrow> next r w
      | ws \<Rightarrow> send_drive api papi rt kb pb t ws)"
  by (auto simp: send_try_def send_delay_def split: prod.splits sum.splits if_splits)

lemma send_delay_queue:
  "send_delay rt (send_try api papi kb pb t start r w) = (w', Send_Queue start' r') \<Longrightarrow> start' = start"
  by (auto simp: send_try_def send_delay_def split: prod.splits sum.splits if_splits send_state.splits)

lemma loop_driven:
  assumes "future_send_loop api papi rt kb pb start t r w = Some res"
  shows "send_drive api papi rt kb pb t (w, Send_Queue start r) = Some res"
proof (rule future_send_loop.raw_induct [where P = "\<lambda>api papi rt kb pb start t r w res.
    send_drive api papi rt kb pb t (w, Send_Queue start r) = Some res", OF _ assms], goal_cases)
  case (1 f api papi rt kb pb start t r w res)
  obtain w' st where d: "send_delay rt (send_try api papi kb pb t start r w) = (w', st)" by fastforce
  from 1(2) [unfolded send_try_round [where api = api and start = start and t = t and kb = kb and pb = pb]] d 1(1)
  show ?case by (cases st) (auto simp: send_drive_queue dest: send_delay_queue)
qed

lemma driven_loop:
  assumes "send_drive api papi rt kb pb t ws = Some res"
  shows "(case ws of (w, Send_Queue start r) \<Rightarrow> future_send_loop api papi rt kb pb start t r w
    | ws \<Rightarrow> send_drive api papi rt kb pb t ws) = Some res"
proof (rule send_drive.raw_induct [where P = "\<lambda>api papi rt kb pb t ws res.
    (case ws of (w, Send_Queue start r) \<Rightarrow> future_send_loop api papi rt kb pb start t r w
     | ws \<Rightarrow> send_drive api papi rt kb pb t ws) = Some res", OF _ assms], goal_cases)
  case (1 f api papi rt kb pb t ws res)
  obtain w st where ws: "ws = (w, st)" by fastforce
  show ?case
  proof (cases st)
    case (Send_Queue start r)
    obtain w' st' where d: "send_delay rt (send_try api papi kb pb t start r w) = (w', st')" by fastforce
    have "future_send_loop api papi rt kb pb start t r w =
        (case send_delay rt (send_try api papi kb pb t start r w) of
           (w, Send_Queue _ r) \<Rightarrow> future_send_loop api papi rt kb pb start t r w
         | ws \<Rightarrow> send_drive api papi rt kb pb t ws)"
      by (subst future_send_loop.simps) (rule send_try_round)
    moreover have "f api papi rt kb pb t (w', st') = Some res" using 1(2) ws Send_Queue d by simp
    note 1(1) [OF this]
    ultimately show ?thesis using ws Send_Queue d send_delay_queue [of rt api papi kb pb t start r w w'] by (cases st') auto
  qed (use 1(2) ws in auto)
qed

text \<open>Driving the states to the end is calling \<open>send\<close>.\<close>

theorem send_states_equiv:
  "future_send api papi rt kb pb tx record t w = send_drive api papi rt kb pb t (send_start api tx record w)"
proof -
  obtain w' start where now: "instant_now (tick api) w = (w', start)" by fastforce
  let ?r = "into_base_record record tx"
  have "future_send_loop api papi rt kb pb start t ?r w' = send_drive api papi rt kb pb t (w', Send_Queue start ?r)"
  proof (cases "send_drive api papi rt kb pb t (w', Send_Queue start ?r)")
    case None
    then show ?thesis using loop_driven [of api papi rt kb pb start t ?r w'] by (metis not_None_eq)
  next
    case (Some res)
    from driven_loop [OF this] Some show ?thesis by simp
  qed
  then show ?thesis by (simp add: future_send_def send_start_def now)
qed

section \<open>An attempt as a step of the delivery system\<close>

lemma send_try_wait:
  assumes "send_try api papi kb pb t start r w = (w', Send_Wait tx)"
  shows "tx = br_delivery_opaque r \<and> send_result papi kb pb tx (from_base_record r) w = (w', Ok tx)"
proof -
  have "into_base_record (from_base_record r) (br_delivery_opaque r) = r"
    by (simp add: into_base_record_def from_base_record_def)
  with assms show ?thesis
    by (auto simp: send_try_def send_result_def split: prod.splits sum.splits if_splits)
qed

lemma send_try_queue: "send_try api papi kb pb t start r w = (w', Send_Queue start' r') \<Longrightarrow> start' = start \<and> r' = r"
  by (auto simp: send_try_def dest: producer_send_box_err split: prod.splits sum.splits if_splits)

lemma send_try_done: "send_try api papi kb pb t start r w = (w', Send_Done d) \<Longrightarrow> \<exists>e. d = Err (e, record_message kb pb r)"
  by (auto simp: send_try_def dest: producer_send_box_err split: prod.splits sum.splits if_splits)

text \<open>
  Whether librdkafka takes a record when it is asked to: a topic with a NUL is refused before
  the call, and otherwise the answer of \<open>rd_kafka_producev\<close> decides. This is a fact about
  librdkafka and the record, whatever the attempt makes of the answer.
\<close>

definition producev_accepts ::
    "('w, 'h) producer_api \<Rightarrow> ('k \<Rightarrow> bytes) \<Rightarrow> ('p \<Rightarrow> bytes) \<Rightarrow> ('k, 'p, box, 'h) BaseRecord \<Rightarrow> 'w world \<Rightarrow> bool" where
  "producev_accepts papi kb pb r w \<longleftrightarrow>
     NUL \<notin> set (br_topic r)
     \<and> \<not> resp_err_is_error (snd (rd_kafka_producev papi (native w) (record_args kb pb box_into_ptr r)))"

text \<open>An attempt goes on to wait for the report exactly when librdkafka took the record.\<close>

lemma send_try_accepts:
  assumes "send_try api papi kb pb t start r w = (w', st)"
  shows "producev_accepts papi kb pb r w \<longleftrightarrow> st = Send_Wait (br_delivery_opaque r)"
  using assms
  by (auto simp: send_try_def producev_accepts_def box_opaque.send_result Let_def
      split: prod.splits sum.splits if_splits)

text \<open>The delivery system after an attempt: a record that librdkafka took is in flight.\<close>

definition send_tried :: "bool \<Rightarrow> addr \<Rightarrow> 'w world \<Rightarrow> ('w, 'h) delivery_sys \<Rightarrow> ('w, 'h) delivery_sys" where
  "send_tried accepted p w d =
     (if accepted
      then d\<lparr>ds_world := w, ds_issued := insert p (ds_issued d), ds_inflight := insert p (ds_inflight d)\<rparr>
      else d\<lparr>ds_world := w\<rparr>)"

lemma send_tried_step:
  assumes "send_try api papi kb pb t start r (ds_world d) = (w, st)"
    and "box_into_ptr (br_delivery_opaque r) \<notin> ds_issued d"
  shows "delivery_step papi kb pb hapi mapi d
    (send_tried (producev_accepts papi kb pb r (ds_world d)) (box_into_ptr (br_delivery_opaque r)) w d)"
proof (cases "producev_accepts papi kb pb r (ds_world d)")
  case True
  then have "st = Send_Wait (br_delivery_opaque r)" using send_try_accepts [OF assms(1)] by simp
  with assms(1) have "send_result papi kb pb (br_delivery_opaque r) (from_base_record r) (ds_world d) = (w, Ok (br_delivery_opaque r))"
    using send_try_wait by blast
  from ds_send [OF assms(2) this] True show ?thesis by (simp add: send_tried_def)
qed (simp add: send_tried_def ds_elapse)

end
