(* ===== verification/Consumer.thy ===== *)
theory Consumer
  imports Producer
begin

text \<open>
  \<open>src/consumer/mod.rs\<close> and \<open>src/consumer/base_consumer.rs\<close>: the consumer context with its
  default rebalance, the base consumer with its event loop, the operations of the
  \<open>Consumer\<close> trait, partition queues, the blocking iterator and \<open>Drop\<close>. As for producers, a
  loop is a partial function and \<open>None\<close> is a call that never returns.
\<close>

unbundle bit_operations_syntax

section \<open>The functions of librdkafka on consumers\<close>

text \<open>
  Functions that write to the entries of the list they are given return the list. The
  callback of a queue is reduced to whether one is installed.
\<close>

record 'w consumer_api =
  rd_kafka_event_topic_partition :: "RDKafkaEvent \<Rightarrow> RDKafkaTopicPartition"
  rd_kafka_poll_set_consumer :: "'w \<Rightarrow> 'w"
  rd_kafka_queue_get_partition :: "'w \<Rightarrow> bytes \<Rightarrow> int \<Rightarrow> 'w \<times> addr"
  rd_kafka_queue_forward :: "'w \<Rightarrow> addr \<Rightarrow> addr \<Rightarrow> 'w"
  rd_kafka_queue_cb_event_enable :: "'w \<Rightarrow> addr \<Rightarrow> bool \<Rightarrow> 'w"
  rd_kafka_consumer_close_queue :: "'w \<Rightarrow> addr \<Rightarrow> 'w \<times> addr"
  rd_kafka_consumer_closed :: "'w \<Rightarrow> int"
  rd_kafka_consumer_group_metadata :: "'w \<Rightarrow> 'w \<times> addr"
  rd_kafka_subscribe :: "'w \<Rightarrow> TopicPartitionList \<Rightarrow> 'w \<times> RDKafkaRespErr"
  rd_kafka_unsubscribe :: "'w \<Rightarrow> 'w"
  rd_kafka_assign :: "'w \<Rightarrow> TopicPartitionList option \<Rightarrow> 'w \<times> RDKafkaRespErr"
  rd_kafka_incremental_assign :: "'w \<Rightarrow> TopicPartitionList \<Rightarrow> 'w \<times> addr"
  rd_kafka_incremental_unassign :: "'w \<Rightarrow> TopicPartitionList \<Rightarrow> 'w \<times> addr"
  rd_kafka_seek :: "'w \<Rightarrow> addr \<Rightarrow> int \<Rightarrow> int \<Rightarrow> int \<Rightarrow> 'w \<times> RDKafkaRespErr"
  rd_kafka_seek_partitions :: "'w \<Rightarrow> TopicPartitionList \<Rightarrow> int \<Rightarrow> 'w \<times> TopicPartitionList \<times> addr"
  rd_kafka_commit :: "'w \<Rightarrow> TopicPartitionList option \<Rightarrow> int \<Rightarrow> 'w \<times> RDKafkaRespErr"
  rd_kafka_commit_message :: "'w \<Rightarrow> RDKafkaMessage \<Rightarrow> int \<Rightarrow> 'w \<times> RDKafkaRespErr"
  rd_kafka_offset_store :: "'w \<Rightarrow> addr \<Rightarrow> int \<Rightarrow> int \<Rightarrow> 'w \<times> RDKafkaRespErr"
  rd_kafka_offsets_store :: "'w \<Rightarrow> TopicPartitionList \<Rightarrow> 'w \<times> TopicPartitionList \<times> RDKafkaRespErr"
  rd_kafka_subscription :: "'w \<Rightarrow> 'w \<times> RDKafkaRespErr \<times> TopicPartitionList option"
  rd_kafka_assignment :: "'w \<Rightarrow> 'w \<times> RDKafkaRespErr \<times> TopicPartitionList option"
  rd_kafka_assignment_lost :: "'w \<Rightarrow> int"
  rd_kafka_committed :: "'w \<Rightarrow> TopicPartitionList \<Rightarrow> int \<Rightarrow> 'w \<times> TopicPartitionList \<times> RDKafkaRespErr"
  rd_kafka_offsets_for_times :: "'w \<Rightarrow> TopicPartitionList \<Rightarrow> int \<Rightarrow> 'w \<times> TopicPartitionList \<times> RDKafkaRespErr"
  rd_kafka_position :: "'w \<Rightarrow> TopicPartitionList \<Rightarrow> 'w \<times> TopicPartitionList \<times> RDKafkaRespErr"
  rd_kafka_pause_partitions :: "'w \<Rightarrow> TopicPartitionList \<Rightarrow> 'w \<times> TopicPartitionList \<times> RDKafkaRespErr"
  rd_kafka_resume_partitions :: "'w \<Rightarrow> TopicPartitionList \<Rightarrow> 'w \<times> TopicPartitionList \<times> RDKafkaRespErr"

definition call_assign ::
    "'w consumer_api \<Rightarrow> 'w world \<Rightarrow> TopicPartitionList option \<Rightarrow> 'w world \<times> RDKafkaRespErr" where
  "call_assign capi w tpl =
     (case rd_kafka_assign capi (native w) tpl of
        (n, ret) \<Rightarrow> (emit (Native_assign tpl) (w\<lparr>native := n\<rparr>), ret))"

definition call_incremental_assign ::
    "'w consumer_api \<Rightarrow> 'w world \<Rightarrow> TopicPartitionList \<Rightarrow> 'w world \<times> addr" where
  "call_incremental_assign capi w tpl =
     (case rd_kafka_incremental_assign capi (native w) tpl of
        (n, ret) \<Rightarrow> (emit (Native_incremental_assign tpl) (w\<lparr>native := n\<rparr>), ret))"

definition call_incremental_unassign ::
    "'w consumer_api \<Rightarrow> 'w world \<Rightarrow> TopicPartitionList \<Rightarrow> 'w world \<times> addr" where
  "call_incremental_unassign capi w tpl =
     (case rd_kafka_incremental_unassign capi (native w) tpl of
        (n, ret) \<Rightarrow> (emit (Native_incremental_unassign tpl) (w\<lparr>native := n\<rparr>), ret))"

section \<open>The context\<close>

text \<open>
  The callbacks \<open>pre_rebalance\<close>, \<open>post_rebalance\<close> and \<open>commit_callback\<close> are recorded in the
  trace; the minimum poll interval is a value the context returns.
\<close>

record consumer_context =
  cc_client :: client_context
  main_queue_min_poll_interval :: timeout

definition default_main_queue_min_poll_interval :: timeout where
  "default_main_queue_min_poll_interval = After (from_secs 1)"

definition DefaultConsumerContext :: consumer_context where
  "DefaultConsumerContext =
     \<lparr>cc_client = DefaultClientContext, main_queue_min_poll_interval = default_main_queue_min_poll_interval\<rparr>"

definition rebalance_info :: "RDKafkaRespErr \<Rightarrow> TopicPartitionList \<Rightarrow> RebalanceInfo" where
  "rebalance_info err tpl =
     (if err = RD_KAFKA_RESP_ERR__ASSIGN_PARTITIONS then Rebalance_Assign tpl
      else if err = RD_KAFKA_RESP_ERR__REVOKE_PARTITIONS then Rebalance_Revoke tpl
      else Rebalance_Error (Rebalance (into_code err)))"

text \<open>The results of the assignment calls are not looked at.\<close>

definition execute_rebalance ::
    "'w client_api \<Rightarrow> 'w consumer_api \<Rightarrow> RDKafkaRespErr \<Rightarrow> TopicPartitionList \<Rightarrow> 'w world \<Rightarrow> 'w world rust" where
  "execute_rebalance api capi err tpl w =
     (if err = RD_KAFKA_RESP_ERR__ASSIGN_PARTITIONS then
        rust_map (\<lambda>protocol.
          case protocol of
            Protocol_Cooperative \<Rightarrow> fst (call_incremental_assign capi w tpl)
          | _ \<Rightarrow> fst (call_assign capi w (Some tpl))) (rebalance_protocol api w)
      else
        rust_map (\<lambda>protocol.
          case protocol of
            Protocol_Cooperative \<Rightarrow> fst (call_incremental_unassign capi w tpl)
          | _ \<Rightarrow> fst (call_assign capi w None)) (rebalance_protocol api w))"

definition rebalance ::
    "'w client_api \<Rightarrow> 'w consumer_api \<Rightarrow> RDKafkaRespErr \<Rightarrow> TopicPartitionList \<Rightarrow> 'w world \<Rightarrow> 'w world rust" where
  "rebalance api capi err tpl w =
     (let info = rebalance_info err tpl in
      rust_map (emit (Ctx_post_rebalance info))
        (execute_rebalance api capi err tpl (emit (Ctx_pre_rebalance info) w)))"

datatype CommitMode = Commit_Sync | Commit_Async

definition commit_mode_as_i32 :: "CommitMode \<Rightarrow> int" where
  "commit_mode_as_i32 mode = (case mode of Commit_Sync \<Rightarrow> 0 | Commit_Async \<Rightarrow> 1)"

section \<open>Handling events\<close>

text \<open>
  Each handler owns its event. A fetched message keeps the event alive; in every other case
  the event is destroyed when the handler returns.
\<close>

definition handle_fetch_event ::
    "RDKafkaEvent \<Rightarrow> 'w world \<Rightarrow> 'w world \<times> BorrowedMessage KafkaResult option" where
  "handle_fetch_event event w =
     (case ev_messages event of
        [] \<Rightarrow> (drop_event event w, None)
      | ptr # _ \<Rightarrow>
          (case from_client ptr (ev_ptr event) of
             Inl e \<Rightarrow> (drop_event event w, Some (Err e))
           | Inr m \<Rightarrow> (w, Some (Ok m))))"

definition handle_rebalance_event ::
    "'w client_api \<Rightarrow> 'w consumer_api \<Rightarrow> RDKafkaEvent \<Rightarrow> 'w world \<Rightarrow> 'w world rust" where
  "handle_rebalance_event api capi event w =
     (let err = ev_error event in
      if err = RD_KAFKA_RESP_ERR__ASSIGN_PARTITIONS \<or> err = RD_KAFKA_RESP_ERR__REVOKE_PARTITIONS
      then rust_bind (tpl_from_ptr (ev_tpl event)) (\<lambda>tpl.
             rust_map (drop_event event) (rebalance api capi err tpl w))
      else Ret (drop_event event w))"

definition handle_offset_commit_event :: "tpl_api \<Rightarrow> RDKafkaEvent \<Rightarrow> 'w world \<Rightarrow> 'w world rust" where
  "handle_offset_commit_event tapi event w =
     (let err = ev_error event;
          commit_error = (if resp_err_is_error err then Err (ConsumerCommit (into_code err)) else Ok ())
      in rust_map (\<lambda>tpl. drop_event event (emit (Ctx_commit_callback commit_error tpl) w))
           (case ev_tpl event of None \<Rightarrow> tpl_new tapi | Some offsets \<Rightarrow> tpl_from_ptr (Some offsets)))"

definition consumer_handle_error_event ::
    "'w consumer_api \<Rightarrow> RDKafkaEvent \<Rightarrow> 'w world \<Rightarrow> 'w world \<times> KafkaError option" where
  "consumer_handle_error_event capi event w =
     (let rdkafka_err = ev_error event in
      if resp_err_is_error rdkafka_err then
        if rdkafka_err = RD_KAFKA_RESP_ERR__PARTITION_EOF then
          let part = tp_partition (rd_kafka_event_topic_partition capi event)
          in (drop_event event (emit Native_topic_partition_destroy w), Some (PartitionEOF part))
        else if ev_is_fatal event \<noteq> 0 then
          (drop_event event w, Some (MessageConsumptionFatal (into_code rdkafka_err)))
        else (drop_event event w, Some (MessageConsumption (into_code rdkafka_err)))
      else (drop_event event w, None))"

text \<open>
  The \<open>match\<close> on the type of an event: \<open>Some r\<close> makes the loop return \<open>r\<close>, \<open>None\<close> makes it go
  round again.
\<close>

definition consumer_handle_event ::
    "'w client_api \<Rightarrow> 'w consumer_api \<Rightarrow> tpl_api \<Rightarrow> timeout \<Rightarrow> RDKafkaEvent \<Rightarrow> 'w world
      \<Rightarrow> ('w world \<times> BorrowedMessage KafkaResult EventPollResult option) rust" where
  "consumer_handle_event api capi tapi timeout event w =
     (if ev_type event = RD_KAFKA_EVENT_FETCH then
        (case handle_fetch_event event w of (w, result) \<Rightarrow> Ret (w, map_option Poll_Event result))
      else if ev_type event = RD_KAFKA_EVENT_ERROR then
        (case consumer_handle_error_event capi event w of
           (w, err) \<Rightarrow> Ret (w, map_option (\<lambda>e. Poll_Event (Err e)) err))
      else if ev_type event = RD_KAFKA_EVENT_REBALANCE then
        rust_map (\<lambda>w. (w, if timeout \<noteq> Never then Some Poll_EventConsumed else None))
          (handle_rebalance_event api capi event w)
      else if ev_type event = RD_KAFKA_EVENT_OFFSET_COMMIT then
        rust_map (\<lambda>w. (w, if timeout \<noteq> Never then Some Poll_EventConsumed else None))
          (handle_offset_commit_event tapi event w)
      else Ret (drop_event event w, None))"

section \<open>The event loop\<close>

partial_function (option) poll_queue_loop ::
    "'w client_api \<Rightarrow> 'w consumer_api \<Rightarrow> tpl_api \<Rightarrow> consumer_context \<Rightarrow> addr \<Rightarrow> instant \<Rightarrow> timeout \<Rightarrow> timeout
      \<Rightarrow> 'w world \<Rightarrow> ('w world \<times> BorrowedMessage KafkaResult EventPollResult) rust option" where
  "poll_queue_loop api capi tapi ctx queue now initial_timeout timeout w =
     (let op_timeout = min timeout (main_queue_min_poll_interval ctx) in
      case poll_event api (cc_client ctx) w queue op_timeout of
        (w, maybe_event) \<Rightarrow>
          (case maybe_event of
             Poll_Event event \<Rightarrow>
               (case consumer_handle_event api capi tapi timeout event w of
                  Panic m \<Rightarrow> Some (Panic m)
                | Ret (w, Some r) \<Rightarrow> Some (Ret (w, r))
                | Ret (w, None) \<Rightarrow> poll_queue_loop api capi tapi ctx queue now initial_timeout timeout w)
           | Poll_None \<Rightarrow>
               (case instant_now (tick api) w of
                  (w, t) \<Rightarrow>
                    let timeout = timeout_saturating_sub initial_timeout (t - now) in
                    if timeout_is_zero timeout then Some (Ret (w, Poll_None))
                    else poll_queue_loop api capi tapi ctx queue now initial_timeout timeout w)
           | Poll_EventConsumed \<Rightarrow>
               (case instant_now (tick api) w of
                  (w, t) \<Rightarrow>
                    let timeout = timeout_saturating_sub initial_timeout (t - now) in
                    if timeout_is_zero timeout then Some (Ret (w, Poll_EventConsumed))
                    else poll_queue_loop api capi tapi ctx queue now initial_timeout timeout w)))"

definition poll_queue ::
    "'w client_api \<Rightarrow> 'w consumer_api \<Rightarrow> tpl_api \<Rightarrow> consumer_context \<Rightarrow> addr \<Rightarrow> timeout
      \<Rightarrow> 'w world \<Rightarrow> ('w world \<times> BorrowedMessage KafkaResult EventPollResult) rust option" where
  "poll_queue api capi tapi ctx queue timeout w =
     (case instant_now (tick api) w of
        (w, now) \<Rightarrow> poll_queue_loop api capi tapi ctx queue now timeout timeout w)"

definition consumer_poll ::
    "'w client_api \<Rightarrow> 'w consumer_api \<Rightarrow> tpl_api \<Rightarrow> consumer_context \<Rightarrow> addr \<Rightarrow> timeout
      \<Rightarrow> 'w world \<Rightarrow> ('w world \<times> BorrowedMessage KafkaResult option) rust option" where
  "consumer_poll api capi tapi ctx queue timeout w =
     map_option (rust_map (map_prod id event_poll_result_into_option)) (poll_queue api capi tapi ctx queue timeout w)"

text \<open>\<open>Iter::next\<close> polls with no timeout until there is an item.\<close>

partial_function (option) iter_next ::
    "'w client_api \<Rightarrow> 'w consumer_api \<Rightarrow> tpl_api \<Rightarrow> consumer_context \<Rightarrow> addr
      \<Rightarrow> 'w world \<Rightarrow> ('w world \<times> BorrowedMessage KafkaResult) rust option" where
  "iter_next api capi tapi ctx queue w =
     Option.bind (consumer_poll api capi tapi ctx queue Never w) (\<lambda>r.
       case r of
         Panic m \<Rightarrow> Some (Panic m)
       | Ret (w, Some item) \<Rightarrow> Some (Ret (w, item))
       | Ret (w, None) \<Rightarrow> iter_next api capi tapi ctx queue w)"

section \<open>Creating a base consumer\<close>

record BaseConsumer =
  bc_client :: Client
  bc_queue :: addr
  bc_group_id :: "bytes option"
  bc_nonempty_callback :: bool

definition base_consumer_new ::
    "'w client_api \<Rightarrow> ('w, 'c) create_api \<Rightarrow> 'c conf_api \<Rightarrow> 'c producer_conf_api \<Rightarrow> 'w consumer_api \<Rightarrow> 'w world
      \<Rightarrow> ClientConfig \<Rightarrow> 'c \<Rightarrow> arc \<Rightarrow> ('w world \<times> BaseConsumer KafkaResult) rust" where
  "base_consumer_new api crapi conf pconf capi w config native_config context =
     (let native_config = rd_kafka_conf_set_events pconf native_config
            (RD_KAFKA_EVENT_REBALANCE OR RD_KAFKA_EVENT_OFFSET_COMMIT OR RD_KAFKA_EVENT_STATS
              OR RD_KAFKA_EVENT_ERROR OR RD_KAFKA_EVENT_OAUTHBEARER_TOKEN_REFRESH)
      in rust_bind (new_context_arc api crapi conf w config native_config RD_KAFKA_CONSUMER context) (\<lambda>(w, r).
           case r of
             Inl e \<Rightarrow> Ret (w, Err e)
           | Inr client \<Rightarrow>
               let group_id = config_get config ''group.id'' in
               if group_id \<noteq> None then
                 let w = emit Native_poll_set_consumer (w\<lparr>native := rd_kafka_poll_set_consumer capi (native w)\<rparr>)
                 in (case consumer_queue api w of
                       (w, None) \<Rightarrow>
                         Ret (emit (Native_client_destroy (client_native client)) w,
                              Err (ClientCreation ''rdkafka consumer queue not available''))
                     | (w, Some queue) \<Rightarrow>
                         Ret (w, Ok \<lparr>bc_client = client, bc_queue = queue, bc_group_id = group_id,
                                     bc_nonempty_callback = False\<rparr>))
               else
                 rust_map (\<lambda>(w, queue).
                   (w, Ok \<lparr>bc_client = client, bc_queue = queue, bc_group_id = group_id,
                           bc_nonempty_callback = False\<rparr>)) (main_queue api w)))"

definition base_consumer_from_config_and_context ::
    "'w client_api \<Rightarrow> ('w, 'c) create_api \<Rightarrow> 'c conf_api \<Rightarrow> 'c producer_conf_api \<Rightarrow> 'w consumer_api \<Rightarrow> map_iter
      \<Rightarrow> 'w world \<Rightarrow> ClientConfig \<Rightarrow> arc \<Rightarrow> ('w world \<times> BaseConsumer KafkaResult) rust" where
  "base_consumer_from_config_and_context api crapi conf pconf capi iter w config context =
     rust_bind (create_native_config conf iter config) (\<lambda>r.
       case r of
         Inl e \<Rightarrow> Ret (w, Err e)
       | Inr native_config \<Rightarrow> base_consumer_new api crapi conf pconf capi w config native_config context)"

definition set_nonempty_callback :: "'w consumer_api \<Rightarrow> 'w world \<Rightarrow> BaseConsumer \<Rightarrow> 'w world \<times> BaseConsumer" where
  "set_nonempty_callback capi w c =
     (emit (Native_queue_callback (bc_queue c) True)
        (w\<lparr>native := rd_kafka_queue_cb_event_enable capi (native w) (bc_queue c) True\<rparr>),
      c\<lparr>bc_nonempty_callback := True\<rparr>)"

section \<open>Partition queues\<close>

record PartitionQueue =
  pq_consumer :: BaseConsumer
  pq_queue :: addr
  pq_nonempty_callback :: bool

definition partition_queue_new :: "BaseConsumer \<Rightarrow> addr \<Rightarrow> PartitionQueue" where
  "partition_queue_new consumer queue =
     \<lparr>pq_consumer = consumer, pq_queue = queue, pq_nonempty_callback = False\<rparr>"

definition split_partition_queue ::
    "'w consumer_api \<Rightarrow> 'w world \<Rightarrow> BaseConsumer \<Rightarrow> bytes \<Rightarrow> int \<Rightarrow> 'w world \<times> PartitionQueue option" where
  "split_partition_queue capi w self topic part =
     (case cstring_new topic of
        Inl _ \<Rightarrow> (w, None)
      | Inr topic_c \<Rightarrow>
          (case rd_kafka_queue_get_partition capi (native w) topic_c part of
             (n, q) \<Rightarrow>
               let w = w\<lparr>native := n\<rparr> in
               (case native_ptr q of
                  None \<Rightarrow> (w, None)
                | Some queue \<Rightarrow>
                    (emit (Native_queue_forward queue 0)
                       (w\<lparr>native := rd_kafka_queue_forward capi (native w) queue 0\<rparr>),
                     Some (partition_queue_new self queue)))))"

definition partition_queue_poll ::
    "'w client_api \<Rightarrow> 'w consumer_api \<Rightarrow> tpl_api \<Rightarrow> consumer_context \<Rightarrow> PartitionQueue \<Rightarrow> timeout
      \<Rightarrow> 'w world \<Rightarrow> ('w world \<times> BorrowedMessage KafkaResult option) rust option" where
  "partition_queue_poll api capi tapi ctx self timeout w =
     map_option (rust_map (map_prod id event_poll_result_into_option))
       (poll_queue api capi tapi ctx (pq_queue self) timeout w)"

definition partition_queue_set_nonempty_callback ::
    "'w consumer_api \<Rightarrow> 'w world \<Rightarrow> PartitionQueue \<Rightarrow> 'w world \<times> PartitionQueue" where
  "partition_queue_set_nonempty_callback capi w self =
     (emit (Native_queue_callback (pq_queue self) True)
        (w\<lparr>native := rd_kafka_queue_cb_event_enable capi (native w) (pq_queue self) True\<rparr>),
      self\<lparr>pq_nonempty_callback := True\<rparr>)"

definition partition_queue_drop :: "'w consumer_api \<Rightarrow> 'w world \<Rightarrow> PartitionQueue \<Rightarrow> 'w world" where
  "partition_queue_drop capi w self =
     emit (Native_queue_callback (pq_queue self) False)
       (w\<lparr>native := rd_kafka_queue_cb_event_enable capi (native w) (pq_queue self) False\<rparr>)"

section \<open>Closing\<close>

definition close_queue :: "'w consumer_api \<Rightarrow> error_api \<Rightarrow> 'w world \<Rightarrow> BaseConsumer \<Rightarrow> 'w world \<times> unit KafkaResult" where
  "close_queue capi eapi w c =
     (case rd_kafka_consumer_close_queue capi (native w) (bc_queue c) of
        (n, p) \<Rightarrow>
          let err = rdkafka_error_from_ptr p in
          (emit (Native_close_queue (bc_queue c)) (w\<lparr>native := n\<rparr>),
           if rdkafka_error_is_error err then Err (ConsumerQueueClose (rdkafka_error_code_of eapi err)) else Ok ()))"

definition closed :: "'w consumer_api \<Rightarrow> 'w world \<Rightarrow> bool" where
  "closed capi w \<longleftrightarrow> rd_kafka_consumer_closed capi (native w) = 1"

text \<open>A message that \<open>drop\<close> polls is discarded, which destroys the event that owns it.\<close>

definition discard_polled :: "BorrowedMessage KafkaResult option \<Rightarrow> 'w world \<Rightarrow> 'w world" where
  "discard_polled item w = (case item of Some (Inr m) \<Rightarrow> emit (Native_event_destroy (bm_event m)) w | _ \<Rightarrow> w)"

partial_function (option) consumer_drain ::
    "'w client_api \<Rightarrow> 'w consumer_api \<Rightarrow> tpl_api \<Rightarrow> consumer_context \<Rightarrow> addr \<Rightarrow> 'w world \<Rightarrow> 'w world rust option" where
  "consumer_drain api capi tapi ctx queue w =
     (if \<not> closed capi w then
        Option.bind (consumer_poll api capi tapi ctx queue (After (from_millis 100)) w) (\<lambda>r.
          case r of
            Panic m \<Rightarrow> Some (Panic m)
          | Ret (w, item) \<Rightarrow> consumer_drain api capi tapi ctx queue (discard_polled item w))
      else Some (Ret w))"

definition base_consumer_drop ::
    "'w client_api \<Rightarrow> 'w consumer_api \<Rightarrow> tpl_api \<Rightarrow> error_api \<Rightarrow> consumer_context \<Rightarrow> BaseConsumer \<Rightarrow> 'w world
      \<Rightarrow> 'w world rust option" where
  "base_consumer_drop api capi tapi eapi ctx self w =
     (let w = emit (Native_queue_callback (bc_queue self) False)
                (w\<lparr>native := rd_kafka_queue_cb_event_enable capi (native w) (bc_queue self) False\<rparr>)
      in if bc_group_id self \<noteq> None then
           (case close_queue capi eapi w self of
              (w, Inl err) \<Rightarrow> Some (Ret w)
            | (w, Inr _) \<Rightarrow> consumer_drain api capi tapi ctx (bc_queue self) w)
         else Some (Ret w))"

section \<open>Facts on the handlers\<close>

lemma call_assign_simps [simp]:
  "trace (fst (call_assign capi w tpl)) = trace w @ [Native_assign tpl]"
  "clock (fst (call_assign capi w tpl)) = clock w"
  "trace (fst (call_incremental_assign capi w l)) = trace w @ [Native_incremental_assign l]"
  "clock (fst (call_incremental_assign capi w l)) = clock w"
  "trace (fst (call_incremental_unassign capi w l)) = trace w @ [Native_incremental_unassign l]"
  "clock (fst (call_incremental_unassign capi w l)) = clock w"
  by (simp_all add: call_assign_def call_incremental_assign_def call_incremental_unassign_def split: prod.splits)

lemma drop_event_simps [simp]:
  "trace (drop_event ev w) = trace w @ [Native_event_destroy (ev_ptr ev)]" "clock (drop_event ev w) = clock w"
  "native (drop_event ev w) = native w"
  by (simp_all add: drop_event_def)

lemma rebalance_protocol_emit [simp]: "rebalance_protocol api (emit e w) = rebalance_protocol api w"
  by (simp add: rebalance_protocol_def)

text \<open>What the default rebalance asks of librdkafka.\<close>

definition rebalance_action :: "RebalanceProtocol \<Rightarrow> RDKafkaRespErr \<Rightarrow> TopicPartitionList \<Rightarrow> effect" where
  "rebalance_action protocol err tpl =
     (if err = RD_KAFKA_RESP_ERR__ASSIGN_PARTITIONS
      then if protocol = Protocol_Cooperative then Native_incremental_assign tpl else Native_assign (Some tpl)
      else if protocol = Protocol_Cooperative then Native_incremental_unassign tpl else Native_assign None)"

lemma rebalance_effects:
  assumes "rebalance_protocol api w = Ret protocol"
  shows "\<exists>w'. rebalance api capi err tpl w = Ret w' \<and> clock w' = clock w \<and>
    trace w' = trace w @ [Ctx_pre_rebalance (rebalance_info err tpl), rebalance_action protocol err tpl,
                          Ctx_post_rebalance (rebalance_info err tpl)]"
  using assms
  by (cases protocol) (simp_all add: rebalance_def execute_rebalance_def rebalance_action_def Let_def)

lemma rebalance_Ret:
  assumes "rebalance api capi err tpl w = Ret w'"
  obtains protocol where "rebalance_protocol api w = Ret protocol"
  using assms by (cases "rebalance_protocol api w")
    (auto simp: rebalance_def execute_rebalance_def Let_def split: if_splits)

lemma handle_rebalance_event_Ret:
  assumes "handle_rebalance_event api capi ev w = Ret w'"
  shows "clock w' = clock w \<and> (\<exists>cb. trace w' = trace w @ cb @ [Native_event_destroy (ev_ptr ev)]
    \<and> (\<forall>p. Native_event_destroy p \<notin> set cb))"
proof (cases "ev_error ev = RD_KAFKA_RESP_ERR__ASSIGN_PARTITIONS \<or> ev_error ev = RD_KAFKA_RESP_ERR__REVOKE_PARTITIONS")
  case True
  with assms obtain tpl w1 where r: "rebalance api capi (ev_error ev) tpl w = Ret w1" "w' = drop_event ev w1"
    by (cases "ev_tpl ev")
      (auto simp: handle_rebalance_event_def tpl_from_ptr_def expect_def Let_def)
  from r(1) obtain protocol where "rebalance_protocol api w = Ret protocol" by (rule rebalance_Ret)
  from rebalance_effects [OF this, of capi "ev_error ev" tpl] r show ?thesis
    by (auto simp: rebalance_action_def)
qed (use assms in \<open>auto simp: handle_rebalance_event_def\<close>)

lemma handle_offset_commit_event_Ret:
  assumes "handle_offset_commit_event tapi ev w = Ret w'"
  shows "clock w' = clock w \<and> (\<exists>cb. trace w' = trace w @ cb @ [Native_event_destroy (ev_ptr ev)]
    \<and> (\<forall>p. Native_event_destroy p \<notin> set cb))"
  using assms by (auto simp: handle_offset_commit_event_def Let_def)

lemma consumer_handle_event_Ret:
  assumes "consumer_handle_event api capi tapi t ev w = Ret (w', r)"
  shows "clock w' = clock w \<and> (\<exists>cb. (\<forall>p. Native_event_destroy p \<notin> set cb) \<and>
    (case r of
       Some (Poll_Event (Inr m)) \<Rightarrow> trace w' = trace w @ cb \<and> bm_event m = ev_ptr ev
     | _ \<Rightarrow> trace w' = trace w @ cb @ [Native_event_destroy (ev_ptr ev)]))"
proof -
  consider (fetch) "ev_type ev = RD_KAFKA_EVENT_FETCH" | (error) "ev_type ev = RD_KAFKA_EVENT_ERROR"
    | (rebalance) "ev_type ev = RD_KAFKA_EVENT_REBALANCE" | (commit) "ev_type ev = RD_KAFKA_EVENT_OFFSET_COMMIT"
    | (other) "ev_type ev \<notin> {RD_KAFKA_EVENT_FETCH, RD_KAFKA_EVENT_ERROR, RD_KAFKA_EVENT_REBALANCE,
        RD_KAFKA_EVENT_OFFSET_COMMIT}" by blast
  then show ?thesis
  proof cases
    case fetch
    with assms show ?thesis
      by (cases "ev_messages ev")
        (auto simp: consumer_handle_event_def handle_fetch_event_def from_client_def split: if_splits)
  next
    case error
    with assms show ?thesis
      by (auto simp: consumer_handle_event_def consumer_handle_error_event_def Let_def split: if_splits)
  next
    case rebalance
    with assms obtain w1 where w1: "handle_rebalance_event api capi ev w = Ret w1" "w' = w1"
        "r = (if t \<noteq> Never then Some Poll_EventConsumed else None)"
      by (auto simp: consumer_handle_event_def)
    show ?thesis using handle_rebalance_event_Ret [OF w1(1)] w1(2,3) by auto
  next
    case commit
    with assms obtain w1 where w1: "handle_offset_commit_event tapi ev w = Ret w1" "w' = w1"
        "r = (if t \<noteq> Never then Some Poll_EventConsumed else None)"
      by (auto simp: consumer_handle_event_def)
    show ?thesis using handle_offset_commit_event_Ret [OF w1(1)] w1(2,3) by auto
  next
    case other
    with assms show ?thesis by (auto simp: consumer_handle_event_def)
  qed
qed

section \<open>Rebalancing and ownership of events\<close>

text \<open>C4. Handling an assignment or a revocation runs, in this order, \<open>pre_rebalance\<close>, one
  call that changes the assignment, \<open>post_rebalance\<close>, and only then destroys the event, which
  owns the partition list that all three were given. An assignment is installed, a
  revocation removed, incrementally exactly under the cooperative protocol; otherwise the
  whole assignment is replaced or cleared.\<close>

theorem consumer_rebalance_order:
  assumes "ev_error ev = RD_KAFKA_RESP_ERR__ASSIGN_PARTITIONS \<or> ev_error ev = RD_KAFKA_RESP_ERR__REVOKE_PARTITIONS"
    and "ev_tpl ev = Some tpl" and "rebalance_protocol api w = Ret protocol"
  shows "\<exists>w' info action. handle_rebalance_event api capi ev w = Ret w'
    \<and> trace w' = trace w @ [Ctx_pre_rebalance info, action, Ctx_post_rebalance info, Native_event_destroy (ev_ptr ev)]
    \<and> (ev_error ev = RD_KAFKA_RESP_ERR__ASSIGN_PARTITIONS \<longrightarrow> info = Rebalance_Assign tpl
         \<and> action = (if protocol = Protocol_Cooperative then Native_incremental_assign tpl else Native_assign (Some tpl)))
    \<and> (ev_error ev = RD_KAFKA_RESP_ERR__REVOKE_PARTITIONS \<longrightarrow> info = Rebalance_Revoke tpl
         \<and> action = (if protocol = Protocol_Cooperative then Native_incremental_unassign tpl else Native_assign None))"
proof -
  obtain w1 where "rebalance api capi (ev_error ev) tpl w = Ret w1"
      "trace w1 = trace w @ [Ctx_pre_rebalance (rebalance_info (ev_error ev) tpl),
         rebalance_action protocol (ev_error ev) tpl, Ctx_post_rebalance (rebalance_info (ev_error ev) tpl)]"
    using rebalance_effects [OF assms(3), of capi "ev_error ev" tpl] by blast
  with assms(1,2) show ?thesis
    by (auto simp: handle_rebalance_event_def tpl_from_ptr_def expect_def rebalance_info_def rebalance_action_def)
qed

definition sample_rebalance_event :: RDKafkaEvent where
  "sample_rebalance_event = (sample_event RD_KAFKA_EVENT_REBALANCE)
     \<lparr>ev_error := RD_KAFKA_RESP_ERR__REVOKE_PARTITIONS, ev_tpl := Some (sample_tpl [(0, 5)])\<rparr>"

text \<open>An instance of the consumer API on any state: every call succeeds and nothing is assigned.\<close>

definition consumer_instance :: "'w consumer_api" where
  "consumer_instance =
     \<lparr>rd_kafka_event_topic_partition = (\<lambda>ev. new_elem ''t'' 3), rd_kafka_poll_set_consumer = (\<lambda>n. n),
      rd_kafka_queue_get_partition = (\<lambda>n t p. (n, 2)), rd_kafka_queue_forward = (\<lambda>n q q'. n),
      rd_kafka_queue_cb_event_enable = (\<lambda>n q b. n), rd_kafka_consumer_close_queue = (\<lambda>n q. (n, 0)),
      rd_kafka_consumer_closed = (\<lambda>n. 1), rd_kafka_consumer_group_metadata = (\<lambda>n. (n, 1)),
      rd_kafka_subscribe = (\<lambda>n l. (n, RD_KAFKA_RESP_ERR_NO_ERROR)), rd_kafka_unsubscribe = (\<lambda>n. n),
      rd_kafka_assign = (\<lambda>n l. (n, RD_KAFKA_RESP_ERR_NO_ERROR)), rd_kafka_incremental_assign = (\<lambda>n l. (n, 0)),
      rd_kafka_incremental_unassign = (\<lambda>n l. (n, 0)),
      rd_kafka_seek = (\<lambda>n t p off ms. (n, RD_KAFKA_RESP_ERR_NO_ERROR)), rd_kafka_seek_partitions = (\<lambda>n l ms. (n, l, 0)),
      rd_kafka_commit = (\<lambda>n l m. (n, RD_KAFKA_RESP_ERR_NO_ERROR)),
      rd_kafka_commit_message = (\<lambda>n l m. (n, RD_KAFKA_RESP_ERR_NO_ERROR)),
      rd_kafka_offset_store = (\<lambda>n t p off. (n, RD_KAFKA_RESP_ERR_NO_ERROR)),
      rd_kafka_offsets_store = (\<lambda>n l. (n, l, RD_KAFKA_RESP_ERR_NO_ERROR)),
      rd_kafka_subscription = (\<lambda>n. (n, RD_KAFKA_RESP_ERR_NO_ERROR, Some (sample_tpl []))),
      rd_kafka_assignment = (\<lambda>n. (n, RD_KAFKA_RESP_ERR_NO_ERROR, Some (sample_tpl [(0, 5)]))),
      rd_kafka_assignment_lost = (\<lambda>n. 0), rd_kafka_committed = (\<lambda>n l ms. (n, l, RD_KAFKA_RESP_ERR_NO_ERROR)),
      rd_kafka_offsets_for_times = (\<lambda>n l ms. (n, l, RD_KAFKA_RESP_ERR_NO_ERROR)),
      rd_kafka_position = (\<lambda>n l. (n, l, RD_KAFKA_RESP_ERR_NO_ERROR)),
      rd_kafka_pause_partitions = (\<lambda>n l. (n, l, RD_KAFKA_RESP_ERR_NO_ERROR)),
      rd_kafka_resume_partitions = (\<lambda>n l. (n, l, RD_KAFKA_RESP_ERR_NO_ERROR))\<rparr>"

theorem consumer_rebalance_order_witness:
  "\<exists>w'. handle_rebalance_event idle_client consumer_instance sample_rebalance_event (sample_world ()) = Ret w'
     \<and> trace w' = [Ctx_pre_rebalance (Rebalance_Revoke (sample_tpl [(0, 5)])), Native_assign None,
                   Ctx_post_rebalance (Rebalance_Revoke (sample_tpl [(0, 5)])), Native_event_destroy 7]"
proof -
  have 1: "ev_error sample_rebalance_event = RD_KAFKA_RESP_ERR__ASSIGN_PARTITIONS
      \<or> ev_error sample_rebalance_event = RD_KAFKA_RESP_ERR__REVOKE_PARTITIONS"
    and 2: "ev_tpl sample_rebalance_event = Some (sample_tpl [(0, 5)])"
    and 3: "rebalance_protocol idle_client (sample_world ()) = Ret Protocol_None"
    by (simp_all add: sample_rebalance_event_def rebalance_protocol_def idle_client_def)
  from consumer_rebalance_order [OF 1 2 3, of consumer_instance] show ?thesis
    by (auto simp: sample_rebalance_event_def sample_world_def sample_event_def)
qed

text \<open>C11. Every event the consumer handles is destroyed exactly once, last, unless the
  result is a message, which then holds the event; callbacks come before the destruction, and
  when an error or nothing is returned the event is gone.\<close>

theorem consumer_event_ownership:
  assumes "consumer_handle_event api capi tapi t ev w = Ret (w', r)"
  shows "\<exists>cb. (\<forall>p. Native_event_destroy p \<notin> set cb) \<and>
    (case r of
       Some (Poll_Event (Inr m)) \<Rightarrow> trace w' = trace w @ cb \<and> bm_event m = ev_ptr ev
     | _ \<Rightarrow> trace w' = trace w @ cb @ [Native_event_destroy (ev_ptr ev)])"
  using consumer_handle_event_Ret [OF assms] by blast

definition sample_fetch_event :: RDKafkaEvent where
  "sample_fetch_event = (sample_event RD_KAFKA_EVENT_FETCH)\<lparr>ev_messages := [bm_ptr sample_message]\<rparr>"

theorem consumer_event_ownership_witness:
  "\<exists>w' m cb. consumer_handle_event idle_client consumer_instance tpl_instance Never sample_fetch_event (sample_world ())
       = Ret (w', Some (Poll_Event (Ok m)))
     \<and> bm_event m = 7 \<and> trace w' = cb \<and> (\<forall>p. Native_event_destroy p \<notin> set cb)"
proof -
  obtain w' m where h: "consumer_handle_event idle_client consumer_instance tpl_instance Never sample_fetch_event
      (sample_world ()) = Ret (w', Some (Poll_Event (Ok m)))"
    by (simp add: consumer_handle_event_def sample_fetch_event_def sample_event_def handle_fetch_event_def
        from_client_def sample_message_def)
  from consumer_event_ownership [OF h] h show ?thesis
    by (auto simp: sample_world_def sample_fetch_event_def sample_event_def)
qed

text \<open>How errors are reported: an error event with code \<open>PARTITION_EOF\<close> becomes
  \<open>PartitionEOF\<close> with the partition of the event, any other error becomes
  \<open>MessageConsumptionFatal\<close> or \<open>MessageConsumption\<close> with its code; a fetched message that
  carries an error becomes \<open>PartitionEOF\<close> or \<open>MessageConsumption\<close>, and a message without one
  is returned. The result says which code librdkafka reported.\<close>

theorem consumer_errors_classified:
  assumes "ev_type ev = RD_KAFKA_EVENT_ERROR \<and> ev_error ev = code
      \<or> ev_type ev = RD_KAFKA_EVENT_FETCH \<and> ev_messages ev = m # ms \<and> msg_err m = code"
    and "code \<noteq> RD_KAFKA_RESP_ERR_NO_ERROR"
  shows "\<exists>w' e. consumer_handle_event api capi tapi t ev w = Ret (w', Some (Poll_Event (Err e)))
    \<and> (if code = RD_KAFKA_RESP_ERR__PARTITION_EOF
       then e = PartitionEOF (if ev_type ev = RD_KAFKA_EVENT_ERROR
                              then tp_partition (rd_kafka_event_topic_partition capi ev) else msg_partition m)
       else rdkafka_error_code eapi e = Some (into_code code)
         \<and> ((\<exists>c. e = MessageConsumptionFatal c) \<longleftrightarrow> ev_type ev = RD_KAFKA_EVENT_ERROR \<and> ev_is_fatal ev \<noteq> 0))"
  using assms
  by (auto simp: consumer_handle_event_def consumer_handle_error_event_def handle_fetch_event_def from_client_def
      resp_err_is_error_def Let_def)

theorem consumer_errors_classified_witness:
  "\<exists>w' e. consumer_handle_event idle_client consumer_instance tpl_instance Never
       (sample_event RD_KAFKA_EVENT_ERROR) (sample_world ()) = Ret (w', Some (Poll_Event (Err e)))
     \<and> rdkafka_error_code error_instance e = Some (into_code RD_KAFKA_RESP_ERR__ALL_BROKERS_DOWN)"
proof -
  have 1: "ev_type (sample_event RD_KAFKA_EVENT_ERROR) = RD_KAFKA_EVENT_ERROR
        \<and> ev_error (sample_event RD_KAFKA_EVENT_ERROR) = RD_KAFKA_RESP_ERR__ALL_BROKERS_DOWN
      \<or> ev_type (sample_event RD_KAFKA_EVENT_ERROR) = RD_KAFKA_EVENT_FETCH
        \<and> ev_messages (sample_event RD_KAFKA_EVENT_ERROR) = undefined # []
        \<and> msg_err undefined = RD_KAFKA_RESP_ERR__ALL_BROKERS_DOWN"
    and 2: "RD_KAFKA_RESP_ERR__ALL_BROKERS_DOWN \<noteq> RD_KAFKA_RESP_ERR_NO_ERROR"
    and 3: "RD_KAFKA_RESP_ERR__ALL_BROKERS_DOWN \<noteq> RD_KAFKA_RESP_ERR__PARTITION_EOF"
    by (simp_all add: sample_event_def)
  from consumer_errors_classified [OF 1 2, of idle_client consumer_instance tpl_instance Never "sample_world ()"
      error_instance] 3 show ?thesis by auto
qed

section \<open>Termination and results of the event loop\<close>

text \<open>
  The events that end the loop or make it look at the clock: those the client consumes,
  rebalances and commits, messages and errors. The consumer subscribes to no other type
  (\<open>rd_kafka_conf_set_events\<close> in \<open>base_consumer_new\<close>).
\<close>

definition event_answered :: "RDKafkaEvent \<Rightarrow> bool" where
  "event_answered ev \<longleftrightarrow>
     ev_type ev \<in> {RD_KAFKA_EVENT_LOG, RD_KAFKA_EVENT_STATS, RD_KAFKA_EVENT_OAUTHBEARER_TOKEN_REFRESH,
       RD_KAFKA_EVENT_REBALANCE, RD_KAFKA_EVENT_OFFSET_COMMIT}
     \<or> ev_type ev = RD_KAFKA_EVENT_FETCH \<and> ev_messages ev \<noteq> []
     \<or> ev_type ev = RD_KAFKA_EVENT_ERROR \<and> ev_error ev \<noteq> RD_KAFKA_RESP_ERR_NO_ERROR"

definition consumer_events_ok :: "'w client_api \<Rightarrow> bool" where
  "consumer_events_ok api \<longleftrightarrow> (\<forall>n q ms ev. snd (rd_kafka_queue_poll api n q ms) = Some ev \<longrightarrow> event_answered ev)"

lemma consumer_handle_event_answers:
  assumes "event_answered ev" and "t \<noteq> Never"
    and "ev_type ev \<notin> {RD_KAFKA_EVENT_LOG, RD_KAFKA_EVENT_STATS, RD_KAFKA_EVENT_OAUTHBEARER_TOKEN_REFRESH}"
    and "consumer_handle_event api capi tapi t ev w = Ret (w', r)"
  shows "\<exists>x. r = Some x \<and> x \<noteq> Poll_None"
  using assms
  by (auto simp: event_answered_def consumer_handle_event_def handle_fetch_event_def consumer_handle_error_event_def
      resp_err_is_error_def Let_def split: list.splits sum.splits if_splits)

lemma consumer_events_okD:
  "consumer_events_ok api \<Longrightarrow> rd_kafka_queue_poll api n q ms = (n', Some ev) \<Longrightarrow> event_answered ev"
  by (metis consumer_events_ok_def snd_conv)

lemma poll_event_answered:
  assumes "consumer_events_ok api" and "poll_event api ctx w q t = (w', Poll_Event ev)"
  shows "event_answered ev"
    and "ev_type ev \<notin> {RD_KAFKA_EVENT_LOG, RD_KAFKA_EVENT_STATS, RD_KAFKA_EVENT_OAUTHBEARER_TOKEN_REFRESH}"
  using assms
  by (auto simp: poll_event_def queue_poll_def dest: consumer_events_okD split: prod.splits option.splits if_splits)

text \<open>
  What librdkafka documents of rebalances: an assignment and a revocation carry their partitions,
  and the protocol of a consumer in a group has one of three names.
\<close>

definition rebalances_ok :: "'w client_api \<Rightarrow> bool" where
  "rebalances_ok api \<longleftrightarrow>
     (\<forall>n s. rd_kafka_rebalance_protocol api n = Some s \<longrightarrow> cstr_bytes s \<in> {''NONE'', ''EAGER'', ''COOPERATIVE''})
     \<and> (\<forall>n q ms ev. snd (rd_kafka_queue_poll api n q ms) = Some ev \<and> ev_type ev = RD_KAFKA_EVENT_REBALANCE
          \<and> ev_error ev \<in> {RD_KAFKA_RESP_ERR__ASSIGN_PARTITIONS, RD_KAFKA_RESP_ERR__REVOKE_PARTITIONS} \<longrightarrow> ev_tpl ev \<noteq> None)"

lemma handle_rebalance_event_returns:
  assumes "rebalances_ok api" and "snd (queue_poll api w0 q t) = Some ev" and "ev_type ev = RD_KAFKA_EVENT_REBALANCE"
  shows "\<exists>w'. handle_rebalance_event api capi ev w = Ret w'"
proof (cases "ev_error ev \<in> {RD_KAFKA_RESP_ERR__ASSIGN_PARTITIONS, RD_KAFKA_RESP_ERR__REVOKE_PARTITIONS}")
  case True
  with assms obtain tpl where tpl: "ev_tpl ev = Some tpl"
    by (auto simp: rebalances_ok_def queue_poll_def split: prod.splits) (metis snd_conv)+
  have "cstr_bytes s \<in> {''NONE'', ''EAGER'', ''COOPERATIVE''}" if "rd_kafka_rebalance_protocol api (native w) = Some s" for s
    using assms(1) that by (simp add: rebalances_ok_def)
  then obtain protocol where "rebalance_protocol api w = Ret protocol"
    by (cases "rd_kafka_rebalance_protocol api (native w)") (auto simp: rebalance_protocol_def)
  from rebalance_effects [OF this, of capi "ev_error ev" tpl] tpl show ?thesis
    by (auto simp: handle_rebalance_event_def tpl_from_ptr_def expect_def Let_def)
qed (auto simp: handle_rebalance_event_def)

lemma handle_offset_commit_event_returns:
  assumes "tpl_api_ok tapi"
  shows "\<exists>w'. handle_offset_commit_event tapi ev w = Ret w'"
proof -
  obtain l where "rd_kafka_topic_partition_list_new tapi (as_i32 5) = Some l"
    using assms unfolding tpl_api_ok_def by blast
  then have "tpl_new tapi = Ret l" by (simp add: tpl_new_def tpl_with_capacity_def tpl_from_ptr_def expect_def)
  then show ?thesis
    by (cases "ev_tpl ev") (simp_all add: handle_offset_commit_event_def tpl_from_ptr_def expect_def Let_def)
qed

text \<open>No event that librdkafka can deliver makes the handlers panic.\<close>

lemma consumer_handle_event_returns:
  assumes "rebalances_ok api" and "tpl_api_ok tapi" and "snd (queue_poll api w0 q t0) = Some ev"
  shows "\<exists>w' r. consumer_handle_event api capi tapi t ev w = Ret (w', r)"
proof -
  obtain w1 w2 where "ev_type ev = RD_KAFKA_EVENT_REBALANCE \<longrightarrow> handle_rebalance_event api capi ev w = Ret w1"
      "handle_offset_commit_event tapi ev w = Ret w2"
    using handle_rebalance_event_returns [OF assms(1,3)] handle_offset_commit_event_returns [OF assms(2)] by metis
  then show ?thesis
    by (auto simp: consumer_handle_event_def split: prod.split)
qed

definition poll_outcome :: "instant \<Rightarrow> effect list \<Rightarrow> 'w world \<Rightarrow> 'e EventPollResult \<Rightarrow> bool" where
  "poll_outcome deadline es w' res \<longleftrightarrow>
     (res = Poll_None \<longrightarrow> deadline \<le> clock w')
     \<and> (res = Poll_EventConsumed \<longrightarrow> (\<exists>es' p. trace w' = es @ es' @ [Native_event_destroy p]))"

lemma poll_outcome_mono:
  "poll_outcome i' (es @ es') w' res \<Longrightarrow> i \<le> i' \<Longrightarrow> poll_outcome i es w' res"
  by (auto simp: poll_outcome_def)

lemma poll_queue_loop_total:
  assumes "clock_advances (tick api)" and "consumer_events_ok api" and "rebalances_ok api" and "tpl_api_ok tapi"
    and "t \<noteq> Never" and "now \<le> clock w"
  shows "\<exists>w' res. poll_queue_loop api capi tapi ctx q now (After d) t w = Some (Ret (w', res))
    \<and> poll_outcome (now + d) (trace w) w' res"
  using assms(5,6)
proof (induction "now + d - clock w" arbitrary: w t rule: less_induct)
  case less
  obtain w1 ev where pe: "poll_event api (cc_client ctx) w q (min t (main_queue_min_poll_interval ctx)) = (w1, ev)"
    by (cases "poll_event api (cc_client ctx) w q (min t (main_queue_min_poll_interval ctx))")
  have c1: "clock w1 = clock w" using pe by (rule poll_event_clock)
  obtain es where es: "trace w1 = trace w @ es"
      "ev = Poll_EventConsumed \<longrightarrow> (\<exists>cb p. es = cb @ [Native_event_destroy p])"
    using poll_event_ownership [OF pe] by fastforce
  obtain w2 i where now2: "instant_now (tick api) w1 = (w2, i)" by (cases "instant_now (tick api) w1")
  have i: "i = clock w2" "clock w < clock w2" "trace w2 = trace w1"
    using now2 c1 clock_advancesD [OF assms(1), of "native w1"]
    by (metis instant_now_simps less_add_same_cancel1 fst_conv snd_conv)+
  have rec: "\<exists>w' res. poll_queue_loop api capi tapi ctx q now (After d) (After (d - (i - now))) w2 = Some (Ret (w', res))
      \<and> poll_outcome (now + d) (trace w) w' res"
    if "d - (i - now) \<noteq> 0"
  proof -
    have "\<exists>w' res. poll_queue_loop api capi tapi ctx q now (After d) (After (d - (i - now))) w2 = Some (Ret (w', res))
        \<and> poll_outcome (now + d) (trace w2) w' res"
      by (rule less.hyps) (use that i less.prems in auto)
    then show ?thesis using i(3) es(1) poll_outcome_mono [of "now + d" "trace w" es] by (metis order_refl)
  qed
  have late: "now + d \<le> clock w2" if "d - (i - now) = 0" using that i less.prems by simp
  show ?case
  proof (cases ev)
    case Poll_None
    with pe now2 rec late show ?thesis
      by (subst poll_queue_loop.simps) (auto simp: Let_def poll_outcome_def)
  next
    case Poll_EventConsumed
    with es i(3) have "\<exists>cb p. trace w2 = trace w @ cb @ [Native_event_destroy p]" by auto
    with Poll_EventConsumed pe now2 rec show ?thesis
      by (subst poll_queue_loop.simps) (auto simp: Let_def poll_outcome_def)
  next
    case (Poll_Event e)
    with pe have pe': "poll_event api (cc_client ctx) w q (min t (main_queue_min_poll_interval ctx)) = (w1, Poll_Event e)" by simp
    have "snd (queue_poll api w q (min t (main_queue_min_poll_interval ctx))) = Some e"
      using poll_event_ownership [OF pe'] by auto
    then obtain w3 r where h: "consumer_handle_event api capi tapi t e w1 = Ret (w3, r)"
      using consumer_handle_event_returns [OF assms(3,4)] by blast
    obtain x where x: "r = Some x" "x \<noteq> Poll_None"
      using consumer_handle_event_answers [OF poll_event_answered(1) [OF assms(2) pe'] less.prems(1)
          poll_event_answered(2) [OF assms(2) pe'] h] by blast
    have "poll_outcome (now + d) (trace w) w3 x"
      using consumer_handle_event_Ret [OF h] x es(1) by (auto simp: poll_outcome_def)
    with x h pe' show ?thesis by (subst poll_queue_loop.simps) simp
  qed
qed

lemma poll_queue_total:
  assumes "clock_advances (tick api)" and "consumer_events_ok api" and "rebalances_ok api" and "tpl_api_ok tapi"
  shows "\<exists>w' res. poll_queue api capi tapi ctx q (After d) w = Some (Ret (w', res)) \<and> poll_outcome (clock w + d) (trace w) w' res"
proof -
  obtain w1 i where now1: "instant_now (tick api) w = (w1, i)" by (cases "instant_now (tick api) w")
  have i: "i = clock w1" "clock w \<le> clock w1" "trace w1 = trace w"
    using now1 by (metis instant_now_simps le_add1 fst_conv snd_conv)+
  obtain w' res where "poll_queue_loop api capi tapi ctx q i (After d) (After d) w1 = Some (Ret (w', res))"
      "poll_outcome (i + d) (trace w1) w' res"
    using poll_queue_loop_total [OF assms, of "After d" i w1 capi ctx q d] i(1) by auto
  then show ?thesis
    using now1 i poll_outcome_mono [of "i + d" "trace w" "[]" w' res "clock w + d"] by (simp add: poll_queue_def)
qed

text \<open>C3. Polling with a finite timeout returns, and does not panic, provided that time passes, that
  librdkafka delivers only the events the consumer asked for, with the partitions of a rebalance and
  a rebalance protocol it documents, and that a list can be created. The poll of the event loop comes
  back with nothing only after the whole timeout has elapsed, and with "event consumed" only after it
  has served and destroyed an event. The public \<open>poll\<close> then answers the message or error that the
  loop came back with, and \<open>None\<close> in both other cases.\<close>

theorem poll_queue_returns:
  assumes "clock_advances (tick api)" and "consumer_events_ok api" and "rebalances_ok api" and "tpl_api_ok tapi"
  shows "\<exists>w' res. poll_queue api capi tapi ctx q (After d) w = Some (Ret (w', res))
    \<and> (res = Poll_None \<longrightarrow> clock w + d \<le> clock w')
    \<and> (res = Poll_EventConsumed \<longrightarrow> (\<exists>es p. trace w' = trace w @ es @ [Native_event_destroy p]))
    \<and> consumer_poll api capi tapi ctx q (After d) w
        = Some (Ret (w', case res of Poll_Event item \<Rightarrow> Some item | _ \<Rightarrow> None))"
proof -
  obtain w' res where p: "poll_queue api capi tapi ctx q (After d) w = Some (Ret (w', res))"
      and "poll_outcome (clock w + d) (trace w) w' res"
    using poll_queue_total [OF assms] by blast
  moreover from p have "consumer_poll api capi tapi ctx q (After d) w
      = Some (Ret (w', case res of Poll_Event item \<Rightarrow> Some item | _ \<Rightarrow> None))"
    by (cases res) (simp_all add: consumer_poll_def)
  ultimately show ?thesis by (auto simp: poll_outcome_def)
qed

lemma idle_client_events_ok: "consumer_events_ok idle_client"
  by (simp add: consumer_events_ok_def idle_client_def)

theorem poll_queue_returns_witness:
  "\<exists>w' res. consumer_poll idle_client consumer_instance tpl_instance DefaultConsumerContext 1 (After 5) (sample_world ())
       = Some (Ret (w', res))
     \<and> (res \<noteq> None \<or> 5 \<le> clock w' \<or> trace w' \<noteq> [])"
proof -
  have "rebalances_ok idle_client" by (simp add: rebalances_ok_def idle_client_def)
  from poll_queue_returns [OF idle_client_advances idle_client_events_ok this tpl_instance_ok,
      of consumer_instance DefaultConsumerContext 1 5 "sample_world ()"]
  show ?thesis by (fastforce simp: sample_world_def split: EventPollResult.splits)
qed

lemma consumer_handle_event_never:
  "consumer_handle_event api capi tapi Never ev w = Ret (w', Some x) \<Longrightarrow> \<exists>r. x = Poll_Event r"
  by (auto simp: consumer_handle_event_def split: prod.splits if_splits)

lemma poll_queue_loop_never:
  assumes "poll_queue_loop api capi tapi ctx q now i t w = Some r"
  shows "i = Never \<longrightarrow> t = Never \<longrightarrow> (\<forall>w' res. r = Ret (w', res) \<longrightarrow> (\<exists>x. res = Poll_Event x))"
proof (rule poll_queue_loop.raw_induct [where P = "\<lambda>_ _ _ _ _ _ i t _ r. i = Never \<longrightarrow> t = Never \<longrightarrow>
    (\<forall>w' res. r = Ret (w', res) \<longrightarrow> (\<exists>x. res = Poll_Event x))", OF _ assms], goal_cases)
  case (1 f api capi tapi ctx q now i t w r)
  show ?case
  proof (intro impI)
    assume never: "i = Never" "t = Never"
    note IH = 1(1) [rule_format, OF _ refl refl]
    from 1(2) never show "\<forall>w' res. r = Ret (w', res) \<longrightarrow> (\<exists>x. res = Poll_Event x)"
      by (auto simp: Let_def dest: IH consumer_handle_event_never
          split: prod.splits EventPollResult.splits rust.splits option.splits)
  qed
qed

text \<open>Polling with no timeout returns only with a message or an error, so the blocking
  iterator never goes round its loop: \<open>Iter::next\<close> is one poll, whose item it returns.\<close>

theorem iter_next_polls_once:
  "iter_next api capi tapi ctx q w =
     map_option (rust_map (\<lambda>(w', item). (w', the item))) (consumer_poll api capi tapi ctx q Never w)
   \<and> (\<forall>w' r. poll_queue api capi tapi ctx q Never w = Some (Ret (w', r)) \<longrightarrow> (\<exists>x. r = Poll_Event x))"
proof -
  have ev: "\<exists>x. r = Poll_Event x" if "poll_queue api capi tapi ctx q Never w = Some (Ret (w', r))" for w' r
    using that poll_queue_loop_never by (fastforce simp: poll_queue_def split: prod.splits)
  show ?thesis
  proof (cases "poll_queue api capi tapi ctx q Never w")
    case None
    then show ?thesis by (subst iter_next.simps) (simp add: consumer_poll_def)
  next
    case (Some out)
    show ?thesis
    proof (cases out)
      case (Ret p)
      then obtain w' x where "p = (w', Poll_Event x)" using ev Some by (cases p) auto
      with Some Ret show ?thesis by (subst iter_next.simps) (simp add: consumer_poll_def)
    next
      case (Panic m)
      with Some show ?thesis by (subst iter_next.simps) (simp add: consumer_poll_def)
    qed
  qed
qed

theorem iter_next_polls_once_witness:
  "\<exists>w'. iter_next client_instance consumer_instance tpl_instance DefaultConsumerContext 1
       (sample_world [sample_fetch_event]) = Some (Ret (w', Ok \<lparr>bm_ptr = bm_ptr sample_message, bm_event = 7\<rparr>))"
proof -
  have "\<exists>w'. poll_queue client_instance consumer_instance tpl_instance DefaultConsumerContext 1 Never
      (sample_world [sample_fetch_event]) = Some (Ret (w', Poll_Event (Ok \<lparr>bm_ptr = bm_ptr sample_message, bm_event = 7\<rparr>)))"
    unfolding poll_queue_def
    by (subst poll_queue_loop.simps)
      (simp add: poll_event_def queue_poll_def client_instance_def sample_world_def sample_event_def
        sample_fetch_event_def instant_now_def consumer_handle_event_def handle_fetch_event_def from_client_def
        sample_message_def resp_err_is_error_def)
  then show ?thesis
    using iter_next_polls_once [of client_instance consumer_instance tpl_instance DefaultConsumerContext 1
        "sample_world [sample_fetch_event]"]
    by (auto simp: consumer_poll_def)
qed

text \<open>An event the loop does not answer (of a type it ignores, a fetch without a message,
  an error without a code) makes it poll again with the same timeout and without looking at
  the clock: while such events keep arriving, \<open>poll\<close> does not return, whatever its timeout.\<close>

theorem poll_queue_unanswered_diverges:
  assumes "\<forall>n ms. \<exists>n' ev. rd_kafka_queue_poll api n q ms = (n', Some ev) \<and> \<not> event_answered ev"
  shows "poll_queue api capi tapi ctx q t w = None"
proof -
  have "\<not> (\<forall>n ms. \<exists>n' ev. rd_kafka_queue_poll api n q ms = (n', Some ev) \<and> \<not> event_answered ev)"
    if "poll_queue_loop api capi tapi ctx q now i t w = Some r" for now i t w r
  proof (rule poll_queue_loop.raw_induct [where P = "\<lambda>api _ _ _ q _ _ _ _ _. \<not> (\<forall>n ms. \<exists>n' ev.
      rd_kafka_queue_poll api n q ms = (n', Some ev) \<and> \<not> event_answered ev)", OF _ that], goal_cases)
    case (1 f api capi tapi ctx q now i t w r)
    show ?case
    proof
      assume all: "\<forall>n ms. \<exists>n' ev. rd_kafka_queue_poll api n q ms = (n', Some ev) \<and> \<not> event_answered ev"
      then obtain n' ev where ev: "rd_kafka_queue_poll api (native w) q
            (timeout_as_millis (min t (main_queue_min_poll_interval ctx))) = (n', Some ev)" "\<not> event_answered ev"
        by blast
      obtain w1 where "poll_event api (cc_client ctx) w q (min t (main_queue_min_poll_interval ctx)) = (w1, Poll_Event ev)"
        using ev by (cases "ev_type ev = RD_KAFKA_EVENT_ERROR")
          (auto simp: poll_event_def queue_poll_def event_answered_def)
      moreover have "\<exists>w2. consumer_handle_event api capi tapi t ev w1 = Ret (w2, None)"
        using ev(2) by (auto simp: event_answered_def consumer_handle_event_def handle_fetch_event_def
            consumer_handle_error_event_def Let_def)
      ultimately obtain w2 where "f api capi tapi ctx q now i t w2 = Some r" using 1(2) by auto
      with 1(1) all show False by blast
    qed
  qed
  with assms show ?thesis by (cases "instant_now (tick api) w") (fastforce simp: poll_queue_def)
qed

theorem poll_queue_unanswered_diverges_witness:
  "poll_queue (idle_client\<lparr>rd_kafka_queue_poll := (\<lambda>n q ms. (n, Some (sample_event RD_KAFKA_EVENT_FETCH)))\<rparr>)
     consumer_instance tpl_instance DefaultConsumerContext 1 (After 0) (sample_world ()) = None"
  by (rule poll_queue_unanswered_diverges) (simp add: event_answered_def sample_event_def)

section \<open>Dropping a consumer\<close>

lemma consumer_drain_closed:
  assumes "consumer_drain api capi tapi ctx q w = Some r"
  shows "\<forall>w'. r = Ret w' \<longrightarrow> closed capi w'"
proof (rule consumer_drain.raw_induct [where P = "\<lambda>_ capi _ _ _ _ r. \<forall>w'. r = Ret w' \<longrightarrow> closed capi w'", OF _ assms],
    goal_cases)
  case (1 f api capi tapi ctx q w r)
  show ?case
  proof (cases "closed capi w")
    case True
    with 1(2) show ?thesis by auto
  next
    case False
    with 1(2) have "Option.bind (consumer_poll api capi tapi ctx q (After (from_millis 100)) w) (\<lambda>r.
          case r of Panic m \<Rightarrow> Some (Panic m) | Ret p \<Rightarrow> f api capi tapi ctx q (discard_polled (snd p) (fst p))) = Some r"
      by (simp add: case_prod_beta')
    then show ?thesis unfolding bind_rust_Some using 1(1) by blast
  qed
qed

text \<open>C33. Dropping a consumer first disables the queue's callback. A consumer of a group
  then asks librdkafka to close and serves events until it is closed: when \<open>drop\<close> returns,
  the consumer is closed or the request itself failed. A consumer without a group polls
  nothing.\<close>

theorem consumer_drop_waits_for_close:
  assumes "base_consumer_drop api capi tapi eapi ctx c w = Some (Ret w')"
  shows "(bc_group_id c = None \<and> trace w' = trace w @ [Native_queue_callback (bc_queue c) False])
    \<or> (bc_group_id c \<noteq> None \<and>
        (closed capi w' \<or>
         trace w' = trace w @ [Native_queue_callback (bc_queue c) False, Native_close_queue (bc_queue c)]
         \<and> snd (rd_kafka_consumer_close_queue capi
               (rd_kafka_queue_cb_event_enable capi (native w) (bc_queue c) False) (bc_queue c)) \<noteq> 0))"
proof (cases "bc_group_id c = None")
  case True
  with assms show ?thesis by (auto simp: base_consumer_drop_def Let_def)
next
  case False
  let ?w = "emit (Native_queue_callback (bc_queue c) False)
      (w\<lparr>native := rd_kafka_queue_cb_event_enable capi (native w) (bc_queue c) False\<rparr>)"
  obtain n p where n: "rd_kafka_consumer_close_queue capi
      (rd_kafka_queue_cb_event_enable capi (native w) (bc_queue c) False) (bc_queue c) = (n, p)"
    by (cases "rd_kafka_consumer_close_queue capi
      (rd_kafka_queue_cb_event_enable capi (native w) (bc_queue c) False) (bc_queue c)")
  have close: "close_queue capi eapi ?w c = (emit (Native_close_queue (bc_queue c)) (?w\<lparr>native := n\<rparr>),
      if p \<noteq> 0 then Err (ConsumerQueueClose (rdkafka_error_code_of eapi (RDKafkaError (Some p)))) else Ok ())"
    using n by (simp add: close_queue_def rdkafka_error_from_ptr_def rdkafka_error_is_error_def native_ptr_def)
  show ?thesis
    using assms False n close consumer_drain_closed [of api capi tapi ctx "bc_queue c"]
    by (cases "p = 0") (auto simp: base_consumer_drop_def Let_def)
qed

definition sample_consumer :: BaseConsumer where
  "sample_consumer = \<lparr>bc_client = \<lparr>client_native = 1, client_arc = Arc 1\<rparr>, bc_queue = 2, bc_group_id = Some ''g'',
     bc_nonempty_callback = False\<rparr>"

theorem consumer_drop_waits_for_close_witness:
  "\<exists>w'. base_consumer_drop idle_client consumer_instance tpl_instance error_instance DefaultConsumerContext sample_consumer
      (sample_world ()) = Some (Ret w') \<and> closed (consumer_instance :: unit consumer_api) w'"
proof -
  obtain w' where d: "base_consumer_drop idle_client consumer_instance tpl_instance error_instance DefaultConsumerContext
      sample_consumer (sample_world ()) = Some (Ret w')"
    by (simp add: base_consumer_drop_def sample_consumer_def close_queue_def consumer_instance_def Let_def
        rdkafka_error_from_ptr_def rdkafka_error_is_error_def native_ptr_def consumer_drain.simps closed_def)
  from consumer_drop_waits_for_close [OF d] d show ?thesis
    by (auto simp: sample_consumer_def consumer_instance_def)
qed

end
