(* ===== verification/Consumer_Ops.thy ===== *)
theory Consumer_Ops
  imports Consumer
begin

text \<open>
  The operations that \<open>BaseConsumer\<close> implements for the \<open>Consumer\<close> trait
  (\<open>src/consumer/base_consumer.rs\<close>): subscriptions, assignments, seeking, committing and
  storing offsets, and the queries. Every one turns the code that librdkafka returns into a
  result; a topic handle lives until the end of the operation that made it.
\<close>

section \<open>Results\<close>

definition ret_result :: "(RDKafkaRespErr \<Rightarrow> KafkaError) \<Rightarrow> RDKafkaRespErr \<Rightarrow> unit KafkaResult" where
  "ret_result mk ret = (if resp_err_is_error ret then Err (mk ret) else Ok ())"

definition cstr_to_owned :: "bytes \<Rightarrow> bytes" where
  "cstr_to_owned s = to_string_lossy s"

definition err_text :: "error_api \<Rightarrow> RDKafkaRespErr \<Rightarrow> bytes" where
  "err_text eapi ret = cstr_to_owned (rd_kafka_err2str eapi ret)"

definition error_name_result :: "error_api \<Rightarrow> (bytes \<Rightarrow> KafkaError) \<Rightarrow> addr \<Rightarrow> unit KafkaResult" where
  "error_name_result eapi mk p =
     (let ret = rdkafka_error_from_ptr p in
      if rdkafka_error_is_error ret then Err (mk (rdkafka_error_name eapi ret)) else Ok ())"

section \<open>Subscriptions and assignments\<close>

definition group_metadata :: "'w consumer_api \<Rightarrow> 'w world \<Rightarrow> 'w world \<times> addr option" where
  "group_metadata capi w =
     (case rd_kafka_consumer_group_metadata capi (native w) of (n, p) \<Rightarrow> (w\<lparr>native := n\<rparr>, native_ptr p))"

fun add_topics :: "tpl_api \<Rightarrow> bytes list \<Rightarrow> TopicPartitionList \<Rightarrow> TopicPartitionList rust" where
  "add_topics tapi [] tpl = Ret tpl"
| "add_topics tapi (topic # topics) tpl =
     rust_bind (add_topic_unassigned tapi tpl topic) (\<lambda>(tpl, _). add_topics tapi topics tpl)"

definition subscribe ::
    "'w consumer_api \<Rightarrow> tpl_api \<Rightarrow> error_api \<Rightarrow> 'w world \<Rightarrow> bytes list \<Rightarrow> ('w world \<times> unit KafkaResult) rust" where
  "subscribe capi tapi eapi w topics =
     rust_bind (tpl_new tapi) (\<lambda>tpl.
     rust_map (\<lambda>tpl.
       case rd_kafka_subscribe capi (native w) tpl of
         (n, ret_code) \<Rightarrow>
           (emit (Native_subscribe tpl) (w\<lparr>native := n\<rparr>),
            ret_result (\<lambda>ret. Subscription (err_text eapi ret)) ret_code)) (add_topics tapi topics tpl))"

definition unsubscribe :: "'w consumer_api \<Rightarrow> 'w world \<Rightarrow> 'w world" where
  "unsubscribe capi w = w\<lparr>native := rd_kafka_unsubscribe capi (native w)\<rparr>"

definition assign :: "'w consumer_api \<Rightarrow> error_api \<Rightarrow> 'w world \<Rightarrow> TopicPartitionList \<Rightarrow> 'w world \<times> unit KafkaResult" where
  "assign capi eapi w assignment =
     (case call_assign capi w (Some assignment) of
        (w, ret_code) \<Rightarrow> (w, ret_result (\<lambda>ret. Subscription (err_text eapi ret)) ret_code))"

definition unassign :: "'w consumer_api \<Rightarrow> error_api \<Rightarrow> 'w world \<Rightarrow> 'w world \<times> unit KafkaResult" where
  "unassign capi eapi w =
     (case call_assign capi w None of
        (w, ret_code) \<Rightarrow> (w, ret_result (\<lambda>ret. Subscription (err_text eapi ret)) ret_code))"

definition incremental_assign ::
    "'w consumer_api \<Rightarrow> error_api \<Rightarrow> 'w world \<Rightarrow> TopicPartitionList \<Rightarrow> 'w world \<times> unit KafkaResult" where
  "incremental_assign capi eapi w assignment =
     (case call_incremental_assign capi w assignment of
        (w, p) \<Rightarrow> (w, error_name_result eapi Subscription p))"

definition incremental_unassign ::
    "'w consumer_api \<Rightarrow> error_api \<Rightarrow> 'w world \<Rightarrow> TopicPartitionList \<Rightarrow> 'w world \<times> unit KafkaResult" where
  "incremental_unassign capi eapi w assignment =
     (case call_incremental_unassign capi w assignment of
        (w, p) \<Rightarrow> (w, error_name_result eapi Subscription p))"

definition pause ::
    "'w consumer_api \<Rightarrow> error_api \<Rightarrow> 'w world \<Rightarrow> TopicPartitionList \<Rightarrow> 'w world \<times> TopicPartitionList \<times> unit KafkaResult" where
  "pause capi eapi w partitions =
     (case rd_kafka_pause_partitions capi (native w) partitions of
        (n, partitions, ret_code) \<Rightarrow>
          (w\<lparr>native := n\<rparr>, partitions, ret_result (\<lambda>ret. PauseResume (err_text eapi ret)) ret_code))"

definition resume ::
    "'w consumer_api \<Rightarrow> error_api \<Rightarrow> 'w world \<Rightarrow> TopicPartitionList \<Rightarrow> 'w world \<times> TopicPartitionList \<times> unit KafkaResult" where
  "resume capi eapi w partitions =
     (case rd_kafka_resume_partitions capi (native w) partitions of
        (n, partitions, ret_code) \<Rightarrow>
          (w\<lparr>native := n\<rparr>, partitions, ret_result (\<lambda>ret. PauseResume (err_text eapi ret)) ret_code))"

section \<open>Seeking\<close>

definition seek ::
    "'w client_api \<Rightarrow> 'w consumer_api \<Rightarrow> error_api \<Rightarrow> 'w world \<Rightarrow> bytes \<Rightarrow> int \<Rightarrow> Offset \<Rightarrow> timeout
      \<Rightarrow> ('w world \<times> unit KafkaResult) rust" where
  "seek api capi eapi w topic part offset timeout =
     rust_map (\<lambda>(w, r).
       case r of
         Inl e \<Rightarrow> (w, Err e)
       | Inr topic_ptr \<Rightarrow>
           (case to_raw offset of
              Some off \<Rightarrow>
                (case rd_kafka_seek capi (native w) topic_ptr part off (timeout_as_millis timeout) of
                   (n, ret_code) \<Rightarrow>
                     (emit (Native_topic_destroy topic_ptr)
                        (emit (Native_seek topic_ptr part off (timeout_as_millis timeout)) (w\<lparr>native := n\<rparr>)),
                      ret_result (\<lambda>ret. Seek (err_text eapi ret)) ret_code))
            | None \<Rightarrow>
                (emit (Native_topic_destroy topic_ptr) w, Err (Seek ''Local: Unrepresentable offset''))))
     (native_topic api w topic)"

definition seek_partitions ::
    "'w consumer_api \<Rightarrow> error_api \<Rightarrow> 'w world \<Rightarrow> TopicPartitionList \<Rightarrow> timeout
      \<Rightarrow> 'w world \<times> TopicPartitionList KafkaResult" where
  "seek_partitions capi eapi w topic_partition_list timeout =
     (case rd_kafka_seek_partitions capi (native w) topic_partition_list (timeout_as_millis timeout) of
        (n, tpl, p) \<Rightarrow>
          (w\<lparr>native := n\<rparr>, and_then (error_name_result eapi Seek p) (\<lambda>_. Ok tpl)))"

section \<open>Committing and storing offsets\<close>

definition call_commit ::
    "'w consumer_api \<Rightarrow> 'w world \<Rightarrow> TopicPartitionList option \<Rightarrow> CommitMode \<Rightarrow> 'w world \<times> unit KafkaResult" where
  "call_commit capi w tpl mode =
     (case rd_kafka_commit capi (native w) tpl (commit_mode_as_i32 mode) of
        (n, err) \<Rightarrow>
          (emit (Native_commit tpl (commit_mode_as_i32 mode)) (w\<lparr>native := n\<rparr>),
           ret_result (\<lambda>ret. ConsumerCommit (into_code ret)) err))"

definition commit ::
    "'w consumer_api \<Rightarrow> 'w world \<Rightarrow> TopicPartitionList \<Rightarrow> CommitMode \<Rightarrow> 'w world \<times> unit KafkaResult" where
  "commit capi w topic_partition_list mode = call_commit capi w (Some topic_partition_list) mode"

definition commit_consumer_state :: "'w consumer_api \<Rightarrow> 'w world \<Rightarrow> CommitMode \<Rightarrow> 'w world \<times> unit KafkaResult" where
  "commit_consumer_state capi w mode = call_commit capi w None mode"

definition commit_message ::
    "'w consumer_api \<Rightarrow> 'w world \<Rightarrow> BorrowedMessage \<Rightarrow> CommitMode \<Rightarrow> 'w world \<times> unit KafkaResult" where
  "commit_message capi w message mode =
     (case rd_kafka_commit_message capi (native w) (bm_ptr message) (commit_mode_as_i32 mode) of
        (n, err) \<Rightarrow> (w\<lparr>native := n\<rparr>, ret_result (\<lambda>ret. ConsumerCommit (into_code ret)) err))"

definition call_offset_store ::
    "'w consumer_api \<Rightarrow> 'w world \<Rightarrow> addr \<Rightarrow> int \<Rightarrow> int \<Rightarrow> 'w world \<times> unit KafkaResult" where
  "call_offset_store capi w topic_ptr part offset =
     (case rd_kafka_offset_store capi (native w) topic_ptr part offset of
        (n, err) \<Rightarrow>
          (emit (Native_offset_store topic_ptr part offset) (w\<lparr>native := n\<rparr>),
           ret_result (\<lambda>ret. StoreOffset (into_code ret)) err))"

definition store_offset ::
    "'w client_api \<Rightarrow> 'w consumer_api \<Rightarrow> 'w world \<Rightarrow> bytes \<Rightarrow> int \<Rightarrow> int \<Rightarrow> ('w world \<times> unit KafkaResult) rust" where
  "store_offset api capi w topic part offset =
     rust_map (\<lambda>(w, r).
       case r of
         Inl e \<Rightarrow> (w, Err e)
       | Inr topic_ptr \<Rightarrow>
           (case call_offset_store capi w topic_ptr part offset of
              (w, res) \<Rightarrow> (emit (Native_topic_destroy topic_ptr) w, res)))
     (native_topic api w topic)"

definition store_offset_from_message ::
    "'w consumer_api \<Rightarrow> 'w world \<Rightarrow> BorrowedMessage \<Rightarrow> 'w world \<times> unit KafkaResult" where
  "store_offset_from_message capi w message =
     call_offset_store capi w (bm_topic_ptr message) (bm_partition message) (bm_offset message)"

definition store_offsets ::
    "'w consumer_api \<Rightarrow> 'w world \<Rightarrow> TopicPartitionList \<Rightarrow> 'w world \<times> TopicPartitionList \<times> unit KafkaResult" where
  "store_offsets capi w tpl =
     (case rd_kafka_offsets_store capi (native w) tpl of
        (n, tpl, err) \<Rightarrow> (w\<lparr>native := n\<rparr>, tpl, ret_result (\<lambda>ret. StoreOffset (into_code ret)) err))"

section \<open>Queries\<close>

text \<open>A list that librdkafka allocates for the caller; \<open>from_ptr\<close> panics on null.\<close>

definition fetched_list ::
    "'w world \<Rightarrow> 'w \<times> RDKafkaRespErr \<times> TopicPartitionList option \<Rightarrow> ('w world \<times> TopicPartitionList KafkaResult) rust" where
  "fetched_list w answer =
     (case answer of
        (n, err, tpl_ptr) \<Rightarrow>
          if resp_err_is_error err then Ret (w\<lparr>native := n\<rparr>, Err (MetadataFetch (into_code err)))
          else rust_map (\<lambda>tpl. (w\<lparr>native := n\<rparr>, Ok tpl)) (tpl_from_ptr tpl_ptr))"

definition subscription :: "'w consumer_api \<Rightarrow> 'w world \<Rightarrow> ('w world \<times> TopicPartitionList KafkaResult) rust" where
  "subscription capi w = fetched_list w (rd_kafka_subscription capi (native w))"

definition assignment :: "'w consumer_api \<Rightarrow> 'w world \<Rightarrow> ('w world \<times> TopicPartitionList KafkaResult) rust" where
  "assignment capi w = fetched_list w (rd_kafka_assignment capi (native w))"

definition assignment_lost :: "'w consumer_api \<Rightarrow> 'w world \<Rightarrow> bool" where
  "assignment_lost capi w \<longleftrightarrow> rd_kafka_assignment_lost capi (native w) = 1"

definition committed_offsets ::
    "'w consumer_api \<Rightarrow> 'w world \<Rightarrow> TopicPartitionList \<Rightarrow> timeout \<Rightarrow> 'w world \<times> TopicPartitionList KafkaResult" where
  "committed_offsets capi w tpl timeout =
     (case rd_kafka_committed capi (native w) tpl (timeout_as_millis timeout) of
        (n, tpl, err) \<Rightarrow>
          (w\<lparr>native := n\<rparr>, if resp_err_is_error err then Err (MetadataFetch (into_code err)) else Ok tpl))"

definition committed ::
    "'w consumer_api \<Rightarrow> 'w world \<Rightarrow> timeout \<Rightarrow> ('w world \<times> TopicPartitionList KafkaResult) rust" where
  "committed capi w timeout =
     rust_map (\<lambda>(w, r).
       case r of Inl e \<Rightarrow> (w, Err e) | Inr tpl \<Rightarrow> committed_offsets capi w tpl timeout)
     (fetched_list w (rd_kafka_assignment capi (native w)))"

definition offsets_for_times ::
    "'w consumer_api \<Rightarrow> 'w world \<Rightarrow> TopicPartitionList \<Rightarrow> timeout \<Rightarrow> 'w world \<times> TopicPartitionList KafkaResult" where
  "offsets_for_times capi w timestamps timeout =
     (case rd_kafka_offsets_for_times capi (native w) timestamps (timeout_as_millis timeout) of
        (n, tpl, err) \<Rightarrow>
          (emit (Native_offsets_for_times timestamps (timeout_as_millis timeout)) (w\<lparr>native := n\<rparr>),
           if resp_err_is_error err then Err (MetadataFetch (into_code err)) else Ok tpl))"

definition offsets_for_timestamp ::
    "'w consumer_api \<Rightarrow> 'w world \<Rightarrow> int \<Rightarrow> timeout \<Rightarrow> ('w world \<times> TopicPartitionList KafkaResult) rust" where
  "offsets_for_timestamp capi w timestamp timeout =
     rust_map (\<lambda>(w, r).
       case r of
         Inl e \<Rightarrow> (w, Err e)
       | Inr tpl \<Rightarrow>
           (case set_all_offsets tpl (Offset timestamp) of
              (tpl, Inl e) \<Rightarrow> (w, Err e)
            | (tpl, Inr _) \<Rightarrow> offsets_for_times capi w tpl timeout))
     (fetched_list w (rd_kafka_assignment capi (native w)))"

definition consumer_position :: "'w consumer_api \<Rightarrow> 'w world \<Rightarrow> ('w world \<times> TopicPartitionList KafkaResult) rust" where
  "consumer_position capi w =
     rust_map (\<lambda>(w, r).
       case r of
         Inl e \<Rightarrow> (w, Err e)
       | Inr tpl \<Rightarrow>
           (case rd_kafka_position capi (native w) tpl of
              (n, tpl, err) \<Rightarrow>
                (w\<lparr>native := n\<rparr>, if resp_err_is_error err then Err (MetadataFetch (into_code err)) else Ok tpl)))
     (assignment capi w)"

text \<open>\<open>fetch_metadata\<close>, \<open>fetch_watermarks\<close>, \<open>fetch_group_list\<close> and \<open>rebalance_protocol\<close> of the
  trait are those of the client.\<close>

section \<open>Subscribing\<close>

lemma add_topics_ok:
  assumes "tpl_api_ok tapi" and "tpl_wf tpl" and "length (tpl_elems tpl) + length topics < 2 ^ 31"
    and "\<forall>t \<in> set topics. NUL \<notin> set t"
  shows "\<exists>tpl'. add_topics tapi topics tpl = Ret tpl' \<and> tpl_wf tpl'
    \<and> tpl_elems tpl' = tpl_elems tpl @ map (\<lambda>t. new_elem t PARTITION_UNASSIGNED) topics"
  using assms(2-4)
proof (induction topics arbitrary: tpl)
  case (Cons t topics)
  then have small: "length (tpl_elems tpl) + 1 < 2 ^ 31" by simp
  from add_partition_ok [OF assms(1) Cons.prems(1) small, of t PARTITION_UNASSIGNED] Cons.prems(3)
  obtain tpl1 where tpl1: "add_topic_unassigned tapi tpl t = Ret (tpl1, length (tpl_elems tpl))" "tpl_wf tpl1"
      "tpl_elems tpl1 = tpl_elems tpl @ [new_elem t PARTITION_UNASSIGNED]"
    by (auto simp: add_topic_unassigned_def)
  from Cons.IH [of tpl1] Cons.prems tpl1 show ?case by fastforce
qed simp

text \<open>\<open>subscribe\<close> hands librdkafka exactly the given topics, in order and repetitions
  included, each with the unassigned partition, and returns its verdict: \<open>Ok\<close> exactly when
  librdkafka accepts, else a \<open>Subscription\<close> error with librdkafka's description.\<close>

theorem subscribe_passes_topics:
  assumes "tpl_api_ok tapi" and "length topics < 2 ^ 31" and "\<forall>t \<in> set topics. NUL \<notin> set t"
  shows "\<exists>w' r tpl. subscribe capi tapi eapi w topics = Ret (w', r) \<and> trace w' = trace w @ [Native_subscribe tpl]
    \<and> elements tpl = map (\<lambda>t. new_elem t PARTITION_UNASSIGNED) topics
    \<and> (\<exists>ret. rd_kafka_subscribe capi (native w) tpl = (native w', ret)
        \<and> r = (if ret = RD_KAFKA_RESP_ERR_NO_ERROR then Ok ()
               else Err (Subscription (to_string_lossy (rd_kafka_err2str eapi ret)))))"
proof -
  obtain sz where new: "tpl_new tapi = Ret \<lparr>tpl_cnt = 0, tpl_size = sz, tpl_elems = []\<rparr>"
    using tpl_with_capacity_ok [OF assms(1), of 5] by (auto simp: tpl_new_def)
  have "tpl_wf \<lparr>tpl_cnt = 0, tpl_size = sz, tpl_elems = []\<rparr>" by (simp add: tpl_wf_def)
  from add_topics_ok [OF assms(1) this _ assms(3)] assms(2) obtain tpl where
    tpl: "add_topics tapi topics \<lparr>tpl_cnt = 0, tpl_size = sz, tpl_elems = []\<rparr> = Ret tpl" "tpl_wf tpl"
      "tpl_elems tpl = map (\<lambda>t. new_elem t PARTITION_UNASSIGNED) topics" by auto
  obtain n ret where ret: "rd_kafka_subscribe capi (native w) tpl = (n, ret)"
    by (cases "rd_kafka_subscribe capi (native w) tpl")
  have "subscribe capi tapi eapi w topics = Ret (emit (Native_subscribe tpl) (w\<lparr>native := n\<rparr>),
      ret_result (\<lambda>ret. Subscription (err_text eapi ret)) ret)"
    by (simp add: subscribe_def new tpl ret)
  with tpl ret show ?thesis
    by (auto simp: ret_result_def resp_err_is_error_def err_text_def cstr_to_owned_def)
qed

theorem subscribe_passes_topics_witness:
  "\<exists>w' tpl. subscribe consumer_instance tpl_instance error_instance (sample_world ()) [''a'', ''b''] = Ret (w', Ok ())
     \<and> trace w' = [Native_subscribe tpl] \<and> map tp_topic (elements tpl) = [''a'', ''b'']"
  using subscribe_passes_topics [OF tpl_instance_ok, of "[''a'', ''b'']" consumer_instance error_instance "sample_world ()"]
  by (auto simp: consumer_instance_def sample_world_def new_elem_def)

section \<open>Seeking\<close>

text \<open>\<open>seek\<close> uses its topic handle only while it is alive and always releases it: an
  offset with a raw form is passed on, followed by the release; one without (negative
  absolute offset, non-positive tail) is refused before librdkafka sees it.\<close>

theorem seek_uses_live_topic:
  assumes "NUL \<notin> set topic" and "rd_kafka_topic_new api (native w) topic = (n, p)" and "p \<noteq> 0"
  shows "\<exists>w' r. seek api capi eapi w topic part off t = Ret (w', r) \<and>
    (case to_raw off of
       Some raw \<Rightarrow>
         trace w' = trace w @ [Native_seek p part raw (timeout_as_millis t), Native_topic_destroy p]
         \<and> (r = Ok () \<longleftrightarrow> snd (rd_kafka_seek capi n p part raw (timeout_as_millis t)) = RD_KAFKA_RESP_ERR_NO_ERROR)
     | None \<Rightarrow>
         trace w' = trace w @ [Native_topic_destroy p] \<and> r = Err (Seek ''Local: Unrepresentable offset''))"
  using assms
  by (auto simp: seek_def native_topic_def native_ptr_def ret_result_def resp_err_is_error_def
      split: option.splits prod.splits)

theorem seek_uses_live_topic_witness:
  "\<exists>w' r. seek idle_client consumer_instance error_instance (sample_world ()) ''t'' 0 (Offset (- 7)) Never = Ret (w', r)
     \<and> trace w' = [Native_topic_destroy 1] \<and> r = Err (Seek ''Local: Unrepresentable offset'')"
proof -
  have 1: "NUL \<notin> set ''t''" and 2: "rd_kafka_topic_new idle_client (native (sample_world ())) ''t'' = ((), 1)"
    by (simp_all add: idle_client_def)
  show ?thesis
    using seek_uses_live_topic [OF 1 2, of consumer_instance error_instance 0 "Offset (- 7)" Never]
    by (simp add: sample_world_def)
qed

section \<open>Offsets for a timestamp\<close>

text \<open>\<open>offsets_for_timestamp\<close> asks librdkafka about exactly the assigned partitions,
  with the timestamp in place of every offset. A negative timestamp is rejected without a
  query, unless nothing is assigned.\<close>

theorem offsets_for_timestamp_query:
  assumes "rd_kafka_assignment capi (native w) = (n, RD_KAFKA_RESP_ERR_NO_ERROR, Some tpl)" and "tpl_wf tpl"
  shows "\<exists>w' r. offsets_for_timestamp capi w ts t = Ret (w', r) \<and>
    (if ts < 0 \<and> tpl_elems tpl \<noteq> [] then trace w' = trace w \<and> r = Err (SetPartitionOffset EC_InvalidArgument)
     else \<exists>q. trace w' = trace w @ [Native_offsets_for_times q (timeout_as_millis t)]
       \<and> elements q = map (\<lambda>e. e\<lparr>tp_offset := ts\<rparr>) (elements tpl)
       \<and> (case rd_kafka_offsets_for_times capi n q (timeout_as_millis t) of
            (n', answer, err) \<Rightarrow> native w' = n'
              \<and> r = (if err = RD_KAFKA_RESP_ERR_NO_ERROR then Ok answer else Err (MetadataFetch (into_code err)))))"
proof -
  have wf: "tpl_wf (tpl\<lparr>tpl_elems := map (\<lambda>e. e\<lparr>tp_offset := ts\<rparr>) (tpl_elems tpl)\<rparr>)"
    using assms(2) by (simp add: tpl_wf_def)
  have list: "fetched_list w (rd_kafka_assignment capi (native w)) = Ret (w\<lparr>native := n\<rparr>, Ok tpl)"
    using assms(1) by (simp add: fetched_list_def tpl_from_ptr_def expect_def resp_err_is_error_def)
  show ?thesis
  proof (cases "ts < 0")
    case True
    with assms list show ?thesis
      by (cases "tpl_elems tpl = []")
        (auto simp: offsets_for_timestamp_def set_all_offsets_wf offsets_for_times_def resp_err_is_error_def
          split: prod.splits)
  next
    case False
    with assms wf list show ?thesis
      by (auto simp: offsets_for_timestamp_def set_all_offsets_wf offsets_for_times_def resp_err_is_error_def
          split: prod.splits)
  qed
qed

theorem offsets_for_timestamp_query_witness:
  "\<exists>w' r. offsets_for_timestamp consumer_instance (sample_world ()) (- 1) Never = Ret (w', r)
     \<and> r = Err (SetPartitionOffset EC_InvalidArgument)"
proof -
  have 1: "rd_kafka_assignment consumer_instance (native (sample_world ()))
      = ((), RD_KAFKA_RESP_ERR_NO_ERROR, Some (sample_tpl [(0, 5)]))" by (simp add: consumer_instance_def)
  have 2: "tpl_wf (sample_tpl [(0, 5)])" by (simp add: tpl_wf_def sample_tpl_def)
  show ?thesis using offsets_for_timestamp_query [OF 1 2, of "- 1" Never] by (auto simp: sample_tpl_def)
qed

end
