(* ===== verification/Wakers.thy ===== *)
theory Wakers
  imports World
begin

text \<open>
  \<open>WakerSlab\<close> of \<open>src/consumer/stream_consumer.rs\<close>: the registry through which message
  streams are woken up. It stands on \<open>slab::Slab\<close>, a container of the \<open>slab\<close> crate, whose
  operations are the fields of \<open>slab_api\<close> and whose documented behaviour is \<open>slab_ok\<close>: a map
  from keys that it chooses itself. A waker is the number of the task that it wakes. The
  mutex makes each operation atomic.
\<close>

section \<open>The slab crate\<close>

text \<open>\<open>slab_iter_mut f\<close> is a loop over \<open>iter_mut\<close> that replaces each entry by \<open>f\<close> of it.\<close>

record ('s, 'a) slab_api =
  slab_new :: 's
  slab_insert :: "'s \<Rightarrow> 'a \<Rightarrow> 's \<times> nat"
  slab_remove :: "'s \<Rightarrow> nat \<Rightarrow> 's rust"
  slab_index_set :: "'s \<Rightarrow> nat \<Rightarrow> 'a \<Rightarrow> 's rust"
  slab_iter :: "'s \<Rightarrow> (nat \<times> 'a) list"
  slab_iter_mut :: "('a \<Rightarrow> 'a) \<Rightarrow> 's \<Rightarrow> 's"

text \<open>
  \<open>view s\<close> is the map a slab stands for. An insertion uses a vacant key; removing or
  assigning a vacant key panics; the iterator lists every entry once.
\<close>

definition slab_ok :: "('s, 'a) slab_api \<Rightarrow> ('s \<Rightarrow> nat \<rightharpoonup> 'a) \<Rightarrow> bool" where
  "slab_ok api view \<longleftrightarrow>
     view (slab_new api) = Map.empty
     \<and> (\<forall>s a s' k. slab_insert api s a = (s', k) \<longrightarrow> view s k = None \<and> view s' = (view s)(k \<mapsto> a))
     \<and> (\<forall>s k. if k \<in> dom (view s) then \<exists>s'. slab_remove api s k = Ret s' \<and> view s' = (view s)(k := None)
              else \<exists>m. slab_remove api s k = Panic m)
     \<and> (\<forall>s k a. if k \<in> dom (view s) then \<exists>s'. slab_index_set api s k a = Ret s' \<and> view s' = (view s)(k \<mapsto> a)
                else \<exists>m. slab_index_set api s k a = Panic m)
     \<and> (\<forall>s. distinct (map fst (slab_iter api s)) \<and> set (slab_iter api s) = {(k, a). view s k = Some a})
     \<and> (\<forall>s f. view (slab_iter_mut api f s) = map_option f \<circ> view s)"

text \<open>A slab as a vector of entries that does not reuse keys.\<close>

definition vector_view :: "'a option list \<Rightarrow> nat \<rightharpoonup> 'a" where
  "vector_view s k = (if k < length s then s ! k else None)"

definition slab_instance :: "('a option list, 'a) slab_api" where
  "slab_instance =
     \<lparr>slab_new = [],
      slab_insert = (\<lambda>s a. (s @ [Some a], length s)),
      slab_remove = (\<lambda>s k. if vector_view s k \<noteq> None then Ret (s[k := None]) else Panic ''invalid key''),
      slab_index_set = (\<lambda>s k a. if vector_view s k \<noteq> None then Ret (s[k := Some a]) else Panic ''invalid key''),
      slab_iter = (\<lambda>s. map (\<lambda>k. (k, the (s ! k))) (filter (\<lambda>k. s ! k \<noteq> None) [0..<length s])),
      slab_iter_mut = (\<lambda>f. map (map_option f))\<rparr>"

lemma slab_instance_ok: "slab_ok slab_instance vector_view"
proof -
  have iter: "distinct (map fst (slab_iter slab_instance s)) \<and>
      set (slab_iter slab_instance s) = {(k, a). vector_view s k = Some a}" for s :: "'a option list"
    by (auto simp: slab_instance_def vector_view_def comp_def distinct_map split: if_splits)
  show ?thesis
    unfolding slab_ok_def using iter
    by (auto simp: slab_instance_def vector_view_def fun_eq_iff nth_append nth_list_update)
qed

section \<open>The registry\<close>

type_synonym waker = nat

definition wakers_new :: "('s, waker option) slab_api \<Rightarrow> 's" where
  "wakers_new api = slab_new api"

text \<open>Each waker is taken out of its slot and woken.\<close>

definition wake_all :: "('s, waker option) slab_api \<Rightarrow> 's \<Rightarrow> 's \<times> waker list" where
  "wake_all api wakers =
     (slab_iter_mut api (\<lambda>_. None) wakers, List.map_filter snd (slab_iter api wakers))"

definition register :: "('s, waker option) slab_api \<Rightarrow> 's \<Rightarrow> 's \<times> nat" where
  "register api wakers = slab_insert api wakers None"

definition unregister :: "('s, waker option) slab_api \<Rightarrow> 's \<Rightarrow> nat \<Rightarrow> 's rust" where
  "unregister api wakers slot = slab_remove api wakers slot"

definition set_waker :: "('s, waker option) slab_api \<Rightarrow> 's \<Rightarrow> nat \<Rightarrow> waker \<Rightarrow> 's rust" where
  "set_waker api wakers slot waker = slab_index_set api wakers slot (Some waker)"

section \<open>What the registry promises\<close>

text \<open>
  The interface that message streams rely on: \<open>view\<close> maps each registered slot to the waker
  stored there, if any.
\<close>

locale waker_registry =
  fixes inv :: bool
    and view :: "'s \<Rightarrow> nat \<rightharpoonup> waker option"
    and empty_reg :: 's
    and reg :: "'s \<Rightarrow> 's \<times> nat"
    and unreg :: "'s \<Rightarrow> nat \<Rightarrow> 's rust"
    and setw :: "'s \<Rightarrow> nat \<Rightarrow> waker \<Rightarrow> 's rust"
    and wake :: "'s \<Rightarrow> 's \<times> waker list"
  assumes view_empty: "inv \<Longrightarrow> view empty_reg = Map.empty"
    and reg_view: "inv \<Longrightarrow> reg s = (s', k) \<Longrightarrow> view s k = None \<and> view s' = (view s)(k \<mapsto> None)"
    and unreg_view: "inv \<Longrightarrow> k \<in> dom (view s) \<Longrightarrow> \<exists>s'. unreg s k = Ret s' \<and> view s' = (view s)(k := None)"
    and setw_view: "inv \<Longrightarrow> k \<in> dom (view s) \<Longrightarrow> \<exists>s'. setw s k t = Ret s' \<and> view s' = (view s)(k \<mapsto> Some t)"
    and wake_view: "inv \<Longrightarrow> wake s = (s', ts) \<Longrightarrow> view s' = map_option (\<lambda>_. None) \<circ> view s"
    and wake_woken: "inv \<Longrightarrow> wake s = (s', ts) \<Longrightarrow> set ts = {t. Some t \<in> ran (view s)}"
begin

lemma wake_dom: "inv \<Longrightarrow> wake s = (s', ts) \<Longrightarrow> dom (view s') = dom (view s)"
  using wake_view [of s s' ts] by (auto simp: dom_def)

lemma wake_clears: "inv \<Longrightarrow> wake s = (s', ts) \<Longrightarrow> view s' k \<noteq> Some (Some t)"
  using wake_view [of s s' ts] by auto

lemma set_then_wake:
  assumes "inv" and "setw s k t = Ret s1" and "k \<in> dom (view s)" and "wake s1 = (s2, ts)"
  shows "t \<in> set ts"
  using setw_view [OF assms(1,3), of t] wake_woken [OF assms(1,4)] assms(2) by (auto simp: ran_def)

lemma wake_twice:
  assumes "inv" and "wake s = (s1, ts)"
  shows "snd (wake s1) = []"
proof -
  obtain s2 ts2 where w: "wake s1 = (s2, ts2)" by (cases "wake s1")
  have "set ts2 = {}" using wake_woken [OF assms(1) w] wake_clears [OF assms] by (auto simp: ran_def)
  with w show ?thesis by simp
qed

end

interpretation wakers: waker_registry "slab_ok api view" view "wakers_new api" "register api" "unregister api"
    "set_waker api" "wake_all api"
  for api :: "('s, waker option) slab_api" and view
proof unfold_locales
  fix s s' k t ts
  assume ok: "slab_ok api view"
  note laws = ok [unfolded slab_ok_def]
  show "view (wakers_new api) = Map.empty" using laws by (simp add: wakers_new_def)
  show "view s k = None \<and> view s' = (view s)(k \<mapsto> None)" if "register api s = (s', k)"
    using laws that unfolding register_def by blast
  show "\<exists>s'. unregister api s k = Ret s' \<and> view s' = (view s)(k := None)" if "k \<in> dom (view s)"
    using laws that unfolding unregister_def by meson
  show "\<exists>s'. set_waker api s k t = Ret s' \<and> view s' = (view s)(k \<mapsto> Some t)" if "k \<in> dom (view s)"
    using laws that unfolding set_waker_def by meson
  show "view s' = map_option (\<lambda>_. None) \<circ> view s" if "wake_all api s = (s', ts)"
  proof -
    have "view (slab_iter_mut api (\<lambda>_. None) s) = map_option (\<lambda>_. None) \<circ> view s" using laws by blast
    with that show ?thesis by (auto simp: wake_all_def)
  qed
  show "set ts = {t. Some t \<in> ran (view s)}" if "wake_all api s = (s', ts)"
  proof -
    have "set (slab_iter api s) = {(k, a). view s k = Some a}" using laws by blast
    moreover have "set ts = {t. \<exists>k. (k, Some t) \<in> set (slab_iter api s)}"
      using that by (force simp: wake_all_def map_filter_def)
    ultimately show ?thesis by (simp add: ran_def)
  qed
qed

end
