(* ===== verification/Stream_Consumer.thy ===== *)
theory Stream_Consumer
  imports Consumer Wakers
begin

text \<open>
  \<open>src/consumer/stream_consumer.rs\<close>: message streams, the stream consumer with its wake
  loop, and partition streams. The first part has the operations as they run in one thread.
  The second part is a system of streams that share one queue, run by an executor, while
  librdkafka's thread fills the queue and calls back and the wake loop sends its spurious
  wakeups: every interleaving of their atomic actions is a run of \<open>stream_step\<close>.
\<close>

section \<open>Message streams\<close>

record MessageStream =
  ms_consumer_queue :: addr
  ms_partition_queue :: "addr option"
  ms_slot :: nat

definition message_stream_new ::
    "('s, waker option) slab_api \<Rightarrow> 's \<Rightarrow> addr \<Rightarrow> addr option \<Rightarrow> 's \<times> MessageStream" where
  "message_stream_new sapi wakers cq partition_queue =
     (case register sapi wakers of
        (wakers, slot) \<Rightarrow>
          (wakers, \<lparr>ms_consumer_queue = cq, ms_partition_queue = partition_queue, ms_slot = slot\<rparr>))"

definition message_stream_drop :: "('s, waker option) slab_api \<Rightarrow> 's \<Rightarrow> MessageStream \<Rightarrow> 's rust" where
  "message_stream_drop sapi wakers self = unregister sapi wakers (ms_slot self)"

definition stream_poll ::
    "'w client_api \<Rightarrow> 'w consumer_api \<Rightarrow> tpl_api \<Rightarrow> consumer_context \<Rightarrow> MessageStream \<Rightarrow> 'w world
      \<Rightarrow> ('w world \<times> BorrowedMessage KafkaResult EventPollResult) rust option" where
  "stream_poll api capi tapi ctx self w =
     (case ms_partition_queue self of
        Some queue \<Rightarrow> poll_queue api capi tapi ctx queue (After 0) w
      | None \<Rightarrow> poll_queue api capi tapi ctx (ms_consumer_queue self) (After 0) w)"

datatype 'a Poll = Ready 'a | Pending

definition poll_next ::
    "'w client_api \<Rightarrow> 'w consumer_api \<Rightarrow> tpl_api \<Rightarrow> consumer_context \<Rightarrow> ('s, waker option) slab_api \<Rightarrow> MessageStream
      \<Rightarrow> waker \<Rightarrow> 's \<Rightarrow> 'w world \<Rightarrow> ('s \<times> 'w world \<times> BorrowedMessage KafkaResult option Poll) rust option" where
  "poll_next api capi tapi ctx sapi self waker wakers w =
     Option.bind (stream_poll api capi tapi ctx self w) (\<lambda>r.
       case r of
         Panic m \<Rightarrow> Some (Panic m)
       | Ret (w, Poll_Event message) \<Rightarrow> Some (Ret (wakers, w, Ready (Some message)))
       | Ret (w, Poll_EventConsumed) \<Rightarrow> Some (Ret (wakers, emit (Task_wake waker) w, Pending))
       | Ret (w, Poll_None) \<Rightarrow>
           (case set_waker sapi wakers (ms_slot self) waker of
              Panic m \<Rightarrow> Some (Panic m)
            | Ret wakers \<Rightarrow>
                Option.bind (stream_poll api capi tapi ctx self w) (\<lambda>r.
                  case r of
                    Panic m \<Rightarrow> Some (Panic m)
                  | Ret (w, Poll_Event message) \<Rightarrow> Some (Ret (wakers, w, Ready (Some message)))
                  | Ret (w, Poll_EventConsumed) \<Rightarrow> Some (Ret (wakers, emit (Task_wake waker) w, Pending))
                  | Ret (w, Poll_None) \<Rightarrow> Some (Ret (wakers, w, Pending)))))"

section \<open>The stream consumer\<close>

record 's StreamConsumer =
  sc_base :: BaseConsumer
  sc_wakers :: 's
  sc_wake_interval :: duration

text \<open>
  The native configuration is destroyed on the early return of \<open>get\<close>. The wake loop that is
  spawned is described by its interval, half of the poll interval.
\<close>

definition stream_consumer_from_config_and_context ::
    "'w client_api \<Rightarrow> ('w, 'c) create_api \<Rightarrow> 'c conf_api \<Rightarrow> 'c producer_conf_api \<Rightarrow> 'w consumer_api
      \<Rightarrow> ('s, waker option) slab_api \<Rightarrow> map_iter \<Rightarrow> 'w world \<Rightarrow> ClientConfig \<Rightarrow> arc
      \<Rightarrow> ('w world \<times> 's StreamConsumer KafkaResult) rust" where
  "stream_consumer_from_config_and_context api crapi conf pconf capi sapi iter w config context =
     rust_bind (create_native_config conf iter config) (\<lambda>r.
       case r of
         Inl e \<Rightarrow> Ret (w, Err e)
       | Inr native_config \<Rightarrow>
           (case native_config_get conf native_config ''max.poll.interval.ms'' of
              Inl e \<Rightarrow> Ret (emit Native_conf_destroy w, Err e)
            | Inr value \<Rightarrow>
                rust_bind (expect ''librdkafka validated config value is valid u64'' (parse_u64 (trim_end_nul value))) (\<lambda>millis.
                let poll_interval = from_millis millis in
                rust_map (\<lambda>(w, r).
                  case r of
                    Inl e \<Rightarrow> (w, Err e)
                  | Inr base \<Rightarrow>
                      (emit (Native_queue_callback (bc_queue base) True)
                         (w\<lparr>native := rd_kafka_queue_cb_event_enable capi (native w) (bc_queue base) True\<rparr>),
                       Ok \<lparr>sc_base = base, sc_wakers = wakers_new sapi, sc_wake_interval = poll_interval div 2\<rparr>))
                (base_consumer_new api crapi conf pconf capi w config native_config context))))"

definition stream_consumer_stream ::
    "('s, waker option) slab_api \<Rightarrow> 's StreamConsumer \<Rightarrow> 's StreamConsumer \<times> MessageStream" where
  "stream_consumer_stream sapi self =
     (case message_stream_new sapi (sc_wakers self) (bc_queue (sc_base self)) None of
        (wakers, stream) \<Rightarrow> (self\<lparr>sc_wakers := wakers\<rparr>, stream))"

record 's StreamPartitionQueue =
  spq_queue :: PartitionQueue
  spq_wakers :: 's

definition stream_split_partition_queue ::
    "'w consumer_api \<Rightarrow> ('s, waker option) slab_api \<Rightarrow> 'w world \<Rightarrow> 's StreamConsumer \<Rightarrow> bytes \<Rightarrow> int
      \<Rightarrow> 'w world \<times> 's StreamPartitionQueue option" where
  "stream_split_partition_queue capi sapi w self topic part =
     (case split_partition_queue capi w (sc_base self) topic part of
        (w, None) \<Rightarrow> (w, None)
      | (w, Some queue) \<Rightarrow>
          (emit (Native_queue_callback (pq_queue queue) True)
             (w\<lparr>native := rd_kafka_queue_cb_event_enable capi (native w) (pq_queue queue) True\<rparr>),
           Some \<lparr>spq_queue = queue, spq_wakers = wakers_new sapi\<rparr>))"

definition partition_stream ::
    "('s, waker option) slab_api \<Rightarrow> 's StreamPartitionQueue \<Rightarrow> 's StreamPartitionQueue \<times> MessageStream" where
  "partition_stream sapi self =
     (case message_stream_new sapi (spq_wakers self) (bc_queue (pq_consumer (spq_queue self)))
             (Some (pq_queue (spq_queue self))) of
        (wakers, stream) \<Rightarrow> (self\<lparr>spq_wakers := wakers\<rparr>, stream))"

text \<open>\<open>Drop\<close> of a partition stream's queue; its fields are dropped afterwards.\<close>

definition stream_partition_queue_drop :: "'w consumer_api \<Rightarrow> 'w world \<Rightarrow> 's StreamPartitionQueue \<Rightarrow> 'w world" where
  "stream_partition_queue_drop capi w self =
     partition_queue_drop capi
       (emit (Native_queue_callback (pq_queue (spq_queue self)) False)
          (w\<lparr>native := rd_kafka_queue_cb_event_enable capi (native w) (pq_queue (spq_queue self)) False\<rparr>))
       (spq_queue self)"

section \<open>Streams, queue and wakeups as a concurrent system\<close>

text \<open>
  A task drives one stream and is named by the stream's slot. Its program counter runs
  through \<open>poll_next\<close>: about to poll, found the queue empty, waker stored, parked.
  \<open>t_woken\<close> says that it was notified since its last poll began.

  librdkafka calls the callback when an element arrives on an empty queue; \<open>ss_callback\<close>
  says that such a call is due. \<open>ss_sent\<close> and \<open>ss_taken\<close> record the messages that arrived and
  which stream yielded each.
\<close>

datatype stream_item = Item_Message nat | Item_Event

datatype stream_pc = Pc_Poll | Pc_Empty | Pc_Waker_Set | Pc_Parked

record stream_task =
  t_pc :: stream_pc
  t_woken :: bool

record 's stream_sys =
  ss_wakers :: 's
  ss_queue :: "stream_item list"
  ss_callback :: bool
  ss_tasks :: "nat \<rightharpoonup> stream_task"
  ss_sent :: "nat list"
  ss_taken :: "(nat \<times> nat) list"

fun item_messages :: "stream_item list \<Rightarrow> nat list" where
  "item_messages [] = []"
| "item_messages (Item_Message m # q) = m # item_messages q"
| "item_messages (Item_Event # q) = item_messages q"

definition stream_init :: "('s, waker option) slab_api \<Rightarrow> 's stream_sys" where
  "stream_init sapi =
     \<lparr>ss_wakers = wakers_new sapi, ss_queue = [], ss_callback = False, ss_tasks = Map.empty, ss_sent = [], ss_taken = []\<rparr>"

text \<open>\<open>wake_all\<close>, from the callback or from the wake loop, and what it does to the tasks.\<close>

definition sys_wake :: "('s, waker option) slab_api \<Rightarrow> 's stream_sys \<Rightarrow> 's stream_sys" where
  "sys_wake sapi sys =
     (case wake_all sapi (ss_wakers sys) of
        (wakers, ts) \<Rightarrow>
          sys\<lparr>ss_wakers := wakers,
              ss_tasks := (\<lambda>k. if k \<in> set ts then map_option (t_woken_update (\<lambda>_. True)) (ss_tasks sys k)
                              else ss_tasks sys k)\<rparr>)"

definition sys_callback :: "('s, waker option) slab_api \<Rightarrow> 's stream_sys \<Rightarrow> 's stream_sys" where
  "sys_callback sapi sys = sys_wake sapi (sys\<lparr>ss_callback := False\<rparr>)"

definition sys_enqueue :: "stream_item \<Rightarrow> 's stream_sys \<Rightarrow> 's stream_sys" where
  "sys_enqueue it sys =
     sys\<lparr>ss_callback := ss_callback sys \<or> ss_queue sys = [], ss_queue := ss_queue sys @ [it],
         ss_sent := ss_sent sys @ item_messages [it]\<rparr>"

text \<open>
  One non-blocking poll of the queue by task \<open>k\<close>: a message is yielded, an event is served
  and the task notifies itself; on an empty queue it goes on to \<open>next_pc\<close>.
\<close>

definition sys_poll :: "stream_pc \<Rightarrow> nat \<Rightarrow> bool \<Rightarrow> 's stream_sys \<Rightarrow> 's stream_sys" where
  "sys_poll next_pc k woken sys =
     (case ss_queue sys of
        [] \<Rightarrow> sys\<lparr>ss_tasks := (ss_tasks sys)(k \<mapsto> \<lparr>t_pc = next_pc, t_woken = woken\<rparr>)\<rparr>
      | Item_Message m # q \<Rightarrow>
          sys\<lparr>ss_queue := q, ss_taken := ss_taken sys @ [(k, m)],
              ss_tasks := (ss_tasks sys)(k \<mapsto> \<lparr>t_pc = Pc_Poll, t_woken = woken\<rparr>)\<rparr>
      | Item_Event # q \<Rightarrow>
          sys\<lparr>ss_queue := q, ss_tasks := (ss_tasks sys)(k \<mapsto> \<lparr>t_pc = Pc_Parked, t_woken = True\<rparr>)\<rparr>)"

text \<open>
  The executor may poll a parked task at any time, in particular without a notification.
  A stream can be dropped between polls.
\<close>

inductive stream_step :: "('s, waker option) slab_api \<Rightarrow> 's stream_sys \<Rightarrow> 's stream_sys \<Rightarrow> bool"
  for sapi :: "('s, waker option) slab_api" where
  step_open: "register sapi (ss_wakers sys) = (wakers, k) \<Longrightarrow>
     stream_step sapi sys
       (sys\<lparr>ss_wakers := wakers, ss_tasks := (ss_tasks sys)(k \<mapsto> \<lparr>t_pc = Pc_Poll, t_woken = False\<rparr>)\<rparr>)"
| step_close: "ss_tasks sys k = Some t \<Longrightarrow> t_pc t \<in> {Pc_Poll, Pc_Parked} \<Longrightarrow> unregister sapi (ss_wakers sys) k = Ret wakers \<Longrightarrow>
     stream_step sapi sys (sys\<lparr>ss_wakers := wakers, ss_tasks := (ss_tasks sys)(k := None)\<rparr>)"
| step_enqueue: "stream_step sapi sys (sys_enqueue it sys)"
| step_callback: "ss_callback sys \<Longrightarrow> stream_step sapi sys (sys_callback sapi sys)"
| step_wake_loop: "stream_step sapi sys (sys_wake sapi sys)"
| step_poll: "ss_tasks sys k = Some t \<Longrightarrow> t_pc t \<in> {Pc_Poll, Pc_Parked} \<Longrightarrow>
     stream_step sapi sys (sys_poll Pc_Empty k False sys)"
| step_set_waker: "ss_tasks sys k = Some t \<Longrightarrow> t_pc t = Pc_Empty \<Longrightarrow> set_waker sapi (ss_wakers sys) k k = Ret wakers \<Longrightarrow>
     stream_step sapi sys
       (sys\<lparr>ss_wakers := wakers, ss_tasks := (ss_tasks sys)(k \<mapsto> t\<lparr>t_pc := Pc_Waker_Set\<rparr>)\<rparr>)"
| step_recheck: "ss_tasks sys k = Some t \<Longrightarrow> t_pc t = Pc_Waker_Set \<Longrightarrow>
     stream_step sapi sys (sys_poll Pc_Parked k (t_woken t) sys)"

inductive stream_reachable :: "('s, waker option) slab_api \<Rightarrow> 's stream_sys \<Rightarrow> bool"
  for sapi :: "('s, waker option) slab_api" where
  reach_init: "stream_reachable sapi (stream_init sapi)"
| reach_step: "stream_reachable sapi sys \<Longrightarrow> stream_step sapi sys sys' \<Longrightarrow> stream_reachable sapi sys'"

section \<open>The invariant of the system\<close>

text \<open>
  Every live stream has its slot and stores no other waker than its own task's; a task that
  has stored its waker and was not notified since still has it in its slot; and while such a
  task is parked before a non-empty queue, a callback is due.
\<close>

definition stream_inv :: "('s \<Rightarrow> nat \<rightharpoonup> waker option) \<Rightarrow> 's stream_sys \<Rightarrow> bool" where
  "stream_inv view sys \<longleftrightarrow>
     dom (view (ss_wakers sys)) = dom (ss_tasks sys)
     \<and> (\<forall>k i. view (ss_wakers sys) k = Some (Some i) \<longrightarrow> i = k)
     \<and> (\<forall>k t. ss_tasks sys k = Some t \<and> t_pc t \<in> {Pc_Waker_Set, Pc_Parked} \<and> \<not> t_woken t \<longrightarrow>
          view (ss_wakers sys) k = Some (Some k))
     \<and> (\<forall>k t. ss_tasks sys k = Some t \<and> t_pc t = Pc_Parked \<and> \<not> t_woken t \<and> ss_queue sys \<noteq> [] \<longrightarrow> ss_callback sys)
     \<and> ss_sent sys = map snd (ss_taken sys) @ item_messages (ss_queue sys)"

lemma stream_invD:
  assumes "stream_inv view sys"
  shows "dom (view (ss_wakers sys)) = dom (ss_tasks sys)"
    and "view (ss_wakers sys) k = Some (Some i) \<Longrightarrow> i = k"
    and "ss_tasks sys k = Some t \<Longrightarrow> t_pc t \<in> {Pc_Waker_Set, Pc_Parked} \<Longrightarrow> \<not> t_woken t \<Longrightarrow>
          view (ss_wakers sys) k = Some (Some k)"
    and "ss_tasks sys k = Some t \<Longrightarrow> t_pc t = Pc_Parked \<Longrightarrow> \<not> t_woken t \<Longrightarrow> ss_queue sys \<noteq> [] \<Longrightarrow> ss_callback sys"
    and "ss_sent sys = map snd (ss_taken sys) @ item_messages (ss_queue sys)"
  using assms unfolding stream_inv_def by blast+

lemma item_messages_append [simp]: "item_messages (xs @ ys) = item_messages xs @ item_messages ys"
  by (induction xs rule: item_messages.induct) simp_all

lemma stream_inv_init: "slab_ok sapi view \<Longrightarrow> stream_inv view (stream_init sapi)"
  by (simp add: stream_inv_def stream_init_def wakers.view_empty)

lemma stream_inv_poll:
  assumes "stream_inv view sys" and "k \<in> dom (ss_tasks sys)"
    and "next_pc \<in> {Pc_Waker_Set, Pc_Parked} \<and> \<not> woken \<Longrightarrow> view (ss_wakers sys) k = Some (Some k)"
  shows "stream_inv view (sys_poll next_pc k woken sys)"
proof (cases "ss_queue sys")
  case Nil
  with assms show ?thesis
    unfolding stream_inv_def sys_poll_def by (auto split: if_splits)
next
  case (Cons it q)
  with assms show ?thesis
    unfolding stream_inv_def sys_poll_def by (cases it) (auto split: if_splits)
qed

lemma sys_wake_tasks:
  assumes "slab_ok sapi view" and "stream_inv view sys"
  shows "ss_tasks (sys_wake sapi sys) k =
    (if view (ss_wakers sys) k = Some (Some k) then map_option (t_woken_update (\<lambda>_. True)) (ss_tasks sys k)
     else ss_tasks sys k)"
proof -
  obtain ws ts where w: "wake_all sapi (ss_wakers sys) = (ws, ts)" by (cases "wake_all sapi (ss_wakers sys)")
  have "k \<in> set ts \<longleftrightarrow> view (ss_wakers sys) k = Some (Some k)"
    using wakers.wake_woken [OF assms(1) w] stream_invD(2) [OF assms(2)] by (auto simp: ran_def)
  with w show ?thesis by (simp add: sys_wake_def)
qed

lemma stream_inv_wake:
  assumes "slab_ok sapi view" and "stream_inv view sys"
  shows "stream_inv view ((sys_wake sapi sys)\<lparr>ss_callback := cb\<rparr>)"
proof -
  obtain ws ts where w: "wake_all sapi (ss_wakers sys) = (ws, ts)" by (cases "wake_all sapi (ss_wakers sys)")
  have ws: "ss_wakers (sys_wake sapi sys) = ws" "ss_queue (sys_wake sapi sys) = ss_queue sys"
    "ss_sent (sys_wake sapi sys) = ss_sent sys" "ss_taken (sys_wake sapi sys) = ss_taken sys"
    using w by (simp_all add: sys_wake_def)
  have dom: "dom (view ws) = dom (ss_tasks (sys_wake sapi sys))"
    using wakers.wake_dom [OF assms(1) w] stream_invD(1) [OF assms(2)] sys_wake_tasks [OF assms]
    by (auto simp: dom_def split: if_splits)
  have woken: "t_woken t" if "ss_tasks (sys_wake sapi sys) k = Some t" "t_pc t \<in> {Pc_Waker_Set, Pc_Parked}" for k t
    using that sys_wake_tasks [OF assms, of k] stream_invD(3) [OF assms(2), of k t] by (auto split: if_splits)
  show ?thesis
    using dom woken wakers.wake_clears [OF assms(1) w] stream_invD(5) [OF assms(2)]
    unfolding stream_inv_def by (auto simp: ws)
qed

lemma sys_callback_eq: "sys_callback sapi sys = (sys_wake sapi sys)\<lparr>ss_callback := False\<rparr>"
  by (cases sys; cases "wake_all sapi (ss_wakers sys)") (simp add: sys_callback_def sys_wake_def cong: if_cong)

lemma stream_inv_step:
  assumes "slab_ok sapi view" and "stream_step sapi sys sys'" and "stream_inv view sys"
  shows "stream_inv view sys'"
  using assms(2)
proof cases
  case (step_open wakers k)
  with wakers.reg_view [OF assms(1) step_open(2)] assms(3) show ?thesis
    unfolding stream_inv_def by (auto split: if_splits)
next
  case (step_close k t wakers)
  then have "k \<in> dom (view (ss_wakers sys))" using stream_invD(1) [OF assms(3)] by blast
  from wakers.unreg_view [OF assms(1) this] step_close
  have "view wakers = (view (ss_wakers sys))(k := None)" by simp
  with step_close assms(3) show ?thesis unfolding stream_inv_def by (auto split: if_splits)
next
  case (step_enqueue it)
  with assms(3) show ?thesis unfolding stream_inv_def sys_enqueue_def by auto
next
  case step_callback
  have "sys' = (sys_wake sapi sys)\<lparr>ss_callback := False\<rparr>"
    using step_callback by (simp add: sys_callback_eq)
  with stream_inv_wake [OF assms(1,3)] show ?thesis by simp
next
  case step_wake_loop
  have "sys' = (sys_wake sapi sys)\<lparr>ss_callback := ss_callback sys\<rparr>"
    using step_wake_loop by (simp add: sys_wake_def split: prod.splits)
  with stream_inv_wake [OF assms(1,3)] show ?thesis by simp
next
  case (step_poll k t)
  with stream_inv_poll [OF assms(3), of k Pc_Empty False] show ?thesis by auto
next
  case (step_set_waker k t wakers)
  then have "k \<in> dom (view (ss_wakers sys))" using stream_invD(1) [OF assms(3)] by blast
  from wakers.setw_view [OF assms(1) this, of k] step_set_waker
  have "view wakers = (view (ss_wakers sys))(k \<mapsto> Some k)" by simp
  with step_set_waker assms(3) show ?thesis unfolding stream_inv_def by (auto split: if_splits)
next
  case (step_recheck k t)
  with stream_inv_poll [OF assms(3), of k Pc_Parked "t_woken t"] stream_invD(3) [OF assms(3), of k t] show ?thesis by auto
qed

lemma stream_inv_reachable:
  assumes "slab_ok sapi view" and "stream_reachable sapi sys"
  shows "stream_inv view sys"
  using assms(2)
  by induction (auto intro: stream_inv_init [OF assms(1)] stream_inv_step [OF assms(1)])

section \<open>No lost wakeups, no lost messages\<close>

text \<open>C1. No wakeup is lost, however polls, arrivals, callbacks, the wake loop and other
  streams interleave: when a stream is parked and the queue is not empty, its task has been
  notified, or librdkafka's callback is still due and will notify it. So a message cannot
  arrive unnoticed between the poll that found the queue empty and the storing of the
  waker.\<close>

theorem stream_no_lost_wakeup:
  assumes "slab_ok sapi view" and "stream_reachable sapi sys"
    and "ss_tasks sys k = Some t" and "t_pc t = Pc_Parked" and "ss_queue sys \<noteq> []"
  shows "t_woken t \<or> ss_callback sys \<and> (\<exists>t'. ss_tasks (sys_callback sapi sys) k = Some t' \<and> t_woken t')"
proof (cases "t_woken t")
  case False
  note inv = stream_inv_reachable [OF assms(1,2)]
  have "view (ss_wakers sys) k = Some (Some k)" "ss_callback sys"
    using stream_invD(3,4) [OF inv assms(3)] assms(4,5) False by auto
  moreover have "ss_tasks (sys_callback sapi sys) k = ss_tasks (sys_wake sapi sys) k" by (simp add: sys_callback_eq)
  ultimately show ?thesis using sys_wake_tasks [OF assms(1) inv, of k] assms(3) by simp
qed simp

text \<open>A run: a stream is opened, polls, stores its waker, polls again and parks.\<close>

definition parked_run :: "stream_item list \<Rightarrow> nat option option list stream_sys" where
  "parked_run q =
     \<lparr>ss_wakers = [Some (Some 0)], ss_queue = q, ss_callback = (q \<noteq> []),
      ss_tasks = [0 \<mapsto> \<lparr>t_pc = Pc_Parked, t_woken = False\<rparr>], ss_sent = item_messages q, ss_taken = []\<rparr>"

lemma parked_run_reachable: "stream_reachable slab_instance (parked_run [Item_Message 5])"
proof -
  let ?sys = "\<lambda>slot pc. \<lparr>ss_wakers = [Some slot], ss_queue = [], ss_callback = False,
      ss_tasks = [0 \<mapsto> \<lparr>t_pc = pc, t_woken = False\<rparr>], ss_sent = [], ss_taken = []\<rparr> :: nat option option list stream_sys"
  have "stream_step slab_instance (stream_init slab_instance) (?sys None Pc_Poll)"
    using stream_step.step_open [of slab_instance "stream_init slab_instance" "[Some None]" 0]
    by (simp add: stream_init_def register_def slab_instance_def wakers_new_def)
  then have 1: "stream_reachable slab_instance (?sys None Pc_Poll)" by (rule reach_step [OF reach_init])
  have "stream_step slab_instance (?sys None Pc_Poll) (?sys None Pc_Empty)"
    using stream_step.step_poll [of "?sys None Pc_Poll" 0] by (simp add: sys_poll_def)
  then have 2: "stream_reachable slab_instance (?sys None Pc_Empty)" by (rule reach_step [OF 1])
  have "stream_step slab_instance (?sys None Pc_Empty) (?sys (Some 0) Pc_Waker_Set)"
    using stream_step.step_set_waker [of "?sys None Pc_Empty" 0 "\<lparr>t_pc = Pc_Empty, t_woken = False\<rparr>" slab_instance "[Some (Some 0)]"]
    by (simp add: set_waker_def slab_instance_def vector_view_def)
  then have 3: "stream_reachable slab_instance (?sys (Some 0) Pc_Waker_Set)" by (rule reach_step [OF 2])
  have "stream_step slab_instance (?sys (Some 0) Pc_Waker_Set) (parked_run [])"
    using stream_step.step_recheck [of "?sys (Some 0) Pc_Waker_Set" 0 "\<lparr>t_pc = Pc_Waker_Set, t_woken = False\<rparr>" slab_instance]
    by (simp add: sys_poll_def parked_run_def)
  then have 4: "stream_reachable slab_instance (parked_run [])" by (rule reach_step [OF 3])
  have "stream_step slab_instance (parked_run []) (parked_run [Item_Message 5])"
    using stream_step.step_enqueue [of slab_instance "parked_run []" "Item_Message 5"]
    by (simp add: sys_enqueue_def parked_run_def)
  then show ?thesis by (rule reach_step [OF 4])
qed

theorem stream_no_lost_wakeup_witness:
  "\<exists>t'. ss_tasks (sys_callback slab_instance (parked_run [Item_Message 5])) 0 = Some t' \<and> t_woken t'"
  using stream_no_lost_wakeup [OF slab_instance_ok parked_run_reachable, of 0 "\<lparr>t_pc = Pc_Parked, t_woken = False\<rparr>"]
  by (simp add: parked_run_def)

text \<open>C31. Every message that arrives is yielded by exactly one of the live streams, in the
  order of arrival: what the streams have yielded, in sequence, followed by what is still
  queued is what arrived. The operations on the slab do not panic: the slot of a live stream
  is always valid.\<close>

theorem stream_messages_once:
  assumes "slab_ok sapi view" and "stream_reachable sapi sys"
  shows "ss_sent sys = map snd (ss_taken sys) @ item_messages (ss_queue sys)
    \<and> (\<forall>k \<in> dom (ss_tasks sys). (\<exists>s. unregister sapi (ss_wakers sys) k = Ret s) \<and> (\<exists>s. set_waker sapi (ss_wakers sys) k i = Ret s))"
proof -
  note inv = stream_inv_reachable [OF assms]
  show ?thesis
    using stream_invD(1,5) [OF inv] wakers.unreg_view [OF assms(1), of _ "ss_wakers sys"]
      wakers.setw_view [OF assms(1), of _ "ss_wakers sys"] by blast
qed

theorem stream_messages_once_witness:
  "ss_sent (parked_run [Item_Message 5]) = [5] \<and>
   (\<exists>s. set_waker slab_instance (ss_wakers (parked_run [Item_Message 5])) 0 7 = Ret s)"
  using stream_messages_once [OF slab_instance_ok parked_run_reachable, of 7] by (simp add: parked_run_def)

section \<open>One poll of a stream\<close>

text \<open>What \<open>poll_next\<close> returns and what it leaves in the registry.\<close>

lemma poll_next_cases:
  assumes "slab_ok sapi view" and "ms_slot self \<in> dom (view wakers)"
    and "poll_next api capi tapi ctx sapi self waker wakers w = Some (Ret (wakers', w', r))"
  shows "(\<exists>item. r = Ready (Some item) \<and>
      (view wakers' = view wakers \<or> view wakers' = (view wakers)(ms_slot self \<mapsto> Some waker))) \<or>
    (r = Pending \<and>
      (view wakers' = (view wakers)(ms_slot self \<mapsto> Some waker) \<or>
       view wakers' = view wakers \<and> (\<exists>es. trace w' = es @ [Task_wake waker])))"
proof -
  obtain s where s: "set_waker sapi wakers (ms_slot self) waker = Ret s" "view s = (view wakers)(ms_slot self \<mapsto> Some waker)"
    using wakers.setw_view [OF assms(1,2), of waker] by auto
  have Ret: "\<exists>w1 e1. x = Some (Ret (w1, e1))"
    if "Option.bind x (case_rust f (\<lambda>m. Some (Panic m))) = Some (Ret y)" for x f and y :: "'s \<times> 'w world \<times> BorrowedMessage KafkaResult option Poll"
    using that by (cases x) (auto split: rust.splits)
  obtain w1 e1 where 1: "stream_poll api capi tapi ctx self w = Some (Ret (w1, e1))"
    using assms(3) Ret unfolding poll_next_def by blast
  show ?thesis
  proof (cases e1)
    case Poll_None
    with assms(3) 1 s obtain w2 e2 where "stream_poll api capi tapi ctx self w1 = Some (Ret (w2, e2))"
      using Ret by (force simp: poll_next_def)
    with assms(3) 1 s Poll_None show ?thesis by (cases e2) (auto simp: poll_next_def)
  qed (use assms(3) 1 in \<open>auto simp: poll_next_def\<close>)
qed

text \<open>The stream of a queue that holds one statistics event: the first poll serves it.\<close>

lemma sample_stats_poll:
  "\<exists>w1. stream_poll client_instance consumer_instance tpl_instance DefaultConsumerContext
      \<lparr>ms_consumer_queue = 1, ms_partition_queue = None, ms_slot = k\<rparr>
      (sample_world [sample_event RD_KAFKA_EVENT_STATS]) = Some (Ret (w1, Poll_EventConsumed))"
  unfolding stream_poll_def poll_queue_def
  by (simp, subst poll_queue_loop.simps)
    (simp add: poll_event_def queue_poll_def client_instance_def sample_world_def sample_event_def instant_now_def
      drop_event_def handle_stats_event_def emit_def Let_def)

lemma sample_stats_consumed:
  fixes wakers :: "nat option option list"
  shows "\<exists>w'. poll_next client_instance consumer_instance tpl_instance DefaultConsumerContext slab_instance
      \<lparr>ms_consumer_queue = 1, ms_partition_queue = None, ms_slot = k\<rparr> t wakers
      (sample_world [sample_event RD_KAFKA_EVENT_STATS]) = Some (Ret (wakers, w', Pending))"
  using sample_stats_poll [of k] by (auto simp: poll_next_def)

text \<open>A stream never ends: \<open>poll_next\<close> is \<open>Ready\<close> only with an item, which is what \<open>recv\<close>
  expects. It returns \<open>Pending\<close> only when its task will be polled again: its waker is in the
  stream's slot, or an event was consumed and it woke the task itself.\<close>

theorem poll_next_pending_registered:
  assumes "slab_ok sapi view" and "ms_slot self \<in> dom (view wakers)"
    and "poll_next api capi tapi ctx sapi self waker wakers w = Some (Ret (wakers', w', r))"
  shows "(\<exists>item. r = Ready (Some item)) \<or>
    (r = Pending \<and> (view wakers' (ms_slot self) = Some (Some waker) \<or> (\<exists>es. trace w' = es @ [Task_wake waker])))"
  using poll_next_cases [OF assms] by auto

theorem poll_next_pending_registered_witness:
  "\<exists>wakers' w'. poll_next client_instance consumer_instance tpl_instance DefaultConsumerContext slab_instance
       \<lparr>ms_consumer_queue = 1, ms_partition_queue = None, ms_slot = 0\<rparr> 9 [Some None]
       (sample_world [sample_event RD_KAFKA_EVENT_STATS]) = Some (Ret (wakers', w', Pending))
     \<and> (vector_view wakers' 0 = Some (Some 9) \<or> (\<exists>es. trace w' = es @ [Task_wake 9]))"
proof -
  let ?ms = "\<lparr>ms_consumer_queue = 1, ms_partition_queue = None, ms_slot = 0\<rparr>"
  from sample_stats_consumed obtain w' where p: "poll_next client_instance consumer_instance tpl_instance DefaultConsumerContext
      slab_instance ?ms 9 [Some None] (sample_world [sample_event RD_KAFKA_EVENT_STATS]) = Some (Ret ([Some None], w', Pending))" by blast
  have "ms_slot ?ms \<in> dom (vector_view [Some (None :: nat option)])" by (simp add: vector_view_def dom_def)
  from poll_next_pending_registered [OF slab_instance_ok this p] p show ?thesis by auto
qed

end
