(* ===== verification/Consumer_Trait.thy ===== *)
theory Consumer_Trait
  imports Consumer_Ops Stream_Consumer
begin

text \<open>
  The trait \<open>Consumer\<close> (\<open>consumer/mod.rs\<close>) as a record of its methods, its implementation by
  the base consumer, and the stream consumer's, which forwards every method to the base
  consumer it holds. \<open>recv\<close> is one item of a stream.
\<close>

section \<open>The trait\<close>

record 'w consumer_ops =
  co_group_metadata :: "'w world \<Rightarrow> 'w world \<times> addr option"
  co_subscribe :: "bytes list \<Rightarrow> 'w world \<Rightarrow> ('w world \<times> unit KafkaResult) rust"
  co_unsubscribe :: "'w world \<Rightarrow> 'w world"
  co_assign :: "TopicPartitionList \<Rightarrow> 'w world \<Rightarrow> 'w world \<times> unit KafkaResult"
  co_unassign :: "'w world \<Rightarrow> 'w world \<times> unit KafkaResult"
  co_incremental_assign :: "TopicPartitionList \<Rightarrow> 'w world \<Rightarrow> 'w world \<times> unit KafkaResult"
  co_incremental_unassign :: "TopicPartitionList \<Rightarrow> 'w world \<Rightarrow> 'w world \<times> unit KafkaResult"
  co_assignment_lost :: "'w world \<Rightarrow> bool"
  co_seek :: "bytes \<Rightarrow> int \<Rightarrow> Offset \<Rightarrow> timeout \<Rightarrow> 'w world \<Rightarrow> ('w world \<times> unit KafkaResult) rust"
  co_seek_partitions :: "TopicPartitionList \<Rightarrow> timeout \<Rightarrow> 'w world \<Rightarrow> 'w world \<times> TopicPartitionList KafkaResult"
  co_commit :: "TopicPartitionList \<Rightarrow> CommitMode \<Rightarrow> 'w world \<Rightarrow> 'w world \<times> unit KafkaResult"
  co_commit_consumer_state :: "CommitMode \<Rightarrow> 'w world \<Rightarrow> 'w world \<times> unit KafkaResult"
  co_commit_message :: "BorrowedMessage \<Rightarrow> CommitMode \<Rightarrow> 'w world \<Rightarrow> 'w world \<times> unit KafkaResult"
  co_store_offset :: "bytes \<Rightarrow> int \<Rightarrow> int \<Rightarrow> 'w world \<Rightarrow> ('w world \<times> unit KafkaResult) rust"
  co_store_offset_from_message :: "BorrowedMessage \<Rightarrow> 'w world \<Rightarrow> 'w world \<times> unit KafkaResult"
  co_store_offsets :: "TopicPartitionList \<Rightarrow> 'w world \<Rightarrow> 'w world \<times> TopicPartitionList \<times> unit KafkaResult"
  co_subscription :: "'w world \<Rightarrow> ('w world \<times> TopicPartitionList KafkaResult) rust"
  co_assignment :: "'w world \<Rightarrow> ('w world \<times> TopicPartitionList KafkaResult) rust"
  co_committed :: "timeout \<Rightarrow> 'w world \<Rightarrow> ('w world \<times> TopicPartitionList KafkaResult) rust"
  co_committed_offsets :: "TopicPartitionList \<Rightarrow> timeout \<Rightarrow> 'w world \<Rightarrow> 'w world \<times> TopicPartitionList KafkaResult"
  co_offsets_for_timestamp :: "int \<Rightarrow> timeout \<Rightarrow> 'w world \<Rightarrow> ('w world \<times> TopicPartitionList KafkaResult) rust"
  co_offsets_for_times :: "TopicPartitionList \<Rightarrow> timeout \<Rightarrow> 'w world \<Rightarrow> 'w world \<times> TopicPartitionList KafkaResult"
  co_position :: "'w world \<Rightarrow> ('w world \<times> TopicPartitionList KafkaResult) rust"
  co_fetch_metadata :: "bytes option \<Rightarrow> timeout \<Rightarrow> 'w world \<Rightarrow> ('w world \<times> addr KafkaResult) rust"
  co_fetch_watermarks :: "bytes \<Rightarrow> int \<Rightarrow> timeout \<Rightarrow> 'w world \<Rightarrow> 'w world \<times> (int \<times> int) KafkaResult"
  co_fetch_group_list :: "bytes option \<Rightarrow> timeout \<Rightarrow> 'w world \<Rightarrow> ('w world \<times> addr KafkaResult) rust"
  co_pause :: "TopicPartitionList \<Rightarrow> 'w world \<Rightarrow> 'w world \<times> TopicPartitionList \<times> unit KafkaResult"
  co_resume :: "TopicPartitionList \<Rightarrow> 'w world \<Rightarrow> 'w world \<times> TopicPartitionList \<times> unit KafkaResult"
  co_rebalance_protocol :: "'w world \<Rightarrow> RebalanceProtocol rust"

definition base_consumer_ops ::
    "'w client_api \<Rightarrow> 'w consumer_api \<Rightarrow> tpl_api \<Rightarrow> error_api \<Rightarrow> 'w consumer_ops" where
  "base_consumer_ops api capi tapi eapi =
     \<lparr>co_group_metadata = group_metadata capi,
      co_subscribe = (\<lambda>topics w. subscribe capi tapi eapi w topics),
      co_unsubscribe = unsubscribe capi,
      co_assign = (\<lambda>tpl w. assign capi eapi w tpl),
      co_unassign = unassign capi eapi,
      co_incremental_assign = (\<lambda>tpl w. incremental_assign capi eapi w tpl),
      co_incremental_unassign = (\<lambda>tpl w. incremental_unassign capi eapi w tpl),
      co_assignment_lost = assignment_lost capi,
      co_seek = (\<lambda>topic part offset timeout w. seek api capi eapi w topic part offset timeout),
      co_seek_partitions = (\<lambda>tpl timeout w. seek_partitions capi eapi w tpl timeout),
      co_commit = (\<lambda>tpl mode w. commit capi w tpl mode),
      co_commit_consumer_state = (\<lambda>mode w. commit_consumer_state capi w mode),
      co_commit_message = (\<lambda>message mode w. commit_message capi w message mode),
      co_store_offset = (\<lambda>topic part offset w. store_offset api capi w topic part offset),
      co_store_offset_from_message = (\<lambda>message w. store_offset_from_message capi w message),
      co_store_offsets = (\<lambda>tpl w. store_offsets capi w tpl),
      co_subscription = subscription capi,
      co_assignment = assignment capi,
      co_committed = (\<lambda>timeout w. committed capi w timeout),
      co_committed_offsets = (\<lambda>tpl timeout w. committed_offsets capi w tpl timeout),
      co_offsets_for_timestamp = (\<lambda>timestamp timeout w. offsets_for_timestamp capi w timestamp timeout),
      co_offsets_for_times = (\<lambda>timestamps timeout w. offsets_for_times capi w timestamps timeout),
      co_position = consumer_position capi,
      co_fetch_metadata = (\<lambda>topic timeout w. fetch_metadata api w topic timeout),
      co_fetch_watermarks = (\<lambda>topic part timeout w. fetch_watermarks api w topic part timeout),
      co_fetch_group_list = (\<lambda>grp timeout w. fetch_group_list api w grp timeout),
      co_pause = (\<lambda>tpl w. pause capi eapi w tpl),
      co_resume = (\<lambda>tpl w. resume capi eapi w tpl),
      co_rebalance_protocol = rebalance_protocol api\<rparr>"

definition stream_consumer_ops :: "'w consumer_ops \<Rightarrow> 'w consumer_ops" where
  "stream_consumer_ops base =
     \<lparr>co_group_metadata = co_group_metadata base,
      co_subscribe = (\<lambda>topics. co_subscribe base topics),
      co_unsubscribe = co_unsubscribe base,
      co_assign = (\<lambda>assignment. co_assign base assignment),
      co_unassign = co_unassign base,
      co_incremental_assign = (\<lambda>assignment. co_incremental_assign base assignment),
      co_incremental_unassign = (\<lambda>assignment. co_incremental_unassign base assignment),
      co_assignment_lost = co_assignment_lost base,
      co_seek = (\<lambda>topic part offset timeout. co_seek base topic part offset timeout),
      co_seek_partitions = (\<lambda>tpl timeout. co_seek_partitions base tpl timeout),
      co_commit = (\<lambda>tpl mode. co_commit base tpl mode),
      co_commit_consumer_state = (\<lambda>mode. co_commit_consumer_state base mode),
      co_commit_message = (\<lambda>message mode. co_commit_message base message mode),
      co_store_offset = (\<lambda>topic part offset. co_store_offset base topic part offset),
      co_store_offset_from_message = (\<lambda>message. co_store_offset_from_message base message),
      co_store_offsets = (\<lambda>tpl. co_store_offsets base tpl),
      co_subscription = co_subscription base,
      co_assignment = co_assignment base,
      co_committed = (\<lambda>timeout. co_committed base timeout),
      co_committed_offsets = (\<lambda>tpl timeout. co_committed_offsets base tpl timeout),
      co_offsets_for_timestamp = (\<lambda>timestamp timeout. co_offsets_for_timestamp base timestamp timeout),
      co_offsets_for_times = (\<lambda>timestamps timeout. co_offsets_for_times base timestamps timeout),
      co_position = co_position base,
      co_fetch_metadata = (\<lambda>topic timeout. co_fetch_metadata base topic timeout),
      co_fetch_watermarks = (\<lambda>topic part timeout. co_fetch_watermarks base topic part timeout),
      co_fetch_group_list = (\<lambda>grp timeout. co_fetch_group_list base grp timeout),
      co_pause = (\<lambda>partitions. co_pause base partitions),
      co_resume = (\<lambda>partitions. co_resume base partitions),
      co_rebalance_protocol = co_rebalance_protocol base\<rparr>"

section \<open>Receiving one message\<close>

text \<open>
  One poll of the future of \<open>recv\<close>, whose stream is dropped when the item is there. The stream
  of \<open>StreamConsumer::recv\<close> reads the consumer's queue, that of \<open>StreamPartitionQueue::recv\<close>
  the partition's.
\<close>

definition recv_poll ::
    "'w client_api \<Rightarrow> 'w consumer_api \<Rightarrow> tpl_api \<Rightarrow> consumer_context \<Rightarrow> ('s, waker option) slab_api \<Rightarrow> MessageStream
      \<Rightarrow> waker \<Rightarrow> 's \<Rightarrow> 'w world \<Rightarrow> ('s \<times> 'w world \<times> BorrowedMessage KafkaResult Poll) rust option" where
  "recv_poll api capi tapi ctx sapi stream waker wakers w =
     map_option (\<lambda>r. rust_bind r (\<lambda>(wakers, w, p).
       case p of
         Pending \<Rightarrow> Ret (wakers, w, Pending)
       | Ready item \<Rightarrow>
           rust_bind (expect ''kafka streams never terminate'' item) (\<lambda>message.
           rust_map (\<lambda>wakers. (wakers, w, Ready message)) (message_stream_drop sapi wakers stream))))
     (poll_next api capi tapi ctx sapi stream waker wakers w)"

definition stream_consumer_recv ::
    "'w client_api \<Rightarrow> 'w consumer_api \<Rightarrow> tpl_api \<Rightarrow> consumer_context \<Rightarrow> ('s, waker option) slab_api \<Rightarrow> 's StreamConsumer
      \<Rightarrow> waker \<Rightarrow> 'w world \<Rightarrow> MessageStream \<times> ('s \<times> 'w world \<times> BorrowedMessage KafkaResult Poll) rust option" where
  "stream_consumer_recv api capi tapi ctx sapi self waker w =
     (case stream_consumer_stream sapi self of
        (self, stream) \<Rightarrow> (stream, recv_poll api capi tapi ctx sapi stream waker (sc_wakers self) w))"

definition partition_recv ::
    "'w client_api \<Rightarrow> 'w consumer_api \<Rightarrow> tpl_api \<Rightarrow> consumer_context \<Rightarrow> ('s, waker option) slab_api \<Rightarrow> 's StreamPartitionQueue
      \<Rightarrow> waker \<Rightarrow> 'w world \<Rightarrow> MessageStream \<times> ('s \<times> 'w world \<times> BorrowedMessage KafkaResult Poll) rust option" where
  "partition_recv api capi tapi ctx sapi self waker w =
     (case partition_stream sapi self of
        (self, stream) \<Rightarrow> (stream, recv_poll api capi tapi ctx sapi stream waker (spq_wakers self) w))"

section \<open>What the trait and \<open>recv\<close> promise\<close>

text \<open>The stream consumer is the base consumer on every method of the trait: none is left out,
  crossed with another or given other arguments.\<close>

lemma stream_consumer_forwards: "stream_consumer_ops base = base"
  by (simp add: stream_consumer_ops_def)

text \<open>A poll of the future of \<open>recv\<close> does not panic when the stream's slot is registered and the
  poll of the stream returns. The slot is given back exactly when the message is there.\<close>

lemma recv_poll_registry:
  assumes "slab_ok sapi view" and "ms_slot stream \<in> dom (view wakers)"
    and "poll_next api capi tapi ctx sapi stream waker wakers w = Some (Ret (wakers1, w', p))"
  shows "\<exists>wakers' r. recv_poll api capi tapi ctx sapi stream waker wakers w = Some (Ret (wakers', w', r)) \<and>
    (case r of
       Ready m \<Rightarrow> p = Ready (Some m) \<and> view wakers' = (view wakers)(ms_slot stream := None)
     | Pending \<Rightarrow> p = Pending \<and>
         (view wakers' = (view wakers)(ms_slot stream \<mapsto> Some waker) \<or>
          view wakers' = view wakers \<and> (\<exists>es. trace w' = es @ [Task_wake waker])))"
proof (cases p)
  case Pending
  with poll_next_cases [OF assms] assms(3) show ?thesis by (auto simp: recv_poll_def)
next
  case (Ready item)
  then obtain m where m: "item = Some m" and v: "view wakers1 = view wakers \<or> view wakers1 = (view wakers)(ms_slot stream \<mapsto> Some waker)"
    using poll_next_cases [OF assms] by auto
  then have "ms_slot stream \<in> dom (view wakers1)" using assms(2) by auto
  with wakers.unreg_view [OF assms(1)] obtain s
    where "unregister sapi wakers1 (ms_slot stream) = Ret s" "view s = (view wakers1)(ms_slot stream := None)" by blast
  with Ready m v assms(3) show ?thesis by (auto simp: recv_poll_def message_stream_drop_def expect_def)
qed

section \<open>A call of \<open>recv\<close> among other users of the registry\<close>

text \<open>The receivers that have a \<open>recv\<close>, and the queues that its stream reads.\<close>

datatype 's receiver = Consumer_Recv "'s StreamConsumer" | Partition_Recv "'s StreamPartitionQueue"

definition receiver_recv ::
    "'w client_api \<Rightarrow> 'w consumer_api \<Rightarrow> tpl_api \<Rightarrow> consumer_context \<Rightarrow> ('s, waker option) slab_api \<Rightarrow> 's receiver \<Rightarrow> 's
      \<Rightarrow> waker \<Rightarrow> 'w world \<Rightarrow> MessageStream \<times> ('s \<times> 'w world \<times> BorrowedMessage KafkaResult Poll) rust option" where
  "receiver_recv api capi tapi ctx sapi rcv wakers waker w =
     (case rcv of
        Consumer_Recv self \<Rightarrow> stream_consumer_recv api capi tapi ctx sapi (self\<lparr>sc_wakers := wakers\<rparr>) waker w
      | Partition_Recv self \<Rightarrow> partition_recv api capi tapi ctx sapi (self\<lparr>spq_wakers := wakers\<rparr>) waker w)"

definition receiver_queues :: "'s receiver \<Rightarrow> addr \<times> addr option" where
  "receiver_queues rcv =
     (case rcv of
        Consumer_Recv self \<Rightarrow> (bc_queue (sc_base self), None)
      | Partition_Recv self \<Rightarrow> (bc_queue (pq_consumer (spq_queue self)), Some (pq_queue (spq_queue self))))"

text \<open>What the others may do to the registry: every operation, but not on the slot of the call.\<close>

inductive registry_step :: "('s, waker option) slab_api \<Rightarrow> nat option \<Rightarrow> 's \<Rightarrow> 's \<Rightarrow> bool"
  for sapi :: "('s, waker option) slab_api" and own :: "nat option" where
  rg_register: "register sapi s = (s', k) \<Longrightarrow> registry_step sapi own s s'"
| rg_unregister: "unregister sapi s k = Ret s' \<Longrightarrow> own \<noteq> Some k \<Longrightarrow> registry_step sapi own s s'"
| rg_set_waker: "set_waker sapi s k waker = Ret s' \<Longrightarrow> own \<noteq> Some k \<Longrightarrow> registry_step sapi own s s'"
| rg_wake_all: "wake_all sapi s = (s', ts) \<Longrightarrow> registry_step sapi own s s'"

text \<open>
  A call has not been polled, waits with its stream for its next poll, has its item, or was
  dropped. \<open>rv_others\<close> is what the registry holds for everyone else: it changes when they use the
  registry, and no poll of this call touches it. \<open>rv_polled_by\<close> are the wakers this call was polled with.
\<close>

datatype recv_state = Recv_New | Recv_Waiting MessageStream | Recv_Done "BorrowedMessage KafkaResult" | Recv_Dropped

record ('w, 's) recv_sys =
  rv_wakers :: 's
  rv_world :: "'w world"
  rv_state :: recv_state
  rv_polled_by :: "waker set"
  rv_others :: "nat \<rightharpoonup> waker option"

definition recv_slot :: "recv_state \<Rightarrow> nat option" where
  "recv_slot st = (case st of Recv_Waiting stream \<Rightarrow> Some (ms_slot stream) | _ \<Rightarrow> None)"

definition without :: "nat option \<Rightarrow> (nat \<rightharpoonup> 'a) \<Rightarrow> nat \<rightharpoonup> 'a" where
  "without slot m = (case slot of None \<Rightarrow> m | Some k \<Rightarrow> m(k := None))"

definition recv_polled ::
    "MessageStream \<Rightarrow> waker \<Rightarrow> 's \<times> 'w world \<times> BorrowedMessage KafkaResult Poll \<Rightarrow> ('w, 's) recv_sys \<Rightarrow> ('w, 's) recv_sys" where
  "recv_polled stream waker res s =
     (case res of
        (wakers, w, r) \<Rightarrow>
          s\<lparr>rv_wakers := wakers, rv_world := w, rv_polled_by := insert waker (rv_polled_by s),
            rv_state := (case r of Pending \<Rightarrow> Recv_Waiting stream | Ready item \<Rightarrow> Recv_Done item)\<rparr>)"

definition recv_init :: "('s \<Rightarrow> nat \<rightharpoonup> waker option) \<Rightarrow> 's \<Rightarrow> 'w world \<Rightarrow> ('w, 's) recv_sys" where
  "recv_init view wakers w =
     \<lparr>rv_wakers = wakers, rv_world = w, rv_state = Recv_New, rv_polled_by = {}, rv_others = view wakers\<rparr>"

text \<open>The future may be polled with another waker each time, and be dropped between two polls.\<close>

inductive recv_step ::
    "'w client_api \<Rightarrow> 'w consumer_api \<Rightarrow> tpl_api \<Rightarrow> consumer_context \<Rightarrow> ('s, waker option) slab_api \<Rightarrow> ('s \<Rightarrow> nat \<rightharpoonup> waker option)
      \<Rightarrow> 's receiver \<Rightarrow> ('w, 's) recv_sys \<Rightarrow> ('w, 's) recv_sys \<Rightarrow> bool"
  for api :: "'w client_api" and capi :: "'w consumer_api" and tapi :: tpl_api and ctx :: consumer_context
    and sapi :: "('s, waker option) slab_api" and view :: "'s \<Rightarrow> nat \<rightharpoonup> waker option" and rcv :: "'s receiver" where
  rv_first: "rv_state s = Recv_New \<Longrightarrow>
     receiver_recv api capi tapi ctx sapi rcv (rv_wakers s) waker (rv_world s) = (stream, Some (Ret res)) \<Longrightarrow>
     recv_step api capi tapi ctx sapi view rcv s (recv_polled stream waker res s)"
| rv_again: "rv_state s = Recv_Waiting stream \<Longrightarrow>
     recv_poll api capi tapi ctx sapi stream waker (rv_wakers s) (rv_world s) = Some (Ret res) \<Longrightarrow>
     recv_step api capi tapi ctx sapi view rcv s (recv_polled stream waker res s)"
| rv_cancel: "rv_state s = Recv_Waiting stream \<Longrightarrow> message_stream_drop sapi (rv_wakers s) stream = Ret wakers \<Longrightarrow>
     recv_step api capi tapi ctx sapi view rcv s (s\<lparr>rv_wakers := wakers, rv_state := Recv_Dropped\<rparr>)"
| rv_other: "registry_step sapi (recv_slot (rv_state s)) (rv_wakers s) wakers \<Longrightarrow>
     recv_step api capi tapi ctx sapi view rcv s
       (s\<lparr>rv_wakers := wakers, rv_others := without (recv_slot (rv_state s)) (view wakers)\<rparr>)"
| rv_world: "recv_step api capi tapi ctx sapi view rcv s (s\<lparr>rv_world := w\<rparr>)"

definition recv_inv :: "('s \<Rightarrow> nat \<rightharpoonup> waker option) \<Rightarrow> 's receiver \<Rightarrow> ('w, 's) recv_sys \<Rightarrow> bool" where
  "recv_inv view rcv s \<longleftrightarrow>
     without (recv_slot (rv_state s)) (view (rv_wakers s)) = rv_others s
     \<and> (\<forall>stream. rv_state s = Recv_Waiting stream \<longrightarrow>
          (ms_consumer_queue stream, ms_partition_queue stream) = receiver_queues rcv
          \<and> view (rv_wakers s) (ms_slot stream) \<in> insert (Some None) ((Some \<circ> Some) ` rv_polled_by s))"

lemma registry_step_slot:
  assumes "slab_ok sapi view" and "registry_step sapi (Some k) s s'" and "view s k = Some v"
  shows "view s' k = Some v \<or> view s' k = Some None"
  using assms(2)
proof cases
  case (rg_register j)
  with wakers.reg_view [OF assms(1) rg_register] assms(3) show ?thesis by auto
next
  case (rg_unregister j)
  have "j \<in> dom (view s)"
  proof (rule ccontr)
    assume "j \<notin> dom (view s)"
    then have "\<exists>m. slab_remove sapi s j = Panic m" using assms(1) unfolding slab_ok_def by meson
    with rg_unregister(1) show False by (auto simp: unregister_def)
  qed
  with wakers.unreg_view [OF assms(1)] rg_unregister assms(3) show ?thesis by fastforce
next
  case (rg_set_waker j t)
  have "j \<in> dom (view s)"
  proof (rule ccontr)
    assume "j \<notin> dom (view s)"
    then have "\<exists>m. slab_index_set sapi s j (Some t) = Panic m" using assms(1) unfolding slab_ok_def by meson
    with rg_set_waker(1) show False by (auto simp: set_waker_def)
  qed
  with wakers.setw_view [OF assms(1), of j s t] rg_set_waker assms(3) show ?thesis by fastforce
next
  case (rg_wake_all ts)
  with wakers.wake_view [OF assms(1) rg_wake_all] assms(3) show ?thesis by auto
qed

text \<open>A poll of a call with a registered slot.\<close>

lemma recv_polled_inv:
  assumes "slab_ok sapi view" and "recv_poll api capi tapi ctx sapi stream waker wakers w = Some (Ret res)"
    and "(view wakers)(ms_slot stream := None) = rv_others s"
    and "view wakers (ms_slot stream) \<in> insert (Some None) ((Some \<circ> Some) ` rv_polled_by s)"
    and "(ms_consumer_queue stream, ms_partition_queue stream) = receiver_queues rcv"
  shows "recv_inv view rcv (recv_polled stream waker res s)"
proof -
  obtain wakers1 w1 p where pn: "poll_next api capi tapi ctx sapi stream waker wakers w = Some (Ret (wakers1, w1, p))"
    using assms(2) by (auto simp: recv_poll_def)
  have "ms_slot stream \<in> dom (view wakers)" using assms(4) by auto
  from recv_poll_registry [OF assms(1) this pn] assms(2) obtain wakers' r where res: "res = (wakers', w1, r)" and
    r: "case r of
       Ready m \<Rightarrow> p = Ready (Some m) \<and> view wakers' = (view wakers)(ms_slot stream := None)
     | Pending \<Rightarrow> p = Pending \<and>
         (view wakers' = (view wakers)(ms_slot stream \<mapsto> Some waker) \<or>
          view wakers' = view wakers \<and> (\<exists>es. trace w1 = es @ [Task_wake waker]))" by auto
  show ?thesis
  proof (cases r)
    case (Ready item)
    with r assms(3) show ?thesis by (simp add: recv_inv_def recv_polled_def res recv_slot_def without_def)
  next
    case Pending
    from r Pending consider "view wakers' = (view wakers)(ms_slot stream \<mapsto> Some waker)" | "view wakers' = view wakers" by auto
    then show ?thesis
      using assms(3-5) by cases (auto simp: recv_inv_def recv_polled_def res Pending recv_slot_def without_def)
  qed
qed

lemma receiver_recv_first:
  assumes "slab_ok sapi view" and "receiver_recv api capi tapi ctx sapi rcv wakers waker w = (stream, Some (Ret res))"
  obtains wakers1 where "recv_poll api capi tapi ctx sapi stream waker wakers1 w = Some (Ret res)"
    and "view wakers (ms_slot stream) = None" and "view wakers1 = (view wakers)(ms_slot stream \<mapsto> None)"
    and "(ms_consumer_queue stream, ms_partition_queue stream) = receiver_queues rcv"
proof -
  have "\<exists>wakers1. message_stream_new sapi wakers (fst (receiver_queues rcv)) (snd (receiver_queues rcv)) = (wakers1, stream)
      \<and> recv_poll api capi tapi ctx sapi stream waker wakers1 w = Some (Ret res)"
    using assms(2)
    by (auto simp: receiver_recv_def receiver_queues_def stream_consumer_recv_def stream_consumer_stream_def
        partition_recv_def partition_stream_def split: receiver.splits prod.splits)
  then obtain wakers1 where new: "message_stream_new sapi wakers (fst (receiver_queues rcv)) (snd (receiver_queues rcv)) = (wakers1, stream)"
      and polled: "recv_poll api capi tapi ctx sapi stream waker wakers1 w = Some (Ret res)" by blast
  obtain wk k where reg: "register sapi wakers = (wk, k)" by fastforce
  from new reg wakers.reg_view [OF assms(1) reg] polled that [of wakers1] show thesis
    by (auto simp: message_stream_new_def)
qed

lemma recv_inv_step:
  assumes "slab_ok sapi view" and "recv_step api capi tapi ctx sapi view rcv s s'" and inv: "recv_inv view rcv s"
  shows "recv_inv view rcv s'"
  using assms(2)
proof cases
  case (rv_first waker stream res)
  from receiver_recv_first [OF assms(1) rv_first(3)] obtain wakers1 where
    polled: "recv_poll api capi tapi ctx sapi stream waker wakers1 (rv_world s) = Some (Ret res)"
    and new: "view (rv_wakers s) (ms_slot stream) = None" "view wakers1 = (view (rv_wakers s))(ms_slot stream \<mapsto> None)"
    and queues: "(ms_consumer_queue stream, ms_partition_queue stream) = receiver_queues rcv" .
  have "(view wakers1)(ms_slot stream := None) = rv_others s"
    using inv new rv_first(2) by (auto simp: recv_inv_def recv_slot_def without_def)
  with recv_polled_inv [OF assms(1) polled _ _ queues] new(2) rv_first(1) show ?thesis by simp
next
  case (rv_again stream waker res)
  then show ?thesis
    using recv_polled_inv [OF assms(1) rv_again(3)] inv by (simp add: recv_inv_def recv_slot_def without_def)
next
  case (rv_cancel stream wakers)
  have "ms_slot stream \<in> dom (view (rv_wakers s))" using inv rv_cancel(2) by (auto simp: recv_inv_def)
  with wakers.unreg_view [OF assms(1)] rv_cancel(3) have "view wakers = (view (rv_wakers s))(ms_slot stream := None)"
    by (fastforce simp: message_stream_drop_def)
  with inv rv_cancel(1,2) show ?thesis by (simp add: recv_inv_def recv_slot_def without_def)
next
  case (rv_other wakers)
  have "view wakers (ms_slot stream) \<in> insert (Some None) ((Some \<circ> Some) ` rv_polled_by s)" if st: "rv_state s = Recv_Waiting stream" for stream
  proof -
    have slot: "view (rv_wakers s) (ms_slot stream) \<in> insert (Some None) ((Some \<circ> Some) ` rv_polled_by s)"
      using inv st by (simp add: recv_inv_def)
    then obtain v where v: "view (rv_wakers s) (ms_slot stream) = Some v" by auto
    have "registry_step sapi (Some (ms_slot stream)) (rv_wakers s) wakers" using rv_other(2) st by (simp add: recv_slot_def)
    from registry_step_slot [OF assms(1) this v] v slot show ?thesis by auto
  qed
  with inv rv_other(1) show ?thesis by (simp add: recv_inv_def)
next
  case (rv_world w)
  with inv show ?thesis by (simp add: recv_inv_def)
qed

text \<open>C26. A call of \<open>recv\<close>, of the consumer or of a partition queue, registers one slot for its stream,
  and gives it back: in every run, with any number of polls, other streams coming and going and
  wakeups in between, the registry holds just what the others have made of it before the first
  poll, once the message is there, and after the call was dropped. While the call waits, the
  registry differs from that in the slot of its stream alone, which reads the right queue and holds
  nothing or a waker that the call was polled with.\<close>

theorem recv_registry:
  assumes "slab_ok sapi view" and "(recv_step api capi tapi ctx sapi view rcv)\<^sup>*\<^sup>* (recv_init view wakers w) s"
  shows "case rv_state s of
      Recv_Waiting stream \<Rightarrow>
        (ms_consumer_queue stream, ms_partition_queue stream) = receiver_queues rcv
        \<and> rv_others s (ms_slot stream) = None
        \<and> (\<exists>slot. view (rv_wakers s) = (rv_others s)(ms_slot stream \<mapsto> slot)
             \<and> (slot = None \<or> (\<exists>waker \<in> rv_polled_by s. slot = Some waker)))
    | _ \<Rightarrow> view (rv_wakers s) = rv_others s"
proof -
  have inv: "recv_inv view rcv s" using assms(2)
  proof (induction rule: rtranclp_induct)
    case base
    show ?case by (simp add: recv_inv_def recv_init_def recv_slot_def without_def)
  qed (rule recv_inv_step [OF assms(1)])
  show ?thesis
  proof (cases "rv_state s")
    case (Recv_Waiting stream)
    with inv have others: "rv_others s = (view (rv_wakers s))(ms_slot stream := None)"
      and slot: "view (rv_wakers s) (ms_slot stream) \<in> insert (Some None) ((Some \<circ> Some) ` rv_polled_by s)"
      and queues: "(ms_consumer_queue stream, ms_partition_queue stream) = receiver_queues rcv"
      by (simp_all add: recv_inv_def recv_slot_def without_def)
    from slot obtain v where v: "view (rv_wakers s) (ms_slot stream) = Some v" "v = None \<or> (\<exists>waker \<in> rv_polled_by s. v = Some waker)"
      by auto
    then have "view (rv_wakers s) = (rv_others s)(ms_slot stream \<mapsto> v)" by (simp add: others fun_upd_idem)
    moreover have "rv_others s (ms_slot stream) = None" by (simp add: others)
    ultimately show ?thesis using v(2) queues Recv_Waiting by auto
  qed (use inv in \<open>simp_all add: recv_inv_def recv_slot_def without_def\<close>)
qed

definition sample_stream_consumer :: "nat option option list StreamConsumer" where
  "sample_stream_consumer =
     \<lparr>sc_base = \<lparr>bc_client = \<lparr>client_native = 1, client_arc = Arc 1\<rparr>, bc_queue = 1, bc_group_id = None, bc_nonempty_callback = False\<rparr>,
      sc_wakers = [None, Some (Some 4)], sc_wake_interval = 0\<rparr>"

abbreviation input_message :: BorrowedMessage where
  "input_message \<equiv> \<lparr>bm_ptr = bm_ptr sample_message, bm_event = 7\<rparr>"

lemma sample_message_polled:
  "\<exists>w'. poll_next client_instance consumer_instance tpl_instance DefaultConsumerContext slab_instance
      \<lparr>ms_consumer_queue = 1, ms_partition_queue = None, ms_slot = k\<rparr> t wakers (sample_world [sample_fetch_event])
    = Some (Ret (wakers, w', Ready (Some (Ok input_message))))"
proof -
  have "\<exists>w'. poll_queue client_instance consumer_instance tpl_instance DefaultConsumerContext 1 (After 0)
      (sample_world [sample_fetch_event]) = Some (Ret (w', Poll_Event (Ok input_message)))"
    unfolding poll_queue_def
    by (subst poll_queue_loop.simps)
      (simp add: poll_event_def queue_poll_def client_instance_def sample_world_def sample_event_def
        sample_fetch_event_def instant_now_def consumer_handle_event_def handle_fetch_event_def from_client_def
        sample_message_def resp_err_is_error_def)
  then show ?thesis by (auto simp: poll_next_def stream_poll_def)
qed

text \<open>
  A call is polled and serves a statistics event, another stream is registered and all are woken;
  then it is polled again, with another waker, and yields a message.
\<close>

abbreviation sample_recv_step :: "(RDKafkaEvent list, nat option option list) recv_sys \<Rightarrow> (RDKafkaEvent list, nat option option list) recv_sys \<Rightarrow> bool" where
  "sample_recv_step \<equiv> recv_step client_instance consumer_instance tpl_instance DefaultConsumerContext slab_instance vector_view
     (Consumer_Recv sample_stream_consumer)"

abbreviation sample_recv_stream :: MessageStream where
  "sample_recv_stream \<equiv> \<lparr>ms_consumer_queue = 1, ms_partition_queue = None, ms_slot = 2\<rparr>"

lemma sample_recv_pending:
  "\<exists>w'. receiver_recv client_instance consumer_instance tpl_instance DefaultConsumerContext slab_instance
      (Consumer_Recv sample_stream_consumer) [None, Some (Some 4)] 9 (sample_world [sample_event RD_KAFKA_EVENT_STATS])
    = (sample_recv_stream, Some (Ret ([None, Some (Some 4), Some None], w', Pending)))"
proof -
  obtain w' where "poll_next client_instance consumer_instance tpl_instance DefaultConsumerContext slab_instance
      sample_recv_stream 9 [None, Some (Some 4), Some None] (sample_world [sample_event RD_KAFKA_EVENT_STATS]) =
      Some (Ret ([None, Some (Some 4), Some None], w', Pending))"
    using sample_stats_consumed by blast
  then have "recv_poll client_instance consumer_instance tpl_instance DefaultConsumerContext slab_instance
      sample_recv_stream 9 [None, Some (Some 4), Some None] (sample_world [sample_event RD_KAFKA_EVENT_STATS]) =
      Some (Ret ([None, Some (Some 4), Some None], w', Pending))"
    by (simp only: recv_poll_def option.map rust_bind.simps prod.case Poll.case)
  moreover have "register slab_instance [None, Some (Some 4)] = ([None, Some (Some 4), Some None], 2)"
    by (simp add: register_def slab_instance_def)
  ultimately show ?thesis
    by (simp add: receiver_recv_def stream_consumer_recv_def stream_consumer_stream_def message_stream_new_def)
      (simp add: sample_stream_consumer_def)
qed

lemma sample_recv_ready:
  "\<exists>w'. recv_poll client_instance consumer_instance tpl_instance DefaultConsumerContext slab_instance sample_recv_stream 8
      [None, Some None, Some None, Some None] (sample_world [sample_fetch_event])
    = Some (Ret ([None, Some None, None, Some None], w', Ready (Ok input_message)))"
proof -
  obtain w' where p: "poll_next client_instance consumer_instance tpl_instance DefaultConsumerContext slab_instance sample_recv_stream 8
      [None, Some None, Some None, Some None] (sample_world [sample_fetch_event])
      = Some (Ret ([None, Some None, Some None, Some None], w', Ready (Some (Ok input_message))))"
    using sample_message_polled by blast
  have "message_stream_drop slab_instance [None, Some None, Some None, Some (None :: nat option)] sample_recv_stream
      = Ret [None, Some None, None, Some None]"
    by (simp add: message_stream_drop_def unregister_def slab_instance_def vector_view_def)
  then show ?thesis
    by (simp only: recv_poll_def p option.map rust_bind.simps rust_map.simps expect_simps prod.case Poll.case) blast
qed

theorem recv_registry_witness:
  "\<exists>s. sample_recv_step\<^sup>*\<^sup>*
       (recv_init vector_view [None, Some (Some 4)] (sample_world [sample_event RD_KAFKA_EVENT_STATS])) s
     \<and> rv_state s = Recv_Done (Ok input_message) \<and> vector_view (rv_wakers s) = [1 \<mapsto> None, 3 \<mapsto> None]"
proof -
  let ?s0 = "recv_init vector_view [None, Some (Some 4)] (sample_world [sample_event RD_KAFKA_EVENT_STATS])"
  obtain w1 where w1: "receiver_recv client_instance consumer_instance tpl_instance DefaultConsumerContext slab_instance
      (Consumer_Recv sample_stream_consumer) [None, Some (Some 4)] 9 (sample_world [sample_event RD_KAFKA_EVENT_STATS])
    = (sample_recv_stream, Some (Ret ([None, Some (Some 4), Some None], w1, Pending)))"
    using sample_recv_pending by blast
  define s1 where "s1 = recv_polled sample_recv_stream 9 ([None, Some (Some 4), Some None], w1, Pending) ?s0"
  have 1: "sample_recv_step ?s0 s1" unfolding s1_def by (rule rv_first) (use w1 in \<open>simp_all add: recv_init_def\<close>)
  have s1: "rv_wakers s1 = [None, Some (Some 4), Some None]" "rv_state s1 = Recv_Waiting sample_recv_stream"
    by (simp_all add: s1_def recv_polled_def)
  define s2 where "s2 = s1\<lparr>rv_wakers := [None, Some (Some 4), Some None, Some None],
    rv_others := without (recv_slot (rv_state s1)) (vector_view [None, Some (Some 4), Some None, Some None])\<rparr>"
  have 2: "sample_recv_step s1 s2"
    unfolding s2_def by (rule rv_other, rule rg_register [where k = 3]) (simp add: s1 register_def slab_instance_def)
  have s2: "rv_wakers s2 = [None, Some (Some 4), Some None, Some None]" "rv_state s2 = Recv_Waiting sample_recv_stream"
    by (simp_all add: s2_def s1)
  define s3 where "s3 = s2\<lparr>rv_wakers := [None, Some None, Some None, Some None],
    rv_others := without (recv_slot (rv_state s2)) (vector_view [None, Some None, Some None, Some None])\<rparr>"
  have 3: "sample_recv_step s2 s3"
    unfolding s3_def
    by (rule rv_other, rule rg_wake_all [where ts = "snd (wake_all slab_instance (rv_wakers s2))"])
      (simp add: s2 wake_all_def slab_instance_def)
  let ?s4 = "s3\<lparr>rv_world := sample_world [sample_fetch_event]\<rparr>"
  have 4: "sample_recv_step s3 ?s4" by (rule rv_world)
  obtain w5 where w5: "recv_poll client_instance consumer_instance tpl_instance DefaultConsumerContext slab_instance sample_recv_stream 8
      [None, Some None, Some None, Some None] (sample_world [sample_fetch_event])
    = Some (Ret ([None, Some None, None, Some None], w5, Ready (Ok input_message)))"
    using sample_recv_ready by blast
  let ?s5 = "recv_polled sample_recv_stream 8 ([None, Some None, None, Some None], w5, Ready (Ok input_message)) ?s4"
  have 5: "sample_recv_step ?s4 ?s5" by (rule rv_again) (use w5 s2 in \<open>simp_all add: s3_def\<close>)
  have run: "sample_recv_step\<^sup>*\<^sup>* ?s0 ?s5" using 1 2 3 4 5 by (meson rtranclp.rtrancl_refl rtranclp.rtrancl_into_rtrancl)
  have st: "rv_state ?s5 = Recv_Done (Ok input_message)"
      "rv_others ?s5 = (vector_view [None, Some None, Some None, Some None])(2 := None)"
    by (simp_all add: recv_polled_def s3_def s2 recv_slot_def without_def)
  have "vector_view (rv_wakers ?s5) = rv_others ?s5"
    using recv_registry [OF slab_instance_ok run] st(1) by simp
  also have "\<dots> = [1 \<mapsto> None, 3 \<mapsto> None]"
    unfolding st(2) by (auto simp: vector_view_def fun_eq_iff less_Suc_eq numeral_nat)
  finally show ?thesis using run st(1) by blast
qed

end
