(* ===== verification/Producer_Trait.thy ===== *)
theory Producer_Trait
  imports Future_Producer
begin

text \<open>
  The trait \<open>Producer\<close> (\<open>producer/mod.rs\<close>) and its three implementations. An implementation of
  the trait is a record of its methods; the threaded producer forwards to the base producer
  it shares with its thread, the future producer to the threaded one. The locale
  \<open>producer_trait\<close> states what a user of the trait may rely on, for any implementation.
\<close>

section \<open>The trait\<close>

record 'w producer_ops =
  op_flush :: "timeout \<Rightarrow> 'w world \<Rightarrow> ('w world \<times> unit KafkaResult) rust option"
  op_purge :: "PurgeConfig \<Rightarrow> 'w world \<Rightarrow> 'w world rust"
  op_in_flight_count :: "'w world \<Rightarrow> int"
  op_init_transactions :: "timeout \<Rightarrow> 'w world \<Rightarrow> 'w world \<times> unit KafkaResult"
  op_begin_transaction :: "'w world \<Rightarrow> 'w world \<times> unit KafkaResult"
  op_send_offsets_to_transaction :: "TopicPartitionList \<Rightarrow> addr \<Rightarrow> timeout \<Rightarrow> 'w world \<Rightarrow> 'w world \<times> unit KafkaResult"
  op_commit_transaction :: "timeout \<Rightarrow> 'w world \<Rightarrow> ('w world \<times> unit KafkaResult) rust option"
  op_abort_transaction :: "timeout \<Rightarrow> 'w world \<Rightarrow> 'w world \<times> unit KafkaResult"

definition base_producer_ops ::
    "'w client_api \<Rightarrow> ('w, 'h) producer_api \<Rightarrow> error_api \<Rightarrow> client_context \<Rightarrow> BaseProducer \<Rightarrow> 'w producer_ops" where
  "base_producer_ops api papi eapi ctx self =
     \<lparr>op_flush = producer_flush api papi ctx (bp_queue self),
      op_purge = (\<lambda>flags w. producer_purge eapi papi w flags),
      op_in_flight_count = in_flight_count papi,
      op_init_transactions = (\<lambda>timeout w. init_transactions papi w timeout),
      op_begin_transaction = begin_transaction papi,
      op_send_offsets_to_transaction = (\<lambda>offsets cgm timeout w. send_offsets_to_transaction papi w offsets cgm timeout),
      op_commit_transaction = commit_transaction api papi ctx (bp_queue self),
      op_abort_transaction = (\<lambda>timeout w. abort_transaction papi w timeout)\<rparr>"

section \<open>Threaded producers\<close>

text \<open>The thread is named by its handle; its life is the subject of \<open>Threaded_Producer\<close>.\<close>

record ThreadedProducer =
  thp_producer :: BaseProducer
  thp_should_stop :: bool
  thp_handle :: "addr option"

definition threaded_producer_from_config_and_context ::
    "'w client_api \<Rightarrow> ('w, 'c) create_api \<Rightarrow> 'c conf_api \<Rightarrow> 'c producer_conf_api \<Rightarrow> map_iter \<Rightarrow> 'w world
      \<Rightarrow> ClientConfig \<Rightarrow> arc \<Rightarrow> bool \<Rightarrow> addr \<Rightarrow> ('w world \<times> ThreadedProducer KafkaResult) rust" where
  "threaded_producer_from_config_and_context api capi conf pconf iter w config context has_partitioner thread =
     rust_map (\<lambda>(w, r). (w, and_then r (\<lambda>producer.
         Ok \<lparr>thp_producer = producer, thp_should_stop = False, thp_handle = Some thread\<rparr>)))
       (base_producer_from_config_and_context api capi conf pconf iter w config context has_partitioner)"

definition threaded_send ::
    "('w, 'h) producer_api \<Rightarrow> ('k \<Rightarrow> bytes) \<Rightarrow> ('p \<Rightarrow> bytes) \<Rightarrow> ('d \<Rightarrow> addr) \<Rightarrow> (addr \<Rightarrow> 'd) \<Rightarrow> ThreadedProducer
      \<Rightarrow> ('k, 'p, 'd, 'h) BaseRecord \<Rightarrow> 'w world \<Rightarrow> 'w world \<times> ((KafkaError \<times> ('k, 'p, 'd, 'h) BaseRecord) + unit)" where
  "threaded_send papi kb pb into_ptr from_ptr self record w = producer_send papi kb pb into_ptr from_ptr w record"

definition threaded_poll ::
    "'w client_api \<Rightarrow> client_context \<Rightarrow> ThreadedProducer \<Rightarrow> timeout \<Rightarrow> 'w world \<Rightarrow> 'w world rust option" where
  "threaded_poll api ctx self timeout w = producer_poll api ctx (bp_queue (thp_producer self)) timeout w"

definition threaded_producer_ops :: "'w producer_ops \<Rightarrow> 'w producer_ops" where
  "threaded_producer_ops producer =
     \<lparr>op_flush = (\<lambda>timeout. op_flush producer timeout),
      op_purge = (\<lambda>flags. op_purge producer flags),
      op_in_flight_count = op_in_flight_count producer,
      op_init_transactions = (\<lambda>timeout. op_init_transactions producer timeout),
      op_begin_transaction = op_begin_transaction producer,
      op_send_offsets_to_transaction = (\<lambda>offsets cgm timeout. op_send_offsets_to_transaction producer offsets cgm timeout),
      op_commit_transaction = (\<lambda>timeout. op_commit_transaction producer timeout),
      op_abort_transaction = (\<lambda>timeout. op_abort_transaction producer timeout)\<rparr>"

section \<open>Future producers\<close>

record FutureProducer =
  fup_producer :: ThreadedProducer

definition future_producer_from_config_and_context ::
    "'w client_api \<Rightarrow> ('w, 'c) create_api \<Rightarrow> 'c conf_api \<Rightarrow> 'c producer_conf_api \<Rightarrow> map_iter \<Rightarrow> 'w world
      \<Rightarrow> ClientConfig \<Rightarrow> arc \<Rightarrow> bool \<Rightarrow> addr \<Rightarrow> ('w world \<times> FutureProducer KafkaResult) rust" where
  "future_producer_from_config_and_context api capi conf pconf iter w config context has_partitioner thread =
     rust_map (\<lambda>(w, r). (w, and_then r (\<lambda>threaded_producer. Ok \<lparr>fup_producer = threaded_producer\<rparr>)))
       (threaded_producer_from_config_and_context api capi conf pconf iter w config context has_partitioner thread)"

definition future_poll ::
    "'w client_api \<Rightarrow> client_context \<Rightarrow> FutureProducer \<Rightarrow> timeout \<Rightarrow> 'w world \<Rightarrow> 'w world rust option" where
  "future_poll api ctx self timeout w = threaded_poll api ctx (fup_producer self) timeout w"

definition future_producer_ops :: "'w producer_ops \<Rightarrow> 'w producer_ops" where
  "future_producer_ops producer =
     \<lparr>op_flush = (\<lambda>timeout. op_flush producer timeout),
      op_purge = (\<lambda>flags. op_purge producer flags),
      op_in_flight_count = op_in_flight_count producer,
      op_init_transactions = (\<lambda>timeout. op_init_transactions producer timeout),
      op_begin_transaction = op_begin_transaction producer,
      op_send_offsets_to_transaction = (\<lambda>offsets cgm timeout. op_send_offsets_to_transaction producer offsets cgm timeout),
      op_commit_transaction = (\<lambda>timeout. op_commit_transaction producer timeout),
      op_abort_transaction = (\<lambda>timeout. op_abort_transaction producer timeout)\<rparr>"

section \<open>The contract of the trait\<close>

text \<open>
  \<open>time_passes\<close> is the hypothesis that the clock advances, \<open>flushed n\<close> says that librdkafka is
  in a state that a successful flush left, and \<open>native_commit\<close> is the native call of a commit
  with its result.
\<close>

locale producer_trait =
  fixes ops :: "'w producer_ops" and time_passes :: bool and flushed :: "'w \<Rightarrow> bool"
    and native_commit :: "timeout \<Rightarrow> 'w world \<Rightarrow> 'w world \<times> unit KafkaResult"
  assumes flush_returns: "time_passes \<Longrightarrow> \<exists>r. op_flush ops (After d) w = Some r"
    and flush_flushes: "op_flush ops t w = Some (Ret (w', Ok ())) \<Longrightarrow> flushed (native w')"
    and commit_flushes: "op_commit_transaction ops t w = Option.bind (op_flush ops t w) (\<lambda>r. case r of
        Panic m \<Rightarrow> Some (Panic m) | Ret (w1, Inl e) \<Rightarrow> Some (Ret (w1, Err e)) | Ret (w1, Inr _) \<Rightarrow> Some (Ret (native_commit t w1)))"
begin

lemma commit_returns:
  assumes time_passes
  shows "\<exists>r. op_commit_transaction ops (After d) w = Some r"
proof -
  obtain r where "op_flush ops (After d) w = Some r" using flush_returns [OF assms] by blast
  then show ?thesis by (auto simp: commit_flushes split: rust.splits sum.splits prod.splits)
qed

lemma committed_flushed:
  assumes "op_commit_transaction ops t w = Some (Ret (w', Ok ()))"
  shows "\<exists>w1. op_flush ops t w = Some (Ret (w1, Ok ())) \<and> flushed (native w1) \<and> native_commit t w1 = (w', Ok ())"
proof -
  obtain r where r: "op_flush ops t w = Some r" using assms by (auto simp: commit_flushes Option.bind_eq_Some_conv)
  with assms obtain w1 u where ret: "r = Ret (w1, Ok u)" "native_commit t w1 = (w', Ok ())"
    by (auto simp: commit_flushes split: rust.splits sum.splits prod.splits)
  with r have "op_flush ops t w = Some (Ret (w1, Ok ()))" by simp
  with flush_flushes ret(2) show ?thesis by blast
qed

end

definition native_flushed :: "('w, 'h) producer_api \<Rightarrow> 'w \<Rightarrow> bool" where
  "native_flushed papi n' \<longleftrightarrow> (\<exists>n. rd_kafka_flush papi n 0 = (n', RD_KAFKA_RESP_ERR_NO_ERROR))"

definition native_commit_call :: "('w, 'h) producer_api \<Rightarrow> timeout \<Rightarrow> 'w world \<Rightarrow> 'w world \<times> unit KafkaResult" where
  "native_commit_call papi timeout w =
     (case rd_kafka_commit_transaction papi (native w) (timeout_as_millis timeout) of
        (n, p) \<Rightarrow> (emit (Native_commit_transaction (timeout_as_millis timeout)) (w\<lparr>native := n\<rparr>), transaction_result p))"

lemma flush_ok_flushed:
  assumes "producer_flush api papi ctx q t w = Some (Ret (w', Ok ()))"
  shows "native_flushed papi (native w')"
proof -
  from assms obtain w0 d where "producer_flush_loop api papi ctx q d w0 = Some (Ret (w', Ok ()))"
    by (auto simp: producer_flush_def split: rust.splits)
  from flush_loop_ok_last [OF this] show ?thesis by (auto simp: native_flushed_def)
qed

lemma forwarding [simp]: "threaded_producer_ops ops = ops" "future_producer_ops ops = ops"
  by (simp_all add: threaded_producer_ops_def future_producer_ops_def)

interpretation base: producer_trait "base_producer_ops api papi eapi ctx self" "clock_advances (tick api)"
  "native_flushed papi" "native_commit_call papi"
proof
  show "\<exists>r. op_flush (base_producer_ops api papi eapi ctx self) (After d) w = Some r" if "clock_advances (tick api)" for d w
    using producer_flush_total [OF that] by (fastforce simp: base_producer_ops_def)
  show "native_flushed papi (native w')" if "op_flush (base_producer_ops api papi eapi ctx self) t w = Some (Ret (w', Ok ()))" for t w w'
    using that flush_ok_flushed by (fastforce simp: base_producer_ops_def)
  show "op_commit_transaction (base_producer_ops api papi eapi ctx self) t w =
      Option.bind (op_flush (base_producer_ops api papi eapi ctx self) t w) (\<lambda>r. case r of
        Panic m \<Rightarrow> Some (Panic m) | Ret (w1, Inl e) \<Rightarrow> Some (Ret (w1, Err e))
      | Ret (w1, Inr _) \<Rightarrow> Some (Ret (native_commit_call papi t w1)))" for t w
    by (auto simp: base_producer_ops_def commit_transaction_def native_commit_call_def
        intro!: arg_cong [where f = "Option.bind _"] ext split: rust.splits sum.splits prod.splits)
qed

interpretation threaded: producer_trait "threaded_producer_ops (base_producer_ops api papi eapi ctx self)"
  "clock_advances (tick api)" "native_flushed papi" "native_commit_call papi"
  unfolding forwarding by (rule base.producer_trait_axioms)

interpretation future: producer_trait "future_producer_ops (threaded_producer_ops (base_producer_ops api papi eapi ctx self))"
  "clock_advances (tick api)" "native_flushed papi" "native_commit_call papi"
  unfolding forwarding by (rule base.producer_trait_axioms)

text \<open>Through any of the three producers, \<open>commit_transaction\<close> with a finite timeout
  returns, provided that time passes; and if it reports success, the flush before it
  succeeded and the commit was made in the state that flush left.\<close>

theorem every_producer_commits:
  assumes "ops \<in> {base_producer_ops api papi eapi ctx self, threaded_producer_ops (base_producer_ops api papi eapi ctx self),
      future_producer_ops (threaded_producer_ops (base_producer_ops api papi eapi ctx self))}"
  shows "(clock_advances (tick api) \<longrightarrow> (\<exists>r. op_commit_transaction ops (After d) w = Some r))
    \<and> (\<forall>w'. op_commit_transaction ops t w = Some (Ret (w', Ok ())) \<longrightarrow>
         (\<exists>w1 n. op_flush ops t w = Some (Ret (w1, Ok ()))
            \<and> rd_kafka_flush papi n 0 = (native w1, RD_KAFKA_RESP_ERR_NO_ERROR)
            \<and> w' = emit (Native_commit_transaction (timeout_as_millis t))
                 (w1\<lparr>native := fst (rd_kafka_commit_transaction papi (native w1) (timeout_as_millis t))\<rparr>)))"
proof -
  have returns: "clock_advances (tick api) \<longrightarrow> (\<exists>r. op_commit_transaction ops (After d) w = Some r)"
    using assms base.commit_returns [of api papi eapi ctx self d w] threaded.commit_returns [of api papi eapi ctx self d w]
      future.commit_returns [of api papi eapi ctx self d w] by (elim insertE emptyE) simp_all
  have "\<exists>w1. op_flush ops t w = Some (Ret (w1, Ok ())) \<and> native_flushed papi (native w1) \<and> native_commit_call papi t w1 = (w', Ok ())"
    if "op_commit_transaction ops t w = Some (Ret (w', Ok ()))" for w'
    using assms that
    by (elim insertE emptyE; simp only:; intro base.committed_flushed threaded.committed_flushed future.committed_flushed)
  then show ?thesis
    using returns by (fastforce simp: native_flushed_def native_commit_call_def split: prod.splits)
qed

theorem every_producer_commits_witness:
  "\<exists>r. op_commit_transaction
      (future_producer_ops (threaded_producer_ops (base_producer_ops idle_client
        (producer_instance :: (unit producev_args list, unit) producer_api) error_instance DefaultClientContext
        \<lparr>bp_client = \<lparr>client_native = 1, client_arc = Arc 2\<rparr>, bp_queue = 3\<rparr>))) (After 5) (sample_world []) = Some r"
proof -
  let ?base = "base_producer_ops idle_client (producer_instance :: (unit producev_args list, unit) producer_api) error_instance
      DefaultClientContext \<lparr>bp_client = \<lparr>client_native = 1, client_arc = Arc 2\<rparr>, bp_queue = 3\<rparr>"
  have "future_producer_ops (threaded_producer_ops ?base) \<in>
      {?base, threaded_producer_ops ?base, future_producer_ops (threaded_producer_ops ?base)}" by simp
  from every_producer_commits [OF this] idle_client_advances show ?thesis by blast
qed

end
