(* ===== verification/At_Least_Once.thy ===== *)
theory At_Least_Once
  imports Send_Future Consumer_Trait Producer_Trait
begin

text \<open>
  \<open>examples/at_least_once.rs\<close>: the program that copies every message of an input topic to the
  output topics and stores the offset of a message when all copies are delivered. It composes
  the stream consumer's \<open>recv\<close>, the producer's \<open>send\<close> and \<open>store_offset_from_message\<close>; the
  producer's thread, librdkafka and the main task interleave.
\<close>

section \<open>Setting up\<close>

text \<open>\<open>Result::expect\<close>: the panic shows the message and the error.\<close>

definition result_expect :: "('e \<Rightarrow> string) \<Rightarrow> string \<Rightarrow> 'e + 'a \<Rightarrow> 'a rust" where
  "result_expect dbg msg r = (case r of Inr x \<Rightarrow> Ret x | Inl e \<Rightarrow> Panic (msg @ '': '' @ dbg e))"

definition consumer_settings :: "bytes \<Rightarrow> bytes \<Rightarrow> (bytes \<times> bytes) list" where
  "consumer_settings brokers group_id =
     [(''group.id'', group_id), (''bootstrap.servers'', brokers), (''enable.partition.eof'', ''false''),
      (''session.timeout.ms'', ''6000''), (''enable.auto.commit'', ''true''), (''auto.commit.interval.ms'', ''5000''),
      (''enable.auto.offset.store'', ''false'')]"

definition create_consumer ::
    "'w client_api \<Rightarrow> ('w, 'c) create_api \<Rightarrow> 'c conf_api \<Rightarrow> 'c producer_conf_api \<Rightarrow> 'w consumer_api \<Rightarrow> tpl_api \<Rightarrow> error_api
      \<Rightarrow> ('s, waker option) slab_api \<Rightarrow> map_iter \<Rightarrow> (log_level \<Rightarrow> bool) \<Rightarrow> arc \<Rightarrow> bytes \<Rightarrow> bytes \<Rightarrow> bytes \<Rightarrow> 'w world
      \<Rightarrow> ('w world \<times> 's StreamConsumer) rust" where
  "create_consumer api crapi conf pconf capi tapi eapi sapi iter lg context brokers group_id topic w =
     rust_bind (stream_consumer_from_config_and_context api crapi conf pconf capi sapi iter w
       (config_set_log_level
          (foldl (\<lambda>config (key, value). config_set config key value) (client_config_new lg) (consumer_settings brokers group_id))
          Level_Debug) context) (\<lambda>(w, r).
     rust_bind (result_expect (kafka_error_debug eapi) ''Consumer creation failed'' r) (\<lambda>consumer.
     rust_bind (subscribe capi tapi eapi w [topic]) (\<lambda>(w, r).
     rust_map (\<lambda>_. (w, consumer)) (result_expect (kafka_error_debug eapi) ''Can't subscribe to specified topic'' r))))"

definition create_producer ::
    "'w client_api \<Rightarrow> ('w, 'c) create_api \<Rightarrow> 'c conf_api \<Rightarrow> 'c producer_conf_api \<Rightarrow> error_api \<Rightarrow> map_iter
      \<Rightarrow> (log_level \<Rightarrow> bool) \<Rightarrow> arc \<Rightarrow> addr \<Rightarrow> bytes \<Rightarrow> 'w world \<Rightarrow> ('w world \<times> FutureProducer) rust" where
  "create_producer api crapi conf pconf eapi iter lg context thread brokers w =
     rust_bind (future_producer_from_config_and_context api crapi conf pconf iter w
       (config_set (config_set (client_config_new lg) ''bootstrap.servers'' brokers) ''queue.buffering.max.ms'' ''0'')
       context False thread) (\<lambda>(w, r).
     rust_map (Pair w) (result_expect (kafka_error_debug eapi) ''Producer creation failed'' r))"

text \<open>The callback of \<open>LoggingConsumerContext\<close>.\<close>

definition logging_commit_callback :: "error_api \<Rightarrow> unit KafkaResult \<Rightarrow> log_level \<times> bytes" where
  "logging_commit_callback eapi result =
     (case result of
        Inr _ \<Rightarrow> (INFO, ''Offsets committed successfully'')
      | Inl e \<Rightarrow> (WARN, ''Error while committing offsets: '' @ kafka_error_display eapi e))"

section \<open>The main task\<close>

text \<open>The copy of a message for one output topic.\<close>

definition output_record :: "BorrowedMessage \<Rightarrow> bytes \<Rightarrow> (bytes, bytes, 'h) FutureRecord" where
  "output_record m output_topic =
     (let record = future_record_to output_topic;
          record = (case bm_payload m of Some p \<Rightarrow> fr_set_payload record p | None \<Rightarrow> record);
          record = (case bm_key m of Some k \<Rightarrow> fr_set_key record k | None \<Rightarrow> record)
      in record)"

text \<open>
  The functions the program runs on: librdkafka for the producer and for the consumer, and the
  slab of wakers.
\<close>

record ('w, 'h, 'c, 's) relay_api =
  ra_client :: "'w client_api"
  ra_producer :: "('w, 'h) producer_api"
  ra_headers :: "'h headers_api"
  ra_messages :: "'h message_api"
  rc_client :: "'c client_api"
  rc_consumer :: "'c consumer_api"
  rc_tpl :: tpl_api
  rc_slab :: "('s, waker option) slab_api"

text \<open>
  The task waits in \<open>recv\<close> (with its stream, once it was polled), waits for the joined calls of
  \<open>send\<close>, or has panicked. A call that was not polled yet has no state.
\<close>

type_synonym 'h send_call = "(bytes, bytes, 'h) send_state option"

datatype 'h relay_task =
    Relay_Recv "MessageStream option"
  | Relay_Join BorrowedMessage "(bytes \<times> 'h send_call) list"
  | Relay_Panic

record ('w, 'h, 'c, 's) relay =
  rl_delivery :: "('w, 'h) delivery_sys"
  rl_world :: "'c world"
  rl_consumer :: "'s StreamConsumer"
  rl_task :: "'h relay_task"
  rl_received :: "BorrowedMessage list"
  rl_accepted :: "addr \<rightharpoonup> 'h producev_args"
  rl_stored :: "(BorrowedMessage \<times> unit KafkaResult) list"

text \<open>
  \<open>rl_received\<close> are the messages that \<open>recv\<close> yielded, \<open>rl_accepted\<close> what librdkafka accepted
  under each opaque, and \<open>rl_stored\<close> the calls of \<open>store_offset_from_message\<close> with their
  results.
\<close>

definition relay_init :: "'w world \<Rightarrow> 'c world \<Rightarrow> 's StreamConsumer \<Rightarrow> ('w, 'h, 'c, 's) relay" where
  "relay_init pw cw consumer =
     \<lparr>rl_delivery = delivery_init pw, rl_world = cw, rl_consumer = consumer, rl_task = Relay_Recv None,
      rl_received = [], rl_accepted = Map.empty, rl_stored = []\<rparr>"

text \<open>What the task does with the outcome of a poll of \<open>recv\<close>. An error is logged.\<close>

definition relay_received ::
    "bytes list \<Rightarrow> MessageStream \<Rightarrow> 's \<times> 'c world \<times> BorrowedMessage KafkaResult Poll \<Rightarrow> ('w, 'h, 'c, 's) relay
      \<Rightarrow> ('w, 'h, 'c, 's) relay" where
  "relay_received output_topics stream res s =
     (case res of
        (wakers, w, p) \<Rightarrow>
          let s = s\<lparr>rl_world := w, rl_consumer := rl_consumer s\<lparr>sc_wakers := wakers\<rparr>\<rparr> in
          (case p of
             Pending \<Rightarrow> s\<lparr>rl_task := Relay_Recv (Some stream)\<rparr>
           | Ready (Inl e) \<Rightarrow> s\<lparr>rl_task := Relay_Recv None\<rparr>
           | Ready (Inr m) \<Rightarrow>
               s\<lparr>rl_task := Relay_Join m (map (\<lambda>output_topic. (output_topic, None)) output_topics),
                 rl_received := rl_received s @ [m]\<rparr>))"

text \<open>
  \<open>try_join_all\<close> is ready with the first error, or with all results once every call has one.
  On an error \<open>expect\<close> panics.
\<close>

fun call_failed :: "'h send_call \<Rightarrow> bool" where
  "call_failed (Some (Send_Done (Inl e))) = True"
| "call_failed _ = False"

fun call_delivered :: "'h send_call \<Rightarrow> bool" where
  "call_delivered (Some (Send_Done (Inr d))) = True"
| "call_delivered _ = False"

definition relay_store ::
    "('w, 'h, 'c, 's) relay_api \<Rightarrow> BorrowedMessage \<Rightarrow> ('w, 'h, 'c, 's) relay \<Rightarrow> ('w, 'h, 'c, 's) relay" where
  "relay_store ra m s =
     (case store_offset_from_message (rc_consumer ra) (rl_world s) m of
        (w, r) \<Rightarrow> s\<lparr>rl_world := w, rl_stored := rl_stored s @ [(m, r)], rl_task := Relay_Recv None\<rparr>)"

definition set_call :: "nat \<Rightarrow> 'h send_call \<Rightarrow> (bytes \<times> 'h send_call) list \<Rightarrow> (bytes \<times> 'h send_call) list" where
  "set_call i c calls = calls[i := (fst (calls ! i), c)]"

text \<open>The senders that calls have made and not handed over yet.\<close>

fun call_sender :: "'h send_call \<Rightarrow> addr option" where
  "call_sender (Some (Send_Queue _ r)) = Some (box_into_ptr (br_delivery_opaque r))"
| "call_sender _ = None"

definition held_senders :: "(bytes \<times> 'h send_call) list \<Rightarrow> addr set" where
  "held_senders calls = {p. \<exists>c \<in> set calls. call_sender (snd c) = Some p}"

definition relay_tried ::
    "('w, 'h, 'c, 's) relay_api \<Rightarrow> nat \<Rightarrow> (bytes, bytes, box, 'h) BaseRecord \<Rightarrow> 'w world \<times> (bytes, bytes, 'h) send_state
      \<Rightarrow> ('w, 'h, 'c, 's) relay \<Rightarrow> ('w, 'h, 'c, 's) relay" where
  "relay_tried ra i r res s =
     (case (res, rl_task s) of
        ((w, st), Relay_Join m calls) \<Rightarrow>
          let accepted = producev_accepts (ra_producer ra) slice_to_bytes slice_to_bytes r (ds_world (rl_delivery s));
              p = box_into_ptr (br_delivery_opaque r)
          in s\<lparr>rl_delivery := send_tried accepted p w (rl_delivery s), rl_task := Relay_Join m (set_call i (Some st) calls),
               rl_accepted := (if accepted then (rl_accepted s)(p \<mapsto> record_args slice_to_bytes slice_to_bytes box_into_ptr r)
                               else rl_accepted s)\<rparr>
      | _ \<Rightarrow> s)"

abbreviation send_timeout :: timeout where
  "send_timeout \<equiv> After (from_millis 1000)"

abbreviation copy_record :: "BorrowedMessage \<Rightarrow> bytes \<Rightarrow> box \<Rightarrow> (bytes, bytes, box, 'h) BaseRecord" where
  "copy_record m output_topic tx \<equiv> into_base_record (output_record m output_topic) tx"

text \<open>
  Reports arrive, the producer's thread serves them and time passes at any moment. The
  executor polls the calls of \<open>send\<close> in any order. Boxes that exist at the same time have
  different addresses.
\<close>

inductive relay_step ::
    "('w, 'h, 'c, 's) relay_api \<Rightarrow> consumer_context \<Rightarrow> waker \<Rightarrow> bytes list \<Rightarrow> ('w, 'h, 'c, 's) relay \<Rightarrow> ('w, 'h, 'c, 's) relay \<Rightarrow> bool"
  for ra :: "('w, 'h, 'c, 's) relay_api" and ctx :: consumer_context and waker :: waker and output_topics :: "bytes list" where
  rl_recv: "rl_task s = Relay_Recv None \<Longrightarrow>
     stream_consumer_recv (rc_client ra) (rc_consumer ra) (rc_tpl ra) ctx (rc_slab ra) (rl_consumer s) waker (rl_world s)
       = (stream, Some (Ret res)) \<Longrightarrow>
     relay_step ra ctx waker output_topics s (relay_received output_topics stream res s)"
| rl_recv_again: "rl_task s = Relay_Recv (Some stream) \<Longrightarrow>
     recv_poll (rc_client ra) (rc_consumer ra) (rc_tpl ra) ctx (rc_slab ra) stream waker (sc_wakers (rl_consumer s)) (rl_world s)
       = Some (Ret res) \<Longrightarrow>
     relay_step ra ctx waker output_topics s (relay_received output_topics stream res s)"
| rl_recv_panics: "rl_task s = Relay_Recv None \<Longrightarrow>
     snd (stream_consumer_recv (rc_client ra) (rc_consumer ra) (rc_tpl ra) ctx (rc_slab ra) (rl_consumer s) waker (rl_world s))
       = Some (Panic msg) \<Longrightarrow>
     relay_step ra ctx waker output_topics s (s\<lparr>rl_task := Relay_Panic\<rparr>)"
| rl_again_panics: "rl_task s = Relay_Recv (Some stream) \<Longrightarrow>
     recv_poll (rc_client ra) (rc_consumer ra) (rc_tpl ra) ctx (rc_slab ra) stream waker (sc_wakers (rl_consumer s)) (rl_world s)
       = Some (Panic msg) \<Longrightarrow>
     relay_step ra ctx waker output_topics s (s\<lparr>rl_task := Relay_Panic\<rparr>)"
| rl_start: "rl_task s = Relay_Join m calls \<Longrightarrow> i < length calls \<Longrightarrow> snd (calls ! i) = None \<Longrightarrow>
     box_into_ptr tx \<notin> ds_issued (rl_delivery s) \<union> held_senders calls \<Longrightarrow>
     send_start (ra_client ra) tx (output_record m (fst (calls ! i))) (ds_world (rl_delivery s)) = (w, st) \<Longrightarrow>
     relay_step ra ctx waker output_topics s
       (s\<lparr>rl_delivery := (rl_delivery s)\<lparr>ds_world := w\<rparr>, rl_task := Relay_Join m (set_call i (Some st) calls)\<rparr>)"
| rl_try: "rl_task s = Relay_Join m calls \<Longrightarrow> i < length calls \<Longrightarrow> snd (calls ! i) = Some (Send_Queue start r) \<Longrightarrow>
     send_try (ra_client ra) (ra_producer ra) slice_to_bytes slice_to_bytes send_timeout start r (ds_world (rl_delivery s)) = res \<Longrightarrow>
     relay_step ra ctx waker output_topics s (relay_tried ra i r res s)"
| rl_resolved: "rl_task s = Relay_Join m calls \<Longrightarrow> i < length calls \<Longrightarrow> snd (calls ! i) = Some (Send_Wait tx) \<Longrightarrow>
     delivery_future_poll (rl_delivery s) (box_into_ptr tx) = Future_Ready (Ok d) \<Longrightarrow>
     relay_step ra ctx waker output_topics s (s\<lparr>rl_task := Relay_Join m (set_call i (Some (Send_Done d)) calls)\<rparr>)"
| rl_join_failed: "rl_task s = Relay_Join m calls \<Longrightarrow> list_ex (call_failed \<circ> snd) calls \<Longrightarrow>
     relay_step ra ctx waker output_topics s (s\<lparr>rl_task := Relay_Panic\<rparr>)"
| rl_joined: "rl_task s = Relay_Join m calls \<Longrightarrow> list_all (call_delivered \<circ> snd) calls \<Longrightarrow>
     relay_step ra ctx waker output_topics s (relay_store ra m s)"
| rl_reported: "ev_type ev = RD_KAFKA_EVENT_DR \<Longrightarrow> distinct (event_opaques ev) \<Longrightarrow>
     set (event_opaques ev) \<subseteq> ds_inflight (rl_delivery s) \<Longrightarrow>
     relay_step ra ctx waker output_topics s
       (s\<lparr>rl_delivery := (rl_delivery s)\<lparr>ds_inflight := ds_inflight (rl_delivery s) - set (event_opaques ev),
            ds_queue := ds_queue (rl_delivery s) @ [ev]\<rparr>\<rparr>)"
| rl_served: "delivery_serve (ra_headers ra) (ra_messages ra) (rl_delivery s) = Ret d \<Longrightarrow>
     relay_step ra ctx waker output_topics s (s\<lparr>rl_delivery := d\<rparr>)"
| rl_elapse: "relay_step ra ctx waker output_topics s (s\<lparr>rl_delivery := (rl_delivery s)\<lparr>ds_world := w\<rparr>\<rparr>)"


section \<open>The invariant\<close>

text \<open>
  A copy of \<open>m\<close> for topic \<open>t\<close> is delivered: librdkafka accepted exactly the copy's content, and
  the future of that record resolved with a success.
\<close>

definition delivered_copy :: "('w, 'h, 'c, 's) relay \<Rightarrow> BorrowedMessage \<Rightarrow> bytes \<Rightarrow> bool" where
  "delivered_copy s m t \<longleftrightarrow>
     (\<exists>tx d. rl_accepted s (box_into_ptr tx) = Some (record_args slice_to_bytes slice_to_bytes box_into_ptr (copy_record m t tx))
        \<and> delivery_future_poll (rl_delivery s) (box_into_ptr tx) = Future_Ready (Ok (Ok d)))"

fun call_ok :: "('w, 'h, 'c, 's) relay \<Rightarrow> BorrowedMessage \<Rightarrow> bytes \<Rightarrow> 'h send_call \<Rightarrow> bool" where
  "call_ok s m t (Some (Send_Queue start r)) \<longleftrightarrow>
     (\<exists>tx. r = copy_record m t tx \<and> box_into_ptr tx \<notin> ds_issued (rl_delivery s))"
| "call_ok s m t (Some (Send_Wait tx)) \<longleftrightarrow>
     rl_accepted s (box_into_ptr tx) = Some (record_args slice_to_bytes slice_to_bytes box_into_ptr (copy_record m t tx))"
| "call_ok s m t (Some (Send_Done (Inr d))) \<longleftrightarrow> delivered_copy s m t"
| "call_ok s m t _ \<longleftrightarrow> True"

definition senders_distinct :: "(bytes \<times> 'h send_call) list \<Rightarrow> bool" where
  "senders_distinct calls \<longleftrightarrow>
     (\<forall>i < length calls. \<forall>j < length calls. i \<noteq> j \<longrightarrow>
        call_sender (snd (calls ! i)) \<noteq> None \<longrightarrow> call_sender (snd (calls ! i)) \<noteq> call_sender (snd (calls ! j)))"

definition task_inv :: "bytes list \<Rightarrow> ('w, 'h, 'c, 's) relay \<Rightarrow> bool" where
  "task_inv output_topics s \<longleftrightarrow>
     (case rl_task s of
        Relay_Recv _ \<Rightarrow> rl_received s = map fst (rl_stored s)
      | Relay_Join m calls \<Rightarrow>
          rl_received s = map fst (rl_stored s) @ [m] \<and> map fst calls = output_topics
          \<and> (\<forall>i < length calls. call_ok s m (fst (calls ! i)) (snd (calls ! i))) \<and> senders_distinct calls
      | Relay_Panic \<Rightarrow> \<exists>ms. rl_received s = map fst (rl_stored s) @ ms \<and> length ms \<le> 1)"

definition relay_inv :: "bytes list \<Rightarrow> ('w, 'h, 'c, 's) relay \<Rightarrow> bool" where
  "relay_inv output_topics s \<longleftrightarrow>
     dom (rl_accepted s) \<subseteq> ds_issued (rl_delivery s) \<and> task_inv output_topics s
     \<and> (\<forall>m \<in> set (map fst (rl_stored s)). \<forall>t \<in> set output_topics. delivered_copy s m t)"

lemma relay_inv_init: "relay_inv output_topics (relay_init pw cw consumer)"
  by (simp add: relay_inv_def task_inv_def relay_init_def)

text \<open>What was accepted and what was delivered stays so.\<close>

definition relay_grows :: "('w, 'h, 'c, 's) relay \<Rightarrow> ('w, 'h, 'c, 's) relay \<Rightarrow> bool" where
  "relay_grows s s' \<longleftrightarrow> rl_accepted s \<subseteq>\<^sub>m rl_accepted s' \<and> ds_channel (rl_delivery s) \<subseteq>\<^sub>m ds_channel (rl_delivery s')"

lemma delivered_copy_grows: "relay_grows s s' \<Longrightarrow> delivered_copy s m t \<Longrightarrow> delivered_copy s' m t"
  unfolding relay_grows_def delivered_copy_def delivery_future_poll_iff by (meson map_le_Some)

lemma call_ok_grows:
  assumes "relay_grows s s'" and "call_ok s m t c"
    and "\<And>p. call_sender c = Some p \<Longrightarrow> p \<notin> ds_issued (rl_delivery s')"
  shows "call_ok s' m t c"
  using assms
  by (cases "(s, m, t, c)" rule: call_ok.cases)
    (auto simp: relay_grows_def dest: map_le_Some intro: delivered_copy_grows)

lemma call_sender_fresh: "call_ok s m t c \<Longrightarrow> call_sender c = Some p \<Longrightarrow> p \<notin> ds_issued (rl_delivery s)"
  by (cases "(s, m, t, c)" rule: call_ok.cases) auto

section \<open>Preservation\<close>

lemma relay_inv_delivery:
  assumes "relay_inv T s" and "ds_issued d = ds_issued (rl_delivery s)" and "ds_channel (rl_delivery s) \<subseteq>\<^sub>m ds_channel d"
  shows "relay_inv T (s\<lparr>rl_delivery := d\<rparr>)"
proof -
  let ?s = "s\<lparr>rl_delivery := d\<rparr>"
  have g: "relay_grows s ?s" using assms(3) by (simp add: relay_grows_def)
  have "call_ok ?s m t c" if "call_ok s m t c" for m t c
    by (rule call_ok_grows [OF g that]) (use call_sender_fresh [OF that] assms(2) in simp)
  with assms(1,2) delivered_copy_grows [OF g] show ?thesis
    unfolding relay_inv_def task_inv_def by (simp split: relay_task.splits)
qed

lemma set_call_fst: "map fst (set_call i c calls) = map fst calls"
proof (cases "i < length calls")
  case True
  then have "map fst (set_call i c calls) = (map fst calls)[i := map fst calls ! i]" by (simp add: set_call_def map_update)
  then show ?thesis by simp
qed (simp add: set_call_def list_update_beyond)

lemma set_call_simps [simp]:
  "length (set_call i c calls) = length calls"
  "map fst (set_call i c calls) = map fst calls"
  "j < length calls \<Longrightarrow> set_call i c calls ! j = (fst (calls ! j), if i = j then c else snd (calls ! j))"
  by (simp_all only: set_call_fst) (simp_all add: set_call_def nth_list_update)

lemma senders_distinctD:
  "senders_distinct calls \<Longrightarrow> i < length calls \<Longrightarrow> j < length calls \<Longrightarrow> i \<noteq> j \<Longrightarrow> call_sender (snd (calls ! i)) = Some p \<Longrightarrow>
    call_sender (snd (calls ! j)) \<noteq> Some p"
  unfolding senders_distinct_def by (metis option.distinct(1))

lemma senders_set_call:
  assumes "senders_distinct calls" and "i < length calls"
    and "call_sender c = None \<or> call_sender c = call_sender (snd (calls ! i)) \<or> (\<exists>p. call_sender c = Some p \<and> p \<notin> held_senders calls)"
  shows "senders_distinct (set_call i c calls)"
proof -
  have new: "call_sender c \<noteq> call_sender (snd (calls ! j))" if "j < length calls" "j \<noteq> i" "call_sender c \<noteq> None" for j
    using assms(2,3) that senders_distinctD [OF assms(1), of i j] by (force simp: held_senders_def)
  show ?thesis
    unfolding senders_distinct_def set_call_simps(1)
  proof (intro allI impI)
    fix a b
    assume "a < length calls" "b < length calls" "a \<noteq> b" "call_sender (snd (set_call i c calls ! a)) \<noteq> None"
    then show "call_sender (snd (set_call i c calls ! a)) \<noteq> call_sender (snd (set_call i c calls ! b))"
      using new [of a] new [of b] senders_distinctD [OF assms(1), of a b] by (cases "i = a"; cases "i = b") auto
  qed
qed

lemma relay_inv_call:
  assumes "relay_inv T s" and "rl_task s = Relay_Join m calls" and "i < length calls"
    and "rl_task s' = Relay_Join m (set_call i c calls)" and "rl_received s' = rl_received s" and "rl_stored s' = rl_stored s"
    and "relay_grows s s'" and "dom (rl_accepted s') \<subseteq> ds_issued (rl_delivery s')"
    and "call_ok s' m (fst (calls ! i)) c" and "senders_distinct (set_call i c calls)"
    and "\<And>j p. j < length calls \<Longrightarrow> j \<noteq> i \<Longrightarrow> call_sender (snd (calls ! j)) = Some p \<Longrightarrow> p \<notin> ds_issued (rl_delivery s')"
  shows "relay_inv T s'"
proof -
  have ok: "call_ok s m (fst (calls ! j)) (snd (calls ! j))" if "j < length calls" for j
    using assms(1,2) that by (simp add: relay_inv_def task_inv_def)
  have "call_ok s' m (fst (calls ! j)) (if i = j then c else snd (calls ! j))" if "j < length calls" for j
    using assms(9) call_ok_grows [OF assms(7) ok [OF that]] assms(11) [OF that] by auto
  then show ?thesis
    using assms(1,2,4,5,6,8,10) delivered_copy_grows [OF assms(7)] by (simp add: relay_inv_def task_inv_def)
qed

lemma relay_tried_inv:
  assumes inv: "relay_inv T s" and task: "rl_task s = Relay_Join m calls" and i: "i < length calls"
    and call: "snd (calls ! i) = Some (Send_Queue start r)"
    and tried: "send_try (ra_client ra) (ra_producer ra) slice_to_bytes slice_to_bytes send_timeout start r (ds_world (rl_delivery s)) = (w, st)"
  shows "relay_inv T (relay_tried ra i r (w, st) s)"
proof -
  have ok: "call_ok s m (fst (calls ! i)) (Some (Send_Queue start r))" and sd: "senders_distinct calls"
    using inv task i call by (auto simp: relay_inv_def task_inv_def dest: spec [of _ i])
  then obtain tx where r: "r = copy_record m (fst (calls ! i)) tx" and new: "box_into_ptr tx \<notin> ds_issued (rl_delivery s)" by auto
  have acc: "dom (rl_accepted s) \<subseteq> ds_issued (rl_delivery s)" using inv by (simp add: relay_inv_def)
  have old: "p \<notin> ds_issued (rl_delivery s)" "p \<noteq> box_into_ptr tx"
    if "j < length calls" "j \<noteq> i" "call_sender (snd (calls ! j)) = Some p" for j p
  proof -
    have "call_ok s m (fst (calls ! j)) (snd (calls ! j))" using inv task that(1) by (simp add: relay_inv_def task_inv_def)
    then show "p \<notin> ds_issued (rl_delivery s)" using that(3) by (rule call_sender_fresh)
    have "call_sender (snd (calls ! i)) \<noteq> call_sender (snd (calls ! j))"
      using sd i that(1,2) call unfolding senders_distinct_def by (metis call_sender.simps(1) option.distinct(1))
    with that(3) call r show "p \<noteq> box_into_ptr tx" by auto
  qed
  have st: "(\<exists>e. st = Send_Done (Err (e, record_message slice_to_bytes slice_to_bytes r))) \<or> st = Send_Queue start r \<or> st = Send_Wait tx"
    using tried r by (cases st) (auto dest: send_try_queue send_try_wait send_try_done)
  have taken: "producev_accepts (ra_producer ra) slice_to_bytes slice_to_bytes r (ds_world (rl_delivery s)) \<longleftrightarrow> st = Send_Wait tx"
      "br_delivery_opaque r = tx"
    using send_try_accepts [OF tried] r by simp_all
  define z where "z = relay_tried ra i r (w, st) s"
  have z: "rl_task z = Relay_Join m (set_call i (Some st) calls)" "rl_received z = rl_received s" "rl_stored z = rl_stored s"
      "rl_accepted z = (if st = Send_Wait tx then (rl_accepted s)(box_into_ptr tx \<mapsto> record_args slice_to_bytes slice_to_bytes box_into_ptr r)
         else rl_accepted s)"
      "ds_channel (rl_delivery z) = ds_channel (rl_delivery s)"
      "ds_issued (rl_delivery z) = (if st = Send_Wait tx then insert (box_into_ptr tx) (ds_issued (rl_delivery s)) else ds_issued (rl_delivery s))"
    by (simp_all add: z_def relay_tried_def send_tried_def task taken Let_def)
  show ?thesis unfolding z_def [symmetric]
  proof (rule relay_inv_call [OF inv task i, where c = "Some st"])
    show "senders_distinct (set_call i (Some st) calls)"
      using sd i st call by (intro senders_set_call) auto
    show "call_ok z m (fst (calls ! i)) (Some st)"
      using st new r by (auto simp: z)
    show "relay_grows s z"
      using st new acc by (auto simp: z relay_grows_def map_le_def)
    show "dom (rl_accepted z) \<subseteq> ds_issued (rl_delivery z)"
      using acc by (simp add: z subset_insertI2)
    show "p \<notin> ds_issued (rl_delivery z)"
      if "j < length calls" "j \<noteq> i" "call_sender (snd (calls ! j)) = Some p" for j p
      using old [OF that] by (simp add: z)
  qed (simp_all add: z)
qed

lemma relay_received_inv:
  assumes "relay_inv T s" and "rl_task s = Relay_Recv k"
  shows "relay_inv T (relay_received T stream res s)"
proof -
  obtain wakers w p where res: "res = (wakers, w, p)" by (cases res)
  have g: "relay_grows s (relay_received T stream res s)"
    by (auto simp: relay_received_def relay_grows_def Let_def res split: Poll.splits sum.splits)
  have "senders_distinct (map (\<lambda>t. (t, None)) T)" by (simp add: senders_distinct_def)
  with assms delivered_copy_grows [OF g] show ?thesis
    by (auto simp: relay_inv_def task_inv_def relay_received_def Let_def res comp_def split: Poll.splits sum.splits)
qed

lemma relay_store_inv:
  assumes "relay_inv T s" and "rl_task s = Relay_Join m calls" and "list_all (call_delivered \<circ> snd) calls"
  shows "relay_inv T (relay_store ra m s)"
proof -
  have g: "relay_grows s (relay_store ra m s)" by (auto simp: relay_store_def relay_grows_def split: prod.splits)
  have "delivered_copy s m t" if "t \<in> set T" for t
  proof -
    have "map fst calls = T" using assms(1,2) by (simp add: relay_inv_def task_inv_def)
    with that obtain i where i: "i < length calls" "fst (calls ! i) = t" by (metis in_set_conv_nth length_map nth_map)
    then have "call_delivered (snd (calls ! i))" using assms(3) by (simp add: list_all_length)
    then obtain d where "snd (calls ! i) = Some (Send_Done (Inr d))" by (cases "snd (calls ! i)" rule: call_delivered.cases) auto
    moreover have "call_ok s m (fst (calls ! i)) (snd (calls ! i))"
      using assms(1,2) i(1) by (simp add: relay_inv_def task_inv_def)
    ultimately show ?thesis using i(2) by simp
  qed
  then have "\<forall>m' \<in> set (map fst (rl_stored s)) \<union> {m}. \<forall>t \<in> set T. delivered_copy (relay_store ra m s) m' t"
    using assms(1) delivered_copy_grows [OF g] by (auto simp: relay_inv_def)
  with assms(1,2) show ?thesis
    by (auto simp: relay_inv_def task_inv_def relay_store_def split: prod.splits)
qed

lemma relay_panic_inv:
  assumes "relay_inv T s" and "rl_task s \<noteq> Relay_Panic"
  shows "relay_inv T (s\<lparr>rl_task := Relay_Panic\<rparr>)"
proof -
  have "relay_grows s (s\<lparr>rl_task := Relay_Panic\<rparr>)" by (simp add: relay_grows_def)
  then have "delivered_copy s m t \<Longrightarrow> delivered_copy (s\<lparr>rl_task := Relay_Panic\<rparr>) m t" for m t by (rule delivered_copy_grows)
  with assms show ?thesis by (auto simp: relay_inv_def task_inv_def split: relay_task.splits)
qed

text \<open>On the delivery system, a step of the program is a step or nothing.\<close>

lemma relay_delivery_step:
  assumes "relay_step ra ctx waker T s s'" and "relay_inv T s"
  shows "(delivery_step (ra_producer ra) slice_to_bytes slice_to_bytes (ra_headers ra) (ra_messages ra))\<^sup>*\<^sup>*
    (rl_delivery s) (rl_delivery s')"
  using assms(1)
proof cases
  case (rl_try m calls i start r res)
  obtain w st where res: "res = (w, st)" by (cases res)
  have "call_ok s m (fst (calls ! i)) (Some (Send_Queue start r))"
    using assms(2) rl_try by (auto simp: relay_inv_def task_inv_def dest: spec [of _ i])
  then have "box_into_ptr (br_delivery_opaque r) \<notin> ds_issued (rl_delivery s)" by auto
  from send_tried_step [OF rl_try(5) [unfolded res] this] rl_try(1,2) res show ?thesis
    by (auto simp: relay_tried_def Let_def)
next
  case (rl_start m calls i tx w st)
  then show ?thesis by (simp add: r_into_rtranclp ds_elapse)
next
  case (rl_reported ev)
  then show ?thesis by (simp add: r_into_rtranclp ds_report)
next
  case (rl_served d)
  then show ?thesis by (simp add: r_into_rtranclp ds_serve)
next
  case (rl_elapse w)
  then show ?thesis by (simp add: r_into_rtranclp ds_elapse)
qed (auto simp: relay_received_def relay_store_def Let_def split: prod.splits Poll.splits sum.splits)

lemma inv_sender_fresh:
  assumes "relay_inv T s" and "rl_task s = Relay_Join m calls" and "j < length calls" and "call_sender (snd (calls ! j)) = Some p"
  shows "p \<notin> ds_issued (rl_delivery s)"
  using assms call_sender_fresh [of s m "fst (calls ! j)" "snd (calls ! j)" p] by (simp add: relay_inv_def task_inv_def)

lemma relay_start_inv:
  assumes "relay_inv T s" and "rl_task s = Relay_Join m calls" and "i < length calls"
    and "box_into_ptr tx \<notin> ds_issued (rl_delivery s) \<union> held_senders calls"
    and "send_start (ra_client ra) tx (output_record m (fst (calls ! i))) (ds_world (rl_delivery s)) = (w, st)"
  shows "relay_inv T (s\<lparr>rl_delivery := (rl_delivery s)\<lparr>ds_world := w\<rparr>, rl_task := Relay_Join m (set_call i (Some st) calls)\<rparr>)"
proof -
  obtain t0 where st: "st = Send_Queue t0 (copy_record m (fst (calls ! i)) tx)"
    using assms(5) by (auto simp: send_start_def split: prod.splits)
  have "senders_distinct (set_call i (Some st) calls)"
    using assms(1-4) st by (intro senders_set_call) (auto simp: relay_inv_def task_inv_def)
  with assms(1,4) st inv_sender_fresh [OF assms(1,2)] show ?thesis
    by (intro relay_inv_call [OF assms(1-3), where c = "Some st"]) (auto simp: relay_grows_def relay_inv_def)
qed

lemma relay_resolved_inv:
  assumes "relay_inv T s" and "rl_task s = Relay_Join m calls" and "i < length calls"
    and "snd (calls ! i) = Some (Send_Wait tx)" and "delivery_future_poll (rl_delivery s) (box_into_ptr tx) = Future_Ready (Ok d)"
  shows "relay_inv T (s\<lparr>rl_task := Relay_Join m (set_call i (Some (Send_Done d)) calls)\<rparr>)" (is "relay_inv T ?s")
proof -
  have "call_ok s m (fst (calls ! i)) (Some (Send_Wait tx))"
    using assms by (auto simp: relay_inv_def task_inv_def dest: spec [of _ i])
  then have "call_ok ?s m (fst (calls ! i)) (Some (Send_Done d))"
    using assms(5) by (cases d) (auto simp: delivered_copy_def)
  moreover have "senders_distinct (set_call i (Some (Send_Done d)) calls)"
    using assms(1-3) by (intro senders_set_call) (auto simp: relay_inv_def task_inv_def)
  ultimately show ?thesis
    using assms(1) inv_sender_fresh [OF assms(1,2)]
    by (intro relay_inv_call [OF assms(1-3), where c = "Some (Send_Done d)"]) (auto simp: relay_grows_def relay_inv_def)
qed

lemma relay_inv_step:
  assumes "relay_step ra ctx waker T s s'" and "relay_inv T s"
    and "(delivery_step (ra_producer ra) slice_to_bytes slice_to_bytes (ra_headers ra) (ra_messages ra))\<^sup>*\<^sup>* (delivery_init w0) (rl_delivery s)"
  shows "relay_inv T s'"
proof -
  note run = relay_delivery_step [OF assms(1,2)]
  note ch = delivery_channel_grows [OF assms(3) run]
  note delivery_case = relay_inv_delivery [OF assms(2), of "rl_delivery s'"]
  from assms(1) show ?thesis
  proof cases
    case (rl_start m calls i tx w st)
    from relay_start_inv [OF assms(2) rl_start(2,3,5,6)] rl_start(1) show ?thesis by simp
  next
    case (rl_try m calls i start r res)
    obtain w st where res: "res = (w, st)" by (cases res)
    from relay_tried_inv [OF assms(2) rl_try(2-4) rl_try(5) [unfolded res]] rl_try(1) res show ?thesis by simp
  next
    case (rl_resolved m calls i tx d)
    from relay_resolved_inv [OF assms(2) rl_resolved(2-5)] rl_resolved(1) show ?thesis by simp
  next
    case (rl_recv stream res)
    from relay_received_inv [OF assms(2) rl_recv(2)] rl_recv(1) show ?thesis by simp
  next
    case (rl_recv_again stream res)
    from relay_received_inv [OF assms(2) rl_recv_again(2)] rl_recv_again(1) show ?thesis by simp
  next
    case (rl_joined m calls)
    from relay_store_inv [OF assms(2) rl_joined(2,3)] rl_joined(1) show ?thesis by simp
  next
    case (rl_served d)
    with delivery_case ch show ?thesis by (auto simp: delivery_serve_def split: list.splits)
  next
    case (rl_reported ev)
    with delivery_case ch show ?thesis by simp
  next
    case (rl_elapse w)
    with delivery_case ch show ?thesis by simp
  qed (simp_all add: relay_panic_inv [OF assms(2)])
qed

lemma relay_run_inv:
  assumes "(relay_step ra ctx waker T)\<^sup>*\<^sup>* (relay_init pw cw consumer) s"
  shows "relay_inv T s \<and>
    (delivery_step (ra_producer ra) slice_to_bytes slice_to_bytes (ra_headers ra) (ra_messages ra))\<^sup>*\<^sup>* (delivery_init pw) (rl_delivery s)"
  using assms
proof (induction rule: rtranclp_induct)
  case base
  show ?case by (simp add: relay_inv_init, simp add: relay_init_def)
next
  case (step s1 s2)
  with relay_inv_step [OF step.hyps(2)] relay_delivery_step [OF step.hyps(2)] show ?case
    by (meson rtranclp_trans)
qed

section \<open>At least once\<close>

text \<open>C15. The program delivers at least once: in every run, when the offset of a message has been
  stored, every output topic has a copy of it, with the message's payload and key, that
  librdkafka accepted and whose delivery it confirmed. No message is passed over: the offsets are
  stored in the order the messages were received, and at most the last one received is not
  stored yet.\<close>

theorem at_least_once:
  assumes "(relay_step ra ctx waker output_topics)\<^sup>*\<^sup>* (relay_init pw cw consumer) s"
  shows "(\<forall>m \<in> set (map fst (rl_stored s)). \<forall>t \<in> set output_topics. delivered_copy s m t)
    \<and> (\<exists>rest. rl_received s = map fst (rl_stored s) @ rest \<and> length rest \<le> 1)"
proof -
  have "relay_inv output_topics s" using relay_run_inv [OF assms] by blast
  then show ?thesis by (auto simp: relay_inv_def task_inv_def split: relay_task.splits)
qed

text \<open>The calls whose copies are delivered although they were not polled since.\<close>

definition call_ready :: "('w, 'h, 'c, 's) relay \<Rightarrow> 'h send_call \<Rightarrow> bool" where
  "call_ready s c \<longleftrightarrow> call_delivered c \<or>
     (\<exists>tx d. c = Some (Send_Wait tx) \<and> delivery_future_poll (rl_delivery s) (box_into_ptr tx) = Future_Ready (Ok (Ok d)))"

lemma filter_update_less:
  assumes "i < length xs" and "P (xs ! i)" and "\<not> P y"
  shows "length (filter P (xs[i := y])) < length (filter P xs)"
proof -
  have "filter P xs = filter P (take i xs) @ xs ! i # filter P (drop (Suc i) xs)"
    by (subst (1) id_take_nth_drop [OF assms(1)]) (simp add: assms(2))
  moreover have "xs[i := y] = take i xs @ y # drop (Suc i) xs" using assms(1) by (rule upd_conv_take_nth_drop)
  ultimately show ?thesis using assms(3) by simp
qed

lemma relay_joins:
  assumes "rl_task s = Relay_Join m calls" and "\<forall>i < length calls. call_ready s (snd (calls ! i))"
  shows "\<exists>s' r. (relay_step ra ctx waker T)\<^sup>*\<^sup>* s s' \<and> rl_stored s' = rl_stored s @ [(m, r)] \<and> rl_delivery s' = rl_delivery s"
  using assms
proof (induction "length (filter (Not \<circ> call_delivered \<circ> snd) calls)" arbitrary: s calls rule: less_induct)
  case less
  show ?case
  proof (cases "list_all (call_delivered \<circ> snd) calls")
    case True
    have "relay_step ra ctx waker T s (relay_store ra m s)" using less.prems(1) True by (rule rl_joined)
    moreover have "\<exists>r. rl_stored (relay_store ra m s) = rl_stored s @ [(m, r)] \<and> rl_delivery (relay_store ra m s) = rl_delivery s"
      by (auto simp: relay_store_def split: prod.splits)
    ultimately show ?thesis by blast
  next
    case False
    then obtain i where i: "i < length calls" "\<not> call_delivered (snd (calls ! i))" by (auto simp: list_all_length)
    then obtain tx d where w: "snd (calls ! i) = Some (Send_Wait tx)"
        "delivery_future_poll (rl_delivery s) (box_into_ptr tx) = Future_Ready (Ok (Ok d))"
      using less.prems(2) by (auto simp: call_ready_def)
    let ?calls = "set_call i (Some (Send_Done (Ok d))) calls"
    let ?s = "s\<lparr>rl_task := Relay_Join m ?calls\<rparr>"
    have step: "relay_step ra ctx waker T s ?s" using less.prems(1) i(1) w by (rule rl_resolved)
    have "length (filter (Not \<circ> call_delivered \<circ> snd) ?calls) < length (filter (Not \<circ> call_delivered \<circ> snd) calls)"
      unfolding set_call_def using i by (intro filter_update_less) simp_all
    moreover have "\<forall>j < length ?calls. call_ready ?s (snd (?calls ! j))"
      using less.prems(2) by (auto simp: call_ready_def)
    moreover have "rl_task ?s = Relay_Join m ?calls" by simp
    ultimately obtain s' r where "(relay_step ra ctx waker T)\<^sup>*\<^sup>* ?s s'" "rl_stored s' = rl_stored ?s @ [(m, r)]"
        "rl_delivery s' = rl_delivery ?s"
      using less.hyps [of ?calls ?s] by blast
    with step show ?thesis by (intro exI [of _ s'] exI [of _ r]) (auto intro: converse_rtranclp_into_rtranclp)
  qed
qed

section \<open>A run\<close>

definition sample_relay_api ::
    "(sample_headers producev_args list, sample_headers, RDKafkaEvent list, nat option option list) relay_api" where
  "sample_relay_api =
     \<lparr>ra_client = idle_client, ra_producer = sample_papi, ra_headers = headers_instance, ra_messages = message_instance,
      rc_client = client_instance, rc_consumer = consumer_instance, rc_tpl = tpl_instance, rc_slab = slab_instance\<rparr>"

abbreviation sample_relay_step ::
    "(sample_headers producev_args list, sample_headers, RDKafkaEvent list, nat option option list) relay
      \<Rightarrow> (sample_headers producev_args list, sample_headers, RDKafkaEvent list, nat option option list) relay \<Rightarrow> bool" where
  "sample_relay_step \<equiv> relay_step sample_relay_api DefaultConsumerContext 9 [''out'']"

definition sample_relay_init ::
    "(sample_headers producev_args list, sample_headers, RDKafkaEvent list, nat option option list) relay" where
  "sample_relay_init = relay_init (sample_world []) (sample_world [sample_fetch_event]) sample_stream_consumer"

lemma sample_recv:
  "\<exists>wakers' w'. stream_consumer_recv client_instance consumer_instance tpl_instance DefaultConsumerContext slab_instance
      sample_stream_consumer 9 (sample_world [sample_fetch_event]) =
      (\<lparr>ms_consumer_queue = 1, ms_partition_queue = None, ms_slot = 2\<rparr>, Some (Ret (wakers', w', Ready (Ok input_message))))"
proof -
  let ?wk = "[None, Some (Some 4), Some None] :: nat option option list"
  have reg: "register slab_instance (sc_wakers sample_stream_consumer) = (?wk, 2)"
    by (simp add: register_def slab_instance_def sample_stream_consumer_def)
  from sample_message_polled obtain w' where p: "poll_next client_instance consumer_instance tpl_instance DefaultConsumerContext
      slab_instance \<lparr>ms_consumer_queue = 1, ms_partition_queue = None, ms_slot = 2\<rparr> 9 ?wk (sample_world [sample_fetch_event])
      = Some (Ret (?wk, w', Ready (Some (Ok input_message))))" by blast
  have "message_stream_drop slab_instance ?wk \<lparr>ms_consumer_queue = 1, ms_partition_queue = None, ms_slot = 2\<rparr>
      = Ret [None, Some (Some 4), None]"
    by (simp add: message_stream_drop_def unregister_def slab_instance_def vector_view_def)
  then have "recv_poll client_instance consumer_instance tpl_instance DefaultConsumerContext slab_instance
      \<lparr>ms_consumer_queue = 1, ms_partition_queue = None, ms_slot = 2\<rparr> 9 ?wk (sample_world [sample_fetch_event])
      = Some (Ret ([None, Some (Some 4), None], w', Ready (Ok input_message)))"
    by (simp only: recv_poll_def p option.map rust_bind.simps rust_map.simps expect_simps prod.case Poll.case)
  then show ?thesis
    by (simp add: stream_consumer_recv_def stream_consumer_stream_def message_stream_new_def reg)
      (simp add: sample_stream_consumer_def)
qed

text \<open>The message is received and its copy is queued under the opaque 11.\<close>

lemma sample_relay_sent:
  "\<exists>s. sample_relay_step\<^sup>*\<^sup>* sample_relay_init s \<and> rl_task s = Relay_Join input_message [(''out'', Some (Send_Wait (Box 11)))]
    \<and> ds_inflight (rl_delivery s) = {11} \<and> ds_queue (rl_delivery s) = [] \<and> rl_stored s = []"
proof -
  from sample_recv obtain wakers' w' where recv: "stream_consumer_recv (rc_client sample_relay_api) (rc_consumer sample_relay_api)
      (rc_tpl sample_relay_api) DefaultConsumerContext (rc_slab sample_relay_api) (rl_consumer sample_relay_init) 9 (rl_world sample_relay_init)
      = (\<lparr>ms_consumer_queue = 1, ms_partition_queue = None, ms_slot = 2\<rparr>, Some (Ret (wakers', w', Ready (Ok input_message))))"
    by (auto simp: sample_relay_api_def sample_relay_init_def relay_init_def)
  define s1 where "s1 = relay_received [''out''] \<lparr>ms_consumer_queue = 1, ms_partition_queue = None, ms_slot = 2\<rparr>
      (wakers', w', Ready (Ok input_message)) sample_relay_init"
  have 1: "sample_relay_step sample_relay_init s1"
    unfolding s1_def by (rule rl_recv [OF _ recv]) (simp add: sample_relay_init_def relay_init_def)
  have s1: "rl_task s1 = Relay_Join input_message [(''out'', None)]" "rl_delivery s1 = delivery_init (sample_world [])" "rl_stored s1 = []"
    by (simp_all add: s1_def relay_received_def sample_relay_init_def relay_init_def)
  obtain w and st :: "(bytes, bytes, sample_headers) send_state"
    where start: "send_start (ra_client sample_relay_api) (Box 11) (output_record input_message ''out'') (ds_world (rl_delivery s1)) = (w, st)"
    by (rule prod.exhaust)
  then obtain t0 where st: "st = Send_Queue t0 (copy_record input_message ''out'' (Box 11))"
    by (auto simp: send_start_def split: prod.splits)
  define s2 where "s2 = s1\<lparr>rl_delivery := (rl_delivery s1)\<lparr>ds_world := w\<rparr>,
      rl_task := Relay_Join input_message (set_call 0 (Some st) [(''out'', None)])\<rparr>"
  have 2: "sample_relay_step s1 s2"
    unfolding s2_def
    by (rule rl_start [OF s1(1), where tx = "Box 11"])
      (use start s1(2) in \<open>simp_all add: delivery_init_def held_senders_def\<close>)
  have s2: "rl_task s2 = Relay_Join input_message [(''out'', Some st)]"
    "rl_delivery s2 = (delivery_init (sample_world []))\<lparr>ds_world := w\<rparr>" "rl_stored s2 = []"
    using s1 by (simp_all add: s2_def set_call_def)
  have "\<exists>w2. send_try (ra_client sample_relay_api) (ra_producer sample_relay_api) slice_to_bytes slice_to_bytes send_timeout t0
      (copy_record input_message ''out'' (Box 11)) (ds_world (rl_delivery s2)) = (w2, Send_Wait (Box 11))"
    by (simp add: send_try_def sample_relay_api_def box_opaque.send_result output_record_def future_record_to_def
        fr_set_payload_def fr_set_key_def into_base_record_def Let_def split: option.splits)
  then obtain w2 where tried: "send_try (ra_client sample_relay_api) (ra_producer sample_relay_api) slice_to_bytes slice_to_bytes send_timeout t0
      (copy_record input_message ''out'' (Box 11)) (ds_world (rl_delivery s2)) = (w2, Send_Wait (Box 11))" ..
  define s3 where "s3 = relay_tried sample_relay_api 0 (copy_record input_message ''out'' (Box 11)) (w2, Send_Wait (Box 11)) s2"
  have 3: "sample_relay_step s2 s3"
    unfolding s3_def by (rule rl_try [OF s2(1) _ _ tried]) (simp_all add: st)
  have "rl_task s3 = Relay_Join input_message [(''out'', Some (Send_Wait (Box 11)))] \<and> ds_inflight (rl_delivery s3) = {11}
      \<and> ds_queue (rl_delivery s3) = [] \<and> rl_stored s3 = []"
    using s2 send_try_accepts [OF tried]
    by (simp add: s3_def relay_tried_def send_tried_def set_call_def delivery_init_def box_into_ptr_def)
  with 1 2 3 show ?thesis by (meson converse_rtranclp_into_rtranclp rtranclp.rtrancl_refl)
qed

text \<open>The copy is reported as delivered, and the thread serves the report.\<close>

definition copy_report :: RDKafkaEvent where
  "copy_report = (sample_event RD_KAFKA_EVENT_DR)
     \<lparr>ev_messages := [(bm_ptr sample_message)\<lparr>msg_private := 11\<rparr>], ev_message_count := 1\<rparr>"

lemma copy_report_opaques: "event_opaques copy_report = [11]" "ev_type copy_report = RD_KAFKA_EVENT_DR"
  by (simp_all add: copy_report_def event_opaques_def event_messages_def sample_event_def)

lemma copy_report_served:
  assumes "ds_queue d = [copy_report]"
  shows "\<exists>d' dl. delivery_serve headers_instance message_instance d = Ret d' \<and> ds_channel d' 11 = Some (Ok dl)"
proof -
  let ?w = "(ds_world d)\<lparr>trace := trace (ds_world d) @ producer_effects copy_report\<rparr>"
  have "new_effects (ds_world d) ?w = producer_effects copy_report" by (rule new_effects_append) simp
  moreover have "producer_effects copy_report =
      [Ctx_delivery (delivery_result_of (ev_ptr copy_report) ((bm_ptr sample_message)\<lparr>msg_private := 11\<rparr>)) 11, Native_event_destroy (ev_ptr copy_report)]"
    by (simp add: producer_effects_def copy_report_def event_messages_def sample_event_def)
  moreover have "\<exists>dl. future_delivery headers_instance message_instance
      (delivery_result_of (ev_ptr copy_report) ((bm_ptr sample_message)\<lparr>msg_private := 11\<rparr>)) = Ret (Ok dl)"
    by (simp add: future_delivery_def delivery_result_of_def sample_message_def resp_err_is_error_def)
  ultimately show ?thesis
    using assms by (auto simp: delivery_serve_def producer_handle_event_eq)
qed

theorem at_least_once_witness:
  "\<exists>s. sample_relay_step\<^sup>*\<^sup>* sample_relay_init s \<and> map fst (rl_stored s) = [input_message] \<and> delivered_copy s input_message ''out''"
proof -
  obtain s3 where s3: "sample_relay_step\<^sup>*\<^sup>* sample_relay_init s3" "rl_task s3 = Relay_Join input_message [(''out'', Some (Send_Wait (Box 11)))]"
      "ds_inflight (rl_delivery s3) = {11}" "ds_queue (rl_delivery s3) = []" "rl_stored s3 = []"
    using sample_relay_sent by blast
  define s4 where "s4 = s3\<lparr>rl_delivery := (rl_delivery s3)\<lparr>ds_inflight := ds_inflight (rl_delivery s3) - set (event_opaques copy_report),
      ds_queue := ds_queue (rl_delivery s3) @ [copy_report]\<rparr>\<rparr>"
  have 4: "sample_relay_step s3 s4"
    unfolding s4_def by (rule rl_reported) (simp_all add: copy_report_opaques s3(3))
  have "ds_queue (rl_delivery s4) = [copy_report]" by (simp add: s4_def s3(4))
  then obtain d dl where d: "delivery_serve headers_instance message_instance (rl_delivery s4) = Ret d" "ds_channel d 11 = Some (Ok dl)"
    using copy_report_served by blast
  define s5 where "s5 = s4\<lparr>rl_delivery := d\<rparr>"
  have 5: "sample_relay_step s4 s5" unfolding s5_def by (rule rl_served) (simp add: sample_relay_api_def d(1))
  have "rl_task s5 = Relay_Join input_message [(''out'', Some (Send_Wait (Box 11)))]" "rl_stored s5 = []"
    using s3 by (simp_all add: s5_def s4_def)
  moreover have "call_ready s5 (Some (Send_Wait (Box 11)))"
    using d(2) by (auto simp: call_ready_def s5_def delivery_future_poll_iff box_into_ptr_def)
  ultimately obtain s r where s: "sample_relay_step\<^sup>*\<^sup>* s5 s" "rl_stored s = [(input_message, r)]"
    using relay_joins [of s5 input_message "[(''out'', Some (Send_Wait (Box 11)))]" sample_relay_api DefaultConsumerContext 9 "[''out'']"]
    by (auto simp: less_Suc_eq)
  have run: "sample_relay_step\<^sup>*\<^sup>* sample_relay_init s"
    using s3(1) 4 5 s(1) by (meson converse_rtranclp_into_rtranclp rtranclp_trans)
  from at_least_once [OF this [unfolded sample_relay_init_def]] s(2) run show ?thesis by (intro exI [of _ s]) auto
qed

end
