(* ===== verification/Send_Pool.thy ===== *)
theory Send_Pool
  imports Send_Future
begin

text \<open>
  Many tasks that call \<open>FutureProducer::send\<close> on clones of one producer (\<open>future_producer.rs\<close>):
  the calls, the thread of the producer and librdkafka interleave in any order, and a call may
  be dropped at any moment, as a future that lost a race or timed out is.
\<close>

section \<open>Concurrent calls\<close>

datatype ('k, 'p, 'h) pool_call = Call_New | Call_Polled "('k, 'p, 'h) send_state" | Call_Dropped

text \<open>
  A call with its record and the time it may wait for room in the queue. \<open>sp_accepted\<close> is what
  librdkafka accepted under each opaque, with the number of the call it came from.
\<close>

record ('k, 'p, 'w, 'h) send_pool =
  sp_delivery :: "('w, 'h) delivery_sys"
  sp_calls :: "(('k, 'p, 'h) FutureRecord \<times> timeout \<times> ('k, 'p, 'h) pool_call) list"
  sp_accepted :: "addr \<rightharpoonup> nat \<times> 'h producev_args"

definition pool_init :: "'w world \<Rightarrow> ('k, 'p, 'w, 'h) send_pool" where
  "pool_init w = \<lparr>sp_delivery = delivery_init w, sp_calls = [], sp_accepted = Map.empty\<rparr>"

definition set_pool_call :: "nat \<Rightarrow> ('k, 'p, 'h) pool_call \<Rightarrow> ('k, 'p, 'w, 'h) send_pool \<Rightarrow> ('k, 'p, 'w, 'h) send_pool" where
  "set_pool_call i c s =
     s\<lparr>sp_calls := (sp_calls s)[i := (case sp_calls s ! i of (record, t, _) \<Rightarrow> (record, t, c))]\<rparr>"

text \<open>The senders that calls hold and have not handed over.\<close>

fun held_sender :: "('k, 'p, 'h) pool_call \<Rightarrow> addr option" where
  "held_sender (Call_Polled (Send_Queue _ r)) = Some (box_into_ptr (br_delivery_opaque r))"
| "held_sender _ = None"

definition pool_senders :: "('k, 'p, 'w, 'h) send_pool \<Rightarrow> addr set" where
  "pool_senders s = {p. \<exists>(record, t, c) \<in> set (sp_calls s). held_sender c = Some p}"

text \<open>
  After an attempt with record \<open>r\<close>. What librdkafka accepted is read off its own answer, not off
  the state the call is left in.
\<close>

definition pool_tried ::
    "('w, 'h) producer_api \<Rightarrow> ('k \<Rightarrow> bytes) \<Rightarrow> ('p \<Rightarrow> bytes) \<Rightarrow> nat \<Rightarrow> ('k, 'p, box, 'h) BaseRecord \<Rightarrow> 'w world \<Rightarrow> ('k, 'p, 'h) send_state
      \<Rightarrow> ('k, 'p, 'w, 'h) send_pool \<Rightarrow> ('k, 'p, 'w, 'h) send_pool" where
  "pool_tried papi kb pb i r w st s =
     (let accepted = producev_accepts papi kb pb r (ds_world (sp_delivery s)); p = box_into_ptr (br_delivery_opaque r)
      in (set_pool_call i (Call_Polled st) s)
           \<lparr>sp_delivery := send_tried accepted p w (sp_delivery s),
            sp_accepted := (if accepted then (sp_accepted s)(p \<mapsto> (i, record_args kb pb box_into_ptr r)) else sp_accepted s)\<rparr>)"

inductive pool_step ::
    "'w client_api \<Rightarrow> ('w, 'h) producer_api \<Rightarrow> ('k \<Rightarrow> bytes) \<Rightarrow> ('p \<Rightarrow> bytes) \<Rightarrow> 'h headers_api \<Rightarrow> 'h message_api
      \<Rightarrow> ('k, 'p, 'w, 'h) send_pool \<Rightarrow> ('k, 'p, 'w, 'h) send_pool \<Rightarrow> bool"
  for api :: "'w client_api" and papi :: "('w, 'h) producer_api" and kb :: "'k \<Rightarrow> bytes" and pb :: "'p \<Rightarrow> bytes"
    and hapi :: "'h headers_api" and mapi :: "'h message_api" where
  sp_call: "pool_step api papi kb pb hapi mapi s (s\<lparr>sp_calls := sp_calls s @ [(record, t, Call_New)]\<rparr>)"
| sp_start: "i < length (sp_calls s) \<Longrightarrow> sp_calls s ! i = (record, t, Call_New) \<Longrightarrow>
     box_into_ptr tx \<notin> ds_issued (sp_delivery s) \<union> pool_senders s \<Longrightarrow>
     send_start api tx record (ds_world (sp_delivery s)) = (w, st) \<Longrightarrow>
     pool_step api papi kb pb hapi mapi s
       ((set_pool_call i (Call_Polled st) s)\<lparr>sp_delivery := (sp_delivery s)\<lparr>ds_world := w\<rparr>\<rparr>)"
| sp_try: "i < length (sp_calls s) \<Longrightarrow> sp_calls s ! i = (record, t, Call_Polled (Send_Queue start r)) \<Longrightarrow>
     send_try api papi kb pb t start r (ds_world (sp_delivery s)) = (w, st) \<Longrightarrow>
     pool_step api papi kb pb hapi mapi s (pool_tried papi kb pb i r w st s)"
| sp_resolved: "i < length (sp_calls s) \<Longrightarrow> sp_calls s ! i = (record, t, Call_Polled (Send_Wait tx)) \<Longrightarrow>
     delivery_future_poll (sp_delivery s) (box_into_ptr tx) = Future_Ready (Ok d) \<Longrightarrow>
     pool_step api papi kb pb hapi mapi s (set_pool_call i (Call_Polled (Send_Done d)) s)"
| sp_dropped: "i < length (sp_calls s) \<Longrightarrow> pool_step api papi kb pb hapi mapi s (set_pool_call i Call_Dropped s)"
| sp_reported: "ev_type ev = RD_KAFKA_EVENT_DR \<Longrightarrow> distinct (event_opaques ev) \<Longrightarrow>
     set (event_opaques ev) \<subseteq> ds_inflight (sp_delivery s) \<Longrightarrow>
     pool_step api papi kb pb hapi mapi s
       (s\<lparr>sp_delivery := (sp_delivery s)\<lparr>ds_inflight := ds_inflight (sp_delivery s) - set (event_opaques ev),
            ds_queue := ds_queue (sp_delivery s) @ [ev]\<rparr>\<rparr>)"
| sp_served: "delivery_serve hapi mapi (sp_delivery s) = Ret d \<Longrightarrow>
     pool_step api papi kb pb hapi mapi s (s\<lparr>sp_delivery := d\<rparr>)"
| sp_elapse: "pool_step api papi kb pb hapi mapi s (s\<lparr>sp_delivery := (sp_delivery s)\<lparr>ds_world := w\<rparr>\<rparr>)"

section \<open>The invariant\<close>

text \<open>The calls that handed a record over.\<close>

definition owners :: "(addr \<rightharpoonup> nat \<times> 'a) \<Rightarrow> nat set" where
  "owners acc = {i. \<exists>p a. acc p = Some (i, a)}"

text \<open>Call \<open>i\<close> handed its record over under the opaque of \<open>tx\<close>.\<close>

definition handed_over ::
    "('k \<Rightarrow> bytes) \<Rightarrow> ('p \<Rightarrow> bytes) \<Rightarrow> ('k, 'p, 'w, 'h) send_pool \<Rightarrow> nat \<Rightarrow> ('k, 'p, 'h) FutureRecord \<Rightarrow> box \<Rightarrow> bool" where
  "handed_over kb pb s i record tx \<longleftrightarrow>
     sp_accepted s (box_into_ptr tx) = Some (i, record_args kb pb box_into_ptr (into_base_record record tx))"

text \<open>
  The result of call \<open>i\<close> is its own: the error with its record, which was never handed over, or
  the report for the opaque under which its record was handed over.
\<close>

definition own_send_result ::
    "('k \<Rightarrow> bytes) \<Rightarrow> ('p \<Rightarrow> bytes) \<Rightarrow> ('k, 'p, 'w, 'h) send_pool \<Rightarrow> nat \<Rightarrow> ('k, 'p, 'h) FutureRecord
      \<Rightarrow> 'h OwnedDeliveryResult \<Rightarrow> bool" where
  "own_send_result kb pb s i record d \<longleftrightarrow>
     (\<exists>e (tx :: box). d = Err (e, record_message kb pb (into_base_record record tx)) \<and> i \<notin> owners (sp_accepted s))
     \<or> (\<exists>tx. handed_over kb pb s i record tx \<and> ds_channel (sp_delivery s) (box_into_ptr tx) = Some d)"

fun pool_call_ok ::
    "('k \<Rightarrow> bytes) \<Rightarrow> ('p \<Rightarrow> bytes) \<Rightarrow> ('k, 'p, 'w, 'h) send_pool \<Rightarrow> nat \<Rightarrow> ('k, 'p, 'h) FutureRecord \<Rightarrow> ('k, 'p, 'h) pool_call \<Rightarrow> bool" where
  "pool_call_ok kb pb s i record Call_New \<longleftrightarrow> i \<notin> owners (sp_accepted s)"
| "pool_call_ok kb pb s i record (Call_Polled (Send_Queue start r)) \<longleftrightarrow>
     i \<notin> owners (sp_accepted s) \<and> (\<exists>tx. r = into_base_record record tx \<and> box_into_ptr tx \<notin> ds_issued (sp_delivery s))"
| "pool_call_ok kb pb s i record (Call_Polled (Send_Wait tx)) \<longleftrightarrow> handed_over kb pb s i record tx"
| "pool_call_ok kb pb s i record (Call_Polled (Send_Done d)) \<longleftrightarrow> own_send_result kb pb s i record d"
| "pool_call_ok kb pb s i record Call_Dropped \<longleftrightarrow> True"

abbreviation pool_record :: "('k, 'p, 'w, 'h) send_pool \<Rightarrow> nat \<Rightarrow> ('k, 'p, 'h) FutureRecord" where
  "pool_record s i \<equiv> fst (sp_calls s ! i)"

abbreviation pool_state :: "('k, 'p, 'w, 'h) send_pool \<Rightarrow> nat \<Rightarrow> ('k, 'p, 'h) pool_call" where
  "pool_state s i \<equiv> snd (snd (sp_calls s ! i))"

definition owners_unique :: "(addr \<rightharpoonup> nat \<times> 'a) \<Rightarrow> bool" where
  "owners_unique acc \<longleftrightarrow> (\<forall>p q i a b. acc p = Some (i, a) \<and> acc q = Some (i, b) \<longrightarrow> p = q)"

definition held_distinct :: "('k, 'p, 'w, 'h) send_pool \<Rightarrow> bool" where
  "held_distinct s \<longleftrightarrow>
     (\<forall>i < length (sp_calls s). \<forall>j < length (sp_calls s). \<forall>p.
        held_sender (pool_state s i) = Some p \<and> held_sender (pool_state s j) = Some p \<longrightarrow> i = j)"

definition pool_inv :: "('k \<Rightarrow> bytes) \<Rightarrow> ('p \<Rightarrow> bytes) \<Rightarrow> ('k, 'p, 'w, 'h) send_pool \<Rightarrow> bool" where
  "pool_inv kb pb s \<longleftrightarrow>
     (\<forall>i < length (sp_calls s). pool_call_ok kb pb s i (pool_record s i) (pool_state s i))
     \<and> dom (sp_accepted s) = ds_issued (sp_delivery s) \<and> owners (sp_accepted s) \<subseteq> {..< length (sp_calls s)}
     \<and> owners_unique (sp_accepted s) \<and> held_distinct s"

lemma pool_inv_init: "pool_inv kb pb (pool_init w)"
  by (simp add: pool_inv_def pool_init_def delivery_init_def owners_def owners_unique_def held_distinct_def)

lemma set_pool_call_simps [simp]:
  "sp_delivery (set_pool_call i c s) = sp_delivery s" "sp_accepted (set_pool_call i c s) = sp_accepted s"
  "length (sp_calls (set_pool_call i c s)) = length (sp_calls s)"
  "j < length (sp_calls s) \<Longrightarrow> fst (sp_calls (set_pool_call i c s) ! j) = pool_record s j"
  "j < length (sp_calls s) \<Longrightarrow> snd (snd (sp_calls (set_pool_call i c s) ! j)) = (if i = j then c else pool_state s j)"
  by (cases "i = j"; simp add: set_pool_call_def split_beta)+

lemma own_send_result_grows:
  assumes "own_send_result kb pb s i record d" and "sp_accepted s \<subseteq>\<^sub>m sp_accepted s'"
    and "ds_channel (sp_delivery s) \<subseteq>\<^sub>m ds_channel (sp_delivery s')"
    and "i \<notin> owners (sp_accepted s) \<Longrightarrow> i \<notin> owners (sp_accepted s')"
  shows "own_send_result kb pb s' i record d"
  using assms(1) unfolding own_send_result_def handed_over_def
proof (elim disjE)
  assume "\<exists>tx. sp_accepted s (box_into_ptr tx) = Some (i, record_args kb pb box_into_ptr (into_base_record record tx))
    \<and> ds_channel (sp_delivery s) (box_into_ptr tx) = Some d"
  then obtain tx where "sp_accepted s' (box_into_ptr tx) = Some (i, record_args kb pb box_into_ptr (into_base_record record tx))"
      "ds_channel (sp_delivery s') (box_into_ptr tx) = Some d"
    using map_le_Some [OF assms(2)] map_le_Some [OF assms(3)] by metis
  then show "(\<exists>e (tx :: box). d = Err (e, record_message kb pb (into_base_record record tx)) \<and> i \<notin> owners (sp_accepted s'))
      \<or> (\<exists>tx. sp_accepted s' (box_into_ptr tx) = Some (i, record_args kb pb box_into_ptr (into_base_record record tx))
          \<and> ds_channel (sp_delivery s') (box_into_ptr tx) = Some d)" by blast
qed (use assms(4) in blast)

text \<open>A call stays in order when others go on.\<close>

lemma pool_call_ok_grows:
  assumes "pool_call_ok kb pb s i record c" and "sp_accepted s \<subseteq>\<^sub>m sp_accepted s'"
    and "ds_channel (sp_delivery s) \<subseteq>\<^sub>m ds_channel (sp_delivery s')"
    and "i \<notin> owners (sp_accepted s) \<Longrightarrow> i \<notin> owners (sp_accepted s')"
    and "\<And>p. held_sender c = Some p \<Longrightarrow> p \<notin> ds_issued (sp_delivery s) \<Longrightarrow> p \<notin> ds_issued (sp_delivery s')"
  shows "pool_call_ok kb pb s' i record c"
proof (cases "(kb, pb, s, i, record, c)" rule: pool_call_ok.cases)
  case (3 kb pb s i rec tx)
  then show ?thesis using assms(1) map_le_Some [OF assms(2)] by (auto simp: handed_over_def)
next
  case (4 kb pb s i rec d)
  then show ?thesis using assms(1) own_send_result_grows [OF _ assms(2-4)] by auto
qed (use assms(1,4,5) in auto)

lemma pool_inv_call:
  assumes inv: "pool_inv kb pb s" and i: "i < length (sp_calls s)"
    and calls: "sp_calls s' = sp_calls (set_pool_call i c s)"
    and acc: "sp_accepted s \<subseteq>\<^sub>m sp_accepted s'" and ch: "ds_channel (sp_delivery s) \<subseteq>\<^sub>m ds_channel (sp_delivery s')"
    and dom: "dom (sp_accepted s') = ds_issued (sp_delivery s')"
    and ran: "owners (sp_accepted s') \<subseteq> insert i (owners (sp_accepted s))" and uniq: "owners_unique (sp_accepted s')"
    and ok: "pool_call_ok kb pb s' i (pool_record s i) c"
    and others: "\<And>j p. j < length (sp_calls s) \<Longrightarrow> j \<noteq> i \<Longrightarrow> held_sender (pool_state s j) = Some p \<Longrightarrow>
      p \<notin> ds_issued (sp_delivery s) \<Longrightarrow> p \<notin> ds_issued (sp_delivery s')"
    and new: "\<And>j p. j < length (sp_calls s) \<Longrightarrow> j \<noteq> i \<Longrightarrow> held_sender (pool_state s j) = Some p \<Longrightarrow> held_sender c \<noteq> Some p"
  shows "pool_inv kb pb s'"
proof -
  have "pool_call_ok kb pb s' j (pool_record s' j) (pool_state s' j)" if j: "j < length (sp_calls s)" for j
  proof (cases "j = i")
    case True
    then show ?thesis using ok i by (simp add: calls)
  next
    case False
    have "pool_call_ok kb pb s j (pool_record s j) (pool_state s j)" using inv j by (simp add: pool_inv_def)
    then have "pool_call_ok kb pb s' j (pool_record s j) (pool_state s j)"
      using acc ch by (rule pool_call_ok_grows) (use ran False others [OF j False] in auto)
    then show ?thesis using j False by (simp add: calls)
  qed
  moreover have "held_distinct s'"
    using inv new unfolding pool_inv_def held_distinct_def by (auto simp: calls split: if_splits)
  moreover have "owners (sp_accepted s') \<subseteq> {..< length (sp_calls s)}"
    using i by (intro subset_trans [OF ran]) (use inv in \<open>simp add: pool_inv_def\<close>)
  ultimately show ?thesis using dom uniq by (simp add: pool_inv_def calls)
qed

lemma pool_inv_delivery:
  assumes "pool_inv kb pb s" and "ds_issued d = ds_issued (sp_delivery s)" and "ds_channel (sp_delivery s) \<subseteq>\<^sub>m ds_channel d"
  shows "pool_inv kb pb (s\<lparr>sp_delivery := d\<rparr>)"
proof -
  have "pool_call_ok kb pb (s\<lparr>sp_delivery := d\<rparr>) i r c" if "pool_call_ok kb pb s i r c" for i r c
    by (rule pool_call_ok_grows [OF that]) (use assms in auto)
  with assms(1,2) show ?thesis by (simp add: pool_inv_def held_distinct_def)
qed

lemma pool_inv_new:
  assumes inv: "pool_inv kb pb s"
  shows "pool_inv kb pb (s\<lparr>sp_calls := sp_calls s @ [(record, t, Call_New)]\<rparr>)"
proof -
  let ?s = "s\<lparr>sp_calls := sp_calls s @ [(record, t, Call_New)]\<rparr>"
  have ok: "pool_call_ok kb pb ?s i r c" if "pool_call_ok kb pb s i r c" for i r c
    by (rule pool_call_ok_grows [OF that]) auto
  have "length (sp_calls s) \<notin> owners (sp_accepted s)" using inv by (auto simp: pool_inv_def)
  then have "pool_call_ok kb pb ?s i (pool_record ?s i) (pool_state ?s i)" if "i < Suc (length (sp_calls s))" for i
    using that inv ok by (cases "i = length (sp_calls s)") (auto simp: pool_inv_def nth_append)
  moreover have "held_distinct ?s"
    using inv unfolding pool_inv_def held_distinct_def by (auto simp: nth_append split: if_splits)
  ultimately show ?thesis using inv by (auto simp: pool_inv_def)
qed

lemma held_not_issued:
  assumes "pool_inv kb pb s" and "i < length (sp_calls s)" and "held_sender (pool_state s i) = Some p"
  shows "p \<notin> ds_issued (sp_delivery s)"
proof -
  have "pool_call_ok kb pb s i (pool_record s i) (pool_state s i)" using assms(1,2) by (simp add: pool_inv_def)
  with assms(3) show ?thesis by (cases "pool_state s i" rule: held_sender.cases) auto
qed

lemma pool_inv_start:
  assumes inv: "pool_inv kb pb s" and i: "i < length (sp_calls s)" "sp_calls s ! i = (record, t, Call_New)"
    and tx: "box_into_ptr tx \<notin> ds_issued (sp_delivery s) \<union> pool_senders s"
    and st: "send_start api tx record (ds_world (sp_delivery s)) = (w, st)"
  shows "pool_inv kb pb ((set_pool_call i (Call_Polled st) s)\<lparr>sp_delivery := (sp_delivery s)\<lparr>ds_world := w\<rparr>\<rparr>)"
proof -
  obtain t0 where st: "st = Send_Queue t0 (into_base_record record tx)"
    using st by (auto simp: send_start_def split: prod.splits)
  have "pool_call_ok kb pb s i (pool_record s i) (pool_state s i)" using inv i(1) by (simp add: pool_inv_def)
  then have new: "i \<notin> owners (sp_accepted s)" using i(2) by simp
  have "held_sender (pool_state s j) \<noteq> Some (box_into_ptr tx)" if "j < length (sp_calls s)" for j
    using tx nth_mem [OF that] by (cases "sp_calls s ! j") (auto simp: pool_senders_def)
  then show ?thesis
    by (intro pool_inv_call [OF inv i(1), where c = "Call_Polled st"])
      (use inv new tx i in \<open>auto simp: st pool_inv_def\<close>)
qed

lemma owners_upd: "owners (acc(p \<mapsto> (i, a))) \<subseteq> insert i (owners acc)"
  by (auto simp: owners_def split: if_splits)

lemma owners_unique_upd:
  "owners_unique acc \<Longrightarrow> i \<notin> owners acc \<Longrightarrow> owners_unique (acc(p \<mapsto> (i, a)))"
  by (auto simp: owners_unique_def owners_def)

lemma pool_inv_tried:
  assumes inv: "pool_inv kb pb s" and i: "i < length (sp_calls s)" "sp_calls s ! i = (record, t, Call_Polled (Send_Queue start r))"
    and tried: "send_try api papi kb pb t start r (ds_world (sp_delivery s)) = (w, st)"
  shows "pool_inv kb pb (pool_tried papi kb pb i r w st s)"
proof -
  have "pool_call_ok kb pb s i (pool_record s i) (pool_state s i)" using inv i(1) by (simp add: pool_inv_def)
  then obtain tx where r: "r = into_base_record record tx" "box_into_ptr tx \<notin> ds_issued (sp_delivery s)"
    and new: "i \<notin> owners (sp_accepted s)" using i(2) by auto
  have st: "(\<exists>e. st = Send_Done (Err (e, record_message kb pb r))) \<or> st = Send_Queue start r \<or> st = Send_Wait tx"
    using tried r by (cases st) (auto dest: send_try_queue send_try_wait send_try_done)
  have uniq: "owners_unique (sp_accepted s)" and dom: "dom (sp_accepted s) = ds_issued (sp_delivery s)"
    using inv by (simp_all add: pool_inv_def)
  have others: "p \<noteq> box_into_ptr tx" if "j < length (sp_calls s)" "j \<noteq> i" "held_sender (pool_state s j) = Some p" for j p
    using inv i that r(1) unfolding pool_inv_def held_distinct_def by fastforce
  have acc: "producev_accepts papi kb pb r (ds_world (sp_delivery s)) \<longleftrightarrow> st = Send_Wait tx" "br_delivery_opaque r = tx"
    using send_try_accepts [OF tried] r(1) by simp_all
  define z where "z = pool_tried papi kb pb i r w st s"
  have z: "sp_calls z = sp_calls (set_pool_call i (Call_Polled st) s)"
      "sp_accepted z = (if st = Send_Wait tx then (sp_accepted s)(box_into_ptr tx \<mapsto> (i, record_args kb pb box_into_ptr r)) else sp_accepted s)"
      "ds_channel (sp_delivery z) = ds_channel (sp_delivery s)"
      "ds_issued (sp_delivery z) = (if st = Send_Wait tx then insert (box_into_ptr tx) (ds_issued (sp_delivery s)) else ds_issued (sp_delivery s))"
    by (simp_all add: z_def pool_tried_def send_tried_def acc Let_def)
  show ?thesis unfolding z_def [symmetric]
  proof (rule pool_inv_call [OF inv i(1), where c = "Call_Polled st"], unfold z)
    show "pool_call_ok kb pb z i (pool_record s i) (Call_Polled st)"
      using st
    proof (elim disjE exE)
      fix e assume "st = Send_Done (Err (e, record_message kb pb r))"
      with new r(1) i(2) show ?thesis by (auto simp: own_send_result_def z)
    next
      assume "st = Send_Queue start r"
      with new r i(2) show ?thesis by (auto simp: z)
    next
      assume "st = Send_Wait tx"
      with r(1) i(2) show ?thesis by (simp add: handed_over_def z)
    qed
  qed (use st r dom uniq owners_unique_upd [OF uniq new] in \<open>auto simp: map_le_def dest: others subsetD [OF owners_upd]\<close>)
qed

lemma pool_delivery_step:
  assumes "pool_step api papi kb pb hapi mapi s s'" and inv: "pool_inv kb pb s"
  shows "(delivery_step papi kb pb hapi mapi)\<^sup>*\<^sup>* (sp_delivery s) (sp_delivery s')"
  using assms(1)
proof cases
  case (sp_try i rec t start r w st)
  have "box_into_ptr (br_delivery_opaque r) \<notin> ds_issued (sp_delivery s)"
    by (rule held_not_issued [OF inv sp_try(2)]) (simp add: sp_try(3))
  from send_tried_step [OF sp_try(4) this] sp_try(1) show ?thesis by (auto simp: pool_tried_def Let_def)
next
  case (sp_start i rec t tx w st)
  then show ?thesis by (simp add: r_into_rtranclp ds_elapse)
next
  case (sp_reported ev)
  then show ?thesis by (simp add: r_into_rtranclp ds_report)
next
  case (sp_served d)
  then show ?thesis by (simp add: r_into_rtranclp ds_serve)
next
  case (sp_elapse w)
  then show ?thesis by (simp add: r_into_rtranclp ds_elapse)
qed simp_all

lemma pool_inv_step:
  assumes "pool_step api papi kb pb hapi mapi s s'" and inv: "pool_inv kb pb s"
    and grows: "ds_channel (sp_delivery s) \<subseteq>\<^sub>m ds_channel (sp_delivery s')"
  shows "pool_inv kb pb s'"
  using assms(1)
proof cases
  case (sp_call rec t)
  with pool_inv_new [OF inv] show ?thesis by simp
next
  case (sp_start i rec t tx w st)
  with pool_inv_start [OF inv] show ?thesis by simp
next
  case (sp_try i rec t start r w st)
  with pool_inv_tried [OF inv] show ?thesis by simp
next
  case (sp_resolved i rec t tx d)
  have "pool_call_ok kb pb s i (pool_record s i) (pool_state s i)" using inv sp_resolved(2) by (simp add: pool_inv_def)
  then have "own_send_result kb pb s i rec d"
    using sp_resolved(3,4) by (auto simp: own_send_result_def delivery_future_poll_iff)
  then have "pool_call_ok kb pb s' i (pool_record s i) (Call_Polled (Send_Done d))"
    using sp_resolved(1,3) by (simp add: own_send_result_def handed_over_def)
  then show ?thesis
    by (intro pool_inv_call [OF inv sp_resolved(2)]) (use inv sp_resolved(1) in \<open>auto simp: pool_inv_def\<close>)
next
  case (sp_dropped i)
  then show ?thesis
    by (intro pool_inv_call [OF inv sp_dropped(2)]) (use inv in \<open>auto simp: pool_inv_def\<close>)
next
  case (sp_served d)
  then show ?thesis using pool_inv_delivery [OF inv delivery_serve_issued] grows by simp
qed (use pool_inv_delivery [OF inv] in simp_all)

lemma pool_run_inv:
  assumes "(pool_step api papi kb pb hapi mapi)\<^sup>*\<^sup>* (pool_init w) s"
  shows "pool_inv kb pb s \<and> (delivery_step papi kb pb hapi mapi)\<^sup>*\<^sup>* (delivery_init w) (sp_delivery s)"
  using assms
proof (induction rule: rtranclp_induct)
  case base
  show ?case using pool_inv_init by (simp add: pool_init_def)
next
  case (step s s')
  then have run: "(delivery_step papi kb pb hapi mapi)\<^sup>*\<^sup>* (delivery_init w) (sp_delivery s)"
    and d: "(delivery_step papi kb pb hapi mapi)\<^sup>*\<^sup>* (sp_delivery s) (sp_delivery s')"
    using pool_delivery_step by blast+
  with step pool_inv_step [OF step.hyps(2) _ delivery_channel_grows [OF run d]] show ?case
    by (blast intro: rtranclp_trans)
qed

section \<open>Every call gets its own result\<close>

text \<open>C14. Any number of tasks may share a producer: however their calls of \<open>send\<close>, its thread and
  librdkafka interleave, and whichever calls are dropped, a call hands its record over at
  most once, under an opaque that no other call uses; a call that completes has either
  its own record back in an error, and then the record was never handed over, or the report
  of its own record; and a call that waits was accepted.\<close>

theorem concurrent_sends:
  assumes "(pool_step api papi kb pb hapi mapi)\<^sup>*\<^sup>* (pool_init w) s" and "i < length (sp_calls s)"
  shows "(\<forall>p q a b. sp_accepted s p = Some (i, a) \<and> sp_accepted s q = Some (i, b) \<longrightarrow> p = q)
    \<and> (\<forall>tx. pool_state s i = Call_Polled (Send_Wait tx) \<longrightarrow> handed_over kb pb s i (pool_record s i) tx)
    \<and> (\<forall>d. pool_state s i = Call_Polled (Send_Done d) \<longrightarrow>
         (\<exists>e (tx :: box). d = Err (e, record_message kb pb (into_base_record (pool_record s i) tx)) \<and> i \<notin> owners (sp_accepted s))
         \<or> (\<exists>tx. handed_over kb pb s i (pool_record s i) tx
              \<and> delivery_future_poll (sp_delivery s) (box_into_ptr tx) = Future_Ready (Ok d)))"
proof -
  from pool_run_inv [OF assms(1)] have inv: "pool_inv kb pb s" by blast
  then have ok: "pool_call_ok kb pb s i (pool_record s i) (pool_state s i)" and uniq: "owners_unique (sp_accepted s)"
    using assms(2) by (simp_all add: pool_inv_def)
  from uniq have "\<forall>p q a b. sp_accepted s p = Some (i, a) \<and> sp_accepted s q = Some (i, b) \<longrightarrow> p = q"
    unfolding owners_unique_def by blast
  moreover have "own_send_result kb pb s i (pool_record s i) d" if "pool_state s i = Call_Polled (Send_Done d)" for d
    using ok that by simp
  ultimately show ?thesis
    using ok unfolding own_send_result_def delivery_future_poll_iff by auto
qed

section \<open>A run\<close>

type_synonym sample_pool = "(bytes, bytes, sample_headers producev_args list, sample_headers) send_pool"

abbreviation sample_pool_step :: "sample_pool \<Rightarrow> sample_pool \<Rightarrow> bool" where
  "sample_pool_step \<equiv> pool_step idle_client sample_papi str_to_bytes str_to_bytes headers_instance message_instance"

abbreviation sample_call :: "(bytes, bytes, sample_headers) pool_call \<Rightarrow> (bytes, bytes, sample_headers) FutureRecord \<times> timeout \<times> (bytes, bytes, sample_headers) pool_call" where
  "sample_call c \<equiv> (future_record_to ''t'', Never, c)"

text \<open>A call is polled twice, which queues its record.\<close>

lemma sample_pool_send:
  assumes i: "i < length (sp_calls s)" "sp_calls s ! i = (record, t, Call_New)" and topic: "NUL \<notin> set (fr_topic record)"
    and p: "p \<notin> ds_issued (sp_delivery s)" "p \<notin> pool_senders s"
  shows "\<exists>s'. sample_pool_step\<^sup>*\<^sup>* s s' \<and> sp_calls s' = (sp_calls s)[i := (record, t, Call_Polled (Send_Wait (Box p)))]
    \<and> ds_issued (sp_delivery s') = insert p (ds_issued (sp_delivery s))
    \<and> ds_inflight (sp_delivery s') = insert p (ds_inflight (sp_delivery s)) \<and> ds_queue (sp_delivery s') = ds_queue (sp_delivery s)
    \<and> i \<in> owners (sp_accepted s')"
proof -
  obtain w and st :: "(bytes, bytes, sample_headers) send_state"
    where start: "send_start idle_client (Box p) record (ds_world (sp_delivery s)) = (w, st)"
    by (rule prod.exhaust)
  then obtain t0 where st: "st = Send_Queue t0 (into_base_record record (Box p))"
    by (auto simp: send_start_def split: prod.splits)
  let ?s1 = "(set_pool_call i (Call_Polled st) s)\<lparr>sp_delivery := (sp_delivery s)\<lparr>ds_world := w\<rparr>\<rparr>"
  have 1: "sample_pool_step s ?s1" using p by (intro sp_start [OF i _ start]) (simp add: box_into_ptr_def)
  have call: "sp_calls ?s1 ! i = (record, t, Call_Polled st)" using i by (simp add: set_pool_call_def)
  have "\<exists>w2. send_try idle_client sample_papi str_to_bytes str_to_bytes t t0 (into_base_record record (Box p))
      (ds_world (sp_delivery ?s1)) = (w2, Send_Wait (Box p))"
    using topic by (simp add: send_try_def box_opaque.send_result into_base_record_def Let_def split: option.splits)
  then obtain w2 where tried: "send_try idle_client sample_papi str_to_bytes str_to_bytes t t0
      (into_base_record record (Box p)) (ds_world (sp_delivery ?s1)) = (w2, Send_Wait (Box p))" ..
  have acc [simp]: "producev_accepts sample_papi str_to_bytes str_to_bytes (into_base_record record (Box p)) w"
    using send_try_accepts [OF tried] by simp
  let ?s2 = "pool_tried sample_papi str_to_bytes str_to_bytes i (into_base_record record (Box p)) w2 (Send_Wait (Box p)) ?s1"
  have 2: "sample_pool_step ?s1 ?s2" using i(1) call tried by (intro sp_try) (simp_all add: st)
  from 1 2 have "sample_pool_step\<^sup>*\<^sup>* s ?s2" by (meson converse_rtranclp_into_rtranclp rtranclp.rtrancl_refl)
  moreover have "i \<in> owners (sp_accepted ?s2)" unfolding owners_def by (auto simp: pool_tried_def Let_def)
  ultimately show ?thesis
    using i by (intro exI [of _ ?s2]) (simp add: pool_tried_def send_tried_def set_pool_call_def box_into_ptr_def Let_def)
qed

text \<open>Two calls are accepted under the opaques 11 and 12.\<close>

lemma sample_pool_sent:
  "\<exists>s. sample_pool_step\<^sup>*\<^sup>* (pool_init (sample_world [])) s
    \<and> sp_calls s = [sample_call (Call_Polled (Send_Wait (Box 11))), sample_call (Call_Polled (Send_Wait (Box 12)))]
    \<and> ds_issued (sp_delivery s) = {11, 12} \<and> ds_inflight (sp_delivery s) = {11, 12} \<and> ds_queue (sp_delivery s) = []
    \<and> 1 \<in> owners (sp_accepted s)"
proof -
  let ?s0 = "pool_init (sample_world []) :: sample_pool"
  let ?s1 = "?s0\<lparr>sp_calls := sp_calls ?s0 @ [sample_call Call_New]\<rparr>"
  let ?s2 = "?s1\<lparr>sp_calls := sp_calls ?s1 @ [sample_call Call_New]\<rparr>"
  have 2: "sample_pool_step\<^sup>*\<^sup>* ?s0 ?s2"
    using sp_call [of idle_client sample_papi str_to_bytes str_to_bytes headers_instance message_instance]
    by (meson converse_rtranclp_into_rtranclp rtranclp.rtrancl_refl)
  have "\<exists>s. sample_pool_step\<^sup>*\<^sup>* ?s2 s \<and> sp_calls s = (sp_calls ?s2)[0 := sample_call (Call_Polled (Send_Wait (Box 11)))]
      \<and> ds_issued (sp_delivery s) = insert 11 (ds_issued (sp_delivery ?s2))
      \<and> ds_inflight (sp_delivery s) = insert 11 (ds_inflight (sp_delivery ?s2)) \<and> ds_queue (sp_delivery s) = ds_queue (sp_delivery ?s2)
      \<and> 0 \<in> owners (sp_accepted s)"
    by (rule sample_pool_send) (simp_all add: pool_init_def delivery_init_def pool_senders_def future_record_to_def)
  then obtain s3 where s3: "sample_pool_step\<^sup>*\<^sup>* ?s2 s3" "sp_calls s3 = [sample_call (Call_Polled (Send_Wait (Box 11))), sample_call Call_New]"
      "ds_issued (sp_delivery s3) = {11}" "ds_inflight (sp_delivery s3) = {11}" "ds_queue (sp_delivery s3) = []"
    by (auto simp: pool_init_def delivery_init_def)
  have "\<exists>s. sample_pool_step\<^sup>*\<^sup>* s3 s \<and> sp_calls s = (sp_calls s3)[1 := sample_call (Call_Polled (Send_Wait (Box 12)))]
      \<and> ds_issued (sp_delivery s) = insert 12 (ds_issued (sp_delivery s3))
      \<and> ds_inflight (sp_delivery s) = insert 12 (ds_inflight (sp_delivery s3)) \<and> ds_queue (sp_delivery s) = ds_queue (sp_delivery s3)
      \<and> 1 \<in> owners (sp_accepted s)"
    by (rule sample_pool_send) (simp_all add: s3 pool_senders_def future_record_to_def)
  then obtain s4 where s4: "sample_pool_step\<^sup>*\<^sup>* s3 s4"
      "sp_calls s4 = [sample_call (Call_Polled (Send_Wait (Box 11))), sample_call (Call_Polled (Send_Wait (Box 12)))]"
      "ds_issued (sp_delivery s4) = {11, 12}" "ds_inflight (sp_delivery s4) = {11, 12}" "ds_queue (sp_delivery s4) = []" "1 \<in> owners (sp_accepted s4)"
    by (auto simp: s3)
  with 2 s3(1) show ?thesis by (intro exI [of _ s4]) (meson rtranclp_trans)
qed

theorem concurrent_sends_witness:
  "\<exists>s d tx. sample_pool_step\<^sup>*\<^sup>* (pool_init (sample_world [])) s \<and> pool_state s 0 = Call_Dropped
    \<and> pool_state s 1 = Call_Polled (Send_Done d) \<and> handed_over str_to_bytes str_to_bytes s 1 (future_record_to ''t'') tx
    \<and> delivery_future_poll (sp_delivery s) (box_into_ptr tx) = Future_Ready (Ok d)"
proof -
  obtain s4 where s4: "sample_pool_step\<^sup>*\<^sup>* (pool_init (sample_world [])) s4"
      "sp_calls s4 = [sample_call (Call_Polled (Send_Wait (Box 11))), sample_call (Call_Polled (Send_Wait (Box 12)))]"
      "ds_issued (sp_delivery s4) = {11, 12}" "ds_inflight (sp_delivery s4) = {11, 12}" "ds_queue (sp_delivery s4) = []"
      "1 \<in> owners (sp_accepted s4)"
    using sample_pool_sent by blast
  let ?s5 = "set_pool_call 0 Call_Dropped s4"
  let ?s6 = "?s5\<lparr>sp_delivery := (sp_delivery ?s5)\<lparr>ds_inflight := ds_inflight (sp_delivery ?s5) - set (event_opaques sample_dr_event),
      ds_queue := ds_queue (sp_delivery ?s5) @ [sample_dr_event]\<rparr>\<rparr>"
  have ev: "event_opaques sample_dr_event = [11, 12]" "ev_type sample_dr_event = RD_KAFKA_EVENT_DR"
    by (simp_all add: sample_dr_event_def sample_event_def event_opaques_def event_messages_def)
  have "sample_pool_step s4 ?s5" by (rule sp_dropped) (simp add: s4(2))
  moreover have "sample_pool_step ?s5 ?s6" by (rule sp_reported) (simp_all add: s4 ev)
  ultimately have run: "sample_pool_step\<^sup>*\<^sup>* (pool_init (sample_world [])) ?s6"
    using s4(1) by (meson rtranclp.rtrancl_into_rtrancl)
  then have inv: "delivery_inv (sp_delivery ?s6)" using pool_run_inv delivery.reachable by blast
  from delivery_serve_total [OF inv headers_instance_ok, of sample_dr_event "[]" message_instance] sample_reported_readable
  obtain d where d: "delivery_serve headers_instance message_instance (sp_delivery ?s6) = Ret d" "ds_queue d = []"
      "ds_inflight d = {}" "ds_issued d = {11, 12}" by (auto simp: s4 ev)
  moreover have "delivery_inv d" using delivery_serve_simulated [OF d(1) inv] by blast
  ultimately have "12 \<in> dom (ds_channel d)" by (simp add: delivery_inv_def) (metis insertI1 insertI2)
  then obtain r where r: "ds_channel d 12 = Some r" by blast
  let ?s7 = "?s6\<lparr>sp_delivery := d\<rparr>"
  let ?s8 = "set_pool_call 1 (Call_Polled (Send_Done r)) ?s7"
  have "sample_pool_step ?s6 ?s7" using d(1) by (rule sp_served)
  moreover have "sample_pool_step ?s7 ?s8"
    by (rule sp_resolved [where tx = "Box 12"]) (simp_all add: s4(2) set_pool_call_def delivery_future_poll_iff box_into_ptr_def r)
  ultimately have run: "sample_pool_step\<^sup>*\<^sup>* (pool_init (sample_world [])) ?s8"
    using run by (meson rtranclp.rtrancl_into_rtrancl)
  moreover have st: "length (sp_calls ?s8) = 2" "sp_calls ?s8 ! 0 = sample_call Call_Dropped"
      "sp_calls ?s8 ! 1 = sample_call (Call_Polled (Send_Done r))" "1 \<in> owners (sp_accepted ?s8)"
    using s4(6) by (simp_all add: s4(2) set_pool_call_def)
  ultimately show ?thesis
    using concurrent_sends [OF run, of 1] by (intro exI [of _ ?s8] exI [of _ r]) (simp add: st s4(2))
qed

end
