(* ===== verification/Metadata.thy ===== *)
theory Metadata
  imports Errors
begin

text \<open>
  Cluster metadata (\<open>metadata.rs\<close>) and group lists (\<open>groups.rs\<close>). Both are read-only views of
  structs that librdkafka allocates: the accessors read numbers, decode C strings and make
  slices of arrays. The theorems say that the views show exactly what a well-formed native
  struct holds, and when an accessor panics instead.
\<close>

section \<open>Slices of native arrays\<close>

text \<open>
  \<open>slice::from_raw_parts(p, cnt as usize)\<close>. Its contract asks for a pointer that is not null,
  also for an empty slice, and for memory that holds the elements. What happens outside the
  contract is undefined; a build with checks panics.
\<close>

definition from_raw_parts :: "'a ptr \<Rightarrow> int \<Rightarrow> 'a list rust" where
  "from_raw_parts p cnt =
     (case p of
        None \<Rightarrow> Panic ''unsafe precondition(s) violated''
      | Some m \<Rightarrow>
          if as_usize cnt \<le> length m then Ret (take (as_usize cnt) m)
          else Panic ''unsafe precondition(s) violated'')"

text \<open>\<open>CStr::from_ptr(s).to_str().expect(text)\<close>\<close>

definition cstr_expect :: "string \<Rightarrow> bytes \<Rightarrow> bytes rust" where
  "cstr_expect text s = expect text (from_utf8 (cstr_bytes s))"

fun rust_mapM :: "('a \<Rightarrow> 'b rust) \<Rightarrow> 'a list \<Rightarrow> 'b list rust" where
  "rust_mapM f [] = Ret []"
| "rust_mapM f (x # xs) = rust_bind (f x) (\<lambda>y. rust_map ((#) y) (rust_mapM f xs))"

section \<open>Native metadata\<close>

record RDKafkaMetadataBroker =
  mb_id :: int
  mb_host :: bytes
  mb_port :: int

record RDKafkaMetadataPartition =
  mp_id :: int
  mp_err :: RDKafkaRespErr
  mp_leader :: int
  mp_replica_cnt :: int
  mp_replicas :: "int ptr"
  mp_isr_cnt :: int
  mp_isrs :: "int ptr"

record RDKafkaMetadataTopic =
  mt_topic :: bytes
  mt_partition_cnt :: int
  mt_partitions :: "RDKafkaMetadataPartition ptr"
  mt_err :: RDKafkaRespErr

record RDKafkaMetadata =
  md_broker_cnt :: int
  md_brokers :: "RDKafkaMetadataBroker ptr"
  md_topic_cnt :: int
  md_topics :: "RDKafkaMetadataTopic ptr"
  md_orig_broker_id :: int
  md_orig_broker_name :: bytes

section \<open>Accessors of metadata\<close>

definition broker_id :: "RDKafkaMetadataBroker \<Rightarrow> int" where
  "broker_id b = mb_id b"

definition broker_host :: "RDKafkaMetadataBroker \<Rightarrow> bytes rust" where
  "broker_host b = cstr_expect ''Broker host is not a valid UTF-8 string'' (mb_host b)"

definition broker_port :: "RDKafkaMetadataBroker \<Rightarrow> int" where
  "broker_port b = mb_port b"

definition partition_id :: "RDKafkaMetadataPartition \<Rightarrow> int" where
  "partition_id p = mp_id p"

definition partition_leader :: "RDKafkaMetadataPartition \<Rightarrow> int" where
  "partition_leader p = mp_leader p"

definition partition_error :: "RDKafkaMetadataPartition \<Rightarrow> RDKafkaRespErr option" where
  "partition_error p = (if resp_err_is_error (mp_err p) then Some (mp_err p) else None)"

definition partition_replicas :: "RDKafkaMetadataPartition \<Rightarrow> int list rust" where
  "partition_replicas p = from_raw_parts (mp_replicas p) (mp_replica_cnt p)"

definition partition_isr :: "RDKafkaMetadataPartition \<Rightarrow> int list rust" where
  "partition_isr p = from_raw_parts (mp_isrs p) (mp_isr_cnt p)"

definition topic_name :: "RDKafkaMetadataTopic \<Rightarrow> bytes rust" where
  "topic_name t = cstr_expect ''Topic name is not a valid UTF-8 string'' (mt_topic t)"

definition topic_partitions :: "RDKafkaMetadataTopic \<Rightarrow> RDKafkaMetadataPartition list rust" where
  "topic_partitions t = from_raw_parts (mt_partitions t) (mt_partition_cnt t)"

definition topic_error :: "RDKafkaMetadataTopic \<Rightarrow> RDKafkaRespErr option" where
  "topic_error t = (if resp_err_is_error (mt_err t) then Some (mt_err t) else None)"

definition metadata_from_ptr :: "RDKafkaMetadata option \<Rightarrow> RDKafkaMetadata rust" where
  "metadata_from_ptr p = expect unwrap_none p"

definition orig_broker_id :: "RDKafkaMetadata \<Rightarrow> int" where
  "orig_broker_id m = md_orig_broker_id m"

definition orig_broker_name :: "RDKafkaMetadata \<Rightarrow> bytes rust" where
  "orig_broker_name m = cstr_expect ''Broker name is not a valid UTF-8 string'' (md_orig_broker_name m)"

definition metadata_brokers :: "RDKafkaMetadata \<Rightarrow> RDKafkaMetadataBroker list rust" where
  "metadata_brokers m = from_raw_parts (md_brokers m) (md_broker_cnt m)"

definition metadata_topics :: "RDKafkaMetadata \<Rightarrow> RDKafkaMetadataTopic list rust" where
  "metadata_topics m = from_raw_parts (md_topics m) (md_topic_cnt m)"

section \<open>Native group lists\<close>

record RDKafkaGroupMemberInfo =
  gm_member_id :: bytes
  gm_client_id :: bytes
  gm_client_host :: bytes
  gm_member_metadata :: "char ptr"
  gm_member_metadata_size :: int
  gm_member_assignment :: "char ptr"
  gm_member_assignment_size :: int

record RDKafkaGroupInfo =
  gi_group :: bytes
  gi_state :: bytes
  gi_protocol_type :: bytes
  gi_protocol :: bytes
  gi_members :: "RDKafkaGroupMemberInfo ptr"
  gi_member_cnt :: int

record RDKafkaGroupList =
  gl_groups :: "RDKafkaGroupInfo ptr"
  gl_group_cnt :: int

section \<open>Accessors of groups\<close>

definition member_id :: "RDKafkaGroupMemberInfo \<Rightarrow> bytes rust" where
  "member_id g = cstr_expect ''Member id is not a valid UTF-8 string'' (gm_member_id g)"

definition member_client_id :: "RDKafkaGroupMemberInfo \<Rightarrow> bytes rust" where
  "member_client_id g = cstr_expect ''Client id is not a valid UTF-8 string'' (gm_client_id g)"

definition member_client_host :: "RDKafkaGroupMemberInfo \<Rightarrow> bytes rust" where
  "member_client_host g = cstr_expect ''Member host is not a valid UTF-8 string'' (gm_client_host g)"

definition opt_raw_parts :: "'a ptr \<Rightarrow> int \<Rightarrow> 'a list option rust" where
  "opt_raw_parts p n = (case p of None \<Rightarrow> Ret None | Some m \<Rightarrow> rust_map Some (from_raw_parts p n))"

definition member_metadata :: "RDKafkaGroupMemberInfo \<Rightarrow> bytes option rust" where
  "member_metadata g = opt_raw_parts (gm_member_metadata g) (gm_member_metadata_size g)"

definition member_assignment :: "RDKafkaGroupMemberInfo \<Rightarrow> bytes option rust" where
  "member_assignment g = opt_raw_parts (gm_member_assignment g) (gm_member_assignment_size g)"

definition group_name :: "RDKafkaGroupInfo \<Rightarrow> bytes rust" where
  "group_name g = cstr_expect ''Group name is not a valid UTF-8 string'' (gi_group g)"

definition group_members :: "RDKafkaGroupInfo \<Rightarrow> RDKafkaGroupMemberInfo list rust" where
  "group_members g =
     (if gi_members g = None then Ret [] else from_raw_parts (gi_members g) (gi_member_cnt g))"

definition group_state :: "RDKafkaGroupInfo \<Rightarrow> bytes rust" where
  "group_state g = cstr_expect ''State is not a valid UTF-8 string'' (gi_state g)"

definition group_protocol :: "RDKafkaGroupInfo \<Rightarrow> bytes rust" where
  "group_protocol g = cstr_expect ''Protocol name is not a valid UTF-8 string'' (gi_protocol g)"

definition group_protocol_type :: "RDKafkaGroupInfo \<Rightarrow> bytes rust" where
  "group_protocol_type g = cstr_expect ''Protocol type is not a valid UTF-8 string'' (gi_protocol_type g)"

definition group_debug :: "RDKafkaGroupInfo \<Rightarrow> bytes rust" where
  "group_debug g = group_name g"

definition group_list_from_ptr :: "RDKafkaGroupList option \<Rightarrow> RDKafkaGroupList rust" where
  "group_list_from_ptr p = expect unwrap_none p"

definition group_list_groups :: "RDKafkaGroupList \<Rightarrow> RDKafkaGroupInfo list rust" where
  "group_list_groups l = from_raw_parts (gl_groups l) (gl_group_cnt l)"

section \<open>What a client sees\<close>

text \<open>
  A description of a cluster without pointers, and what a client sees when it reads every
  accessor. \<open>partition_view\<close> and \<open>topic_view\<close> also panic when the client's reading does.
\<close>

record partition_desc =
  pd_id :: int
  pd_leader :: int
  pd_error :: "RDKafkaRespErr option"
  pd_replicas :: "int list"
  pd_isr :: "int list"

record topic_desc =
  td_name :: bytes
  td_error :: "RDKafkaRespErr option"
  td_partitions :: "partition_desc list"

record cluster_desc =
  cd_orig_id :: int
  cd_orig_name :: bytes
  cd_brokers :: "(int \<times> bytes \<times> int) list"
  cd_topics :: "topic_desc list"

definition broker_view :: "RDKafkaMetadataBroker \<Rightarrow> (int \<times> bytes \<times> int) rust" where
  "broker_view b = rust_map (\<lambda>host. (broker_id b, host, broker_port b)) (broker_host b)"

definition partition_view :: "RDKafkaMetadataPartition \<Rightarrow> partition_desc rust" where
  "partition_view p =
     rust_bind (partition_replicas p) (\<lambda>replicas.
     rust_map (\<lambda>isr. \<lparr>pd_id = partition_id p, pd_leader = partition_leader p, pd_error = partition_error p,
       pd_replicas = replicas, pd_isr = isr\<rparr>) (partition_isr p))"

definition topic_view :: "RDKafkaMetadataTopic \<Rightarrow> topic_desc rust" where
  "topic_view t =
     rust_bind (topic_name t) (\<lambda>name.
     rust_bind (topic_partitions t) (\<lambda>ps.
     rust_map (\<lambda>ds. \<lparr>td_name = name, td_error = topic_error t, td_partitions = ds\<rparr>) (rust_mapM partition_view ps)))"

definition metadata_view :: "RDKafkaMetadata \<Rightarrow> cluster_desc rust" where
  "metadata_view m =
     rust_bind (orig_broker_name m) (\<lambda>name.
     rust_bind (metadata_brokers m) (\<lambda>bs.
     rust_bind (metadata_topics m) (\<lambda>ts.
     rust_bind (rust_mapM broker_view bs) (\<lambda>bds.
     rust_map (\<lambda>tds. \<lparr>cd_orig_id = orig_broker_id m, cd_orig_name = name, cd_brokers = bds, cd_topics = tds\<rparr>)
       (rust_mapM topic_view ts)))))"

section \<open>Encoding a description as a native struct\<close>

definition code_of :: "RDKafkaRespErr option \<Rightarrow> RDKafkaRespErr" where
  "code_of e = (case e of None \<Rightarrow> RD_KAFKA_RESP_ERR_NO_ERROR | Some err \<Rightarrow> err)"

definition native_partition :: "partition_desc \<Rightarrow> RDKafkaMetadataPartition" where
  "native_partition d =
     \<lparr>mp_id = pd_id d, mp_err = code_of (pd_error d), mp_leader = pd_leader d,
      mp_replica_cnt = int (length (pd_replicas d)), mp_replicas = Some (pd_replicas d),
      mp_isr_cnt = int (length (pd_isr d)), mp_isrs = Some (pd_isr d)\<rparr>"

definition native_topic_desc :: "topic_desc \<Rightarrow> RDKafkaMetadataTopic" where
  "native_topic_desc d =
     \<lparr>mt_topic = td_name d @ [NUL], mt_partition_cnt = int (length (td_partitions d)),
      mt_partitions = Some (map native_partition (td_partitions d)), mt_err = code_of (td_error d)\<rparr>"

definition native_broker :: "int \<times> bytes \<times> int \<Rightarrow> RDKafkaMetadataBroker" where
  "native_broker b = (case b of (i, host, port) \<Rightarrow> \<lparr>mb_id = i, mb_host = host @ [NUL], mb_port = port\<rparr>)"

definition native_metadata :: "cluster_desc \<Rightarrow> RDKafkaMetadata" where
  "native_metadata d =
     \<lparr>md_broker_cnt = int (length (cd_brokers d)), md_brokers = Some (map native_broker (cd_brokers d)),
      md_topic_cnt = int (length (cd_topics d)), md_topics = Some (map native_topic_desc (cd_topics d)),
      md_orig_broker_id = cd_orig_id d, md_orig_broker_name = cd_orig_name d @ [NUL]\<rparr>"

text \<open>What a description has to satisfy to be encoded: counts are \<open>c_int\<close>s, names are C strings.\<close>

definition cname_ok :: "bytes \<Rightarrow> bool" where
  "cname_ok s \<longleftrightarrow> NUL \<notin> set s \<and> utf8_valid s"

definition c_int_len :: "'a list \<Rightarrow> bool" where
  "c_int_len xs \<longleftrightarrow> length xs < 2 ^ 31"

definition error_ok :: "RDKafkaRespErr option \<Rightarrow> bool" where
  "error_ok e \<longleftrightarrow> (\<forall>err. e = Some err \<longrightarrow> resp_err_is_error err)"

definition partition_ok :: "partition_desc \<Rightarrow> bool" where
  "partition_ok d \<longleftrightarrow> error_ok (pd_error d) \<and> c_int_len (pd_replicas d) \<and> c_int_len (pd_isr d)"

definition topic_ok :: "topic_desc \<Rightarrow> bool" where
  "topic_ok d \<longleftrightarrow> cname_ok (td_name d) \<and> error_ok (td_error d) \<and> c_int_len (td_partitions d)
     \<and> list_all partition_ok (td_partitions d)"

definition cluster_ok :: "cluster_desc \<Rightarrow> bool" where
  "cluster_ok d \<longleftrightarrow> cname_ok (cd_orig_name d) \<and> c_int_len (cd_brokers d) \<and> c_int_len (cd_topics d)
     \<and> list_all (\<lambda>(i, host, port). cname_ok host) (cd_brokers d) \<and> list_all topic_ok (cd_topics d)"

section \<open>The views are exact\<close>

lemma from_raw_parts_all [simp]: "c_int_len m \<Longrightarrow> from_raw_parts (Some m) (int (length m)) = Ret m"
  by (simp add: from_raw_parts_def c_int_len_def)

lemma c_int_len_map [simp]: "c_int_len (map f xs) = c_int_len xs"
  by (simp add: c_int_len_def)

lemma from_raw_parts_map [simp]:
  "c_int_len xs \<Longrightarrow> from_raw_parts (Some (map f xs)) (int (length xs)) = Ret (map f xs)"
  using from_raw_parts_all [of "map f xs"] by simp

lemma cstr_expect_ok [simp]: "cname_ok s \<Longrightarrow> cstr_expect text (s @ [NUL]) = Ret s"
  using cstr_bytes_append [of s "[]"] by (simp add: cstr_expect_def cname_ok_def)

lemma native_errors [simp]:
  "error_ok (pd_error d) \<Longrightarrow> partition_error (native_partition d) = pd_error d"
  "error_ok (td_error t) \<Longrightarrow> topic_error (native_topic_desc t) = td_error t"
  by (auto simp: partition_error_def topic_error_def native_partition_def native_topic_desc_def error_ok_def code_of_def
      resp_err_is_error_def split: option.splits)

lemma rust_mapM_map:
  assumes "list_all P xs" and "\<And>x. P x \<Longrightarrow> f (g x) = Ret x"
  shows "rust_mapM f (map g xs) = Ret xs"
  using assms by (induction xs) simp_all

lemma partition_view_native: "partition_ok d \<Longrightarrow> partition_view (native_partition d) = Ret d"
proof -
  assume ok: "partition_ok d"
  then have "partition_error (native_partition d) = pd_error d" by (simp add: partition_ok_def)
  moreover have "partition_replicas (native_partition d) = Ret (pd_replicas d)" "partition_isr (native_partition d) = Ret (pd_isr d)"
    "partition_id (native_partition d) = pd_id d" "partition_leader (native_partition d) = pd_leader d"
    using ok by (simp_all add: native_partition_def partition_ok_def partition_replicas_def partition_isr_def
        partition_id_def partition_leader_def)
  ultimately show ?thesis by (simp add: partition_view_def)
qed

lemma topic_view_native: "topic_ok d \<Longrightarrow> topic_view (native_topic_desc d) = Ret d"
proof -
  assume ok: "topic_ok d"
  then have "rust_mapM partition_view (map native_partition (td_partitions d)) = Ret (td_partitions d)"
    using rust_mapM_map [of partition_ok "td_partitions d" partition_view native_partition, OF _ partition_view_native]
    by (simp add: topic_ok_def)
  moreover have "topic_error (native_topic_desc d) = td_error d" using ok by (simp add: topic_ok_def)
  moreover have "topic_name (native_topic_desc d) = Ret (td_name d)"
    "topic_partitions (native_topic_desc d) = Ret (map native_partition (td_partitions d))"
    using ok by (simp_all add: native_topic_desc_def topic_ok_def topic_name_def topic_partitions_def)
  ultimately show ?thesis by (simp add: topic_view_def)
qed

lemma broker_view_native: "(case b of (i, host, port) \<Rightarrow> cname_ok host) \<Longrightarrow> broker_view (native_broker b) = Ret b"
  by (cases b) (simp add: broker_view_def native_broker_def broker_host_def broker_id_def broker_port_def)

lemmas metadata_defs = metadata_view_def native_metadata_def cluster_ok_def orig_broker_name_def orig_broker_id_def
  metadata_brokers_def metadata_topics_def

text \<open>C27. The metadata a client reads is the metadata librdkafka holds: reading every
  accessor of the native encoding of a cluster gives the cluster back, with the names, the
  brokers, the topics and partitions in order, and an error exactly where the code is one.
  No accessor panics.\<close>

theorem metadata_view_exact:
  assumes "cluster_ok d"
  shows "metadata_view (native_metadata d) = Ret d"
proof -
  have "rust_mapM broker_view (map native_broker (cd_brokers d)) = Ret (cd_brokers d)"
    using assms by (intro rust_mapM_map [where P = "\<lambda>(i, host, port). cname_ok host"] broker_view_native) (auto simp: cluster_ok_def)
  moreover have "rust_mapM topic_view (map native_topic_desc (cd_topics d)) = Ret (cd_topics d)"
    using assms by (intro rust_mapM_map [where P = topic_ok] topic_view_native) (auto simp: cluster_ok_def)
  ultimately show ?thesis using assms by (simp add: metadata_defs)
qed

definition sample_cluster :: cluster_desc where
  "sample_cluster =
     \<lparr>cd_orig_id = 1, cd_orig_name = ''b1'', cd_brokers = [(1, ''host'', 9092)],
      cd_topics = [\<lparr>td_name = ''t'', td_error = None, td_partitions =
        [\<lparr>pd_id = 0, pd_leader = 1, pd_error = Some RD_KAFKA_RESP_ERR_LEADER_NOT_AVAILABLE, pd_replicas = [1, 2], pd_isr = []\<rparr>]\<rparr>]\<rparr>"

lemma ascii_name_ok: "ascii s \<Longrightarrow> NUL \<notin> set s \<Longrightarrow> cname_ok s"
  by (simp add: cname_ok_def utf8_valid_ascii)

lemma sample_cluster_ok: "cluster_ok sample_cluster"
proof -
  have "cname_ok ''b1''" "cname_ok ''host''" "cname_ok ''t''"
    by (rule ascii_name_ok; simp add: ascii_def byte_val_def)+
  then show ?thesis
    by (simp add: sample_cluster_def cluster_ok_def topic_ok_def partition_ok_def c_int_len_def error_ok_def
        resp_err_is_error_def)
qed

theorem metadata_view_exact_witness:
  "metadata_view (native_metadata sample_cluster) = Ret sample_cluster"
  by (rule metadata_view_exact [OF sample_cluster_ok])

section \<open>Groups\<close>

lemma from_raw_parts_Ret: "from_raw_parts p n = Ret xs \<Longrightarrow> length xs = as_usize n \<and> p \<noteq> None"
  by (auto simp: from_raw_parts_def split: option.splits if_splits)

text \<open>A null array is read differently by the two modules. The members of a group may be null,
  which is the empty list, and so may a member's metadata and assignment, which is \<open>None\<close>;
  in the metadata of a cluster a null array violates the contract of the slice, even when its
  count is zero. Whatever is returned has exactly the announced number of elements.\<close>

theorem null_arrays:
  "(gi_members g = None \<longrightarrow> group_members g = Ret [])
   \<and> (gm_member_metadata i = None \<longrightarrow> member_metadata i = Ret None)
   \<and> (gm_member_assignment i = None \<longrightarrow> member_assignment i = Ret None)
   \<and> (\<forall>xs. group_members g = Ret xs \<and> gi_members g \<noteq> None \<longrightarrow> length xs = as_usize (gi_member_cnt g))
   \<and> (mp_replicas p = None \<longrightarrow> (\<exists>m. partition_replicas p = Panic m))
   \<and> (\<forall>xs. partition_replicas p = Ret xs \<longrightarrow> length xs = as_usize (mp_replica_cnt p))"
  using from_raw_parts_Ret
  by (auto simp: group_members_def member_metadata_def member_assignment_def opt_raw_parts_def partition_replicas_def
      from_raw_parts_def split: option.splits if_splits)

theorem null_arrays_witness:
  "group_members \<lparr>gi_group = ''g'', gi_state = [], gi_protocol_type = [], gi_protocol = [], gi_members = None, gi_member_cnt = 3\<rparr> = Ret []"
  using null_arrays [of "\<lparr>gi_group = ''g'', gi_state = [], gi_protocol_type = [], gi_protocol = [], gi_members = None, gi_member_cnt = 3\<rparr>"]
  by simp

end
