(* ===== verification/Async_Processor.thy ===== *)
theory Async_Processor
  imports At_Least_Once Send_Pool Metadata
begin

text \<open>
  \<open>examples/asynchronous_processing.rs\<close>: every message of a stream is detached and handed to a
  task of its own, which computes a text from it, sends the text to an output topic and prints
  the result. The tasks run in parallel, as the calls of \<open>Send_Pool\<close>.
\<close>

section \<open>The program\<close>

definition processor_consumer ::
    "'w client_api \<Rightarrow> ('w, 'c) create_api \<Rightarrow> 'c conf_api \<Rightarrow> 'c producer_conf_api \<Rightarrow> 'w consumer_api \<Rightarrow> tpl_api \<Rightarrow> error_api
      \<Rightarrow> ('s, waker option) slab_api \<Rightarrow> map_iter \<Rightarrow> (log_level \<Rightarrow> bool) \<Rightarrow> arc \<Rightarrow> bytes \<Rightarrow> bytes \<Rightarrow> bytes \<Rightarrow> 'w world
      \<Rightarrow> ('w world \<times> 's StreamConsumer) rust" where
  "processor_consumer api crapi conf pconf capi tapi eapi sapi iter lg context brokers group_id input_topic w =
     rust_bind (stream_consumer_from_config_and_context api crapi conf pconf capi sapi iter w
       (foldl (\<lambda>config (key, value). config_set config key value) (client_config_new lg)
         [(''group.id'', group_id), (''bootstrap.servers'', brokers), (''enable.partition.eof'', ''false''),
          (''session.timeout.ms'', ''6000''), (''enable.auto.commit'', ''false'')]) context) (\<lambda>(w, r).
     rust_bind (result_expect (kafka_error_debug eapi) ''Consumer creation failed'' r) (\<lambda>consumer.
     rust_bind (subscribe capi tapi eapi w [input_topic]) (\<lambda>(w, r).
     rust_map (\<lambda>_. (w, consumer)) (result_expect (kafka_error_debug eapi) ''Can't subscribe to specified topic'' r))))"

definition processor_producer ::
    "'w client_api \<Rightarrow> ('w, 'c) create_api \<Rightarrow> 'c conf_api \<Rightarrow> 'c producer_conf_api \<Rightarrow> error_api \<Rightarrow> map_iter
      \<Rightarrow> (log_level \<Rightarrow> bool) \<Rightarrow> arc \<Rightarrow> addr \<Rightarrow> bytes \<Rightarrow> 'w world \<Rightarrow> ('w world \<times> FutureProducer) rust" where
  "processor_producer api crapi conf pconf eapi iter lg context thread brokers w =
     rust_bind (future_producer_from_config_and_context api crapi conf pconf iter w
       (config_set (config_set (client_config_new lg) ''bootstrap.servers'' brokers) ''message.timeout.ms'' ''5000'')
       context False thread) (\<lambda>(w, r).
     rust_map (Pair w) (result_expect (kafka_error_debug eapi) ''Producer creation error'' r))"

text \<open>The text depends on the message only; the random sleep is left to the interleaving.\<close>

definition expensive_computation :: "'h OwnedMessage \<Rightarrow> bytes" where
  "expensive_computation msg =
     (case payload_view str_from_bytes (om_payload msg) of
        Some (Inr payload) \<Rightarrow> ''Payload len for '' @ payload @ '' is '' @ show_nat (length payload)
      | Some (Inl _) \<Rightarrow> ''Message payload is not a string''
      | None \<Rightarrow> ''No payload'')"

definition result_record :: "bytes \<Rightarrow> 'h OwnedMessage \<Rightarrow> (bytes, bytes, 'h) FutureRecord" where
  "result_record output_topic msg =
     fr_set_payload (fr_set_key (future_record_to output_topic) ''some key'') (expensive_computation msg)"

text \<open>A task computes, awaits its call of \<open>send\<close>, or has printed the result of the call.\<close>

datatype 'h async_task = Async_Compute | Async_Send nat | Async_Printed nat "'h OwnedDeliveryResult"

record ('w, 'h, 'c, 's) async_sys =
  ap_pool :: "(bytes, bytes, 'w, 'h) send_pool"
  ap_world :: "'c world"
  ap_wakers :: 's
  ap_received :: "BorrowedMessage list"
  ap_tasks :: "('h OwnedMessage \<times> 'h async_task) list"
  ap_ended :: bool

definition async_init :: "'w world \<Rightarrow> 'c world \<Rightarrow> 's \<Rightarrow> ('w, 'h, 'c, 's) async_sys" where
  "async_init pw cw wakers =
     \<lparr>ap_pool = pool_init pw, ap_world = cw, ap_wakers = wakers, ap_received = [], ap_tasks = [], ap_ended = False\<rparr>"

text \<open>
  What \<open>try_for_each\<close> does with the outcome of a poll of the stream: an error ends it, a message
  is detached, dropped, and its task spawned. \<open>ap_received\<close> is not the program's: the steps below
  keep there every message that a poll of the stream yielded.
\<close>

definition async_next ::
    "'h headers_api \<Rightarrow> 'h message_api \<Rightarrow> 's \<times> 'c world \<times> BorrowedMessage KafkaResult option Poll \<Rightarrow> ('w, 'h, 'c, 's) async_sys
      \<Rightarrow> ('w, 'h, 'c, 's) async_sys" where
  "async_next hapi mapi res s =
     (case res of
        (wakers, w, p) \<Rightarrow>
          let s = s\<lparr>ap_world := w, ap_wakers := wakers\<rparr> in
          (case p of
             Pending \<Rightarrow> s
           | Ready (Some (Inr m)) \<Rightarrow>
               let s = s\<lparr>ap_world := emit (Native_event_destroy (bm_event m)) w\<rparr> in
               (case detach hapi mapi m of
                  Panic _ \<Rightarrow> s\<lparr>ap_ended := True\<rparr>
                | Ret owned \<Rightarrow> s\<lparr>ap_tasks := ap_tasks s @ [(owned, Async_Compute)]\<rparr>)
           | Ready _ \<Rightarrow> s\<lparr>ap_ended := True\<rparr>))"

definition yielded :: "'s \<times> 'c world \<times> BorrowedMessage KafkaResult option Poll \<Rightarrow> BorrowedMessage list" where
  "yielded res = (case snd (snd res) of Ready (Some (Inr m)) \<Rightarrow> [m] | _ \<Rightarrow> [])"

definition set_task :: "nat \<Rightarrow> 'h async_task \<Rightarrow> ('w, 'h, 'c, 's) async_sys \<Rightarrow> ('w, 'h, 'c, 's) async_sys" where
  "set_task i t s = s\<lparr>ap_tasks := (ap_tasks s)[i := (fst (ap_tasks s ! i), t)]\<rparr>"

definition async_send :: "bytes \<Rightarrow> nat \<Rightarrow> ('w, 'h, 'c, 's) async_sys \<Rightarrow> ('w, 'h, 'c, 's) async_sys" where
  "async_send output_topic i s =
     (set_task i (Async_Send (length (sp_calls (ap_pool s)))) s)
       \<lparr>ap_pool := (ap_pool s)\<lparr>sp_calls := sp_calls (ap_pool s)
          @ [(result_record output_topic (fst (ap_tasks s ! i)), After (from_secs 0), Call_New)]\<rparr>\<rparr>"

text \<open>A task awaits its call to the end: it does not drop it, and no other code makes calls.\<close>

definition calls_kept :: "('k, 'p, 'w, 'h) send_pool \<Rightarrow> ('k, 'p, 'w, 'h) send_pool \<Rightarrow> bool" where
  "calls_kept p p' \<longleftrightarrow> length (sp_calls p') = length (sp_calls p)
     \<and> (\<forall>k < length (sp_calls p). pool_state p' k = Call_Dropped \<longrightarrow> pool_state p k = Call_Dropped)"

inductive async_step ::
    "('w, 'h, 'c, 's) relay_api \<Rightarrow> consumer_context \<Rightarrow> MessageStream \<Rightarrow> waker \<Rightarrow> bytes \<Rightarrow> ('w, 'h, 'c, 's) async_sys
      \<Rightarrow> ('w, 'h, 'c, 's) async_sys \<Rightarrow> bool"
  for ra :: "('w, 'h, 'c, 's) relay_api" and ctx :: consumer_context and stream :: MessageStream and waker :: waker
    and output_topic :: bytes where
  ap_poll: "\<not> ap_ended s \<Longrightarrow>
     poll_next (rc_client ra) (rc_consumer ra) (rc_tpl ra) ctx (rc_slab ra) stream waker (ap_wakers s) (ap_world s) = Some (Ret res) \<Longrightarrow>
     async_step ra ctx stream waker output_topic s
       ((async_next (ra_headers ra) (ra_messages ra) res s)\<lparr>ap_received := ap_received s @ yielded res\<rparr>)"
| ap_poll_panics: "\<not> ap_ended s \<Longrightarrow>
     poll_next (rc_client ra) (rc_consumer ra) (rc_tpl ra) ctx (rc_slab ra) stream waker (ap_wakers s) (ap_world s) = Some (Panic msg) \<Longrightarrow>
     async_step ra ctx stream waker output_topic s (s\<lparr>ap_ended := True\<rparr>)"
| ap_computed: "i < length (ap_tasks s) \<Longrightarrow> snd (ap_tasks s ! i) = Async_Compute \<Longrightarrow>
     async_step ra ctx stream waker output_topic s (async_send output_topic i s)"
| ap_calls: "pool_step (ra_client ra) (ra_producer ra) str_to_bytes str_to_bytes (ra_headers ra) (ra_messages ra) (ap_pool s) p \<Longrightarrow>
     calls_kept (ap_pool s) p \<Longrightarrow>
     async_step ra ctx stream waker output_topic s (s\<lparr>ap_pool := p\<rparr>)"
| ap_print: "i < length (ap_tasks s) \<Longrightarrow> snd (ap_tasks s ! i) = Async_Send k \<Longrightarrow>
     pool_state (ap_pool s) k = Call_Polled (Send_Done d) \<Longrightarrow>
     async_step ra ctx stream waker output_topic s (set_task i (Async_Printed k d) s)"

section \<open>The invariant\<close>

fun task_call :: "'h async_task \<Rightarrow> nat option" where
  "task_call Async_Compute = None"
| "task_call (Async_Send k) = Some k"
| "task_call (Async_Printed k d) = Some k"

definition task_ok :: "bytes \<Rightarrow> (bytes, bytes, 'w, 'h) send_pool \<Rightarrow> 'h OwnedMessage \<times> 'h async_task \<Rightarrow> bool" where
  "task_ok output_topic p t \<longleftrightarrow>
     (\<forall>k. task_call (snd t) = Some k \<longrightarrow> k < length (sp_calls p) \<and> pool_record p k = result_record output_topic (fst t))
     \<and> (\<forall>k d. snd t = Async_Printed k d \<longrightarrow> pool_state p k = Call_Polled (Send_Done d))"

definition calls_distinct :: "('h OwnedMessage \<times> 'h async_task) list \<Rightarrow> bool" where
  "calls_distinct ts \<longleftrightarrow>
     (\<forall>i < length ts. \<forall>j < length ts. \<forall>k. task_call (snd (ts ! i)) = Some k \<and> task_call (snd (ts ! j)) = Some k \<longrightarrow> i = j)"

text \<open>
  Every message that the stream yielded has its task, in order, except that the program ends with
  one that cannot be detached.
\<close>

definition tasks_of_received :: "('w, 'h, 'c, 's) relay_api \<Rightarrow> ('w, 'h, 'c, 's) async_sys \<Rightarrow> bool" where
  "tasks_of_received ra s \<longleftrightarrow>
     (\<exists>ms rest. ap_received s = ms @ rest
        \<and> rust_mapM (detach (ra_headers ra) (ra_messages ra)) ms = Ret (map fst (ap_tasks s))
        \<and> (rest = [] \<or> ap_ended s \<and> (\<exists>m msg. rest = [m] \<and> detach (ra_headers ra) (ra_messages ra) m = Panic msg)))"

definition async_inv :: "('w, 'h, 'c, 's) relay_api \<Rightarrow> bytes \<Rightarrow> 'w world \<Rightarrow> ('w, 'h, 'c, 's) async_sys \<Rightarrow> bool" where
  "async_inv ra output_topic pw s \<longleftrightarrow>
     tasks_of_received ra s
     \<and> (pool_step (ra_client ra) (ra_producer ra) str_to_bytes str_to_bytes (ra_headers ra) (ra_messages ra))\<^sup>*\<^sup>* (pool_init pw) (ap_pool s)
     \<and> list_all (task_ok output_topic (ap_pool s)) (ap_tasks s) \<and> calls_distinct (ap_tasks s)"

lemma rust_mapM_snoc: "rust_mapM f xs = Ret ys \<Longrightarrow> f x = Ret y \<Longrightarrow> rust_mapM f (xs @ [x]) = Ret (ys @ [y])"
  by (induction xs arbitrary: ys) (auto split: rust.splits)

lemma async_inv_init: "async_inv ra output_topic pw (async_init pw cw wakers)"
  by (simp add: async_inv_def tasks_of_received_def async_init_def calls_distinct_def)

text \<open>The calls keep their records, and those that are done stay so.\<close>

lemma pool_step_kept:
  assumes "pool_step api papi kb pb hapi mapi p p'" and "calls_kept p p'" and k: "k < length (sp_calls p)"
  shows "pool_record p' k = pool_record p k
    \<and> (pool_state p k = Call_Polled (Send_Done d) \<longrightarrow> pool_state p' k = Call_Polled (Send_Done d))"
  using assms(1)
proof cases
  case (sp_call rec t)
  then show ?thesis using assms(2) by (simp add: calls_kept_def)
next
  case (sp_try i rec t start r w st)
  then show ?thesis using k by (auto simp: pool_tried_def Let_def)
next
  case (sp_dropped i)
  then show ?thesis using k assms(2) by (auto simp: calls_kept_def)
qed (use k in auto)

lemma task_ok_kept:
  assumes "pool_step api papi kb pb hapi mapi p p'" and "calls_kept p p'" and "task_ok output_topic p t"
  shows "task_ok output_topic p' t"
proof -
  have "length (sp_calls p') = length (sp_calls p)" using assms(2) by (simp add: calls_kept_def)
  moreover have "k < length (sp_calls p)" if "snd t = Async_Printed k d" for k d
    using assms(3) that by (simp add: task_ok_def)
  ultimately show ?thesis
    using assms(3) pool_step_kept [OF assms(1,2)] unfolding task_ok_def by (metis (no_types, lifting))
qed

lemma calls_distinct_update:
  assumes "calls_distinct ts" and "i < length ts"
    and "task_call t = task_call (snd (ts ! i)) \<or> (\<forall>j < length ts. task_call (snd (ts ! j)) \<noteq> task_call t)"
  shows "calls_distinct (ts[i := (m, t)])"
  unfolding calls_distinct_def length_list_update
proof (intro allI impI)
  fix a b k
  assume ab: "a < length ts" "b < length ts"
    and k: "task_call (snd (ts[i := (m, t)] ! a)) = Some k \<and> task_call (snd (ts[i := (m, t)] ! b)) = Some k"
  have dist: "task_call (snd (ts ! x)) \<noteq> task_call (snd (ts ! y))"
    if "x < length ts" "y < length ts" "x \<noteq> y" "task_call (snd (ts ! y)) = Some k" for x y
    using assms(1) that unfolding calls_distinct_def by metis
  show "a = b"
    using ab k assms(2,3) dist [of a b] dist [of a i] dist [of b i] by (cases "a = i"; cases "b = i") auto
qed

lemma async_inv_task:
  assumes inv: "async_inv ra output_topic pw s" and i: "i < length (ap_tasks s)"
    and pool: "(pool_step (ra_client ra) (ra_producer ra) str_to_bytes str_to_bytes (ra_headers ra) (ra_messages ra))\<^sup>*\<^sup>* (pool_init pw) p"
    and old: "\<And>t. task_ok output_topic (ap_pool s) t \<Longrightarrow> task_ok output_topic p t"
    and new: "task_ok output_topic p (fst (ap_tasks s ! i), t)"
    and dist: "task_call t = task_call (snd (ap_tasks s ! i)) \<or> (\<forall>j < length (ap_tasks s). task_call (snd (ap_tasks s ! j)) \<noteq> task_call t)"
  shows "async_inv ra output_topic pw ((set_task i t s)\<lparr>ap_pool := p\<rparr>)"
proof -
  have "map fst ((ap_tasks s)[i := (fst (ap_tasks s ! i), t)]) = map fst (ap_tasks s)"
    using i by (simp add: map_update) (metis length_map list_update_id nth_map)
  moreover have "list_all (task_ok output_topic p) ((ap_tasks s)[i := (fst (ap_tasks s ! i), t)])"
    using inv old new i by (auto simp: async_inv_def list_all_length nth_list_update)
  moreover have "calls_distinct ((ap_tasks s)[i := (fst (ap_tasks s ! i), t)])"
    using inv i dist by (intro calls_distinct_update) (simp_all add: async_inv_def)
  ultimately show ?thesis using inv pool by (simp add: async_inv_def tasks_of_received_def set_task_def)
qed

lemma async_inv_send:
  assumes inv: "async_inv ra output_topic pw s" and i: "i < length (ap_tasks s)"
  shows "async_inv ra output_topic pw (async_send output_topic i s)"
proof -
  let ?n = "length (sp_calls (ap_pool s))"
  let ?p = "(ap_pool s)\<lparr>sp_calls := sp_calls (ap_pool s)
      @ [(result_record output_topic (fst (ap_tasks s ! i)), After (from_secs 0), Call_New)]\<rparr>"
  have "task_call (snd (ap_tasks s ! j)) \<noteq> Some ?n" if "j < length (ap_tasks s)" for j
  proof
    assume "task_call (snd (ap_tasks s ! j)) = Some ?n"
    moreover have "task_ok output_topic (ap_pool s) (ap_tasks s ! j)" using inv that by (simp add: async_inv_def list_all_length)
    ultimately show False by (auto simp: task_ok_def)
  qed
  moreover have "task_ok output_topic ?p t" if "task_ok output_topic (ap_pool s) t" for t
    using that by (cases "snd t") (auto simp: task_ok_def nth_append)
  moreover have "task_ok output_topic ?p (fst (ap_tasks s ! i), Async_Send ?n)" by (simp add: task_ok_def)
  moreover have "(pool_step (ra_client ra) (ra_producer ra) str_to_bytes str_to_bytes (ra_headers ra) (ra_messages ra))\<^sup>*\<^sup>* (pool_init pw) ?p"
    using inv by (auto simp: async_inv_def intro: rtranclp.rtrancl_into_rtrancl sp_call)
  ultimately show ?thesis
    unfolding async_send_def by (intro async_inv_task [OF inv i]) simp_all
qed

lemma tasks_of_received_next:
  assumes "tasks_of_received ra s" and "\<not> ap_ended s"
  shows "tasks_of_received ra ((async_next (ra_headers ra) (ra_messages ra) res s)\<lparr>ap_received := ap_received s @ yielded res\<rparr>)"
proof -
  obtain wakers w p where res: "res = (wakers, w, p)" by (cases res)
  have old: "rust_mapM (detach (ra_headers ra) (ra_messages ra)) (ap_received s) = Ret (map fst (ap_tasks s))"
    using assms by (auto simp: tasks_of_received_def)
  show ?thesis
  proof (cases "\<exists>m. p = Ready (Some (Inr m))")
    case True
    then obtain m where p: "p = Ready (Some (Inr m))" ..
    show ?thesis
    proof (cases "detach (ra_headers ra) (ra_messages ra) m")
      case (Ret owned)
      from rust_mapM_snoc [OF old this] Ret show ?thesis
        unfolding tasks_of_received_def
        by (intro exI [of _ "ap_received s @ [m]"] exI [of _ "[]"]) (simp add: res p async_next_def yielded_def)
    next
      case (Panic msg)
      with old show ?thesis
        unfolding tasks_of_received_def
        by (intro exI [of _ "ap_received s"] exI [of _ "[m]"]) (simp add: res p async_next_def yielded_def)
    qed
  next
    case False
    with old show ?thesis
      unfolding tasks_of_received_def
      by (intro exI [of _ "ap_received s"] exI [of _ "[]"])
        (auto simp: res async_next_def yielded_def Let_def split: Poll.splits option.splits sum.splits)
  qed
qed

lemma async_inv_next:
  assumes "async_inv ra output_topic pw s" and "\<not> ap_ended s"
  shows "async_inv ra output_topic pw ((async_next (ra_headers ra) (ra_messages ra) res s)\<lparr>ap_received := ap_received s @ yielded res\<rparr>)"
proof -
  have "calls_distinct (ap_tasks s @ [(m, Async_Compute)])" for m
    using assms by (auto simp: async_inv_def calls_distinct_def nth_append less_Suc_eq)
  moreover note tasks_of_received_next [of ra s res]
  ultimately show ?thesis
    using assms
    by (auto simp: async_inv_def async_next_def task_ok_def Let_def
        split: prod.splits Poll.splits option.splits sum.splits rust.splits)
qed

lemma async_inv_step:
  assumes "async_step ra ctx stream waker output_topic s s'" and inv: "async_inv ra output_topic pw s"
  shows "async_inv ra output_topic pw s'"
  using assms(1)
proof cases
  case (ap_poll res)
  with async_inv_next [OF inv] show ?thesis by simp
next
  case (ap_poll_panics msg)
  with inv show ?thesis by (auto simp: async_inv_def tasks_of_received_def)
next
  case (ap_computed i)
  with async_inv_send [OF inv] show ?thesis by simp
next
  case (ap_calls p)
  with inv task_ok_kept [OF ap_calls(2,3)] show ?thesis
    by (auto simp: async_inv_def tasks_of_received_def elim: list.pred_mono_strong)
next
  case (ap_print i k d)
  have "task_ok output_topic (ap_pool s) (ap_tasks s ! i)" using inv ap_print(2) by (simp add: async_inv_def list_all_length)
  with ap_print(3,4) have "task_ok output_topic (ap_pool s) (fst (ap_tasks s ! i), Async_Printed k d)"
    by (simp add: task_ok_def)
  from async_inv_task [OF inv ap_print(2) _ _ this] inv ap_print(1,3) show ?thesis
    by (simp add: async_inv_def set_task_def)
qed

section \<open>Every task prints its own result\<close>

text \<open>What is to be sent for a message: the length of its payload, if it has one that is text.\<close>

definition expected_payload :: "bytes option \<Rightarrow> bytes" where
  "expected_payload payload =
     (case payload of
        None \<Rightarrow> ''No payload''
      | Some p \<Rightarrow> if utf8_valid p then ''Payload len for '' @ p @ '' is '' @ show_nat (length p)
                 else ''Message payload is not a string'')"

lemma result_record_content:
  "result_record output_topic m =
     \<lparr>fr_topic = output_topic, fr_partition = None, fr_payload = Some (expected_payload (om_payload m)),
      fr_key = Some ''some key'', fr_timestamp = None, fr_headers = None\<rparr>"
  by (simp add: result_record_def expensive_computation_def expected_payload_def payload_view_def str_from_bytes_def
      from_utf8_def future_record_to_def fr_set_key_def fr_set_payload_def split: option.split)

text \<open>C16. In the asynchronous example every message has a task of its own: in every run, the messages
  that the stream yielded are those of the tasks, detached and in the order of arrival, up to a last
  one that could not be detached and ended the program. No two tasks share a call of \<open>send\<close>, and
  what a task prints is the result of a record to the output topic with the text for the payload of
  its own message, however the tasks, the thread of the producer and librdkafka interleave.\<close>

theorem async_results_own:
  assumes "(async_step ra ctx stream waker output_topic)\<^sup>*\<^sup>* (async_init pw cw wakers) s"
  shows "(\<exists>ms rest. ap_received s = ms @ rest
        \<and> rust_mapM (detach (ra_headers ra) (ra_messages ra)) ms = Ret (map fst (ap_tasks s))
        \<and> (rest = [] \<or> ap_ended s \<and> (\<exists>m msg. rest = [m] \<and> detach (ra_headers ra) (ra_messages ra) m = Panic msg)))
    \<and> calls_distinct (ap_tasks s)
    \<and> (\<forall>(m, t) \<in> set (ap_tasks s). \<forall>k d. t = Async_Printed k d \<longrightarrow>
         own_send_result str_to_bytes str_to_bytes (ap_pool s) k
           \<lparr>fr_topic = output_topic, fr_partition = None, fr_payload = Some (expected_payload (om_payload m)),
            fr_key = Some ''some key'', fr_timestamp = None, fr_headers = None\<rparr> d)"
  unfolding result_record_content [symmetric]
proof -
  have inv: "async_inv ra output_topic pw s"
    using assms by (induction rule: rtranclp_induct) (simp_all add: async_inv_init async_inv_step)
  then have pool: "pool_inv str_to_bytes str_to_bytes (ap_pool s)" unfolding async_inv_def using pool_run_inv by blast
  have "own_send_result str_to_bytes str_to_bytes (ap_pool s) k (result_record output_topic m) d"
    if "(m, Async_Printed k d) \<in> set (ap_tasks s)" for m k d
  proof -
    have "task_ok output_topic (ap_pool s) (m, Async_Printed k d)" using inv that by (auto simp: async_inv_def list_all_iff)
    then have k: "k < length (sp_calls (ap_pool s))" "pool_record (ap_pool s) k = result_record output_topic m"
        "pool_state (ap_pool s) k = Call_Polled (Send_Done d)" by (auto simp: task_ok_def)
    then have "pool_call_ok str_to_bytes str_to_bytes (ap_pool s) k (result_record output_topic m) (Call_Polled (Send_Done d))"
      using pool unfolding pool_inv_def by metis
    then show ?thesis by simp
  qed
  with inv show "(\<exists>ms rest. ap_received s = ms @ rest
        \<and> rust_mapM (detach (ra_headers ra) (ra_messages ra)) ms = Ret (map fst (ap_tasks s))
        \<and> (rest = [] \<or> ap_ended s \<and> (\<exists>m msg. rest = [m] \<and> detach (ra_headers ra) (ra_messages ra) m = Panic msg)))
    \<and> calls_distinct (ap_tasks s)
    \<and> (\<forall>(m, t) \<in> set (ap_tasks s). \<forall>k d. t = Async_Printed k d \<longrightarrow>
         own_send_result str_to_bytes str_to_bytes (ap_pool s) k (result_record output_topic m) d)"
    unfolding async_inv_def tasks_of_received_def by blast
qed

section \<open>A run\<close>

text \<open>A run of the calls that drops none and makes none is a run of the program.\<close>

lemma pool_step_mono:
  assumes "pool_step api papi kb pb hapi mapi p p'"
  shows "length (sp_calls p) \<le> length (sp_calls p')
    \<and> (\<forall>k < length (sp_calls p). pool_state p k = Call_Dropped \<longrightarrow> pool_state p' k = Call_Dropped)"
  using assms by cases (auto simp: pool_tried_def Let_def nth_append)

lemma pool_run_mono:
  "(pool_step api papi kb pb hapi mapi)\<^sup>*\<^sup>* p p' \<Longrightarrow> length (sp_calls p) \<le> length (sp_calls p')
    \<and> (\<forall>k < length (sp_calls p). pool_state p k = Call_Dropped \<longrightarrow> pool_state p' k = Call_Dropped)"
proof (induction rule: rtranclp_induct)
  case (step p1 p2)
  with pool_step_mono [OF step.hyps(2)] show ?case by fastforce
qed simp

lemma async_run_pool:
  assumes "(pool_step (ra_client ra) (ra_producer ra) str_to_bytes str_to_bytes (ra_headers ra) (ra_messages ra))\<^sup>*\<^sup>* (ap_pool s) p"
    and "length (sp_calls p) = length (sp_calls (ap_pool s))" and "\<forall>k < length (sp_calls p). pool_state p k \<noteq> Call_Dropped"
  shows "(async_step ra ctx stream waker output_topic)\<^sup>*\<^sup>* s (s\<lparr>ap_pool := p\<rparr>)"
  using assms
proof (induction rule: rtranclp_induct)
  case (step q p)
  from pool_run_mono [OF step.hyps(1)] pool_step_mono [OF step.hyps(2)] step.prems
  have q: "length (sp_calls q) = length (sp_calls (ap_pool s))" "\<forall>k < length (sp_calls q). pool_state q k \<noteq> Call_Dropped"
    by (auto dest: le_antisym)
  have "calls_kept (ap_pool (s\<lparr>ap_pool := q\<rparr>)) p" using step.prems q by (simp add: calls_kept_def)
  from ap_calls [OF _ this, of ra] step.hyps(2)
  have "async_step ra ctx stream waker output_topic (s\<lparr>ap_pool := q\<rparr>) (s\<lparr>ap_pool := p\<rparr>)" by simp
  with step.IH [OF q] show ?case by (rule rtranclp.rtrancl_into_rtrancl)
qed simp

abbreviation sample_async_step ::
    "(sample_headers producev_args list, sample_headers, RDKafkaEvent list, nat option option list) async_sys
      \<Rightarrow> (sample_headers producev_args list, sample_headers, RDKafkaEvent list, nat option option list) async_sys \<Rightarrow> bool" where
  "sample_async_step \<equiv>
     async_step sample_relay_api DefaultConsumerContext \<lparr>ms_consumer_queue = 1, ms_partition_queue = None, ms_slot = 0\<rparr> 9 ''out''"

definition sample_async_init :: "(sample_headers producev_args list, sample_headers, RDKafkaEvent list, nat option option list) async_sys" where
  "sample_async_init = async_init (sample_world []) (sample_world [sample_fetch_event]) [Some None]"

lemma sample_detach: "\<exists>m. detach headers_instance message_instance input_message = Ret m"
proof -
  have "bm_topic message_instance input_message = Ret ''t''"
    by (simp add: bm_topic_def message_instance_def cstr_bytes_def utf8_valid_ascii ascii_def byte_val_def)
  then show ?thesis
    using borrowed_detach_ok [OF headers_instance_ok]
    by (cases "bm_headers message_instance input_message") (fastforce simp: detach_def)+
qed

text \<open>The message has a task, and the task has called \<open>send\<close>.\<close>

lemma sample_async_called:
  "\<exists>s m. sample_async_step\<^sup>*\<^sup>* sample_async_init s \<and> ap_received s = [input_message] \<and> ap_tasks s = [(m, Async_Send 0)]
    \<and> detach headers_instance message_instance input_message = Ret m
    \<and> ap_pool s = (pool_init (sample_world []))\<lparr>sp_calls := [(result_record ''out'' m, After (from_secs 0), Call_New)]\<rparr>"
proof -
  obtain m where m: "detach headers_instance message_instance input_message = Ret m" using sample_detach ..
  from sample_message_polled [of 0 9 "[Some None]"] obtain w' where
    "poll_next client_instance consumer_instance tpl_instance DefaultConsumerContext slab_instance
      \<lparr>ms_consumer_queue = 1, ms_partition_queue = None, ms_slot = 0\<rparr> 9 [Some None] (sample_world [sample_fetch_event])
      = Some (Ret ([Some None], w', Ready (Some (Ok input_message))))" by blast
  then have 1: "sample_async_step sample_async_init
      ((async_next headers_instance message_instance ([Some None], w', Ready (Some (Ok input_message))) sample_async_init)
        \<lparr>ap_received := [input_message]\<rparr>)"
    using ap_poll [of sample_async_init sample_relay_api, where res = "([Some None], w', Ready (Some (Ok input_message)))"]
    by (simp add: sample_async_init_def async_init_def sample_relay_api_def yielded_def)
  let ?s1 = "(async_next headers_instance message_instance ([Some None], w', Ready (Some (Ok input_message))) sample_async_init)
    \<lparr>ap_received := [input_message]\<rparr>"
  have s1: "ap_tasks ?s1 = [(m, Async_Compute)]" "ap_pool ?s1 = pool_init (sample_world [])" "ap_received ?s1 = [input_message]"
    using m by (simp_all add: async_next_def sample_async_init_def async_init_def)
  have "sample_async_step ?s1 (async_send ''out'' 0 ?s1)" by (rule ap_computed) (simp_all add: s1)
  with 1 have "sample_async_step\<^sup>*\<^sup>* sample_async_init (async_send ''out'' 0 ?s1)"
    by (meson converse_rtranclp_into_rtranclp rtranclp.rtrancl_refl)
  with s1 m show ?thesis
    by (intro exI [of _ "async_send ''out'' 0 ?s1"] exI [of _ m]) (simp add: async_send_def set_task_def pool_init_def)
qed

lemma sample_call_resolved:
  assumes "sp_calls p = [(record, t, Call_New)]" and "NUL \<notin> set (fr_topic record)"
    and "sp_delivery p = delivery_init w"
  shows "\<exists>p' d. sample_pool_step\<^sup>*\<^sup>* p p' \<and> sp_calls p' = [(record, t, Call_Polled (Send_Done (Ok d)))]"
proof -
  have "\<exists>p1. sample_pool_step\<^sup>*\<^sup>* p p1 \<and> sp_calls p1 = (sp_calls p)[0 := (record, t, Call_Polled (Send_Wait (Box 11)))]
      \<and> ds_issued (sp_delivery p1) = insert 11 (ds_issued (sp_delivery p))
      \<and> ds_inflight (sp_delivery p1) = insert 11 (ds_inflight (sp_delivery p)) \<and> ds_queue (sp_delivery p1) = ds_queue (sp_delivery p)
      \<and> 0 \<in> owners (sp_accepted p1)"
    by (rule sample_pool_send) (use assms in \<open>simp_all add: delivery_init_def pool_senders_def\<close>)
  then obtain p1 where p1: "sample_pool_step\<^sup>*\<^sup>* p p1" "sp_calls p1 = [(record, t, Call_Polled (Send_Wait (Box 11)))]"
      "ds_inflight (sp_delivery p1) = {11}" "ds_queue (sp_delivery p1) = []"
    using assms by (auto simp: delivery_init_def)
  let ?p2 = "p1\<lparr>sp_delivery := (sp_delivery p1)\<lparr>ds_inflight := ds_inflight (sp_delivery p1) - set (event_opaques copy_report),
      ds_queue := ds_queue (sp_delivery p1) @ [copy_report]\<rparr>\<rparr>"
  have 2: "sample_pool_step p1 ?p2" by (rule sp_reported) (simp_all add: copy_report_opaques p1(3))
  from copy_report_served [of "sp_delivery ?p2"]
  obtain d dl where d: "delivery_serve headers_instance message_instance (sp_delivery ?p2) = Ret d" "ds_channel d 11 = Some (Ok dl)"
    by (auto simp: p1(4))
  let ?p3 = "?p2\<lparr>sp_delivery := d\<rparr>"
  have "sample_pool_step ?p2 ?p3" using d(1) by (rule sp_served)
  moreover have "sample_pool_step ?p3 (set_pool_call 0 (Call_Polled (Send_Done (Ok dl))) ?p3)"
    by (rule sp_resolved [where tx = "Box 11"]) (simp_all add: p1(2) delivery_future_poll_iff box_into_ptr_def d(2))
  ultimately have "sample_pool_step\<^sup>*\<^sup>* p (set_pool_call 0 (Call_Polled (Send_Done (Ok dl))) ?p3)"
    using p1(1) 2 by (meson rtranclp.rtrancl_into_rtrancl)
  moreover have "sp_calls (set_pool_call 0 (Call_Polled (Send_Done (Ok dl))) ?p3) = [(record, t, Call_Polled (Send_Done (Ok dl)))]"
    by (simp add: set_pool_call_def p1(2))
  ultimately show ?thesis by blast
qed

theorem async_results_own_witness:
  "\<exists>s m d. sample_async_step\<^sup>*\<^sup>* sample_async_init s \<and> detach headers_instance message_instance input_message = Ret m
    \<and> ap_tasks s = [(m, Async_Printed 0 (Ok d))]
    \<and> own_send_result str_to_bytes str_to_bytes (ap_pool s) 0
      \<lparr>fr_topic = ''out'', fr_partition = None, fr_payload = Some (expected_payload (om_payload m)),
       fr_key = Some ''some key'', fr_timestamp = None, fr_headers = None\<rparr> (Ok d)"
proof -
  from sample_async_called obtain s m where s: "sample_async_step\<^sup>*\<^sup>* sample_async_init s" "ap_received s = [input_message]"
      "ap_tasks s = [(m, Async_Send 0)]" and m: "detach headers_instance message_instance input_message = Ret m" and pool:
      "ap_pool s = (pool_init (sample_world []))\<lparr>sp_calls := [(result_record ''out'' m, After (from_secs 0), Call_New)]\<rparr>" by blast
  have "NUL \<notin> set (fr_topic (result_record ''out'' m))"
    by (simp add: result_record_def future_record_to_def fr_set_payload_def fr_set_key_def)
  then have "\<exists>p d. sample_pool_step\<^sup>*\<^sup>* (ap_pool s) p
      \<and> sp_calls p = [(result_record ''out'' m, After (from_secs 0), Call_Polled (Send_Done (Ok d)))]"
    by (intro sample_call_resolved) (simp_all add: pool pool_init_def)
  then obtain p d where p: "sample_pool_step\<^sup>*\<^sup>* (ap_pool s) p"
      "sp_calls p = [(result_record ''out'' m, After (from_secs 0), Call_Polled (Send_Done (Ok d)))]" by blast
  let ?s1 = "s\<lparr>ap_pool := p\<rparr>"
  let ?s2 = "set_task 0 (Async_Printed 0 (Ok d)) ?s1"
  have "sample_async_step\<^sup>*\<^sup>* s ?s1"
    by (rule async_run_pool) (use p in \<open>simp_all add: sample_relay_api_def pool\<close>)
  moreover have "sample_async_step ?s1 ?s2" by (rule ap_print) (simp_all add: s(3) p(2))
  ultimately have run: "sample_async_step\<^sup>*\<^sup>* sample_async_init ?s2"
    using s(1) by (meson rtranclp.rtrancl_into_rtrancl rtranclp_trans)
  have tasks: "ap_tasks ?s2 = [(m, Async_Printed 0 (Ok d))]" "ap_received ?s2 = [input_message]"
    by (simp_all add: set_task_def s)
  have "\<forall>(m, t) \<in> set (ap_tasks ?s2). \<forall>k d. t = Async_Printed k d \<longrightarrow>
      own_send_result str_to_bytes str_to_bytes (ap_pool ?s2) k
        \<lparr>fr_topic = ''out'', fr_partition = None, fr_payload = Some (expected_payload (om_payload m)),
         fr_key = Some ''some key'', fr_timestamp = None, fr_headers = None\<rparr> d"
    using async_results_own [OF run [unfolded sample_async_init_def]] by blast
  with run tasks m show ?thesis by (intro exI [of _ ?s2] exI [of _ m] exI [of _ d]) simp
qed

end
