(* ===== verification/Simple_Producer.thy ===== *)
theory Simple_Producer
  imports At_Least_Once
begin

text \<open>
  \<open>examples/simple_producer.rs\<close>: five records are sent and the results awaited. An \<open>async\<close> block
  runs only when it is polled, so the five blocks that the iterator collects have done nothing
  until the loop awaits them, one after the other. The producer's thread, librdkafka and the
  task interleave as in \<open>Delivery_System\<close>.
\<close>

section \<open>The program\<close>

definition produce_setup ::
    "'w client_api \<Rightarrow> ('w, 'c) create_api \<Rightarrow> 'c conf_api \<Rightarrow> 'c producer_conf_api \<Rightarrow> error_api \<Rightarrow> map_iter
      \<Rightarrow> (log_level \<Rightarrow> bool) \<Rightarrow> arc \<Rightarrow> addr \<Rightarrow> bytes \<Rightarrow> 'w world \<Rightarrow> ('w world \<times> FutureProducer) rust" where
  "produce_setup api crapi conf pconf eapi iter lg context thread brokers w =
     rust_bind (future_producer_from_config_and_context api crapi conf pconf iter w
       (config_set (config_set (client_config_new lg) ''bootstrap.servers'' brokers) ''message.timeout.ms'' ''5000'')
       context False thread) (\<lambda>(w, r).
     rust_map (Pair w) (result_expect (kafka_error_debug eapi) ''Producer creation error'' r))"

definition produce_record :: "'h headers_api \<Rightarrow> bytes \<Rightarrow> nat \<Rightarrow> (bytes, bytes, 'h) FutureRecord rust" where
  "produce_record hapi topic_name i =
     rust_bind (owned_new hapi) (\<lambda>headers.
     rust_map (fr_set_headers (fr_set_key (fr_set_payload (future_record_to topic_name) (''Message '' @ show_nat i)) (''Key '' @ show_nat i)))
       (owned_insert hapi str_to_bytes headers \<lparr>hdr_key = ''header_key'', hdr_value = Some ''header_value''\<rparr>))"

text \<open>
  \<open>pd_futures\<close> are the blocks that the loop has not reached, \<open>pd_current\<close> the one it awaits, with
  the state of its call of \<open>send\<close> once it was polled; \<open>pd_results\<close> what the loop logged, and
  \<open>pd_accepted\<close> what librdkafka accepted under each opaque.
\<close>

record ('w, 'h) produce_sys =
  pd_delivery :: "('w, 'h) delivery_sys"
  pd_futures :: "nat list"
  pd_current :: "(nat \<times> (bytes, bytes, 'h) send_state option) option"
  pd_results :: "(nat \<times> 'h OwnedDeliveryResult) list"
  pd_accepted :: "addr \<rightharpoonup> 'h producev_args"
  pd_panicked :: bool

definition produce_init :: "'w world \<Rightarrow> ('w, 'h) produce_sys" where
  "produce_init w =
     \<lparr>pd_delivery = delivery_init w, pd_futures = [0..<5], pd_current = None, pd_results = [], pd_accepted = Map.empty,
      pd_panicked = False\<rparr>"

abbreviation produce_args :: "(bytes, bytes, box, 'h) BaseRecord \<Rightarrow> 'h producev_args" where
  "produce_args r \<equiv> record_args str_to_bytes str_to_bytes box_into_ptr r"

definition produce_tried ::
    "('w, 'h) producer_api \<Rightarrow> nat \<Rightarrow> (bytes, bytes, box, 'h) BaseRecord \<Rightarrow> 'w world \<times> (bytes, bytes, 'h) send_state \<Rightarrow> ('w, 'h) produce_sys \<Rightarrow> ('w, 'h) produce_sys" where
  "produce_tried papi i r res s =
     (case res of
        (w, st) \<Rightarrow>
          let accepted = producev_accepts papi str_to_bytes str_to_bytes r (ds_world (pd_delivery s));
              p = box_into_ptr (br_delivery_opaque r)
          in s\<lparr>pd_delivery := send_tried accepted p w (pd_delivery s), pd_current := Some (i, Some st),
               pd_accepted := (if accepted then (pd_accepted s)(p \<mapsto> produce_args r) else pd_accepted s)\<rparr>)"

text \<open>The time that \<open>send\<close> may wait for room in the queue is zero.\<close>

inductive produce_step ::
    "'w client_api \<Rightarrow> ('w, 'h) producer_api \<Rightarrow> 'h headers_api \<Rightarrow> 'h message_api \<Rightarrow> bytes \<Rightarrow> ('w, 'h) produce_sys \<Rightarrow> ('w, 'h) produce_sys \<Rightarrow> bool"
  for api :: "'w client_api" and papi :: "('w, 'h) producer_api" and hapi :: "'h headers_api" and mapi :: "'h message_api"
    and topic_name :: bytes where
  pd_await: "pd_current s = None \<Longrightarrow> pd_futures s = i # is \<Longrightarrow> \<not> pd_panicked s \<Longrightarrow>
     produce_step api papi hapi mapi topic_name s (s\<lparr>pd_futures := is, pd_current := Some (i, None)\<rparr>)"
| pd_start: "pd_current s = Some (i, None) \<Longrightarrow> \<not> pd_panicked s \<Longrightarrow> produce_record hapi topic_name i = Ret record \<Longrightarrow>
     box_into_ptr tx \<notin> ds_issued (pd_delivery s) \<Longrightarrow> send_start api tx record (ds_world (pd_delivery s)) = (w, st) \<Longrightarrow>
     produce_step api papi hapi mapi topic_name s
       (s\<lparr>pd_delivery := (pd_delivery s)\<lparr>ds_world := w\<rparr>, pd_current := Some (i, Some st)\<rparr>)"
| pd_record_panics: "pd_current s = Some (i, None) \<Longrightarrow> produce_record hapi topic_name i = Panic msg \<Longrightarrow>
     produce_step api papi hapi mapi topic_name s (s\<lparr>pd_panicked := True\<rparr>)"
| pd_try: "pd_current s = Some (i, Some (Send_Queue start r)) \<Longrightarrow>
     send_try api papi str_to_bytes str_to_bytes (After (from_secs 0)) start r (ds_world (pd_delivery s)) = res \<Longrightarrow>
     produce_step api papi hapi mapi topic_name s (produce_tried papi i r res s)"
| pd_resolved: "pd_current s = Some (i, Some (Send_Wait tx)) \<Longrightarrow>
     delivery_future_poll (pd_delivery s) (box_into_ptr tx) = Future_Ready (Ok d) \<Longrightarrow>
     produce_step api papi hapi mapi topic_name s (s\<lparr>pd_current := Some (i, Some (Send_Done d))\<rparr>)"
| pd_completed: "pd_current s = Some (i, Some (Send_Done d)) \<Longrightarrow>
     produce_step api papi hapi mapi topic_name s (s\<lparr>pd_current := None, pd_results := pd_results s @ [(i, d)]\<rparr>)"
| pd_reported: "ev_type ev = RD_KAFKA_EVENT_DR \<Longrightarrow> distinct (event_opaques ev) \<Longrightarrow>
     set (event_opaques ev) \<subseteq> ds_inflight (pd_delivery s) \<Longrightarrow>
     produce_step api papi hapi mapi topic_name s
       (s\<lparr>pd_delivery := (pd_delivery s)\<lparr>ds_inflight := ds_inflight (pd_delivery s) - set (event_opaques ev),
            ds_queue := ds_queue (pd_delivery s) @ [ev]\<rparr>\<rparr>)"
| pd_served: "delivery_serve hapi mapi (pd_delivery s) = Ret d \<Longrightarrow>
     produce_step api papi hapi mapi topic_name s (s\<lparr>pd_delivery := d\<rparr>)"
| pd_elapse: "produce_step api papi hapi mapi topic_name s (s\<lparr>pd_delivery := (pd_delivery s)\<lparr>ds_world := w\<rparr>\<rparr>)"

section \<open>The invariant\<close>

text \<open>The opaque whose report is outstanding, if the current call waits for one.\<close>

fun waits_for :: "(nat \<times> (bytes, bytes, 'h) send_state option) option \<Rightarrow> addr set" where
  "waits_for (Some (i, Some (Send_Wait tx))) = {box_into_ptr tx}"
| "waits_for _ = {}"

fun current_index :: "(nat \<times> 'a) option \<Rightarrow> nat list" where
  "current_index (Some (i, c)) = [i]"
| "current_index None = []"

text \<open>The result of message \<open>i\<close> is that of its own record: refused with it, or reported for it.\<close>

definition own_result :: "'h headers_api \<Rightarrow> bytes \<Rightarrow> ('w, 'h) produce_sys \<Rightarrow> nat \<Rightarrow> 'h OwnedDeliveryResult \<Rightarrow> bool" where
  "own_result hapi topic_name s i d \<longleftrightarrow>
     (\<exists>record tx. produce_record hapi topic_name i = Ret record
        \<and> ((\<exists>e. d = Err (e, record_message str_to_bytes str_to_bytes (into_base_record record tx)))
           \<or> pd_accepted s (box_into_ptr tx) = Some (produce_args (into_base_record record tx))
             \<and> ds_channel (pd_delivery s) (box_into_ptr tx) = Some d))"

fun current_ok :: "'h headers_api \<Rightarrow> bytes \<Rightarrow> ('w, 'h) produce_sys \<Rightarrow> (nat \<times> (bytes, bytes, 'h) send_state option) option \<Rightarrow> bool" where
  "current_ok hapi topic_name s (Some (i, Some (Send_Queue start r))) \<longleftrightarrow>
     (\<exists>record tx. produce_record hapi topic_name i = Ret record \<and> r = into_base_record record tx
        \<and> box_into_ptr tx \<notin> ds_issued (pd_delivery s))"
| "current_ok hapi topic_name s (Some (i, Some (Send_Wait tx))) \<longleftrightarrow>
     (\<exists>record. produce_record hapi topic_name i = Ret record
        \<and> pd_accepted s (box_into_ptr tx) = Some (produce_args (into_base_record record tx)))"
| "current_ok hapi topic_name s (Some (i, Some (Send_Done d))) \<longleftrightarrow> own_result hapi topic_name s i d"
| "current_ok hapi topic_name s _ \<longleftrightarrow> True"

definition produce_inv :: "'h headers_api \<Rightarrow> bytes \<Rightarrow> ('w, 'h) produce_sys \<Rightarrow> bool" where
  "produce_inv hapi topic_name s \<longleftrightarrow>
     map fst (pd_results s) @ current_index (pd_current s) @ pd_futures s = [0..<5]
     \<and> ds_issued (pd_delivery s) - dom (ds_channel (pd_delivery s)) \<subseteq> waits_for (pd_current s)
     \<and> dom (pd_accepted s) \<subseteq> ds_issued (pd_delivery s)
     \<and> current_ok hapi topic_name s (pd_current s)
     \<and> (\<forall>(i, d) \<in> set (pd_results s). own_result hapi topic_name s i d)"

lemma produce_inv_init: "produce_inv hapi topic_name (produce_init w)"
  by (simp add: produce_inv_def produce_init_def delivery_init_def)

lemma own_result_grows:
  assumes "own_result hapi topic_name s i d"
    and "pd_accepted s \<subseteq>\<^sub>m pd_accepted s'" and "ds_channel (pd_delivery s) \<subseteq>\<^sub>m ds_channel (pd_delivery s')"
  shows "own_result hapi topic_name s' i d"
proof -
  from assms(1) obtain rec tx where r: "produce_record hapi topic_name i = Ret rec"
    and c: "(\<exists>e. d = Err (e, record_message str_to_bytes str_to_bytes (into_base_record rec tx)))
      \<or> pd_accepted s (box_into_ptr tx) = Some (produce_args (into_base_record rec tx))
        \<and> ds_channel (pd_delivery s) (box_into_ptr tx) = Some d"
    unfolding own_result_def by blast
  from c have "(\<exists>e. d = Err (e, record_message str_to_bytes str_to_bytes (into_base_record rec tx)))
      \<or> pd_accepted s' (box_into_ptr tx) = Some (produce_args (into_base_record rec tx))
        \<and> ds_channel (pd_delivery s') (box_into_ptr tx) = Some d"
    using map_le_Some [OF assms(2)] map_le_Some [OF assms(3)] by (elim disjE) simp_all
  with r show ?thesis unfolding own_result_def by blast
qed

lemma current_ok_grows:
  assumes "current_ok hapi topic_name s c"
    and "pd_accepted s \<subseteq>\<^sub>m pd_accepted s'" and "ds_channel (pd_delivery s) \<subseteq>\<^sub>m ds_channel (pd_delivery s')"
    and "ds_issued (pd_delivery s') = ds_issued (pd_delivery s)"
  shows "current_ok hapi topic_name s' c"
  using assms
  by (cases "(hapi, topic_name, s, c)" rule: current_ok.cases) (auto dest: map_le_Some intro: own_result_grows)

text \<open>On the delivery system, a step of the program is a step or nothing.\<close>

lemma produce_delivery_step:
  assumes "produce_step api papi hapi mapi topic_name s s'" and "produce_inv hapi topic_name s"
  shows "(delivery_step papi str_to_bytes str_to_bytes hapi mapi)\<^sup>*\<^sup>* (pd_delivery s) (pd_delivery s')"
  using assms(1)
proof cases
  case (pd_try i start r res)
  obtain w st where res: "res = (w, st)" by (cases res)
  have "current_ok hapi topic_name s (Some (i, Some (Send_Queue start r)))"
    using assms(2) pd_try(2) by (simp add: produce_inv_def)
  then have "box_into_ptr (br_delivery_opaque r) \<notin> ds_issued (pd_delivery s)" by (auto simp: into_base_record_def)
  from send_tried_step [OF pd_try(3) [unfolded res] this] pd_try(1) res show ?thesis
    by (auto simp: produce_tried_def Let_def)
next
  case (pd_start i rec tx w st)
  then show ?thesis by (simp add: r_into_rtranclp ds_elapse)
next
  case (pd_reported ev)
  then show ?thesis by (simp add: r_into_rtranclp ds_report)
next
  case (pd_served d)
  then show ?thesis by (simp add: r_into_rtranclp ds_serve)
next
  case (pd_elapse w)
  then show ?thesis by (simp add: r_into_rtranclp ds_elapse)
qed simp_all

lemma produce_inv_delivery:
  assumes "produce_inv hapi topic_name s" and "ds_issued d = ds_issued (pd_delivery s)"
    and "ds_channel (pd_delivery s) \<subseteq>\<^sub>m ds_channel d"
  shows "produce_inv hapi topic_name (s\<lparr>pd_delivery := d\<rparr>)"
proof -
  let ?s = "s\<lparr>pd_delivery := d\<rparr>"
  have "own_result hapi topic_name ?s i x" if "own_result hapi topic_name s i x" for i x
    by (rule own_result_grows [OF that]) (use assms(3) in simp_all)
  moreover have "current_ok hapi topic_name ?s (pd_current s)"
    by (rule current_ok_grows [of _ _ s]) (use assms in \<open>simp_all add: produce_inv_def\<close>)
  moreover have "ds_issued d - dom (ds_channel d) \<subseteq> ds_issued (pd_delivery s) - dom (ds_channel (pd_delivery s))"
    using assms(2) map_le_implies_dom_le [OF assms(3)] by auto
  ultimately show ?thesis
    using assms(1,2) unfolding produce_inv_def by (auto 0 3)
qed

lemma produce_tried_inv:
  assumes inv: "produce_inv hapi topic_name s" and cur: "pd_current s = Some (i, Some (Send_Queue start r))"
    and tried: "send_try api papi str_to_bytes str_to_bytes t start r (ds_world (pd_delivery s)) = (w, st)"
  shows "produce_inv hapi topic_name (produce_tried papi i r (w, st) s)"
proof -
  have "current_ok hapi topic_name s (Some (i, Some (Send_Queue start r)))"
    using inv cur by (simp add: produce_inv_def)
  then obtain rec tx where r: "produce_record hapi topic_name i = Ret rec" "r = into_base_record rec tx"
      "box_into_ptr tx \<notin> ds_issued (pd_delivery s)" by auto
  have st: "(\<exists>e. st = Send_Done (Err (e, record_message str_to_bytes str_to_bytes r))) \<or> st = Send_Queue start r \<or> st = Send_Wait tx"
    using tried r by (cases st) (auto dest: send_try_queue send_try_wait send_try_done simp: into_base_record_def)
  have acc: "dom (pd_accepted s) \<subseteq> ds_issued (pd_delivery s)"
    using inv by (simp add: produce_inv_def)
  have taken: "producev_accepts papi str_to_bytes str_to_bytes r (ds_world (pd_delivery s)) \<longleftrightarrow> st = Send_Wait tx"
      "br_delivery_opaque r = tx"
    using send_try_accepts [OF tried] r(2) by simp_all
  define z where "z = produce_tried papi i r (w, st) s"
  have z: "pd_current z = Some (i, Some st)" "pd_futures z = pd_futures s" "pd_results z = pd_results s"
      "pd_accepted z = (if st = Send_Wait tx then (pd_accepted s)(box_into_ptr tx \<mapsto> produce_args r) else pd_accepted s)"
      "ds_channel (pd_delivery z) = ds_channel (pd_delivery s)"
      "ds_issued (pd_delivery z) = (if st = Send_Wait tx then insert (box_into_ptr tx) (ds_issued (pd_delivery s)) else ds_issued (pd_delivery s))"
    by (simp_all add: z_def produce_tried_def send_tried_def taken Let_def)
  have "pd_accepted s \<subseteq>\<^sub>m pd_accepted z" "ds_channel (pd_delivery z) = ds_channel (pd_delivery s)"
    using st r(3) acc by (auto simp: z map_le_def)
  then have own: "own_result hapi topic_name z j x" if "own_result hapi topic_name s j x" for j x
    by (intro own_result_grows [OF that]) simp_all
  have "current_ok hapi topic_name z (pd_current z)"
    using st r by (elim disjE exE) (auto simp: z own_result_def)
  moreover have "dom (pd_accepted z) \<subseteq> ds_issued (pd_delivery z)"
    using acc by (auto simp: z)
  moreover have "ds_issued (pd_delivery z) - dom (ds_channel (pd_delivery z)) \<subseteq> waits_for (pd_current z)"
    using inv cur st by (elim disjE exE) (auto simp: produce_inv_def z)
  ultimately have "produce_inv hapi topic_name z"
    using inv cur own by (auto simp: produce_inv_def z)
  then show ?thesis by (simp add: z_def)
qed

text \<open>What the task does between its calls of librdkafka.\<close>

lemma produce_inv_task:
  assumes inv: "produce_inv hapi topic_name s"
  shows "pd_current s = None \<Longrightarrow> pd_futures s = i # is \<Longrightarrow>
      produce_inv hapi topic_name (s\<lparr>pd_futures := is, pd_current := Some (i, None)\<rparr>)"
    and "pd_current s = Some (i, Some (Send_Wait tx)) \<Longrightarrow> ds_channel (pd_delivery s) (box_into_ptr tx) = Some d \<Longrightarrow>
      produce_inv hapi topic_name (s\<lparr>pd_current := Some (i, Some (Send_Done d))\<rparr>)"
    and "pd_current s = Some (i, Some (Send_Done d)) \<Longrightarrow>
      produce_inv hapi topic_name (s\<lparr>pd_current := None, pd_results := pd_results s @ [(i, d)]\<rparr>)"
    and "pd_current s = Some (i, None) \<Longrightarrow> produce_record hapi topic_name i = Ret record \<Longrightarrow>
      box_into_ptr tx \<notin> ds_issued (pd_delivery s) \<Longrightarrow> send_start api tx record w = (w', st) \<Longrightarrow>
      produce_inv hapi topic_name (s\<lparr>pd_delivery := (pd_delivery s)\<lparr>ds_world := w'\<rparr>, pd_current := Some (i, Some st)\<rparr>)"
  using inv by (auto simp: produce_inv_def own_result_def send_start_def split: prod.splits)

lemma produce_inv_step:
  assumes step: "produce_step api papi hapi mapi topic_name s s'" and inv: "produce_inv hapi topic_name s"
    and grows: "ds_channel (pd_delivery s) \<subseteq>\<^sub>m ds_channel (pd_delivery s')"
  shows "produce_inv hapi topic_name s'"
  using step
proof cases
  case (pd_try i start r res)
  then show ?thesis using produce_tried_inv [OF inv] by (cases res) simp
next
  case (pd_resolved i tx d)
  then show ?thesis using produce_inv_task(2) [OF inv] by (simp add: delivery_future_poll_iff)
next
  case (pd_record_panics i msg)
  then show ?thesis using inv by (auto simp: produce_inv_def own_result_def)
next
  case (pd_served d)
  then show ?thesis using produce_inv_delivery [OF inv delivery_serve_issued] grows by simp
qed (use produce_inv_task [OF inv] produce_inv_delivery [OF inv] in simp_all)

lemma produce_run_inv:
  assumes "(produce_step api papi hapi mapi topic_name)\<^sup>*\<^sup>* (produce_init w) s"
  shows "produce_inv hapi topic_name s
    \<and> (delivery_step papi str_to_bytes str_to_bytes hapi mapi)\<^sup>*\<^sup>* (delivery_init w) (pd_delivery s)"
  using assms
proof (induction rule: rtranclp_induct)
  case base
  show ?case using produce_inv_init by (simp add: produce_init_def)
next
  case (step s s')
  then have run: "(delivery_step papi str_to_bytes str_to_bytes hapi mapi)\<^sup>*\<^sup>* (delivery_init w) (pd_delivery s)"
    and d: "(delivery_step papi str_to_bytes str_to_bytes hapi mapi)\<^sup>*\<^sup>* (pd_delivery s) (pd_delivery s')"
    using produce_delivery_step by blast+
  with step produce_inv_step [OF step.hyps(2) _ delivery_channel_grows [OF run d]] show ?case
    by (blast intro: rtranclp_trans)
qed

section \<open>One record at a time\<close>

lemma card_waits_for: "A \<subseteq> waits_for c \<Longrightarrow> card A \<le> 1"
  by (cases c rule: waits_for.cases) (auto dest: subset_singletonD)

text \<open>The producer example sends one record at a time: in every interleaving with the thread of
  the producer and with librdkafka, the results logged, the awaited block and the blocks not
  reached are the messages 0 to 4 in order; a record is handed over only when every earlier
  one was answered, so at most one is in flight, that of the awaited block; and each logged
  result is that of its own record, refused with it or reported for it.\<close>

theorem produce_one_at_a_time:
  assumes "(produce_step api papi hapi mapi topic_name)\<^sup>*\<^sup>* (produce_init w) s"
  shows "map fst (pd_results s) @ current_index (pd_current s) @ pd_futures s = [0..<5]
    \<and> ds_issued (pd_delivery s) - dom (ds_channel (pd_delivery s)) \<subseteq> waits_for (pd_current s)
    \<and> card (ds_inflight (pd_delivery s)) \<le> 1
    \<and> (\<forall>(i, d) \<in> set (pd_results s). own_result hapi topic_name s i d)"
proof -
  from produce_run_inv [OF assms] have inv: "produce_inv hapi topic_name s"
    and run: "(delivery_step papi str_to_bytes str_to_bytes hapi mapi)\<^sup>*\<^sup>* (delivery_init w) (pd_delivery s)" by blast+
  from run have "delivery_inv (pd_delivery s)" by (rule delivery.reachable)
  then have "ds_inflight (pd_delivery s) \<subseteq> ds_issued (pd_delivery s) - dom (ds_channel (pd_delivery s))"
    by (auto simp: delivery_inv_def)
  with inv have "card (ds_inflight (pd_delivery s)) \<le> 1"
    using card_waits_for [of "ds_inflight (pd_delivery s)" "pd_current s"] by (auto simp: produce_inv_def)
  with inv show ?thesis unfolding produce_inv_def by blast
qed

section \<open>A run\<close>

abbreviation sample_produce_step ::
    "(sample_headers producev_args list, sample_headers) produce_sys \<Rightarrow> (sample_headers producev_args list, sample_headers) produce_sys \<Rightarrow> bool" where
  "sample_produce_step \<equiv> produce_step idle_client sample_papi headers_instance message_instance ''out''"

lemma sample_record: "\<exists>record. produce_record headers_instance ''out'' i = Ret record"
proof -
  have "owned_new headers_instance = Ret (OwnedHeaders [])"
    by (simp add: owned_new_def owned_new_with_capacity_def headers_instance_def)
  moreover obtain h' where "owned_insert headers_instance str_to_bytes (OwnedHeaders [])
      \<lparr>hdr_key = ''header_key'', hdr_value = Some ''header_value''\<rparr> = Ret h'"
    using owned_insert_ok [OF headers_instance_ok] by metis
  ultimately show ?thesis by (simp add: produce_record_def)
qed

lemma produce_record_topic: "produce_record hapi topic_name i = Ret record \<Longrightarrow> fr_topic record = topic_name"
  by (auto simp: produce_record_def future_record_to_def fr_set_payload_def fr_set_key_def fr_set_headers_def split: rust.splits)

text \<open>The first record is accepted under the opaque 11.\<close>

lemma sample_produce_sent:
  "\<exists>s. sample_produce_step\<^sup>*\<^sup>* (produce_init (sample_world [])) s \<and> pd_current s = Some (0, Some (Send_Wait (Box 11)))
    \<and> ds_inflight (pd_delivery s) = {11} \<and> ds_queue (pd_delivery s) = [] \<and> pd_results s = []"
proof -
  let ?s0 = "produce_init (sample_world []) :: (sample_headers producev_args list, sample_headers) produce_sys"
  define s1 where "s1 = ?s0\<lparr>pd_futures := [1..<5], pd_current := Some (0, None)\<rparr>"
  have 1: "sample_produce_step ?s0 s1"
    unfolding s1_def by (rule pd_await) (simp_all add: produce_init_def upt_rec)
  obtain rec where rec: "produce_record headers_instance ''out'' 0 = Ret rec" using sample_record by blast
  obtain w and st :: "(bytes, bytes, sample_headers) send_state"
    where start: "send_start idle_client (Box 11) rec (ds_world (pd_delivery s1)) = (w, st)"
    by (rule prod.exhaust)
  then obtain t0 where st: "st = Send_Queue t0 (into_base_record rec (Box 11))"
    by (auto simp: send_start_def split: prod.splits)
  define s2 where "s2 = s1\<lparr>pd_delivery := (pd_delivery s1)\<lparr>ds_world := w\<rparr>, pd_current := Some (0, Some st)\<rparr>"
  have 2: "sample_produce_step s1 s2"
    unfolding s2_def by (rule pd_start [OF _ _ rec _ start]) (simp_all add: s1_def produce_init_def delivery_init_def)
  have "\<exists>w2. send_try idle_client sample_papi str_to_bytes str_to_bytes (After (from_secs 0)) t0
      (into_base_record rec (Box 11)) (ds_world (pd_delivery s2)) = (w2, Send_Wait (Box 11))"
    using produce_record_topic [OF rec]
    by (simp add: send_try_def box_opaque.send_result into_base_record_def Let_def split: option.splits)
  then obtain w2 where tried: "send_try idle_client sample_papi str_to_bytes str_to_bytes (After (from_secs 0)) t0
      (into_base_record rec (Box 11)) (ds_world (pd_delivery s2)) = (w2, Send_Wait (Box 11))" ..
  define s3 where "s3 = produce_tried sample_papi 0 (into_base_record rec (Box 11)) (w2, Send_Wait (Box 11)) s2"
  have 3: "sample_produce_step s2 s3"
    unfolding s3_def by (rule pd_try [OF _ tried]) (simp add: s2_def st)
  have "pd_current s3 = Some (0, Some (Send_Wait (Box 11))) \<and> ds_inflight (pd_delivery s3) = {11}
      \<and> ds_queue (pd_delivery s3) = [] \<and> pd_results s3 = []"
    using send_try_accepts [OF tried]
    by (simp add: s3_def s2_def s1_def produce_tried_def send_tried_def produce_init_def delivery_init_def box_into_ptr_def)
  with 1 2 3 show ?thesis by (meson converse_rtranclp_into_rtranclp rtranclp.rtrancl_refl)
qed

theorem produce_one_at_a_time_witness:
  "\<exists>s d. sample_produce_step\<^sup>*\<^sup>* (produce_init (sample_world [])) s \<and> pd_results s = [(0, Ok d)] \<and> pd_futures s = [1, 2, 3, 4]
    \<and> own_result headers_instance ''out'' s 0 (Ok d) \<and> ds_inflight (pd_delivery s) = {}"
proof -
  obtain s3 where s3: "sample_produce_step\<^sup>*\<^sup>* (produce_init (sample_world [])) s3" "pd_current s3 = Some (0, Some (Send_Wait (Box 11)))"
      "ds_inflight (pd_delivery s3) = {11}" "ds_queue (pd_delivery s3) = []" "pd_results s3 = []"
    using sample_produce_sent by blast
  define s4 where "s4 = s3\<lparr>pd_delivery := (pd_delivery s3)\<lparr>ds_inflight := ds_inflight (pd_delivery s3) - set (event_opaques copy_report),
      ds_queue := ds_queue (pd_delivery s3) @ [copy_report]\<rparr>\<rparr>"
  have 4: "sample_produce_step s3 s4"
    unfolding s4_def by (rule pd_reported) (simp_all add: copy_report_opaques s3(3))
  have "ds_queue (pd_delivery s4) = [copy_report]" by (simp add: s4_def s3(4))
  then obtain d dl where d: "delivery_serve headers_instance message_instance (pd_delivery s4) = Ret d" "ds_channel d 11 = Some (Ok dl)"
    using copy_report_served by blast
  have inflight: "ds_inflight d = {}"
    using d(1) by (auto simp: delivery_serve_def s4_def s3(3) copy_report_opaques split: list.splits rust.splits)
  let ?s5 = "s4\<lparr>pd_delivery := d\<rparr>"
  let ?s6 = "?s5\<lparr>pd_current := Some (0, Some (Send_Done (Ok dl)))\<rparr>"
  let ?s7 = "?s6\<lparr>pd_current := None, pd_results := pd_results ?s6 @ [(0, Ok dl)]\<rparr>"
  have "sample_produce_step s4 ?s5" using d(1) by (rule pd_served)
  moreover have "sample_produce_step ?s5 ?s6"
    by (rule pd_resolved [where tx = "Box 11"]) (simp_all add: s4_def s3(2) delivery_future_poll_iff box_into_ptr_def d(2))
  moreover have "sample_produce_step ?s6 ?s7" by (rule pd_completed) simp
  ultimately have run: "sample_produce_step\<^sup>*\<^sup>* (produce_init (sample_world [])) ?s7"
    using s3(1) 4 by (meson rtranclp.rtrancl_into_rtrancl)
  have res: "pd_results ?s7 = [(0, Ok dl)]" by (simp add: s4_def s3(5))
  with produce_one_at_a_time [OF run] inflight run show ?thesis
    by (intro exI [of _ ?s7] exI [of _ dl]) (simp add: upt_rec)
qed

end
