(* ===== verification/Simple_Consumer.thy ===== *)
theory Simple_Consumer
  imports At_Least_Once
begin

text \<open>
  \<open>examples/simple_consumer.rs\<close>: the program that receives messages, logs each one with its
  headers and asks for its offset to be committed. It composes the stream consumer's \<open>recv\<close>,
  the accessors of messages and headers, and \<open>commit_message\<close>.
\<close>

section \<open>The program\<close>

definition consume_config :: "(log_level \<Rightarrow> bool) \<Rightarrow> bytes \<Rightarrow> bytes \<Rightarrow> bytes option \<Rightarrow> ClientConfig" where
  "consume_config lg brokers group_id assignor =
     (let config = config_set_log_level
            (foldl (\<lambda>config (key, value). config_set config key value) (client_config_new lg)
              [(''group.id'', group_id), (''bootstrap.servers'', brokers), (''enable.partition.eof'', ''false''),
               (''session.timeout.ms'', ''6000''), (''enable.auto.commit'', ''true'')])
            Level_Debug
      in case assignor of
           None \<Rightarrow> config
         | Some assignor \<Rightarrow>
             config_remove
               (config_set (config_set config ''group.remote.assignor'' assignor) ''group.protocol'' ''consumer'')
               ''session.timeout.ms'')"

definition consume_setup ::
    "'w client_api \<Rightarrow> ('w, 'c) create_api \<Rightarrow> 'c conf_api \<Rightarrow> 'c producer_conf_api \<Rightarrow> 'w consumer_api \<Rightarrow> tpl_api \<Rightarrow> error_api
      \<Rightarrow> ('s, waker option) slab_api \<Rightarrow> map_iter \<Rightarrow> (log_level \<Rightarrow> bool) \<Rightarrow> arc \<Rightarrow> bytes \<Rightarrow> bytes \<Rightarrow> bytes list \<Rightarrow> bytes option
      \<Rightarrow> 'w world \<Rightarrow> ('w world \<times> 's StreamConsumer) rust" where
  "consume_setup api crapi conf pconf capi tapi eapi sapi iter lg context brokers group_id topics assignor w =
     rust_bind (stream_consumer_from_config_and_context api crapi conf pconf capi sapi iter w
       (consume_config lg brokers group_id assignor) context) (\<lambda>(w, r).
     rust_bind (result_expect (kafka_error_debug eapi) ''Consumer creation failed'' r) (\<lambda>consumer.
     rust_bind (subscribe capi tapi eapi w topics) (\<lambda>(w, r).
     rust_map (\<lambda>_. (w, consumer)) (result_expect (kafka_error_debug eapi) ''Can't subscribe to specified topics'' r))))"

text \<open>The logged line of a message and its headers; a payload that is no string is shown as empty.\<close>

record message_line =
  ml_key :: "bytes option"
  ml_payload :: bytes
  ml_topic :: bytes
  ml_partition :: int
  ml_offset :: int
  ml_timestamp :: Timestamp

definition shown_payload :: "BorrowedMessage \<Rightarrow> bytes" where
  "shown_payload m = (case payload_view str_from_bytes (bm_payload m) of Some (Inr s) \<Rightarrow> s | _ \<Rightarrow> [])"

definition show_message :: "'h message_api \<Rightarrow> BorrowedMessage \<Rightarrow> message_line rust" where
  "show_message mapi m =
     rust_map (\<lambda>topic.
       \<lparr>ml_key = bm_key m, ml_payload = shown_payload m, ml_topic = topic, ml_partition = bm_partition m,
        ml_offset = bm_offset m, ml_timestamp = bm_timestamp mapi m\<rparr>)
     (bm_topic mapi m)"

definition header_lines :: "'h headers_api \<Rightarrow> 'h message_api \<Rightarrow> BorrowedMessage \<Rightarrow> bytes Header list rust" where
  "header_lines hapi mapi m =
     (case bm_headers mapi m of
        None \<Rightarrow> Ret []
      | Some headers \<Rightarrow> headers_collect (borrowed_count hapi) (borrowed_try_get hapi) (headers_iter headers))"

text \<open>
  The task waits in \<open>recv\<close>, handles a message, or has panicked. \<open>cs_logged\<close> are the messages
  whose line and headers were logged, \<open>cs_committed\<close> the calls of \<open>commit_message\<close> and their
  results.
\<close>

datatype consume_task = Consume_Recv "MessageStream option" | Consume_Message BorrowedMessage | Consume_Panic

record ('w, 's) consume_sys =
  cs_world :: "'w world"
  cs_consumer :: "'s StreamConsumer"
  cs_task :: consume_task
  cs_received :: "BorrowedMessage list"
  cs_logged :: "(BorrowedMessage \<times> message_line \<times> bytes Header list) list"
  cs_committed :: "(BorrowedMessage \<times> unit KafkaResult) list"

definition consume_init :: "'w world \<Rightarrow> 's StreamConsumer \<Rightarrow> ('w, 's) consume_sys" where
  "consume_init w consumer =
     \<lparr>cs_world = w, cs_consumer = consumer, cs_task = Consume_Recv None, cs_received = [], cs_logged = [], cs_committed = []\<rparr>"

definition consume_received ::
    "MessageStream \<Rightarrow> 's \<times> 'w world \<times> BorrowedMessage KafkaResult Poll \<Rightarrow> ('w, 's) consume_sys \<Rightarrow> ('w, 's) consume_sys" where
  "consume_received stream res s =
     (case res of
        (wakers, w, p) \<Rightarrow>
          let s = s\<lparr>cs_world := w, cs_consumer := cs_consumer s\<lparr>sc_wakers := wakers\<rparr>\<rparr> in
          (case p of
             Pending \<Rightarrow> s\<lparr>cs_task := Consume_Recv (Some stream)\<rparr>
           | Ready (Inl e) \<Rightarrow> s\<lparr>cs_task := Consume_Recv None\<rparr>
           | Ready (Inr m) \<Rightarrow> s\<lparr>cs_task := Consume_Message m, cs_received := cs_received s @ [m]\<rparr>))"

text \<open>The message is dropped at the end of its arm, also when it panics.\<close>

definition consume_message ::
    "'w consumer_api \<Rightarrow> 'h headers_api \<Rightarrow> 'h message_api \<Rightarrow> BorrowedMessage \<Rightarrow> ('w, 's) consume_sys \<Rightarrow> ('w, 's) consume_sys" where
  "consume_message capi hapi mapi m s =
     (case rust_bind (show_message mapi m) (\<lambda>line. rust_map (Pair line) (header_lines hapi mapi m)) of
        Panic msg \<Rightarrow> s\<lparr>cs_world := emit (Native_event_destroy (bm_event m)) (cs_world s), cs_task := Consume_Panic\<rparr>
      | Ret (line, headers) \<Rightarrow>
          (case commit_message capi (cs_world s) m Commit_Async of
             (w, r) \<Rightarrow>
               s\<lparr>cs_world := emit (Native_event_destroy (bm_event m)) w, cs_logged := cs_logged s @ [(m, line, headers)],
                 cs_committed := cs_committed s @ [(m, r)],
                 cs_task := (case r of Inr _ \<Rightarrow> Consume_Recv None | Inl e \<Rightarrow> Consume_Panic)\<rparr>))"

inductive consume_step ::
    "'w client_api \<Rightarrow> 'w consumer_api \<Rightarrow> tpl_api \<Rightarrow> ('s, waker option) slab_api \<Rightarrow> 'h headers_api \<Rightarrow> 'h message_api
      \<Rightarrow> consumer_context \<Rightarrow> waker \<Rightarrow> ('w, 's) consume_sys \<Rightarrow> ('w, 's) consume_sys \<Rightarrow> bool"
  for api :: "'w client_api" and capi :: "'w consumer_api" and tapi :: tpl_api and sapi :: "('s, waker option) slab_api"
    and hapi :: "'h headers_api" and mapi :: "'h message_api" and ctx :: consumer_context and waker :: waker where
  cs_recv: "cs_task s = Consume_Recv None \<Longrightarrow>
     stream_consumer_recv api capi tapi ctx sapi (cs_consumer s) waker (cs_world s) = (stream, Some (Ret res)) \<Longrightarrow>
     consume_step api capi tapi sapi hapi mapi ctx waker s (consume_received stream res s)"
| cs_recv_again: "cs_task s = Consume_Recv (Some stream) \<Longrightarrow>
     recv_poll api capi tapi ctx sapi stream waker (sc_wakers (cs_consumer s)) (cs_world s) = Some (Ret res) \<Longrightarrow>
     consume_step api capi tapi sapi hapi mapi ctx waker s (consume_received stream res s)"
| cs_recv_panics: "cs_task s = Consume_Recv None \<Longrightarrow>
     snd (stream_consumer_recv api capi tapi ctx sapi (cs_consumer s) waker (cs_world s)) = Some (Panic msg) \<Longrightarrow>
     consume_step api capi tapi sapi hapi mapi ctx waker s (s\<lparr>cs_task := Consume_Panic\<rparr>)"
| cs_again_panics: "cs_task s = Consume_Recv (Some stream) \<Longrightarrow>
     recv_poll api capi tapi ctx sapi stream waker (sc_wakers (cs_consumer s)) (cs_world s) = Some (Panic msg) \<Longrightarrow>
     consume_step api capi tapi sapi hapi mapi ctx waker s (s\<lparr>cs_task := Consume_Panic\<rparr>)"
| cs_message: "cs_task s = Consume_Message m \<Longrightarrow>
     consume_step api capi tapi sapi hapi mapi ctx waker s (consume_message capi hapi mapi m s)"
| cs_elapse: "consume_step api capi tapi sapi hapi mapi ctx waker s (s\<lparr>cs_world := w\<rparr>)"

section \<open>Logged, then committed\<close>

text \<open>The entry of a message in the log is its content.\<close>

definition shows_message ::
    "('h \<Rightarrow> (bytes \<times> bytes option) list) \<Rightarrow> 'h message_api \<Rightarrow> BorrowedMessage \<times> message_line \<times> bytes Header list \<Rightarrow> bool" where
  "shows_message view mapi entry \<longleftrightarrow>
     (case entry of (m, line, headers) \<Rightarrow>
        \<exists>v. bm_view view mapi m = Ret v \<and>
          line = \<lparr>ml_key = mv_key v,
            ml_payload = (case mv_payload v of Some p \<Rightarrow> if utf8_valid p then p else [] | None \<Rightarrow> []),
            ml_topic = mv_topic v, ml_partition = mv_partition v, ml_offset = mv_offset v, ml_timestamp = mv_timestamp v\<rparr>
          \<and> headers = (case mv_headers v of Some hs \<Rightarrow> hs | None \<Rightarrow> []))"

abbreviation committed_ok :: "BorrowedMessage \<times> unit KafkaResult \<Rightarrow> bool" where
  "committed_ok c \<equiv> snd c = Ok ()"

definition consume_inv ::
    "('h \<Rightarrow> (bytes \<times> bytes option) list) \<Rightarrow> 'h message_api \<Rightarrow> ('w, 's) consume_sys \<Rightarrow> bool" where
  "consume_inv view mapi s \<longleftrightarrow>
     map fst (cs_committed s) = map fst (cs_logged s) \<and> list_all (shows_message view mapi) (cs_logged s)
     \<and> (\<exists>rest. cs_received s = map fst (cs_logged s) @ rest \<and>
          (case cs_task s of
             Consume_Recv _ \<Rightarrow> rest = [] \<and> list_all committed_ok (cs_committed s)
           | Consume_Message m \<Rightarrow> rest = [m] \<and> list_all committed_ok (cs_committed s)
           | Consume_Panic \<Rightarrow> length rest \<le> 1 \<and> list_all committed_ok (butlast (cs_committed s))))"

lemma list_all_butlast: "list_all P xs \<Longrightarrow> list_all P (butlast xs)"
  by (auto simp: list_all_iff dest: in_set_butlastD)

lemma shown_payload_eq: "shown_payload m = (case bm_payload m of Some p \<Rightarrow> if utf8_valid p then p else [] | None \<Rightarrow> [])"
  by (simp add: shown_payload_def payload_view_def str_from_bytes_def from_utf8_def split: option.splits)

lemma consume_message_shows:
  assumes "\<And>h. bm_headers mapi m = Some h \<Longrightarrow> headers_inv hapi view h"
    and "show_message mapi m = Ret line" and "header_lines hapi mapi m = Ret headers"
  shows "shows_message view mapi (m, line, headers)"
proof -
  obtain topic where topic: "bm_topic mapi m = Ret topic"
    using assms(2) by (cases "bm_topic mapi m") (simp_all add: show_message_def)
  have "headers = (case bm_headers mapi m of Some h \<Rightarrow> map header_of (view h) | None \<Rightarrow> [])"
    using assms(3) borrowed_headers.collect_contents [OF assms(1)] by (auto simp: header_lines_def split: option.splits)
  with topic assms(2) show ?thesis
    by (auto simp: shows_message_def bm_view_def show_message_def shown_payload_eq split: option.splits)
qed

lemma consume_inv_init: "consume_inv view mapi (consume_init w consumer)"
  by (simp add: consume_inv_def consume_init_def)

lemma consume_inv_received:
  assumes "consume_inv view mapi s" and "cs_task s = Consume_Recv c"
  shows "consume_inv view mapi (consume_received stream res s)"
  using assms by (auto simp: consume_inv_def consume_received_def Let_def split: prod.splits Poll.splits sum.splits)

lemma consume_inv_panic: "consume_inv view mapi s \<Longrightarrow> consume_inv view mapi (s\<lparr>cs_world := w, cs_task := Consume_Panic\<rparr>)"
  by (cases "cs_task s") (auto simp: consume_inv_def list_all_butlast)

lemma consume_inv_message:
  assumes inv: "consume_inv view mapi s" and task: "cs_task s = Consume_Message m"
    and hdrs: "\<And>h. bm_headers mapi m = Some h \<Longrightarrow> headers_inv hapi view h"
  shows "consume_inv view mapi (consume_message capi hapi mapi m s)"
proof (cases "rust_bind (show_message mapi m) (\<lambda>line. rust_map (Pair line) (header_lines hapi mapi m))")
  case (Panic msg)
  then show ?thesis using consume_inv_panic [OF inv] by (simp add: consume_message_def)
next
  case (Ret p)
  then obtain line headers where p: "p = (line, headers)" "show_message mapi m = Ret line" "header_lines hapi mapi m = Ret headers"
    by (auto split: rust.splits)
  obtain w r where c: "commit_message capi (cs_world s) m Commit_Async = (w, r)" by (cases "commit_message capi (cs_world s) m Commit_Async")
  have "shows_message view mapi (m, line, headers)" using consume_message_shows [OF hdrs p(2,3)] .
  then show ?thesis
    using inv task Ret p(1) c by (auto simp: consume_inv_def consume_message_def split: sum.splits)
qed

lemma consume_step_inv:
  assumes "consume_step api capi tapi sapi hapi mapi ctx waker s s'" and inv: "consume_inv view mapi s"
    and hdrs: "\<And>m h. bm_headers mapi m = Some h \<Longrightarrow> headers_inv hapi view h"
  shows "consume_inv view mapi s'"
  using assms(1)
proof cases
  case (cs_message m)
  with consume_inv_message [OF inv _ hdrs] show ?thesis by simp
next
  case (cs_elapse w)
  with inv show ?thesis unfolding consume_inv_def by (cases "cs_task s") simp_all
qed (use consume_inv_received [OF inv] consume_inv_panic [OF inv, of "cs_world s"] in simp_all)

text \<open>C18. The consumer example commits a message only after it has logged it: in every run, the calls
  of \<open>commit_message\<close> are those for the messages logged, in the order in which they were
  received; what was logged is the content of the message, with its headers in order; at
  most the last received message is not logged; and a commit that fails is the last, because
  the task panics, so while it waits for a message everything received is committed.\<close>

theorem consume_logs_then_commits:
  assumes "(consume_step api capi tapi sapi hapi mapi ctx waker)\<^sup>*\<^sup>* (consume_init w consumer) s"
    and "\<And>m h. bm_headers mapi m = Some h \<Longrightarrow> headers_inv hapi view h"
  shows "map fst (cs_committed s) = map fst (cs_logged s) \<and> list_all (shows_message view mapi) (cs_logged s)
    \<and> (\<exists>rest. cs_received s = map fst (cs_committed s) @ rest \<and> length rest \<le> 1
        \<and> ((\<exists>c. cs_task s = Consume_Recv c) \<longrightarrow> rest = []))
    \<and> list_all committed_ok (butlast (cs_committed s))
    \<and> (list_all committed_ok (cs_committed s) \<or> cs_task s = Consume_Panic)"
proof -
  have "consume_inv view mapi s"
    using assms(1)
  proof (induction rule: rtranclp_induct)
    case base
    show ?case by (rule consume_inv_init)
  next
    case (step s s')
    show ?case using step.hyps(2) step.IH assms(2) by (rule consume_step_inv)
  qed
  then show ?thesis
    by (cases "cs_task s") (auto simp: consume_inv_def list_all_butlast)
qed

section \<open>A run\<close>

lemma into_code_no_error: "into_code RD_KAFKA_RESP_ERR_NO_ERROR = EC_NoError"
  by (simp add: into_code_NoError_iff RDKafkaRespErr_variants_def broker_resp_errs_def)

lemma sample_header_names: "bm_headers message_instance m = Some h \<Longrightarrow> headers_inv headers_instance (\<lambda>h. h) h"
  by (auto simp: bm_headers_def message_instance_def headers_inv_def headers_instance_ok key_ok_ascii ascii_def byte_val_def
      split: if_splits)

lemma sample_topic: "bm_topic message_instance m = Ret ''t''"
  by (simp add: bm_topic_def message_instance_def cstr_bytes_def utf8_valid_ascii ascii_def byte_val_def)

theorem consume_logs_then_commits_witness:
  "\<exists>s line. (consume_step client_instance consumer_instance tpl_instance slab_instance headers_instance message_instance
      DefaultConsumerContext 9)\<^sup>*\<^sup>* (consume_init (sample_world [sample_fetch_event]) sample_stream_consumer) s
    \<and> cs_received s = [input_message] \<and> cs_logged s = [(input_message, line, [\<lparr>hdr_key = ''k'', hdr_value = None\<rparr>])]
    \<and> ml_payload line = ''payload'' \<and> cs_committed s = [(input_message, Ok ())]"
proof -
  let ?step = "consume_step client_instance consumer_instance tpl_instance slab_instance headers_instance message_instance
      DefaultConsumerContext 9"
  let ?s0 = "consume_init (sample_world [sample_fetch_event]) sample_stream_consumer"
  obtain wakers' w' where recv: "stream_consumer_recv client_instance consumer_instance tpl_instance DefaultConsumerContext slab_instance
      (cs_consumer ?s0) 9 (cs_world ?s0) =
      (\<lparr>ms_consumer_queue = 1, ms_partition_queue = None, ms_slot = 2\<rparr>, Some (Ret (wakers', w', Ready (Ok input_message))))"
    using sample_recv by (auto simp: consume_init_def)
  let ?s1 = "consume_received \<lparr>ms_consumer_queue = 1, ms_partition_queue = None, ms_slot = 2\<rparr> (wakers', w', Ready (Ok input_message)) ?s0"
  have 1: "?step ?s0 ?s1" using recv by (intro cs_recv) (simp_all add: consume_init_def)
  let ?s2 = "consume_message consumer_instance headers_instance message_instance input_message ?s1"
  have 2: "?step ?s1 ?s2" by (rule cs_message) (simp add: consume_received_def)
  have run: "?step\<^sup>*\<^sup>* ?s0 ?s2" using 1 2 by (meson converse_rtranclp_into_rtranclp rtranclp.rtrancl_refl)
  obtain line where line: "show_message message_instance input_message = Ret line"
    using sample_topic by (simp add: show_message_def)
  have h: "bm_headers message_instance input_message = Some [(''k'', None)]"
    by (simp add: bm_headers_def message_instance_def into_code_no_error)
  then have "header_lines headers_instance message_instance input_message = Ret [\<lparr>hdr_key = ''k'', hdr_value = None\<rparr>]"
    using borrowed_headers.collect_contents [OF sample_header_names [OF h]] by (simp add: header_lines_def header_of_def)
  moreover have "\<exists>w. commit_message consumer_instance (cs_world ?s1) input_message Commit_Async = (w, Ok ())"
    by (simp add: commit_message_def consumer_instance_def ret_result_def resp_err_is_error_def)
  ultimately have "cs_received ?s2 = [input_message]"
      "cs_logged ?s2 = [(input_message, line, [\<lparr>hdr_key = ''k'', hdr_value = None\<rparr>])]" "cs_committed ?s2 = [(input_message, Ok ())]"
    using line by (auto simp: consume_message_def consume_received_def consume_init_def)
  moreover have "ml_payload line = ''payload''"
    using consume_logs_then_commits [OF run sample_header_names] calculation
    by (auto simp: shows_message_def bm_view_def sample_topic bm_payload_def sample_message_def ptr_to_opt_slice_def
        utf8_valid_ascii ascii_def byte_val_def)
  ultimately show ?thesis using run by blast
qed

end
