(* ===== verification/Print_Metadata.thy ===== *)
theory Print_Metadata
  imports At_Least_Once Metadata
begin

text \<open>
  \<open>examples/metadata.rs\<close>: the program that prints the brokers, topics and partitions of a
  cluster and, if asked, the watermarks of each partition and the number of messages. It
  composes the consumer's \<open>fetch_metadata\<close> and \<open>fetch_watermarks\<close> with the accessors of the
  metadata.
\<close>

section \<open>The program\<close>

text \<open>What one \<open>println!\<close> shows; the constant lines are left out.\<close>

datatype metadata_line =
    Cluster_Info nat nat bytes int
  | Broker_Line int bytes int
  | Topic_Line bytes "RDKafkaRespErr option"
  | Partition_Line int int "int list" "int list" "RDKafkaRespErr option"
  | Watermarks int int int
  | Total_Count int

fun rust_fold :: "('a \<Rightarrow> 's \<Rightarrow> 's rust) \<Rightarrow> 'a list \<Rightarrow> 's \<Rightarrow> 's rust" where
  "rust_fold f [] s = Ret s"
| "rust_fold f (x # xs) s = rust_bind (f x s) (rust_fold f xs)"

text \<open>Arithmetic on \<open>i64\<close> panics when it overflows.\<close>

definition i64_checked :: "string \<Rightarrow> int \<Rightarrow> int rust" where
  "i64_checked msg x = (if - (2 ^ 63) \<le> x \<and> x < 2 ^ 63 then Ret x else Panic msg)"

definition watermarks_or ::
    "'w client_api \<Rightarrow> 'w world \<Rightarrow> bytes \<Rightarrow> int \<Rightarrow> 'w world \<times> int \<times> int" where
  "watermarks_or api w topic part =
     (case fetch_watermarks api w topic part (After (from_secs 1)) of
        (w, Inr lh) \<Rightarrow> (w, lh)
      | (w, Inl _) \<Rightarrow> (w, - 1, - 1))"

text \<open>The state is the world, \<open>message_count\<close> and what was printed.\<close>

type_synonym 'w report_state = "'w world \<times> int \<times> metadata_line list"

definition print_partition ::
    "'w client_api \<Rightarrow> bool \<Rightarrow> RDKafkaMetadataTopic \<Rightarrow> RDKafkaMetadataPartition \<Rightarrow> 'w report_state \<Rightarrow> 'w report_state rust" where
  "print_partition api fetch_offsets topic part s =
     (case s of (w, message_count, out) \<Rightarrow>
        rust_bind (partition_replicas part) (\<lambda>replicas.
        rust_bind (partition_isr part) (\<lambda>isr.
        let out = out @ [Partition_Line (partition_id part) (partition_leader part) replicas isr (partition_error part)]
        in if fetch_offsets then
             rust_bind (topic_name topic) (\<lambda>name.
             case watermarks_or api w name (partition_id part) of (w, low, high) \<Rightarrow>
               rust_bind (i64_checked ''attempt to subtract with overflow'' (high - low)) (\<lambda>difference.
               rust_map (\<lambda>message_count. (w, message_count, out @ [Watermarks low high difference]))
                 (i64_checked ''attempt to add with overflow'' (message_count + difference))))
           else Ret (w, message_count, out))))"

definition print_topic ::
    "'w client_api \<Rightarrow> bool \<Rightarrow> RDKafkaMetadataTopic \<Rightarrow> 'w report_state \<Rightarrow> 'w report_state rust" where
  "print_topic api fetch_offsets topic s =
     (case s of (w, message_count, out) \<Rightarrow>
        rust_bind (topic_name topic) (\<lambda>name.
        rust_bind (topic_partitions topic) (\<lambda>partitions.
        rust_map (\<lambda>(w, message_count, out). (w, message_count, if fetch_offsets then out @ [Total_Count message_count] else out))
          (rust_fold (print_partition api fetch_offsets topic) partitions
            (w, message_count, out @ [Topic_Line name (topic_error topic)])))))"

definition print_broker :: "RDKafkaMetadataBroker \<Rightarrow> metadata_line rust" where
  "print_broker broker = rust_map (\<lambda>host. Broker_Line (broker_id broker) host (broker_port broker)) (broker_host broker)"

definition metadata_report ::
    "'w client_api \<Rightarrow> bool \<Rightarrow> RDKafkaMetadata \<Rightarrow> 'w world \<Rightarrow> ('w world \<times> metadata_line list) rust" where
  "metadata_report api fetch_offsets metadata w =
     rust_bind (metadata_brokers metadata) (\<lambda>brokers.
     rust_bind (metadata_topics metadata) (\<lambda>topics.
     rust_bind (orig_broker_name metadata) (\<lambda>name.
     rust_bind (rust_mapM print_broker brokers) (\<lambda>broker_lines.
     rust_map (\<lambda>(w, message_count, out). (w, out))
       (rust_fold (print_topic api fetch_offsets) topics
         (w, 0, Cluster_Info (length brokers) (length topics) name (orig_broker_id metadata) # broker_lines))))))"

text \<open>
  \<open>metadata_at\<close> is the struct behind the pointer that librdkafka returned; nothing writes to it
  until it is destroyed. The consumer has no \<open>group.id\<close>. It is dropped at the end.
\<close>

definition print_metadata ::
    "'w client_api \<Rightarrow> ('w, 'c) create_api \<Rightarrow> 'c conf_api \<Rightarrow> 'c producer_conf_api \<Rightarrow> 'w consumer_api \<Rightarrow> tpl_api \<Rightarrow> error_api
      \<Rightarrow> map_iter \<Rightarrow> (log_level \<Rightarrow> bool) \<Rightarrow> arc \<Rightarrow> (addr \<Rightarrow> RDKafkaMetadata) \<Rightarrow> bytes \<Rightarrow> bytes option \<Rightarrow> nat \<Rightarrow> bool \<Rightarrow> 'w world
      \<Rightarrow> ('w world \<times> metadata_line list) rust option" where
  "print_metadata api crapi conf pconf capi tapi eapi iter lg context metadata_at brokers topic timeout fetch_offsets w =
     (case rust_bind (base_consumer_from_config_and_context api crapi conf pconf capi iter w
              (config_set (client_config_new lg) ''bootstrap.servers'' brokers) context) (\<lambda>(w, r).
           rust_bind (result_expect (kafka_error_debug eapi) ''Consumer creation failed'' r) (\<lambda>consumer.
           rust_bind (fetch_metadata api w topic (After timeout)) (\<lambda>(w, r).
           rust_bind (result_expect (kafka_error_debug eapi) ''Failed to fetch metadata'' r) (\<lambda>metadata.
           rust_map (Pair consumer) (metadata_report api fetch_offsets (metadata_at metadata) w))))) of
        Panic m \<Rightarrow> Some (Panic m)
      | Ret (consumer, w, out) \<Rightarrow>
          map_option (rust_map (\<lambda>w. (w, out))) (base_consumer_drop api capi tapi eapi DefaultConsumerContext consumer w))"

section \<open>What the report says\<close>

fun offset_line :: "metadata_line \<Rightarrow> bool" where
  "offset_line (Watermarks _ _ _) \<longleftrightarrow> True"
| "offset_line (Total_Count _) \<longleftrightarrow> True"
| "offset_line _ \<longleftrightarrow> False"

definition partition_line :: "partition_desc \<Rightarrow> metadata_line" where
  "partition_line d = Partition_Line (pd_id d) (pd_leader d) (pd_replicas d) (pd_isr d) (pd_error d)"

definition topic_lines :: "topic_desc \<Rightarrow> metadata_line list" where
  "topic_lines d = Topic_Line (td_name d) (td_error d) # map partition_line (td_partitions d)"

definition cluster_lines :: "cluster_desc \<Rightarrow> metadata_line list" where
  "cluster_lines d =
     Cluster_Info (length (cd_brokers d)) (length (cd_topics d)) (cd_orig_name d) (cd_orig_id d)
     # map (\<lambda>(i, host, port). Broker_Line i host port) (cd_brokers d) @ concat (map topic_lines (cd_topics d))"

text \<open>The watermark lines show their difference, and every total is the sum of the differences above it.\<close>

fun totals_from :: "int \<Rightarrow> metadata_line list \<Rightarrow> bool" where
  "totals_from c [] \<longleftrightarrow> True"
| "totals_from c (Watermarks low high difference # ls) \<longleftrightarrow> difference = high - low \<and> totals_from (c + difference) ls"
| "totals_from c (Total_Count n # ls) \<longleftrightarrow> n = c \<and> totals_from c ls"
| "totals_from c (l # ls) \<longleftrightarrow> totals_from c ls"

fun line_difference :: "metadata_line \<Rightarrow> int" where
  "line_difference (Watermarks _ _ difference) = difference"
| "line_difference _ = 0"

definition differences :: "metadata_line list \<Rightarrow> int" where
  "differences ls = sum_list (map line_difference ls)"

lemma totals_from_append [simp]:
  "totals_from c (xs @ ys) \<longleftrightarrow> totals_from c xs \<and> totals_from (c + differences xs) ys"
  by (induction c xs rule: totals_from.induct) (auto simp: differences_def add.assoc)

lemma differences_simps [simp]: "differences [] = 0" "differences (l # ls) = line_difference l + differences ls"
  "differences (xs @ ys) = differences xs + differences ys"
  by (simp_all add: differences_def)

text \<open>What a step of the report adds to it: lines \<open>described\<close> and offsets that continue the count.\<close>

definition report_adds :: "'w report_state \<Rightarrow> 'w report_state \<Rightarrow> metadata_line list \<Rightarrow> nat \<Rightarrow> bool" where
  "report_adds s s' described n \<longleftrightarrow>
     (case (s, s') of ((w, c, out), (w', c', out')) \<Rightarrow>
        \<exists>ls. out' = out @ ls \<and> c' = c + differences ls \<and> totals_from c ls
          \<and> filter (Not \<circ> offset_line) ls = described \<and> length (filter offset_line ls) = n)"

lemma report_adds_refl: "report_adds s s [] 0"
  by (auto simp: report_adds_def split: prod.splits)

lemma report_adds_trans:
  assumes "report_adds s s' d n" and "report_adds s' s'' d' n'"
  shows "report_adds s s'' (d @ d') (n + n')"
proof -
  obtain w c out w' c' out' w'' c'' out'' where s: "s = (w, c, out)" "s' = (w', c', out')" "s'' = (w'', c'', out'')"
    by (metis prod_cases3)
  from assms obtain ls ls' where "out' = out @ ls" "c' = c + differences ls" "totals_from c ls"
      "filter (Not \<circ> offset_line) ls = d" "length (filter offset_line ls) = n"
      "out'' = out' @ ls'" "c'' = c' + differences ls'" "totals_from c' ls'"
      "filter (Not \<circ> offset_line) ls' = d'" "length (filter offset_line ls') = n'"
    unfolding report_adds_def s by auto
  then show ?thesis
    unfolding report_adds_def s by (intro case_prodI exI [of _ "ls @ ls'"]) simp
qed

lemma rust_fold_adds:
  assumes "rust_fold f xs s = Ret s'"
    and "\<And>x s s'. f x s = Ret s' \<Longrightarrow> \<exists>d. view x = Ret d \<and> report_adds s s' (describe d) (count d)"
  shows "\<exists>ds. rust_mapM view xs = Ret ds \<and> report_adds s s' (concat (map describe ds)) (sum_list (map count ds))"
  using assms(1)
proof (induction xs arbitrary: s)
  case Nil
  then show ?case by (auto intro: report_adds_refl)
next
  case (Cons x xs)
  from Cons.prems obtain s1 where 1: "f x s = Ret s1" and 2: "rust_fold f xs s1 = Ret s'"
    by (cases "f x s") simp_all
  from assms(2) [OF 1] Cons.IH [OF 2] show ?case by (auto intro!: report_adds_trans)
qed

lemma print_partition_adds:
  assumes "print_partition api fetch topic part s = Ret s'"
  shows "\<exists>d. partition_view part = Ret d \<and> report_adds s s' [partition_line d] (of_bool fetch)"
proof -
  obtain w c out where s: "s = (w, c, out)" by (metis prod_cases3)
  from assms obtain replicas isr where v: "partition_replicas part = Ret replicas" "partition_isr part = Ret isr"
    by (auto simp: print_partition_def s split: rust.splits)
  let ?line = "Partition_Line (partition_id part) (partition_leader part) replicas isr (partition_error part)"
  have "\<exists>w' c' ls. s' = (w', c', out @ ?line # ls) \<and>
      (if fetch then \<exists>low high. ls = [Watermarks low high (high - low)] \<and> c' = c + (high - low) else ls = [] \<and> c' = c)"
  proof (cases fetch)
    case True
    with assms v obtain name where "topic_name topic = Ret name" by (auto simp: print_partition_def s split: rust.splits)
    moreover obtain w' low high where "watermarks_or api w name (partition_id part) = (w', low, high)" by (metis prod_cases3)
    ultimately show ?thesis
      using assms v True by (auto simp: print_partition_def s i64_checked_def Let_def split: if_splits)
  qed (use assms v in \<open>auto simp: print_partition_def s\<close>)
  then have "report_adds s s' [?line] (of_bool fetch)"
    unfolding report_adds_def s by (auto split: if_splits)
  with v show ?thesis by (simp add: partition_view_def partition_line_def)
qed

lemma print_topic_adds:
  assumes "print_topic api fetch topic s = Ret s'"
  shows "\<exists>d. topic_view topic = Ret d \<and> report_adds s s' (topic_lines d) (of_bool fetch * Suc (length (td_partitions d)))"
proof -
  obtain w c out where s: "s = (w, c, out)" by (metis prod_cases3)
  let ?s1 = "\<lambda>name. (w, c, out @ [Topic_Line name (topic_error topic)])"
  from assms obtain name ps w2 c2 out2 where n: "topic_name topic = Ret name" "topic_partitions topic = Ret ps"
    and f: "rust_fold (print_partition api fetch topic) ps (?s1 name) = Ret (w2, c2, out2)"
    and s': "s' = (w2, c2, if fetch then out2 @ [Total_Count c2] else out2)"
    by (auto simp: print_topic_def s split: rust.splits)
  have "\<exists>ds. rust_mapM partition_view ps = Ret ds \<and> report_adds (?s1 name) (w2, c2, out2)
      (concat (map (\<lambda>d. [partition_line d]) ds)) (sum_list (map (\<lambda>_. of_bool fetch) ds))"
    by (rule rust_fold_adds [OF f]) (rule print_partition_adds)
  then obtain ds where ds: "rust_mapM partition_view ps = Ret ds"
    and adds: "report_adds (?s1 name) (w2, c2, out2) (map partition_line ds) (length ds * of_bool fetch)"
    by (auto simp: sum_list_triv)
  have "report_adds s (?s1 name) [Topic_Line name (topic_error topic)] 0" by (simp add: report_adds_def s)
  from report_adds_trans [OF this adds]
  have 1: "report_adds s (w2, c2, out2) (Topic_Line name (topic_error topic) # map partition_line ds) (length ds * of_bool fetch)"
    by simp
  have "report_adds (w2, c2, out2) s' [] (of_bool fetch)" by (simp add: report_adds_def s')
  from report_adds_trans [OF 1 this] show ?thesis
    using n ds by (cases fetch) (auto simp: topic_view_def topic_lines_def)
qed

lemma rust_mapM_length: "rust_mapM f xs = Ret ys \<Longrightarrow> length ys = length xs"
  by (induction xs arbitrary: ys) (auto split: rust.splits)

lemma print_brokers_view:
  "rust_mapM print_broker bs = Ret bl \<Longrightarrow>
     \<exists>bds. rust_mapM broker_view bs = Ret bds \<and> bl = map (\<lambda>(i, host, port). Broker_Line i host port) bds"
proof (induction bs arbitrary: bl)
  case (Cons b bs)
  from Cons.prems obtain l ls where l: "print_broker b = Ret l" and ls: "rust_mapM print_broker bs = Ret ls" "bl = l # ls"
    by (auto split: rust.splits)
  from l obtain host where "broker_host b = Ret host" "l = Broker_Line (broker_id b) host (broker_port b)"
    by (auto simp: print_broker_def split: rust.splits)
  with Cons.IH [OF ls(1)] ls(2) show ?case by (auto simp: broker_view_def)
qed simp

lemma broker_lines:
  fixes bds :: "(int \<times> bytes \<times> int) list"
  defines "bl \<equiv> map (\<lambda>(i, host, port). Broker_Line i host port) bds"
  shows "filter (Not \<circ> offset_line) bl = bl" and "filter offset_line bl = []" and "totals_from c bl" and "differences bl = 0"
  by (auto simp: bl_def filter_empty_conv intro!: filter_True) (induction bds; auto)+

text \<open>C28. The report of the metadata example shows exactly the cluster that the metadata describe, in
  order, and with offsets asked for one line of watermarks per partition and one total per
  topic. The total under a topic is not that of the topic: it is the sum of the differences
  of all the watermarks printed so far, those of the topics before it included.\<close>

theorem metadata_report_totals:
  assumes "metadata_report api fetch_offsets metadata w = Ret (w', out)"
  shows "\<exists>d. metadata_view metadata = Ret d \<and> filter (Not \<circ> offset_line) out = cluster_lines d
    \<and> totals_from 0 out
    \<and> length (filter offset_line out) = (if fetch_offsets then sum_list (map (\<lambda>t. Suc (length (td_partitions t))) (cd_topics d)) else 0)"
proof -
  from assms obtain bs ts name bl c where v: "metadata_brokers metadata = Ret bs" "metadata_topics metadata = Ret ts"
      "orig_broker_name metadata = Ret name" "rust_mapM print_broker bs = Ret bl"
    and f: "rust_fold (print_topic api fetch_offsets) ts
      (w, 0, Cluster_Info (length bs) (length ts) name (orig_broker_id metadata) # bl) = Ret (w', c, out)"
    by (auto simp: metadata_report_def split: rust.splits)
  let ?h = "Cluster_Info (length bs) (length ts) name (orig_broker_id metadata)"
  let ?n = "\<lambda>d. of_bool fetch_offsets * Suc (length (td_partitions d))"
  have "\<exists>ds. rust_mapM topic_view ts = Ret ds
      \<and> report_adds (w, 0, ?h # bl) (w', c, out) (concat (map topic_lines ds)) (sum_list (map ?n ds))"
    by (rule rust_fold_adds [OF f]) (rule print_topic_adds)
  then obtain ds ls where ds: "rust_mapM topic_view ts = Ret ds" and ls: "out = ?h # bl @ ls" "totals_from 0 ls"
      "filter (Not \<circ> offset_line) ls = concat (map topic_lines ds)" "length (filter offset_line ls) = sum_list (map ?n ds)"
    by (auto simp: report_adds_def)
  obtain bds where bds: "rust_mapM broker_view bs = Ret bds" "bl = map (\<lambda>(i, host, port). Broker_Line i host port) bds"
    using print_brokers_view [OF v(4)] by blast
  let ?d = "\<lparr>cd_orig_id = orig_broker_id metadata, cd_orig_name = name, cd_brokers = bds, cd_topics = ds\<rparr>"
  have "metadata_view metadata = Ret ?d" using v bds ds by (simp add: metadata_view_def)
  moreover have "filter (Not \<circ> offset_line) out = cluster_lines ?d"
    using ls bds rust_mapM_length [OF bds(1)] rust_mapM_length [OF ds] by (simp add: cluster_lines_def broker_lines(1))
  moreover have "totals_from 0 out" using ls bds by (simp add: broker_lines(3,4))
  moreover have "length (filter offset_line out) = sum_list (map ?n ds)" using ls bds by (simp add: broker_lines(2))
  ultimately show ?thesis by (intro exI [of _ ?d]) (cases fetch_offsets; simp)
qed

definition two_topics :: cluster_desc where
  "two_topics =
     \<lparr>cd_orig_id = 1, cd_orig_name = ''b1'', cd_brokers = [(1, ''host'', 9092)],
      cd_topics = map (\<lambda>t. \<lparr>td_name = t, td_error = None, td_partitions =
        [\<lparr>pd_id = 0, pd_leader = 1, pd_error = None, pd_replicas = [1], pd_isr = [1]\<rparr>]\<rparr>) [''a'', ''b'']\<rparr>"

definition two_topics_client :: "RDKafkaEvent list client_api" where
  "two_topics_client = client_instance\<lparr>rd_kafka_query_watermark_offsets :=
     \<lambda>n t p ms. (n, RD_KAFKA_RESP_ERR_NO_ERROR, 0, if t = ''a'' then 10 else 5)\<rparr>"

definition two_topics_report :: "metadata_line list" where
  "two_topics_report =
     [Cluster_Info 1 2 ''b1'' 1, Broker_Line 1 ''host'' 9092,
      Topic_Line ''a'' None, Partition_Line 0 1 [1] [1] None, Watermarks 0 10 10, Total_Count 10,
      Topic_Line ''b'' None, Partition_Line 0 1 [1] [1] None, Watermarks 0 5 5, Total_Count 15]"

lemma two_topics_printed:
  "metadata_report two_topics_client True (native_metadata two_topics) (sample_world []) = Ret (sample_world [], two_topics_report)"
proof -
  have "cname_ok ''b1''" "cname_ok ''host''" "cname_ok ''a''" "cname_ok ''b''"
    by (rule ascii_name_ok; simp add: ascii_def byte_val_def)+
  then have names: "cstr_expect m (''b1'' @ [NUL]) = Ret ''b1''" "cstr_expect m (''host'' @ [NUL]) = Ret ''host''"
    "cstr_expect m (''a'' @ [NUL]) = Ret ''a''" "cstr_expect m (''b'' @ [NUL]) = Ret ''b''" for m
    by (simp_all only: cstr_expect_ok)
  have wm: "watermarks_or two_topics_client (sample_world []) ''a'' 0 = (sample_world [], 0, 10)"
    "watermarks_or two_topics_client (sample_world []) ''b'' 0 = (sample_world [], 0, 5)"
    by (simp_all add: watermarks_or_def fetch_watermarks_def two_topics_client_def sample_world_def cstring_new_def resp_err_is_error_def)
  show ?thesis
    using names
    by (simp add: metadata_report_def two_topics_def two_topics_report_def metadata_defs print_topic_def print_partition_def
        print_broker_def wm i64_checked_def from_raw_parts_def as_usize_def native_broker_def native_topic_desc_def native_partition_def
        broker_host_def broker_id_def broker_port_def topic_name_def topic_partitions_def topic_error_def partition_id_def
        partition_leader_def partition_replicas_def partition_isr_def partition_error_def code_of_def resp_err_is_error_def)
qed

theorem metadata_report_totals_witness:
  "metadata_report two_topics_client True (native_metadata two_topics) (sample_world []) = Ret (sample_world [], two_topics_report)
   \<and> totals_from 0 two_topics_report \<and> last two_topics_report = Total_Count (10 + 5)"
  using metadata_report_totals [OF two_topics_printed] two_topics_printed by (auto simp: two_topics_report_def)

end
