(* ===== verification/Queue_Callback.thy ===== *)
theory Queue_Callback
  imports Consumer
begin

text \<open>
  The boxed closures of \<open>set_nonempty_callback\<close> (\<open>src/consumer/base_consumer.rs\<close>, for consumers
  and for partition queues). librdkafka gets a pointer into the box and may call it at any
  moment until the next \<open>rd_kafka_queue_cb_event_enable\<close>; the safety comment of both functions
  says that the box lives that long. The cell below has the pointer that librdkafka holds, the
  field of the owner and the boxes that are allocated, and takes the statements of the two
  functions and of \<open>Drop\<close> one by one. Both functions borrow the owner mutably, so there is one
  call at a time.
\<close>

section \<open>The statements\<close>

datatype callback_pc = Cc_Idle | Cc_Boxed addr | Cc_Enabled addr | Cc_Disabled | Cc_Released

record callback_cell =
  cc_registered :: "addr option"
  cc_field :: "addr option"
  cc_heap :: "addr set"
  cc_pc :: callback_pc

definition callback_cell_new :: callback_cell where
  "callback_cell_new = \<lparr>cc_registered = None, cc_field = None, cc_heap = {}, cc_pc = Cc_Idle\<rparr>"

text \<open>\<open>let f = Box::new(Box::new(f))\<close>\<close>

definition cell_box :: "addr \<Rightarrow> callback_cell \<Rightarrow> callback_cell" where
  "cell_box p c = c\<lparr>cc_heap := insert p (cc_heap c), cc_pc := Cc_Boxed p\<rparr>"

text \<open>\<open>rd_kafka_queue_cb_event_enable\<close> with a pointer to the box\<close>

definition cell_enable :: "addr \<Rightarrow> callback_cell \<Rightarrow> callback_cell" where
  "cell_enable p c = c\<lparr>cc_registered := Some p, cc_pc := Cc_Enabled p\<rparr>"

text \<open>\<open>self.nonempty_callback = Some(f)\<close> moves the box into the field and drops the old one.\<close>

definition cell_store :: "addr \<Rightarrow> callback_cell \<Rightarrow> callback_cell" where
  "cell_store p c = c\<lparr>cc_field := Some p, cc_heap := cc_heap c - set_option (cc_field c), cc_pc := Cc_Idle\<rparr>"

text \<open>\<open>Drop\<close> disables the callback; the fields are dropped afterwards.\<close>

definition cell_disable :: "callback_cell \<Rightarrow> callback_cell" where
  "cell_disable c = c\<lparr>cc_registered := None, cc_pc := Cc_Disabled\<rparr>"

definition cell_release :: "callback_cell \<Rightarrow> callback_cell" where
  "cell_release c = c\<lparr>cc_field := None, cc_heap := cc_heap c - set_option (cc_field c), cc_pc := Cc_Released\<rparr>"

inductive callback_step :: "callback_cell \<Rightarrow> callback_cell \<Rightarrow> bool" where
  cc_box: "cc_pc c = Cc_Idle \<Longrightarrow> p \<notin> cc_heap c \<Longrightarrow> callback_step c (cell_box p c)"
| cc_enable: "cc_pc c = Cc_Boxed p \<Longrightarrow> callback_step c (cell_enable p c)"
| cc_store: "cc_pc c = Cc_Enabled p \<Longrightarrow> callback_step c (cell_store p c)"
| cc_disable: "cc_pc c = Cc_Idle \<Longrightarrow> callback_step c (cell_disable c)"
| cc_release: "cc_pc c = Cc_Disabled \<Longrightarrow> callback_step c (cell_release c)"

lemmas cell_ops = cell_box_def cell_enable_def cell_store_def cell_disable_def cell_release_def

fun held_box :: "callback_pc \<Rightarrow> addr set" where
  "held_box (Cc_Boxed p) = {p}"
| "held_box (Cc_Enabled p) = {p}"
| "held_box _ = {}"

text \<open>The boxes are those of the field and of the call that is running, each owned once.\<close>

definition cell_inv :: "callback_cell \<Rightarrow> bool" where
  "cell_inv c \<longleftrightarrow>
     cc_heap c = set_option (cc_field c) \<union> held_box (cc_pc c) \<and> set_option (cc_field c) \<inter> held_box (cc_pc c) = {}
     \<and> cc_registered c = (case cc_pc c of Cc_Enabled p \<Rightarrow> Some p | Cc_Disabled \<Rightarrow> None | _ \<Rightarrow> cc_field c)
     \<and> (cc_pc c = Cc_Released \<longrightarrow> cc_field c = None)"

lemma cell_inv_step: "callback_step c c' \<Longrightarrow> cell_inv c \<Longrightarrow> cell_inv c'"
  by (induction rule: callback_step.induct) (auto simp: cell_inv_def cell_ops)

lemma cell_inv_run: "callback_step\<^sup>*\<^sup>* callback_cell_new c \<Longrightarrow> cell_inv c"
proof (induction rule: rtranclp_induct)
  case base
  show ?case by (simp add: callback_cell_new_def cell_inv_def)
next
  case (step c c')
  from step(2,3) show ?case by (rule cell_inv_step)
qed

text \<open>A whole call, from a cell that is idle; it ends with librdkafka holding the new closure.\<close>

lemma cell_set_run:
  assumes "cc_pc cell = Cc_Idle" and "p \<notin> cc_heap cell"
  shows "callback_step\<^sup>*\<^sup>* cell (cell_store p (cell_enable p (cell_box p cell)))"
proof -
  have "callback_step cell (cell_box p cell)"
    using assms by (rule cc_box)
  moreover have "callback_step (cell_box p cell) (cell_enable p (cell_box p cell))"
    by (rule cc_enable) (simp add: cell_ops)
  moreover have "callback_step (cell_enable p (cell_box p cell)) (cell_store p (cell_enable p (cell_box p cell)))"
    by (rule cc_store) (simp add: cell_ops)
  ultimately show ?thesis by (auto intro: converse_rtranclp_into_rtranclp)
qed

section \<open>The operations of consumers and partition queues\<close>

text \<open>Whether the last call to \<open>rd_kafka_queue_cb_event_enable\<close> on a queue set a callback.\<close>

definition callback_switch :: "addr \<Rightarrow> bool \<Rightarrow> effect \<Rightarrow> bool" where
  "callback_switch q enabled e =
     (case e of Native_queue_callback q' b \<Rightarrow> if q' = q then b else enabled | _ \<Rightarrow> enabled)"

definition callback_enabled :: "addr \<Rightarrow> effect list \<Rightarrow> bool" where
  "callback_enabled q es = foldl (callback_switch q) False es"

lemma callback_enabled_last [simp]: "callback_enabled q (es @ [Native_queue_callback q b]) = b"
  by (simp add: callback_enabled_def callback_switch_def)

text \<open>
  A cell shows an owner of a queue in a world: the field is set, and librdkafka holds a pointer,
  when the owner's operations say so.
\<close>

definition cell_shows :: "'w world \<Rightarrow> addr \<Rightarrow> bool \<Rightarrow> callback_cell \<Rightarrow> bool" where
  "cell_shows w queue has_callback c \<longleftrightarrow>
     has_callback = (cc_field c \<noteq> None) \<and> callback_enabled queue (trace w) = (cc_registered c \<noteq> None)"

text \<open>What the two kinds of owners have in common.\<close>

locale callback_owner =
  fixes queue :: "'c \<Rightarrow> addr"
    and has_callback :: "'c \<Rightarrow> bool"
    and set_callback :: "'w world \<Rightarrow> 'c \<Rightarrow> 'w world \<times> 'c"
  assumes set_trace: "trace (fst (set_callback w c)) = trace w @ [Native_queue_callback (queue c) True]"
    and set_has: "has_callback (snd (set_callback w c))"
    and set_queue: "queue (snd (set_callback w c)) = queue c"
begin

lemma set_shows:
  "cell_shows (fst (set_callback w c)) (queue c) (has_callback (snd (set_callback w c)))
     (cell_store p (cell_enable p (cell_box p cell)))"
  by (simp add: cell_shows_def set_trace set_has cell_ops)

lemma set_again:
  "callback_enabled (queue c) (trace (fst (set_callback (fst (set_callback w c)) (snd (set_callback w c)))))"
  by (simp add: set_trace set_queue callback_enabled_def callback_switch_def)

end

interpretation bc_cb: callback_owner bc_queue bc_nonempty_callback "set_nonempty_callback capi" for capi
  by unfold_locales (simp_all add: set_nonempty_callback_def emit_def)

interpretation pq_cb: callback_owner pq_queue pq_nonempty_callback "partition_queue_set_nonempty_callback capi" for capi
  by unfold_locales (simp_all add: partition_queue_set_nonempty_callback_def emit_def)

lemma partition_queue_drop_disables:
  "has_callback = (cc_field cell \<noteq> None) \<Longrightarrow> cell_shows (partition_queue_drop capi w q) (pq_queue q) has_callback (cell_disable cell)"
  by (simp add: partition_queue_drop_def emit_def cell_shows_def cell_ops)

section \<open>The closure is alive whenever librdkafka may call it\<close>

text \<open>C20. The promise of the safety comments. Whatever was called before and wherever the current
  call is, the pointer that librdkafka holds leads into a box that is allocated, no box is
  forgotten, and after the owner is dropped nothing is left. \<open>set_nonempty_callback\<close> of a consumer
  and of a partition queue are such calls: from an idle cell a call ends with librdkafka holding
  the new closure, in the world and the owner that the function returns.\<close>

theorem nonempty_callback_alive:
  assumes "callback_step\<^sup>*\<^sup>* callback_cell_new cell"
  shows "set_option (cc_registered cell) \<subseteq> cc_heap cell
    \<and> cc_heap cell = set_option (cc_field cell) \<union> held_box (cc_pc cell)
    \<and> (cc_pc cell = Cc_Released \<longrightarrow> cc_heap cell = {} \<and> cc_registered cell = None)
    \<and> (cc_pc cell = Cc_Idle \<and> p \<notin> cc_heap cell \<longrightarrow>
         (\<exists>cell'. callback_step\<^sup>*\<^sup>* cell cell' \<and> cc_registered cell' = Some p
            \<and> cell_shows (fst (set_nonempty_callback capi w c)) (bc_queue c) (bc_nonempty_callback (snd (set_nonempty_callback capi w c))) cell'
            \<and> cell_shows (fst (partition_queue_set_nonempty_callback capi w q)) (pq_queue q)
                (pq_nonempty_callback (snd (partition_queue_set_nonempty_callback capi w q))) cell'))"
proof -
  have "set_option (cc_registered cell) \<subseteq> cc_heap cell
    \<and> cc_heap cell = set_option (cc_field cell) \<union> held_box (cc_pc cell)
    \<and> (cc_pc cell = Cc_Released \<longrightarrow> cc_heap cell = {} \<and> cc_registered cell = None)"
    using cell_inv_run [OF assms] by (auto simp: cell_inv_def split: callback_pc.splits)
  moreover have "cc_registered (cell_store p (cell_enable p (cell_box p cell))) = Some p"
    by (simp add: cell_ops)
  ultimately show ?thesis
    using cell_set_run bc_cb.set_shows pq_cb.set_shows by blast
qed

text \<open>Two closures are set one after the other and the owner is dropped.\<close>

definition sample_cell :: callback_cell where
  "sample_cell = cell_store 8 (cell_enable 8 (cell_box 8 (cell_store 7 (cell_enable 7 (cell_box 7 callback_cell_new)))))"

lemma sample_cell_run: "callback_step\<^sup>*\<^sup>* callback_cell_new sample_cell"
proof -
  let ?c = "cell_store 7 (cell_enable 7 (cell_box 7 callback_cell_new))"
  have "callback_step\<^sup>*\<^sup>* callback_cell_new ?c"
    by (rule cell_set_run) (simp_all add: callback_cell_new_def)
  moreover have "callback_step\<^sup>*\<^sup>* ?c sample_cell"
    unfolding sample_cell_def by (rule cell_set_run) (simp_all add: callback_cell_new_def cell_ops)
  ultimately show ?thesis by simp
qed

theorem nonempty_callback_alive_witness:
  "cc_registered sample_cell = Some 8 \<and> 8 \<in> cc_heap sample_cell \<and> cc_heap (cell_release (cell_disable sample_cell)) = {}"
proof -
  have pc: "cc_pc sample_cell = Cc_Idle" "cc_registered sample_cell = Some 8"
    by (simp_all add: sample_cell_def cell_ops)
  have "callback_step sample_cell (cell_disable sample_cell)"
    by (rule cc_disable) (rule pc(1))
  moreover have "callback_step (cell_disable sample_cell) (cell_release (cell_disable sample_cell))"
    by (rule cc_release) (simp add: cell_ops)
  ultimately have "callback_step\<^sup>*\<^sup>* callback_cell_new (cell_release (cell_disable sample_cell))"
    using sample_cell_run by simp
  moreover have "cc_pc (cell_release (cell_disable sample_cell)) = Cc_Released"
    by (simp add: cell_ops)
  ultimately have "cc_heap (cell_release (cell_disable sample_cell)) = {}"
    using nonempty_callback_alive by blast
  moreover have "8 \<in> cc_heap sample_cell"
    using conjunct1 [OF nonempty_callback_alive [OF sample_cell_run]] pc(2) by simp
  ultimately show ?thesis using pc(2) by blast
qed

end
