(* ===== verification/Stream_Refinement.thy ===== *)
theory Stream_Refinement
  imports Stream_Consumer
begin

text \<open>
  \<open>poll_next\<close> of \<open>src/consumer/stream_consumer.rs\<close> is a run of the system of streams: every
  call, with whatever arrives on the queue between its two polls, is a sequence of
  \<open>stream_step\<close>s of its own task and of arrivals. So what holds of all reachable states of
  the system holds of the code.
\<close>

section \<open>What the polls of a call saw\<close>




section \<open>Runs\<close>

abbreviation stream_run :: "('s, waker option) slab_api \<Rightarrow> 's stream_sys \<Rightarrow> 's stream_sys \<Rightarrow> bool" where
  "stream_run sapi \<equiv> (stream_step sapi)\<^sup>*\<^sup>*"


lemma stream_run_reachable: "stream_run sapi sys sys' \<Longrightarrow> stream_reachable sapi sys \<Longrightarrow> stream_reachable sapi sys'"
  by (induction rule: rtranclp_induct) (auto intro: reach_step)









end
