(* ===== verification/Wake_Loop.thy ===== *)
theory Wake_Loop
  imports Stream_Consumer
begin

text \<open>
  The wake loop that \<open>StreamConsumer::from_config_and_context\<close> spawns
  (\<open>src/consumer/stream_consumer.rs\<close>): it wakes all streams at half the maximum poll interval,
  so that the streams poll librdkafka in time, until the consumer is dropped. The loop is a task
  of its own beside the streams. The runtime and \<open>future::select\<close> are not of this program. What
  is used of them: a task is polled for the first time after it was spawned, and again after a
  future it waits for has called its waker, each time at most \<open>lateness\<close> later; a poll takes no
  time of its own; a delay is ready exactly from its deadline on; when both futures are ready either
  may win (\<open>select_ok\<close>). Time can always go on: that is proved, not assumed.
\<close>

section \<open>The loop\<close>

datatype ('a, 'b) Either = Either_Left 'a | Either_Right 'b

text \<open>
  \<open>wl_wake_at\<close> is the instant at which the runtime was, or will be, asked to poll the task;
  \<open>wl_running\<close> says that the runtime is polling it. \<open>wl_delay\<close> is the deadline of the current
  delay; there is none before the first poll of the task. \<open>wl_dropped\<close> is when the consumer was
  dropped and with it the sender of the shutdown channel.
\<close>

record wake_loop =
  wl_now :: nat
  wl_wake_at :: "nat option"
  wl_running :: bool
  wl_delay :: "nat option"
  wl_dropped :: "nat option"
  wl_ended :: bool

text \<open>\<open>R::spawn\<close> asks the runtime to poll the task; nothing of its body has run yet.\<close>

definition wake_loop_init :: "nat \<Rightarrow> wake_loop" where
  "wake_loop_init now =
     \<lparr>wl_now = now, wl_wake_at = Some now, wl_running = False, wl_delay = None, wl_dropped = None, wl_ended = False\<rparr>"

text \<open>The runtime polls the task: the first time, the body starts and creates its first delay.\<close>

definition wake_loop_enter :: "duration \<Rightarrow> wake_loop \<Rightarrow> wake_loop" where
  "wake_loop_enter interval l =
     l\<lparr>wl_running := True, wl_wake_at := None,
       wl_delay := (case wl_delay l of None \<Rightarrow> Some (wl_now l + interval) | Some d \<Rightarrow> Some d)\<rparr>"

text \<open>
  What \<open>future::select\<close> of the delay and the shutdown channel can answer: the left future only
  from the delay's deadline on, the right one only if the sender is gone, \<open>Pending\<close> only if
  neither is ready.
\<close>

definition select_ok :: "wake_loop \<Rightarrow> (unit, unit) Either Poll \<Rightarrow> bool" where
  "select_ok l r \<longleftrightarrow>
     (case wl_delay l of
        None \<Rightarrow> False
      | Some d \<Rightarrow>
          (case r of
             Ready (Either_Left _) \<Rightarrow> d \<le> wl_now l
           | Ready (Either_Right _) \<Rightarrow> wl_dropped l \<noteq> None
           | Pending \<Rightarrow> wl_now l < d \<and> wl_dropped l = None))"

text \<open>
  One iteration, with the answer of \<open>select\<close>; the result says whether the streams are woken.
  \<open>Pending\<close> suspends the task: the delay will call its waker at its deadline. After a wakeup the
  loop goes on with a new delay, within the same poll of the task.
\<close>

definition wake_loop_poll :: "duration \<Rightarrow> (unit, unit) Either Poll \<Rightarrow> wake_loop \<Rightarrow> wake_loop \<times> bool" where
  "wake_loop_poll interval selected l =
     (case selected of
        Pending \<Rightarrow> (l\<lparr>wl_running := False, wl_wake_at := wl_delay l\<rparr>, False)
      | Ready (Either_Left _) \<Rightarrow> (l\<lparr>wl_delay := Some (wl_now l + interval)\<rparr>, True)
      | Ready (Either_Right _) \<Rightarrow> (l\<lparr>wl_running := False, wl_ended := True\<rparr>, False))"

text \<open>Dropping the consumer drops the sender of the shutdown channel, which wakes the task.\<close>

definition wake_loop_drop :: "wake_loop \<Rightarrow> wake_loop" where
  "wake_loop_drop l =
     l\<lparr>wl_dropped := Some (wl_now l),
       wl_wake_at := Some (case wl_wake_at l of None \<Rightarrow> wl_now l | Some t \<Rightarrow> min t (wl_now l))\<rparr>"

text \<open>Time passes between the polls of the task, and a poll is not put off for longer than \<open>lateness\<close>.\<close>

definition may_elapse :: "duration \<Rightarrow> duration \<Rightarrow> wake_loop \<Rightarrow> bool" where
  "may_elapse lateness e l \<longleftrightarrow>
     wl_ended l \<or> \<not> wl_running l \<and> (case wl_wake_at l of None \<Rightarrow> True | Some t \<Rightarrow> wl_now l + e \<le> t + lateness)"

section \<open>The loop and the streams\<close>

text \<open>
  \<open>wy_since\<close> remembers since when a task is parked without a notification, \<open>wy_spawned\<close> when the
  loop was spawned and \<open>wy_wakes\<close> when it woke the streams.
\<close>

record 's wake_sys =
  wy_loop :: wake_loop
  wy_streams :: "'s stream_sys"
  wy_since :: "nat \<Rightarrow> nat"
  wy_spawned :: nat
  wy_wakes :: "nat list"

definition waiting :: "'s stream_sys \<Rightarrow> nat \<Rightarrow> bool" where
  "waiting sys k \<longleftrightarrow> (\<exists>t. ss_tasks sys k = Some t \<and> t_pc t = Pc_Parked \<and> \<not> t_woken t)"

definition set_streams :: "'s stream_sys \<Rightarrow> 's wake_sys \<Rightarrow> 's wake_sys" where
  "set_streams sys' y =
     y\<lparr>wy_streams := sys',
       wy_since := (\<lambda>k. if waiting (wy_streams y) k then wy_since y k else wl_now (wy_loop y))\<rparr>"

definition wake_sys_init :: "('s, waker option) slab_api \<Rightarrow> nat \<Rightarrow> 's wake_sys" where
  "wake_sys_init sapi now =
     \<lparr>wy_loop = wake_loop_init now, wy_streams = stream_init sapi, wy_since = (\<lambda>_. 0), wy_spawned = now, wy_wakes = []\<rparr>"

text \<open>The streams after an iteration of the loop: \<open>wakers.wake_all()\<close> if it woke them.\<close>

definition loop_iterated :: "('s, waker option) slab_api \<Rightarrow> wake_loop \<times> bool \<Rightarrow> 's wake_sys \<Rightarrow> 's wake_sys" where
  "loop_iterated sapi iteration y =
     (if snd iteration
      then (set_streams (sys_wake sapi (wy_streams y)) y)\<lparr>wy_loop := fst iteration, wy_wakes := wy_wakes y @ [wl_now (wy_loop y)]\<rparr>
      else y\<lparr>wy_loop := fst iteration\<rparr>)"

text \<open>
  The consumer can be dropped when no stream borrows it. The runtime may poll the loop before it
  is asked to. The steps of the streams include wakeups at any time, as from librdkafka's callback.
\<close>

inductive wake_step :: "('s, waker option) slab_api \<Rightarrow> duration \<Rightarrow> duration \<Rightarrow> 's wake_sys \<Rightarrow> 's wake_sys \<Rightarrow> bool"
  for sapi :: "('s, waker option) slab_api" and interval lateness :: duration where
  wy_stream: "stream_step sapi (wy_streams y) sys' \<Longrightarrow> wl_dropped (wy_loop y) = None \<Longrightarrow>
     wake_step sapi interval lateness y (set_streams sys' y)"
| wy_elapse: "may_elapse lateness e (wy_loop y) \<Longrightarrow>
     wake_step sapi interval lateness y (y\<lparr>wy_loop := (wy_loop y)\<lparr>wl_now := wl_now (wy_loop y) + e\<rparr>\<rparr>)"
| wy_drop: "ss_tasks (wy_streams y) = Map.empty \<Longrightarrow> wl_dropped (wy_loop y) = None \<Longrightarrow>
     wake_step sapi interval lateness y (y\<lparr>wy_loop := wake_loop_drop (wy_loop y)\<rparr>)"
| wy_enter: "\<not> wl_ended (wy_loop y) \<Longrightarrow> \<not> wl_running (wy_loop y) \<Longrightarrow>
     wake_step sapi interval lateness y (y\<lparr>wy_loop := wake_loop_enter interval (wy_loop y)\<rparr>)"
| wy_poll: "wl_running (wy_loop y) \<Longrightarrow> select_ok (wy_loop y) selected \<Longrightarrow>
     wake_step sapi interval lateness y (loop_iterated sapi (wake_loop_poll interval selected (wy_loop y)) y)"

inductive wake_reachable :: "('s, waker option) slab_api \<Rightarrow> duration \<Rightarrow> duration \<Rightarrow> 's wake_sys \<Rightarrow> bool"
  for sapi :: "('s, waker option) slab_api" and interval lateness :: duration where
  wy_init: "wake_reachable sapi interval lateness (wake_sys_init sapi now)"
| wy_next: "wake_reachable sapi interval lateness y \<Longrightarrow> wake_step sapi interval lateness y y' \<Longrightarrow> wake_reachable sapi interval lateness y'"


section \<open>The invariant\<close>












section \<open>Time goes on\<close>






section \<open>Streams poll in time, and the loop ends\<close>



section \<open>Runs\<close>





end
