(* ===== verification/Stream_Lifetime.thy ===== *)
theory Stream_Lifetime
  imports Stream_Consumer
begin

text \<open>
  Who owns the registries of wakers of a stream consumer
  (\<open>src/consumer/stream_consumer.rs\<close>). librdkafka's callback gets \<open>Arc::as_ptr\<close> of a registry,
  a pointer that owns nothing; it may be called from librdkafka's threads as long as it is
  enabled on a queue that exists. The model has the reference counts, the callbacks that are
  enabled, and the drops of a consumer and of its partition queues field by field, interleaved
  with everything else.
\<close>

section \<open>Reference counts\<close>

datatype queue_id = Consumer_Queue | Partition_Queue nat

datatype slab_id = Consumer_Slab | Queue_Slab nat

text \<open>
  A partition queue is dropped in the order \<open>drop\<close>, \<open>queue\<close>, \<open>wakers\<close>, \<open>_consumer\<close>; a consumer in
  the order \<open>base\<close>, \<open>wakers\<close>, \<open>_shutdown_trigger\<close>.
\<close>

datatype spq_phase = Spq_Live | Spq_Disabled | Spq_Queue_Dropped | Spq_Wakers_Dropped

datatype sc_phase = Sc_Live | Sc_Dropping | Sc_Base_Dropped | Sc_Wakers_Dropped | Sc_Gone

record stream_life =
  sl_handles :: nat
  sl_consumer_arc :: nat
  sl_base_arc :: nat
  sl_slab_arc :: "slab_id \<Rightarrow> nat"
  sl_callback :: "queue_id \<rightharpoonup> slab_id"
  sl_queues :: "nat \<rightharpoonup> spq_phase"
  sl_phase :: sc_phase
  sl_loop :: bool

definition enable_nonempty_callback :: "queue_id \<Rightarrow> slab_id \<Rightarrow> stream_life \<Rightarrow> stream_life" where
  "enable_nonempty_callback queue wakers l = l\<lparr>sl_callback := (sl_callback l)(queue \<mapsto> wakers)\<rparr>"

definition disable_nonempty_callback :: "queue_id \<Rightarrow> stream_life \<Rightarrow> stream_life" where
  "disable_nonempty_callback queue l = l\<lparr>sl_callback := (sl_callback l)(queue := None)\<rparr>"

text \<open>A new consumer: the registry is shared with the wake loop.\<close>

definition life_new :: stream_life where
  "life_new =
     enable_nonempty_callback Consumer_Queue Consumer_Slab
       \<lparr>sl_handles = 1, sl_consumer_arc = 1, sl_base_arc = 1, sl_slab_arc = (\<lambda>_. 0)(Consumer_Slab := 2),
        sl_callback = Map.empty, sl_queues = Map.empty, sl_phase = Sc_Live, sl_loop = True\<rparr>"

definition life_clone :: "stream_life \<Rightarrow> stream_life" where
  "life_clone l = l\<lparr>sl_handles := sl_handles l + 1, sl_consumer_arc := sl_consumer_arc l + 1\<rparr>"

definition life_split :: "nat \<Rightarrow> stream_life \<Rightarrow> stream_life" where
  "life_split k l =
     (enable_nonempty_callback (Partition_Queue k) (Queue_Slab k)
        (l\<lparr>sl_base_arc := sl_base_arc l + 1, sl_slab_arc := (sl_slab_arc l)(Queue_Slab k := 1)\<rparr>))
      \<lparr>sl_consumer_arc := sl_consumer_arc l + 1, sl_queues := (sl_queues l)(k \<mapsto> Spq_Live)\<rparr>"

text \<open>Giving up one \<open>Arc\<close>; the last one starts the drop of what it points to.\<close>

definition drop_consumer_arc :: "stream_life \<Rightarrow> stream_life" where
  "drop_consumer_arc l =
     l\<lparr>sl_consumer_arc := sl_consumer_arc l - 1, sl_phase := (if sl_consumer_arc l = 1 then Sc_Dropping else sl_phase l)\<rparr>"

definition drop_base_arc :: "stream_life \<Rightarrow> stream_life" where
  "drop_base_arc l =
     l\<lparr>sl_base_arc := sl_base_arc l - 1,
       sl_callback := (if sl_base_arc l = 1 then (sl_callback l)(Consumer_Queue := None) else sl_callback l)\<rparr>"

definition drop_slab_arc :: "slab_id \<Rightarrow> stream_life \<Rightarrow> stream_life" where
  "drop_slab_arc s l = l\<lparr>sl_slab_arc := (sl_slab_arc l)(s := sl_slab_arc l s - 1)\<rparr>"

definition drop_handle :: "stream_life \<Rightarrow> stream_life" where
  "drop_handle l = drop_consumer_arc (l\<lparr>sl_handles := sl_handles l - 1\<rparr>)"

text \<open>The next field of a partition queue that is dropped.\<close>

definition spq_drop_next :: "nat \<Rightarrow> stream_life \<Rightarrow> stream_life" where
  "spq_drop_next k l =
     (case sl_queues l k of
        Some Spq_Live \<Rightarrow> (disable_nonempty_callback (Partition_Queue k) l)\<lparr>sl_queues := (sl_queues l)(k \<mapsto> Spq_Disabled)\<rparr>
      | Some Spq_Disabled \<Rightarrow> (drop_base_arc l)\<lparr>sl_queues := (sl_queues l)(k \<mapsto> Spq_Queue_Dropped)\<rparr>
      | Some Spq_Queue_Dropped \<Rightarrow> (drop_slab_arc (Queue_Slab k) l)\<lparr>sl_queues := (sl_queues l)(k \<mapsto> Spq_Wakers_Dropped)\<rparr>
      | Some Spq_Wakers_Dropped \<Rightarrow> (drop_consumer_arc l)\<lparr>sl_queues := (sl_queues l)(k := None)\<rparr>
      | None \<Rightarrow> l)"

text \<open>The next field of the consumer that is dropped.\<close>

definition sc_drop_next :: "stream_life \<Rightarrow> stream_life" where
  "sc_drop_next l =
     (case sl_phase l of
        Sc_Dropping \<Rightarrow> (drop_base_arc l)\<lparr>sl_phase := Sc_Base_Dropped\<rparr>
      | Sc_Base_Dropped \<Rightarrow> (drop_slab_arc Consumer_Slab l)\<lparr>sl_phase := Sc_Wakers_Dropped\<rparr>
      | Sc_Wakers_Dropped \<Rightarrow> l\<lparr>sl_phase := Sc_Gone\<rparr>
      | _ \<Rightarrow> l)"

text \<open>The wake loop ends after the shutdown trigger is gone and drops its registry.\<close>

definition life_loop_end :: "stream_life \<Rightarrow> stream_life" where
  "life_loop_end l = (drop_slab_arc Consumer_Slab l)\<lparr>sl_loop := False\<rparr>"

inductive life_step :: "stream_life \<Rightarrow> stream_life \<Rightarrow> bool" where
  sl_clone: "0 < sl_handles l \<Longrightarrow> life_step l (life_clone l)"
| sl_split: "0 < sl_handles l \<Longrightarrow> sl_queues l k = None \<Longrightarrow> life_step l (life_split k l)"
| sl_drop_handle: "0 < sl_handles l \<Longrightarrow> life_step l (drop_handle l)"
| sl_drop_queue: "sl_queues l k \<noteq> None \<Longrightarrow> life_step l (spq_drop_next k l)"
| sl_drop_consumer: "sl_phase l \<in> {Sc_Dropping, Sc_Base_Dropped, Sc_Wakers_Dropped} \<Longrightarrow> life_step l (sc_drop_next l)"
| sl_loop_end: "sl_phase l = Sc_Gone \<Longrightarrow> sl_loop l \<Longrightarrow> life_step l (life_loop_end l)"

inductive life_reachable :: "stream_life \<Rightarrow> bool" where
  life_init: "life_reachable life_new"
| life_next: "life_reachable l \<Longrightarrow> life_step l l' \<Longrightarrow> life_reachable l'"

section \<open>The counts are right\<close>

definition base_holders :: "(nat \<rightharpoonup> spq_phase) \<Rightarrow> nat set" where
  "base_holders queues = {k. queues k = Some Spq_Live \<or> queues k = Some Spq_Disabled}"

definition life_inv :: "stream_life \<Rightarrow> bool" where
  "life_inv l \<longleftrightarrow>
     finite (dom (sl_queues l))
     \<and> sl_consumer_arc l = sl_handles l + card (dom (sl_queues l))
     \<and> sl_base_arc l = (if sl_phase l \<in> {Sc_Live, Sc_Dropping} then 1 else 0) + card (base_holders (sl_queues l))
     \<and> sl_slab_arc l Consumer_Slab = (if sl_phase l \<in> {Sc_Live, Sc_Dropping, Sc_Base_Dropped} then 1 else 0) + (if sl_loop l then 1 else 0)
     \<and> (\<forall>k. sl_slab_arc l (Queue_Slab k) = (if sl_queues l k \<in> {None, Some Spq_Wakers_Dropped} then 0 else 1))
     \<and> sl_callback l Consumer_Queue = (if sl_phase l \<in> {Sc_Live, Sc_Dropping} then Some Consumer_Slab else None)
     \<and> (\<forall>k. sl_callback l (Partition_Queue k) = (if sl_queues l k = Some Spq_Live then Some (Queue_Slab k) else None))
     \<and> (sl_phase l = Sc_Live \<longleftrightarrow> 0 < sl_consumer_arc l)
     \<and> (sl_loop l \<or> sl_phase l = Sc_Gone)"

lemma base_holders_simps [simp]:
  "base_holders Map.empty = {}"
  "base_holders (m(k \<mapsto> Spq_Live)) = insert k (base_holders m)"
  "base_holders (m(k \<mapsto> Spq_Disabled)) = insert k (base_holders m)"
  "base_holders (m(k \<mapsto> Spq_Queue_Dropped)) = base_holders m - {k}"
  "base_holders (m(k \<mapsto> Spq_Wakers_Dropped)) = base_holders m - {k}"
  "base_holders (m(k := None)) = base_holders m - {k}"
  by (auto simp: base_holders_def)

lemma base_holders_dom: "base_holders m \<subseteq> dom m"
  by (auto simp: base_holders_def)

lemma life_invD:
  assumes "life_inv l"
  shows "sl_slab_arc l Consumer_Slab = (if sl_phase l \<in> {Sc_Live, Sc_Dropping, Sc_Base_Dropped} then 1 else 0) + (if sl_loop l then 1 else 0)"
    and "sl_slab_arc l (Queue_Slab k) = (if sl_queues l k \<in> {None, Some Spq_Wakers_Dropped} then 0 else 1)"
    and "sl_callback l Consumer_Queue = (if sl_phase l \<in> {Sc_Live, Sc_Dropping} then Some Consumer_Slab else None)"
    and "sl_callback l (Partition_Queue k) = (if sl_queues l k = Some Spq_Live then Some (Queue_Slab k) else None)"
    and "sl_phase l \<noteq> Sc_Live \<Longrightarrow> sl_queues l = Map.empty"
    and "sl_base_arc l = (if sl_phase l \<in> {Sc_Live, Sc_Dropping} then 1 else 0) + card (base_holders (sl_queues l))"
    and "finite (base_holders (sl_queues l))"
  using assms finite_subset [OF base_holders_dom [of "sl_queues l"]] unfolding life_inv_def by (blast | simp)+

lemmas life_ops = life_clone_def life_split_def drop_handle_def spq_drop_next_def sc_drop_next_def life_loop_end_def
  drop_consumer_arc_def drop_base_arc_def drop_slab_arc_def enable_nonempty_callback_def disable_nonempty_callback_def

text \<open>While a partition queue exists the consumer is alive.\<close>

lemma life_inv_queue:
  assumes "life_inv l" and "sl_queues l k \<noteq> None"
  shows "finite (base_holders (sl_queues l))" and "0 < card (dom (sl_queues l))" and "sl_phase l = Sc_Live"
    and "k \<in> dom (sl_queues l)"
proof -
  have fin: "finite (dom (sl_queues l))" using assms(1) by (simp add: life_inv_def)
  show "finite (base_holders (sl_queues l))" by (rule life_invD(7) [OF assms(1)])
  show k: "k \<in> dom (sl_queues l)" using assms(2) by blast
  with fin show "0 < card (dom (sl_queues l))" by (auto simp: card_gt_0_iff)
  with assms(1) show "sl_phase l = Sc_Live" by (simp add: life_inv_def)
qed

lemma life_inv_spq:
  assumes inv: "life_inv l" and k: "sl_queues l k \<noteq> None"
  shows "life_inv (spq_drop_next k l)"
proof -
  note facts = life_inv_queue [OF assms]
  have holders: "sl_queues l k \<in> {Some Spq_Live, Some Spq_Disabled} \<longleftrightarrow> k \<in> base_holders (sl_queues l)"
    by (auto simp: base_holders_def)
  obtain n where n: "card (dom (sl_queues l)) = Suc n" using facts(2) gr0_implies_Suc by blast
  obtain p where p: "sl_queues l k = Some p" using k by blast
  then show ?thesis
    using inv facts(1,3,4) n holders
    by (cases p) (auto simp: life_inv_def life_ops insert_absorb card_Diff_singleton card_gt_0_iff)
qed

lemma life_inv_step:
  assumes "life_step l l'" and inv: "life_inv l"
  shows "life_inv l'"
  using assms(1)
proof cases
  case (sl_split k)
  note life_invD(7) [OF inv]
  moreover have "k \<notin> base_holders (sl_queues l)" "k \<notin> dom (sl_queues l)"
    using sl_split by (auto simp: base_holders_def)
  ultimately show ?thesis
    using inv sl_split by (auto simp: life_inv_def life_ops)
next
  case (sl_drop_queue k)
  with life_inv_spq [OF inv] show ?thesis by simp
next
  case sl_drop_consumer
  then have queues: "sl_queues l = Map.empty" and "sl_phase l = Sc_Dropping \<or> sl_phase l = Sc_Base_Dropped \<or> sl_phase l = Sc_Wakers_Dropped"
    using life_invD(5) [OF inv] by auto
  from this(2) sl_drop_consumer(1) inv [unfolded life_inv_def queues] show ?thesis
    by (elim disjE) (simp_all add: life_inv_def life_ops queues)
qed (use inv in \<open>auto simp: life_inv_def life_ops\<close>)

lemma life_inv_reachable: "life_reachable l \<Longrightarrow> life_inv l"
proof (induction rule: life_reachable.induct)
  case life_init
  show ?case by (simp add: life_inv_def life_new_def enable_nonempty_callback_def)
next
  case (life_next l l')
  then show ?case using life_inv_step by blast
qed

section \<open>Callbacks find their registry\<close>

text \<open>C19. However the last handles, partition queues, the consumer's own drop and the end of the wake
  loop interleave, a callback that librdkafka may still call points to a registry that somebody
  owns; and when all of them are gone, every registry and the base consumer have been released
  and no callback is enabled.\<close>

theorem callback_registry_alive:
  assumes "life_reachable l"
  shows "(\<forall>queue wakers. sl_callback l queue = Some wakers \<longrightarrow> 0 < sl_slab_arc l wakers)
    \<and> (sl_phase l = Sc_Gone \<and> \<not> sl_loop l \<longrightarrow>
         sl_base_arc l = 0 \<and> (\<forall>wakers. sl_slab_arc l wakers = 0) \<and> sl_callback l = Map.empty \<and> sl_queues l = Map.empty)"
proof -
  note inv = life_invD [OF life_inv_reachable [OF assms]]
  have "0 < sl_slab_arc l wakers" if "sl_callback l queue = Some wakers" for queue wakers
    using that by (cases queue) (auto simp: inv split: if_splits)
  moreover have "sl_base_arc l = 0 \<and> (\<forall>wakers. sl_slab_arc l wakers = 0) \<and> sl_callback l = Map.empty \<and> sl_queues l = Map.empty"
    if gone: "sl_phase l = Sc_Gone" "\<not> sl_loop l"
  proof -
    have queues: "sl_queues l = Map.empty" using inv(5) gone by simp
    have "sl_slab_arc l wakers = 0" for wakers
      using gone queues by (cases wakers) (simp_all add: inv(1,2))
    moreover have "sl_callback l queue = None" for queue
      using gone queues by (cases queue) (simp_all add: inv(3,4))
    ultimately show ?thesis using inv(6) gone queues by auto
  qed
  ultimately show ?thesis by blast
qed

text \<open>
  A run: the consumer is split and its handle dropped; then the partition queue, which was the
  last owner, is dropped, and with it the consumer, and the wake loop ends.
\<close>

definition sample_split :: stream_life where
  "sample_split = drop_handle (life_split 0 life_new)"

definition sample_released :: stream_life where
  "sample_released =
     life_loop_end (sc_drop_next (sc_drop_next (sc_drop_next
       (spq_drop_next 0 (spq_drop_next 0 (spq_drop_next 0 (spq_drop_next 0 sample_split)))))))"

lemmas life_eval = life_ops life_new_def sample_split_def

lemma sample_split_reachable: "life_reachable sample_split"
  unfolding sample_split_def
  by (intro life_next [OF life_next [OF life_init sl_split] sl_drop_handle]) (simp_all add: life_eval)

lemma sample_released_reachable: "life_reachable sample_released"
  unfolding sample_released_def
  by (rule life_next [OF life_next [OF life_next [OF life_next [OF life_next [OF life_next [OF life_next [OF life_next
    [OF sample_split_reachable sl_drop_queue] sl_drop_queue] sl_drop_queue] sl_drop_queue]
    sl_drop_consumer] sl_drop_consumer] sl_drop_consumer] sl_loop_end]) (simp_all add: life_eval)

theorem callback_registry_alive_witness:
  "sl_callback sample_split (Partition_Queue 0) = Some (Queue_Slab 0) \<and> 0 < sl_slab_arc sample_split (Queue_Slab 0)
   \<and> sl_callback sample_released = Map.empty \<and> sl_slab_arc sample_released Consumer_Slab = 0"
proof -
  have "sl_callback sample_split (Partition_Queue 0) = Some (Queue_Slab 0)"
    by (simp add: life_eval)
  moreover have "sl_phase sample_released = Sc_Gone" "\<not> sl_loop sample_released"
    by (simp_all add: sample_released_def life_eval)
  ultimately show ?thesis
    using callback_registry_alive [OF sample_split_reachable] callback_registry_alive [OF sample_released_reachable] by blast
qed

end
