(* ===== verification/Admin_Request.thy ===== *)
theory Admin_Request
  imports Consumer_Ops "HOL-Library.AList"
begin

text \<open>
  The requests of \<open>src/admin.rs\<close>: admin options, new topics, new partitions, configuration
  resources, their conversion to native objects, and the operations that hand them to
  librdkafka. Native objects are values of an abstract type \<open>'n\<close>; a setter returns the
  changed object. The error buffer is threaded through the calls that may write to it. The
  boxed sender of the answer's channel is known by its address, which also names the
  receiver.
\<close>

section \<open>The functions of librdkafka\<close>

datatype RDKafkaResourceType =
    RD_KAFKA_RESOURCE_UNKNOWN
  | RD_KAFKA_RESOURCE_ANY
  | RD_KAFKA_RESOURCE_TOPIC
  | RD_KAFKA_RESOURCE_GROUP
  | RD_KAFKA_RESOURCE_BROKER
  | RD_KAFKA_RESOURCE_TRANSACTIONAL_ID
  | RD_KAFKA_RESOURCE_CNT

datatype admin_request =
    CreateTopics | DeleteTopics | DeleteGroups | CreatePartitions | DeleteRecords | DescribeConfigs | AlterConfigs

type_synonym 'n set_result = "'n \<times> RDKafkaRespErr \<times> ErrBuf"

record ('w, 'n) admin_api =
  rd_kafka_AdminOptions_new :: "'n option"
  rd_kafka_AdminOptions_set_request_timeout :: "'n \<Rightarrow> int \<Rightarrow> ErrBuf \<Rightarrow> 'n set_result"
  rd_kafka_AdminOptions_set_operation_timeout :: "'n \<Rightarrow> int \<Rightarrow> ErrBuf \<Rightarrow> 'n set_result"
  rd_kafka_AdminOptions_set_validate_only :: "'n \<Rightarrow> int \<Rightarrow> ErrBuf \<Rightarrow> 'n set_result"
  rd_kafka_AdminOptions_set_broker :: "'n \<Rightarrow> int \<Rightarrow> ErrBuf \<Rightarrow> 'n set_result"
  rd_kafka_AdminOptions_set_opaque :: "'n \<Rightarrow> addr \<Rightarrow> 'n"
  rd_kafka_NewTopic_new :: "bytes \<Rightarrow> int \<Rightarrow> int \<Rightarrow> ErrBuf \<Rightarrow> 'n option \<times> ErrBuf"
  rd_kafka_NewTopic_set_replica_assignment :: "'n \<Rightarrow> int \<Rightarrow> int list \<Rightarrow> ErrBuf \<Rightarrow> 'n set_result"
  rd_kafka_NewTopic_set_config :: "'n \<Rightarrow> bytes \<Rightarrow> bytes \<Rightarrow> 'n \<times> RDKafkaRespErr"
  rd_kafka_NewPartitions_new :: "bytes \<Rightarrow> nat \<Rightarrow> ErrBuf \<Rightarrow> 'n option \<times> ErrBuf"
  rd_kafka_NewPartitions_set_replica_assignment :: "'n \<Rightarrow> int \<Rightarrow> int list \<Rightarrow> ErrBuf \<Rightarrow> 'n set_result"
  rd_kafka_DeleteTopic_new :: "bytes \<Rightarrow> 'n option"
  rd_kafka_DeleteGroup_new :: "bytes \<Rightarrow> 'n option"
  rd_kafka_DeleteRecords_new :: "TopicPartitionList \<Rightarrow> 'n option"
  rd_kafka_ConfigResource_new :: "RDKafkaResourceType \<Rightarrow> bytes \<Rightarrow> 'n option"
  rd_kafka_ConfigResource_set_config :: "'n \<Rightarrow> bytes \<Rightarrow> bytes \<Rightarrow> 'n \<times> RDKafkaRespErr"
  rd_kafka_admin :: "'w \<Rightarrow> admin_request \<Rightarrow> 'n list \<Rightarrow> 'n \<Rightarrow> addr \<Rightarrow> 'w"

text \<open>A step of a conversion: the buffer afterwards and the result.\<close>

type_synonym 'a conversion = "(ErrBuf \<times> 'a KafkaResult) rust"

definition check_rdkafka_invalid_arg :: "error_api \<Rightarrow> RDKafkaRespErr \<Rightarrow> ErrBuf \<Rightarrow> unit KafkaResult rust" where
  "check_rdkafka_invalid_arg eapi res err_buf =
     (let code = into_code res in
      if code = EC_NoError then Ret (Ok ())
      else if code = EC_InvalidArgument then
        rust_bind (errbuf_len err_buf) (\<lambda>n.
          if n = 0 then Ret (Err (AdminOpCreation ''invalid argument''))
          else rust_map (\<lambda>msg. Err (AdminOpCreation msg)) (errbuf_to_string err_buf))
      else Ret (Err (AdminOpCreation
             (''setting admin options returned unexpected error code '' @ error_code_display (rd_kafka_err2str eapi) code))))"

text \<open>A setter followed by the check of its result and \<open>?\<close>.\<close>

definition checked :: "error_api \<Rightarrow> 'n set_result \<Rightarrow> ('n \<Rightarrow> ErrBuf \<Rightarrow> 'a conversion) \<Rightarrow> 'a conversion" where
  "checked eapi result k =
     (case result of
        (n, res, err_buf) \<Rightarrow>
          rust_bind (check_rdkafka_invalid_arg eapi res err_buf) (\<lambda>r.
            case r of Inl e \<Rightarrow> Ret (err_buf, Err e) | Inr _ \<Rightarrow> k n err_buf))"

section \<open>Options\<close>

record AdminOptions =
  opt_request_timeout :: "timeout option"
  opt_operation_timeout :: "timeout option"
  opt_validate_only :: bool
  opt_broker_id :: "int option"

definition admin_options_new :: AdminOptions where
  "admin_options_new =
     \<lparr>opt_request_timeout = None, opt_operation_timeout = None, opt_validate_only = False, opt_broker_id = None\<rparr>"

definition set_request_timeout :: "AdminOptions \<Rightarrow> timeout option \<Rightarrow> AdminOptions" where
  "set_request_timeout self timeout = self\<lparr>opt_request_timeout := timeout\<rparr>"

definition set_operation_timeout :: "AdminOptions \<Rightarrow> timeout option \<Rightarrow> AdminOptions" where
  "set_operation_timeout self timeout = self\<lparr>opt_operation_timeout := timeout\<rparr>"

definition set_validate_only :: "AdminOptions \<Rightarrow> bool \<Rightarrow> AdminOptions" where
  "set_validate_only self validate_only = self\<lparr>opt_validate_only := validate_only\<rparr>"

definition set_broker_id :: "AdminOptions \<Rightarrow> int option \<Rightarrow> AdminOptions" where
  "set_broker_id self broker_id = self\<lparr>opt_broker_id := broker_id\<rparr>"

text \<open>\<open>if let Some(x) = v\<close> around a checked setter.\<close>

definition if_some ::
    "error_api \<Rightarrow> 'x option \<Rightarrow> ('n \<Rightarrow> 'x \<Rightarrow> ErrBuf \<Rightarrow> 'n set_result) \<Rightarrow> ('n \<Rightarrow> ErrBuf \<Rightarrow> 'a conversion)
      \<Rightarrow> 'n \<Rightarrow> ErrBuf \<Rightarrow> 'a conversion" where
  "if_some eapi v call k n err_buf =
     (case v of None \<Rightarrow> k n err_buf | Some x \<Rightarrow> checked eapi (call n x err_buf) k)"

definition options_to_native ::
    "('w, 'n) admin_api \<Rightarrow> error_api \<Rightarrow> AdminOptions \<Rightarrow> addr \<Rightarrow> ErrBuf \<Rightarrow> ('n \<times> addr) conversion" where
  "options_to_native api eapi self tx err_buf =
     rust_bind (expect unwrap_none (rd_kafka_AdminOptions_new api)) (\<lambda>native_opts.
       if_some eapi (opt_request_timeout self)
         (\<lambda>n t. rd_kafka_AdminOptions_set_request_timeout api n (timeout_as_millis t))
      (if_some eapi (opt_operation_timeout self)
         (\<lambda>n t. rd_kafka_AdminOptions_set_operation_timeout api n (timeout_as_millis t))
      (if_some eapi (if opt_validate_only self then Some 1 else None)
         (\<lambda>n v. rd_kafka_AdminOptions_set_validate_only api n v)
      (if_some eapi (opt_broker_id self) (\<lambda>n b. rd_kafka_AdminOptions_set_broker api n b)
         (\<lambda>n err_buf. Ret (err_buf, Ok (rd_kafka_AdminOptions_set_opaque api n tx, tx))))))
      native_opts err_buf)"

section \<open>Topics and partitions\<close>

datatype TopicReplication = Fixed int | Variable "int list list"

record NewTopic =
  nt_name :: bytes
  nt_num_partitions :: int
  nt_replication :: TopicReplication
  nt_config :: "(bytes \<times> bytes) list"

definition new_topic :: "bytes \<Rightarrow> int \<Rightarrow> TopicReplication \<Rightarrow> NewTopic" where
  "new_topic name num_partitions replication =
     \<lparr>nt_name = name, nt_num_partitions = num_partitions, nt_replication = replication, nt_config = []\<rparr>"

definition new_topic_set :: "NewTopic \<Rightarrow> bytes \<Rightarrow> bytes \<Rightarrow> NewTopic" where
  "new_topic_set self key value = self\<lparr>nt_config := nt_config self @ [(key, value)]\<rparr>"

primrec replica_loop ::
    "error_api \<Rightarrow> ('n \<Rightarrow> int \<Rightarrow> int list \<Rightarrow> ErrBuf \<Rightarrow> 'n set_result) \<Rightarrow> int list list \<Rightarrow> nat \<Rightarrow> 'n \<Rightarrow> ErrBuf
      \<Rightarrow> 'n conversion" where
  "replica_loop eapi set_replicas [] partition_id n err_buf = Ret (err_buf, Ok n)"
| "replica_loop eapi set_replicas (broker_ids # replicas) partition_id n err_buf =
     checked eapi (set_replicas n (as_i32 (int partition_id)) broker_ids err_buf) (\<lambda>n err_buf.
       replica_loop eapi set_replicas replicas (partition_id + 1) n err_buf)"

primrec config_loop ::
    "error_api \<Rightarrow> ('n \<Rightarrow> bytes \<Rightarrow> bytes \<Rightarrow> 'n \<times> RDKafkaRespErr) \<Rightarrow> (bytes \<times> bytes) list \<Rightarrow> 'n \<Rightarrow> ErrBuf
      \<Rightarrow> 'n conversion" where
  "config_loop eapi set_config [] n err_buf = Ret (err_buf, Ok n)"
| "config_loop eapi set_config (entry # entries) n err_buf =
     (case map_err kafka_error_from_nul (cstring_new (fst entry)) of
        Inl e \<Rightarrow> Ret (err_buf, Err e)
      | Inr key_c \<Rightarrow>
          (case map_err kafka_error_from_nul (cstring_new (snd entry)) of
             Inl e \<Rightarrow> Ret (err_buf, Err e)
           | Inr val_c \<Rightarrow>
               checked eapi (case set_config n key_c val_c of (n, res) \<Rightarrow> (n, res, err_buf)) (\<lambda>n err_buf.
                 config_loop eapi set_config entries n err_buf)))"

definition replication_mismatch :: "bytes \<Rightarrow> nat \<Rightarrow> int \<Rightarrow> bytes" where
  "replication_mismatch name n num_partitions =
     ''replication configuration for topic '' @ [CHR 0x27] @ name @ [CHR 0x27] @ '' assigns '' @ show_nat n
     @ '' partition(s), which does not match the specified number of partitions ('' @ show_int num_partitions @ '')''"

text \<open>
  The replication factor passed to \<open>NewTopic_new\<close>: \<open>-1\<close> announces an explicit assignment, whose
  length, cast to \<open>i32\<close>, has to be the number of partitions.
\<close>

definition topic_replication_factor :: "NewTopic \<Rightarrow> int KafkaResult" where
  "topic_replication_factor self =
     (case nt_replication self of
        Fixed n \<Rightarrow> Ok n
      | Variable partitions \<Rightarrow>
          if as_i32 (int (length partitions)) \<noteq> nt_num_partitions self
          then Err (AdminOpCreation (replication_mismatch (nt_name self) (length partitions) (nt_num_partitions self)))
          else Ok (- 1))"

text \<open>\<open>from_ptr(..).ok_or_else(|| AdminOpCreation(err_buf.to_string()))?\<close>\<close>

definition created :: "'n option \<times> ErrBuf \<Rightarrow> ('n \<Rightarrow> ErrBuf \<Rightarrow> 'a conversion) \<Rightarrow> 'a conversion" where
  "created result k =
     (case result of
        (None, err_buf) \<Rightarrow> rust_map (\<lambda>msg. (err_buf, Err (AdminOpCreation msg))) (errbuf_to_string err_buf)
      | (Some n, err_buf) \<Rightarrow> k n err_buf)"

text \<open>Running a second loop on the object that a first one produced.\<close>

definition and_continue :: "'a conversion \<Rightarrow> ('a \<Rightarrow> ErrBuf \<Rightarrow> 'b conversion) \<Rightarrow> 'b conversion" where
  "and_continue c k =
     rust_bind c (\<lambda>(err_buf, r). case r of Inl e \<Rightarrow> Ret (err_buf, Err e) | Inr n \<Rightarrow> k n err_buf)"

definition new_topic_to_native ::
    "('w, 'n) admin_api \<Rightarrow> error_api \<Rightarrow> NewTopic \<Rightarrow> ErrBuf \<Rightarrow> 'n conversion" where
  "new_topic_to_native api eapi self err_buf =
     (case map_err kafka_error_from_nul (cstring_new (nt_name self)) of
        Inl e \<Rightarrow> Ret (err_buf, Err e)
      | Inr name \<Rightarrow>
          (case topic_replication_factor self of
             Inl e \<Rightarrow> Ret (err_buf, Err e)
           | Inr repl \<Rightarrow>
               created (rd_kafka_NewTopic_new api name (nt_num_partitions self) repl err_buf) (\<lambda>topic err_buf.
                 and_continue
                   (case nt_replication self of
                      Variable replicas \<Rightarrow>
                        replica_loop eapi (rd_kafka_NewTopic_set_replica_assignment api) replicas 0 topic err_buf
                    | Fixed _ \<Rightarrow> Ret (err_buf, Ok topic))
                   (config_loop eapi (rd_kafka_NewTopic_set_config api) (nt_config self)))))"

record NewPartitions =
  np_topic_name :: bytes
  np_new_partition_count :: nat
  np_assignment :: "int list list option"

definition new_partitions :: "bytes \<Rightarrow> nat \<Rightarrow> NewPartitions" where
  "new_partitions topic_name new_partition_count =
     \<lparr>np_topic_name = topic_name, np_new_partition_count = new_partition_count, np_assignment = None\<rparr>"

definition new_partitions_assign :: "NewPartitions \<Rightarrow> int list list \<Rightarrow> NewPartitions" where
  "new_partitions_assign self replicas = self\<lparr>np_assignment := Some replicas\<rparr>"

definition assignment_too_long :: "bytes \<Rightarrow> nat \<Rightarrow> nat \<Rightarrow> bytes" where
  "assignment_too_long name n new_partition_count =
     ''partition assignment for topic '' @ [CHR 0x27] @ name @ [CHR 0x27] @ '' assigns '' @ show_nat n
     @ '' partition(s), which is more than the requested total number of partitions ('' @ show_nat new_partition_count @ '')''"

definition new_partitions_to_native ::
    "('w, 'n) admin_api \<Rightarrow> error_api \<Rightarrow> NewPartitions \<Rightarrow> ErrBuf \<Rightarrow> 'n conversion" where
  "new_partitions_to_native api eapi self err_buf =
     (case map_err kafka_error_from_nul (cstring_new (np_topic_name self)) of
        Inl e \<Rightarrow> Ret (err_buf, Err e)
      | Inr name \<Rightarrow>
          let too_long = (case np_assignment self of
                None \<Rightarrow> False | Some replicas \<Rightarrow> np_new_partition_count self < length replicas) in
          if too_long
          then Ret (err_buf, Err (AdminOpCreation
                 (assignment_too_long (np_topic_name self) (length (the (np_assignment self))) (np_new_partition_count self))))
          else
            created (rd_kafka_NewPartitions_new api name (np_new_partition_count self) err_buf) (\<lambda>partitions err_buf.
              case np_assignment self of
                Some replicas \<Rightarrow>
                  replica_loop eapi (rd_kafka_NewPartitions_set_replica_assignment api) replicas 0 partitions err_buf
              | None \<Rightarrow> Ret (err_buf, Ok partitions)))"

section \<open>Configuration resources\<close>

datatype ResourceSpecifier = Spec_Topic bytes | Spec_Group bytes | Spec_Broker int

text \<open>A \<open>HashMap\<close> of entries is the list of its entries, each key once, in the order of its iteration.\<close>

record AlterConfig =
  ac_specifier :: ResourceSpecifier
  ac_entries :: "(bytes \<times> bytes) list"

definition alter_config :: "ResourceSpecifier \<Rightarrow> AlterConfig" where
  "alter_config specifier = \<lparr>ac_specifier = specifier, ac_entries = []\<rparr>"

definition alter_config_set :: "AlterConfig \<Rightarrow> bytes \<Rightarrow> bytes \<Rightarrow> AlterConfig" where
  "alter_config_set self key value = self\<lparr>ac_entries := AList.update key value (ac_entries self)\<rparr>"

definition specifier_to_native :: "ResourceSpecifier \<Rightarrow> (bytes \<times> RDKafkaResourceType) KafkaResult" where
  "specifier_to_native spec =
     (case spec of
        Spec_Topic name \<Rightarrow>
          and_then (map_err kafka_error_from_nul (cstring_new name)) (\<lambda>n. Ok (n, RD_KAFKA_RESOURCE_TOPIC))
      | Spec_Group name \<Rightarrow>
          and_then (map_err kafka_error_from_nul (cstring_new name)) (\<lambda>n. Ok (n, RD_KAFKA_RESOURCE_GROUP))
      | Spec_Broker i \<Rightarrow>
          and_then (map_err kafka_error_from_nul (cstring_new (show_int i))) (\<lambda>n. Ok (n, RD_KAFKA_RESOURCE_BROKER)))"

definition describe_config_to_native ::
    "('w, 'n) admin_api \<Rightarrow> ResourceSpecifier \<Rightarrow> ErrBuf \<Rightarrow> 'n conversion" where
  "describe_config_to_native api c err_buf =
     (case specifier_to_native c of
        Inl e \<Rightarrow> Ret (err_buf, Err e)
      | Inr (name, typ) \<Rightarrow>
          rust_map (\<lambda>n. (err_buf, Ok n)) (expect unwrap_none (rd_kafka_ConfigResource_new api typ name)))"

definition alter_config_to_native ::
    "('w, 'n) admin_api \<Rightarrow> error_api \<Rightarrow> AlterConfig \<Rightarrow> ErrBuf \<Rightarrow> 'n conversion" where
  "alter_config_to_native api eapi self err_buf =
     (case specifier_to_native (ac_specifier self) of
        Inl e \<Rightarrow> Ret (err_buf, Err e)
      | Inr (name, typ) \<Rightarrow>
          rust_bind (expect unwrap_none (rd_kafka_ConfigResource_new api typ name)) (\<lambda>config.
            config_loop eapi (rd_kafka_ConfigResource_set_config api) (ac_entries self) config err_buf))"

definition delete_topic_to_native :: "('w, 'n) admin_api \<Rightarrow> bytes \<Rightarrow> ErrBuf \<Rightarrow> 'n conversion" where
  "delete_topic_to_native api tn err_buf =
     (case map_err kafka_error_from_nul (cstring_new tn) of
        Inl e \<Rightarrow> Ret (err_buf, Err e)
      | Inr tn_c \<Rightarrow> rust_map (\<lambda>n. (err_buf, Ok n)) (expect unwrap_none (rd_kafka_DeleteTopic_new api tn_c)))"

definition delete_group_to_native :: "('w, 'n) admin_api \<Rightarrow> bytes \<Rightarrow> ErrBuf \<Rightarrow> 'n conversion" where
  "delete_group_to_native api gn err_buf =
     (case map_err kafka_error_from_nul (cstring_new gn) of
        Inl e \<Rightarrow> Ret (err_buf, Err e)
      | Inr gn_c \<Rightarrow> rust_map (\<lambda>n. (err_buf, Ok n)) (expect unwrap_none (rd_kafka_DeleteGroup_new api gn_c)))"

definition delete_records_to_native :: "('w, 'n) admin_api \<Rightarrow> TopicPartitionList \<Rightarrow> ErrBuf \<Rightarrow> 'n conversion" where
  "delete_records_to_native api offsets err_buf =
     created (rd_kafka_DeleteRecords_new api offsets, err_buf) (\<lambda>n err_buf. Ret (err_buf, Ok n))"

section \<open>Issuing requests\<close>

text \<open>The loop that converts every item, stopping at the first error.\<close>

primrec convert_all :: "('i \<Rightarrow> ErrBuf \<Rightarrow> 'n conversion) \<Rightarrow> 'i list \<Rightarrow> ErrBuf \<Rightarrow> 'n list conversion" where
  "convert_all to_native [] err_buf = Ret (err_buf, Ok [])"
| "convert_all to_native (item # items) err_buf =
     and_continue (to_native item err_buf) (\<lambda>n err_buf.
       and_continue (convert_all to_native items err_buf) (\<lambda>ns err_buf. Ret (err_buf, Ok (n # ns))))"

text \<open>
  The part all operations end with: convert the options, hand everything to librdkafka,
  return the receiver.
\<close>

definition submit ::
    "('w, 'n) admin_api \<Rightarrow> error_api \<Rightarrow> admin_request \<Rightarrow> addr \<Rightarrow> AdminOptions \<Rightarrow> addr \<Rightarrow> 'w world \<Rightarrow> 'n list conversion
      \<Rightarrow> ('w world \<times> addr KafkaResult) rust" where
  "submit api eapi request queue opts tx w natives =
     rust_map (\<lambda>(err_buf, r).
       case r of
         Inl e \<Rightarrow> (w, Err e)
       | Inr (ns, native_opts, rx) \<Rightarrow>
           (w\<lparr>native := rd_kafka_admin api (native w) request ns native_opts queue\<rparr>, Ok rx))
     (and_continue natives (\<lambda>ns err_buf.
        and_continue (options_to_native api eapi opts tx err_buf) (\<lambda>(native_opts, rx) err_buf.
          Ret (err_buf, Ok (ns, native_opts, rx)))))"

definition create_topics_inner ::
    "('w, 'n) admin_api \<Rightarrow> error_api \<Rightarrow> addr \<Rightarrow> addr \<Rightarrow> 'w world \<Rightarrow> NewTopic list \<Rightarrow> AdminOptions
      \<Rightarrow> ('w world \<times> addr KafkaResult) rust" where
  "create_topics_inner api eapi queue tx w topics opts =
     submit api eapi CreateTopics queue opts tx w (convert_all (new_topic_to_native api eapi) topics errbuf_new)"

definition delete_topics_inner ::
    "('w, 'n) admin_api \<Rightarrow> error_api \<Rightarrow> addr \<Rightarrow> addr \<Rightarrow> 'w world \<Rightarrow> bytes list \<Rightarrow> AdminOptions
      \<Rightarrow> ('w world \<times> addr KafkaResult) rust" where
  "delete_topics_inner api eapi queue tx w topic_names opts =
     submit api eapi DeleteTopics queue opts tx w (convert_all (delete_topic_to_native api) topic_names errbuf_new)"

definition delete_groups_inner ::
    "('w, 'n) admin_api \<Rightarrow> error_api \<Rightarrow> addr \<Rightarrow> addr \<Rightarrow> 'w world \<Rightarrow> bytes list \<Rightarrow> AdminOptions
      \<Rightarrow> ('w world \<times> addr KafkaResult) rust" where
  "delete_groups_inner api eapi queue tx w group_names opts =
     submit api eapi DeleteGroups queue opts tx w (convert_all (delete_group_to_native api) group_names errbuf_new)"

definition create_partitions_inner ::
    "('w, 'n) admin_api \<Rightarrow> error_api \<Rightarrow> addr \<Rightarrow> addr \<Rightarrow> 'w world \<Rightarrow> NewPartitions list \<Rightarrow> AdminOptions
      \<Rightarrow> ('w world \<times> addr KafkaResult) rust" where
  "create_partitions_inner api eapi queue tx w partitions opts =
     submit api eapi CreatePartitions queue opts tx w (convert_all (new_partitions_to_native api eapi) partitions errbuf_new)"

definition delete_records_inner ::
    "('w, 'n) admin_api \<Rightarrow> error_api \<Rightarrow> addr \<Rightarrow> addr \<Rightarrow> 'w world \<Rightarrow> TopicPartitionList \<Rightarrow> AdminOptions
      \<Rightarrow> ('w world \<times> addr KafkaResult) rust" where
  "delete_records_inner api eapi queue tx w offsets opts =
     submit api eapi DeleteRecords queue opts tx w (convert_all (delete_records_to_native api) [offsets] errbuf_new)"

definition describe_configs_inner ::
    "('w, 'n) admin_api \<Rightarrow> error_api \<Rightarrow> addr \<Rightarrow> addr \<Rightarrow> 'w world \<Rightarrow> ResourceSpecifier list \<Rightarrow> AdminOptions
      \<Rightarrow> ('w world \<times> addr KafkaResult) rust" where
  "describe_configs_inner api eapi queue tx w configs opts =
     submit api eapi DescribeConfigs queue opts tx w (convert_all (describe_config_to_native api) configs errbuf_new)"

definition alter_configs_inner ::
    "('w, 'n) admin_api \<Rightarrow> error_api \<Rightarrow> addr \<Rightarrow> addr \<Rightarrow> 'w world \<Rightarrow> AlterConfig list \<Rightarrow> AdminOptions
      \<Rightarrow> ('w world \<times> addr KafkaResult) rust" where
  "alter_configs_inner api eapi queue tx w configs opts =
     submit api eapi AlterConfigs queue opts tx w (convert_all (alter_config_to_native api eapi) configs errbuf_new)"

section \<open>Requests are issued whole or not at all\<close>

lemma and_continue_Ok:
  "and_continue c k = Ret (b, Ok x) \<longleftrightarrow> (\<exists>b' y. c = Ret (b', Ok y) \<and> k y b' = Ret (b, Ok x))"
  by (cases c) (auto simp: and_continue_def split: sum.splits prod.splits)

lemma checked_Ok:
  assumes "checked eapi (n, res, b) k = Ret (b', Ok x)"
  shows "res = RD_KAFKA_RESP_ERR_NO_ERROR \<or> into_code res = EC_NoError" and "k n b = Ret (b', Ok x)"
  using assms
  by (cases "into_code res = EC_NoError"; cases "into_code res = EC_InvalidArgument";
      auto simp: checked_def check_rdkafka_invalid_arg_def Let_def rust_bind_Ret_iff split: if_splits sum.splits)+

text \<open>The native objects that a list of items converts to, one each.\<close>

definition converts :: "('i \<Rightarrow> ErrBuf \<Rightarrow> 'n conversion) \<Rightarrow> 'i \<Rightarrow> 'n \<Rightarrow> bool" where
  "converts to_native item n \<longleftrightarrow> (\<exists>b b'. to_native item b = Ret (b', Ok n))"

lemma convertsI: "to_native item b = Ret (b', Ok n) \<Longrightarrow> converts to_native item n"
  unfolding converts_def by blast

lemma convert_all_Ok:
  "convert_all to_native items b = Ret (b', Ok ns) \<Longrightarrow> list_all2 (converts to_native) items ns"
  by (induction items arbitrary: b b' ns) (auto simp: and_continue_Ok intro: convertsI)

lemma if_some_Ok:
  assumes "if_some eapi v call k n b = Ret (b', Ok x)"
  obtains n1 b1 where "k n1 b1 = Ret (b', Ok x)"
proof (cases v)
  case None
  with assms that show thesis by (simp add: if_some_def)
next
  case (Some y)
  obtain n1 res b1 where "call n y b = (n1, res, b1)" by (cases "call n y b")
  with assms Some have "checked eapi (n1, res, b1) k = Ret (b', Ok x)" by (simp add: if_some_def)
  from checked_Ok(2) [OF this] show thesis by (rule that)
qed

lemma options_to_native_Ok:
  assumes "options_to_native api eapi opts tx b = Ret (b', Ok (o', rx))"
  shows "rx = tx \<and> (\<exists>n. o' = rd_kafka_AdminOptions_set_opaque api n tx)"
proof (cases "rd_kafka_AdminOptions_new api")
  case None
  with assms show ?thesis by (simp add: options_to_native_def expect_def)
next
  case (Some n0)
  note body = assms [unfolded options_to_native_def Some, simplified expect_def option.simps rust_bind.simps]
  from body show ?thesis by (elim if_some_Ok) auto
qed

text \<open>
  Either an error, with nothing done, or the receiver, with one request made that carries one
  native object per item and the sender.
\<close>

definition admin_outcome ::
    "('w, 'n) admin_api \<Rightarrow> admin_request \<Rightarrow> ('i \<Rightarrow> ErrBuf \<Rightarrow> 'n conversion) \<Rightarrow> addr \<Rightarrow> addr \<Rightarrow> 'i list \<Rightarrow> 'w world
      \<Rightarrow> 'w world \<times> addr KafkaResult \<Rightarrow> bool" where
  "admin_outcome api request to_native queue tx items w outcome \<longleftrightarrow>
     (\<exists>e. outcome = (w, Err e)) \<or>
     (\<exists>ns n. list_all2 (converts to_native) items ns \<and>
        outcome = (w\<lparr>native := rd_kafka_admin api (native w) request ns (rd_kafka_AdminOptions_set_opaque api n tx) queue\<rparr>, Ok tx))"

lemma submit_all_or_nothing:
  assumes "submit api eapi request queue opts tx w (convert_all to_native items errbuf_new) = Ret (w', r)"
  shows "admin_outcome api request to_native queue tx items w (w', r)"
proof -
  let ?c = "and_continue (convert_all to_native items errbuf_new) (\<lambda>ns err_buf.
        and_continue (options_to_native api eapi opts tx err_buf) (\<lambda>(native_opts, rx) err_buf.
          Ret (err_buf, Ok (ns, native_opts, rx))))"
  show ?thesis
  proof (cases ?c)
    case (Panic m)
    with assms show ?thesis unfolding submit_def by simp
  next
    case (Ret p)
    obtain b res where p: "p = (b, res)" by (cases p)
    show ?thesis
    proof (cases res)
      case (Inl e)
      with assms Ret p show ?thesis unfolding submit_def admin_outcome_def by auto
    next
      case (Inr x)
      obtain ns o' rx where x: "x = (ns, o', rx)" by (cases x)
      from Ret obtain b1 b2 where conv: "convert_all to_native items errbuf_new = Ret (b1, Ok ns)"
          "options_to_native api eapi opts tx b1 = Ret (b2, Ok (o', rx))"
        unfolding p Inr x and_continue_Ok by (auto split: prod.splits)
      from assms Ret p Inr x have "w' = w\<lparr>native := rd_kafka_admin api (native w) request ns o' queue\<rparr>" "r = Ok rx"
        unfolding submit_def by simp_all
      with convert_all_Ok [OF conv(1)] options_to_native_Ok [OF conv(2)] show ?thesis by (auto simp: admin_outcome_def)
    qed
  qed
qed

text \<open>
  The shape that the operations share: every item is converted, then the options, and only
  then is the request handed over.
\<close>

locale admin_operation =
  fixes api :: "('w, 'n) admin_api"
    and eapi :: error_api
    and request :: admin_request
    and to_native :: "'i \<Rightarrow> ErrBuf \<Rightarrow> 'n conversion"
    and inner :: "addr \<Rightarrow> addr \<Rightarrow> 'w world \<Rightarrow> 'i list \<Rightarrow> AdminOptions \<Rightarrow> ('w world \<times> addr KafkaResult) rust"
  assumes inner_eq: "inner queue tx w items opts =
      submit api eapi request queue opts tx w (convert_all to_native items errbuf_new)"
begin

lemma all_or_nothing:
  assumes "inner queue tx w items opts = Ret (w', r)"
  shows "admin_outcome api request to_native queue tx items w (w', r)"
  using assms unfolding inner_eq by (rule submit_all_or_nothing)

lemma outcome: "inner queue tx w items opts = Ret out \<Longrightarrow> admin_outcome api request to_native queue tx items w out"
  by (cases out) (simp add: all_or_nothing)

lemma first_failure:
  assumes "\<not> (\<exists>n. converts to_native item n)" and "item \<in> set items"
    and "inner queue tx w items opts = Ret (w', r)"
  shows "w' = w \<and> (\<exists>e. r = Err e)"
  using all_or_nothing [OF assms(3)] assms(1,2) by (auto simp: admin_outcome_def list_all2_conv_all_nth in_set_conv_nth)

end

interpretation create_topics: admin_operation api eapi CreateTopics "new_topic_to_native api eapi" "create_topics_inner api eapi"
  for api :: "('w, 'n) admin_api" and eapi
  by unfold_locales (simp add: create_topics_inner_def)

interpretation delete_topics: admin_operation api eapi DeleteTopics "delete_topic_to_native api" "delete_topics_inner api eapi"
  for api :: "('w, 'n) admin_api" and eapi
  by unfold_locales (simp add: delete_topics_inner_def)

interpretation delete_groups: admin_operation api eapi DeleteGroups "delete_group_to_native api" "delete_groups_inner api eapi"
  for api :: "('w, 'n) admin_api" and eapi
  by unfold_locales (simp add: delete_groups_inner_def)

interpretation create_partitions: admin_operation api eapi CreatePartitions "new_partitions_to_native api eapi" "create_partitions_inner api eapi"
  for api :: "('w, 'n) admin_api" and eapi
  by unfold_locales (simp add: create_partitions_inner_def)

interpretation describe_configs: admin_operation api eapi DescribeConfigs "describe_config_to_native api" "describe_configs_inner api eapi"
  for api :: "('w, 'n) admin_api" and eapi
  by unfold_locales (simp add: describe_configs_inner_def)

interpretation alter_configs: admin_operation api eapi AlterConfigs "alter_config_to_native api eapi" "alter_configs_inner api eapi"
  for api :: "('w, 'n) admin_api" and eapi
  by unfold_locales (simp add: alter_configs_inner_def)

text \<open>C36. A request is issued whole or not at all: if any item or the options cannot be
  converted, an error is returned and librdkafka is not asked; otherwise the one call gets one
  native object per item, in order, and options that carry the sender of the channel whose
  receiver is returned.\<close>

theorem admin_requests_all_or_nothing:
  "(\<forall>out. create_topics_inner api eapi queue tx w topics opts = Ret out \<longrightarrow>
      admin_outcome api CreateTopics (new_topic_to_native api eapi) queue tx topics w out)
   \<and> (\<forall>out. delete_topics_inner api eapi queue tx w names opts = Ret out \<longrightarrow>
      admin_outcome api DeleteTopics (delete_topic_to_native api) queue tx names w out)
   \<and> (\<forall>out. delete_groups_inner api eapi queue tx w names opts = Ret out \<longrightarrow>
      admin_outcome api DeleteGroups (delete_group_to_native api) queue tx names w out)
   \<and> (\<forall>out. create_partitions_inner api eapi queue tx w parts opts = Ret out \<longrightarrow>
      admin_outcome api CreatePartitions (new_partitions_to_native api eapi) queue tx parts w out)
   \<and> (\<forall>out. delete_records_inner api eapi queue tx w offsets opts = Ret out \<longrightarrow>
      admin_outcome api DeleteRecords (delete_records_to_native api) queue tx [offsets] w out)
   \<and> (\<forall>out. describe_configs_inner api eapi queue tx w specs opts = Ret out \<longrightarrow>
      admin_outcome api DescribeConfigs (describe_config_to_native api) queue tx specs w out)
   \<and> (\<forall>out. alter_configs_inner api eapi queue tx w configs opts = Ret out \<longrightarrow>
      admin_outcome api AlterConfigs (alter_config_to_native api eapi) queue tx configs w out)"
proof (intro conjI allI impI)
  fix out
  assume "delete_records_inner api eapi queue tx w offsets opts = Ret out"
  then show "admin_outcome api DeleteRecords (delete_records_to_native api) queue tx [offsets] w out"
    unfolding delete_records_inner_def by (cases out) (metis submit_all_or_nothing)
qed (fact create_topics.outcome delete_topics.outcome delete_groups.outcome create_partitions.outcome
    describe_configs.outcome alter_configs.outcome)+

text \<open>
  An instance of the admin API: a native object is the list of the calls that made it, and a
  request appends the number of its objects to the state.
\<close>

definition admin_instance :: "(nat list, bytes list) admin_api" where
  "admin_instance =
     \<lparr>rd_kafka_AdminOptions_new = Some [],
      rd_kafka_AdminOptions_set_request_timeout = (\<lambda>n ms b. (''request timeout'' # n, RD_KAFKA_RESP_ERR_NO_ERROR, b)),
      rd_kafka_AdminOptions_set_operation_timeout = (\<lambda>n ms b. (''operation timeout'' # n, RD_KAFKA_RESP_ERR_NO_ERROR, b)),
      rd_kafka_AdminOptions_set_validate_only = (\<lambda>n v b. (''validate only'' # n, RD_KAFKA_RESP_ERR_NO_ERROR, b)),
      rd_kafka_AdminOptions_set_broker = (\<lambda>n v b. (n, RD_KAFKA_RESP_ERR__INVALID_ARG, b)),
      rd_kafka_AdminOptions_set_opaque = (\<lambda>n p. n),
      rd_kafka_NewTopic_new = (\<lambda>name parts repl b. (Some [name], b)),
      rd_kafka_NewTopic_set_replica_assignment = (\<lambda>n i ids b. (n, RD_KAFKA_RESP_ERR_NO_ERROR, b)),
      rd_kafka_NewTopic_set_config = (\<lambda>n k v. (n @ [k, v], RD_KAFKA_RESP_ERR_NO_ERROR)),
      rd_kafka_NewPartitions_new = (\<lambda>name cnt b. (Some [name], b)),
      rd_kafka_NewPartitions_set_replica_assignment = (\<lambda>n i ids b. (n, RD_KAFKA_RESP_ERR_NO_ERROR, b)),
      rd_kafka_DeleteTopic_new = (\<lambda>name. Some [name]), rd_kafka_DeleteGroup_new = (\<lambda>name. Some [name]),
      rd_kafka_DeleteRecords_new = (\<lambda>l. Some []), rd_kafka_ConfigResource_new = (\<lambda>ty name. Some [name]),
      rd_kafka_ConfigResource_set_config = (\<lambda>n k v. (n @ [k, v], RD_KAFKA_RESP_ERR_NO_ERROR)),
      rd_kafka_admin = (\<lambda>w req ns opts q. w @ [length ns])\<rparr>"

theorem admin_requests_all_or_nothing_witness:
  "\<exists>out. create_topics_inner admin_instance error_instance 1 9 (sample_world [])
       [new_topic ''a'' 1 (Fixed 1), new_topic [CHR ''b'', NUL] 1 (Fixed 1)] admin_options_new = Ret out
     \<and> fst out = sample_world [] \<and> (\<exists>e. snd out = Err e)"
proof -
  let ?topics = "[new_topic ''a'' 1 (Fixed 1), new_topic [CHR ''b'', NUL] 1 (Fixed 1)]"
  have nul: "new_topic_to_native admin_instance error_instance (new_topic [CHR ''b'', NUL] 1 (Fixed 1)) b
      = Ret (b, Err (Nul (NulError 1 [CHR ''b'', NUL])))" for b
    by (simp add: new_topic_to_native_def new_topic_def cstring_new_def kafka_error_from_nul_def)
  then have no: "\<not> converts (new_topic_to_native admin_instance error_instance) (new_topic [CHR ''b'', NUL] 1 (Fixed 1)) n" for n
    by (simp add: converts_def)
  obtain out where c: "create_topics_inner admin_instance error_instance 1 9 (sample_world []) ?topics admin_options_new = Ret out"
    using nul by (simp add: create_topics_inner_def submit_def new_topic_to_native_def new_topic_def and_continue_def created_def
        topic_replication_factor_def admin_instance_def cstring_new_def)
  have "admin_outcome admin_instance CreateTopics (new_topic_to_native admin_instance error_instance) 1 9 ?topics (sample_world []) out"
    using admin_requests_all_or_nothing [of admin_instance error_instance 1 9 "sample_world []" ?topics] c by blast
  with c no show ?thesis by (auto simp: admin_outcome_def list_all2_Cons1)
qed

section \<open>Assignments\<close>

lemma checked_cong:
  "x = y \<Longrightarrow> (\<And>n b. k n b = k' n b) \<Longrightarrow> checked eapi x k = checked eapi y k'"
  by (cases y) (simp add: checked_def)

lemma replica_loop_cong:
  assumes "\<And>n i ids b. start \<le> i \<Longrightarrow> i < start + length replicas \<Longrightarrow>
      f n (int i) ids b = g n (int i) ids b" and "start + length replicas \<le> 2 ^ 31"
  shows "replica_loop eapi f replicas start n b = replica_loop eapi g replicas start n b"
  using assms
proof (induction replicas arbitrary: start n b)
  case (Cons ids replicas)
  have "i32_range (int start)" using Cons.prems(2) by (simp add: i32_range_def)
  then have "f n (as_i32 (int start)) ids b = g n (as_i32 (int start)) ids b"
    using Cons.prems(1) [of start n ids b] by simp
  moreover have "replica_loop eapi f replicas (start + 1) n b = replica_loop eapi g replicas (start + 1) n b" for n b
    by (rule Cons.IH) (use Cons.prems in auto)
  ultimately show ?case by (simp cong: checked_cong)
qed simp

text \<open>C37. librdkafka is never given a partition index that is not below the number of
  partitions asked for, which would abort the process: a longer assignment is refused before
  any native object is made, and otherwise the conversion does not depend on what the native
  setter does on other indices.\<close>

theorem new_partitions_indices_in_range:
  assumes "np_assignment p = Some replicas" and "NUL \<notin> set (np_topic_name p)"
  shows "if np_new_partition_count p < length replicas
    then \<exists>m. new_partitions_to_native api eapi p b = Ret (b, Err (AdminOpCreation m))
    else length replicas \<le> 2 ^ 31 \<and>
      (\<forall>n i ids b'. i < np_new_partition_count p \<longrightarrow>
         g n (int i) ids b' = rd_kafka_NewPartitions_set_replica_assignment api n (int i) ids b') \<longrightarrow>
      new_partitions_to_native (api\<lparr>rd_kafka_NewPartitions_set_replica_assignment := g\<rparr>) eapi p b
        = new_partitions_to_native api eapi p b"
proof (cases "np_new_partition_count p < length replicas")
  case True
  with assms show ?thesis by (simp add: new_partitions_to_native_def)
next
  case False
  have "replica_loop eapi g replicas 0 n b'
      = replica_loop eapi (rd_kafka_NewPartitions_set_replica_assignment api) replicas 0 n b'"
    if "length replicas \<le> 2 ^ 31" and "\<forall>n i ids b'. i < np_new_partition_count p \<longrightarrow>
         g n (int i) ids b' = rd_kafka_NewPartitions_set_replica_assignment api n (int i) ids b'" for n b'
    by (rule replica_loop_cong) (use that False in auto)
  with assms False show ?thesis by (auto simp: new_partitions_to_native_def)
qed

theorem new_partitions_indices_in_range_witness:
  "\<exists>m. new_partitions_to_native admin_instance error_instance (new_partitions_assign (new_partitions ''t'' 1) [[1], [2]]) errbuf_new
     = Ret (errbuf_new, Err (AdminOpCreation m))"
proof -
  have 1: "np_assignment (new_partitions_assign (new_partitions ''t'' 1) [[1], [2]]) = Some [[1], [2]]"
    and 2: "NUL \<notin> set (np_topic_name (new_partitions_assign (new_partitions ''t'' 1) [[1], [2]]))"
    by (simp_all add: new_partitions_assign_def new_partitions_def)
  show ?thesis
    using new_partitions_indices_in_range [OF 1 2, of admin_instance error_instance errbuf_new
        "rd_kafka_NewPartitions_set_replica_assignment admin_instance"]
    by (simp add: new_partitions_assign_def new_partitions_def)
qed

section \<open>Rejected options\<close>

text \<open>When librdkafka rejects a setting without leaving a message, as the configuration
  setters do, which are given no buffer, the error that is returned has an empty text: the
  fallback text of the code is unreachable, because the length of the buffer's content counts
  the terminator.\<close>

theorem invalid_arg_text_blank:
  assumes "into_code res = EC_InvalidArgument" and "errbuf_ok b" and "cstr_bytes (buf b) = []"
  shows "check_rdkafka_invalid_arg eapi res b = Ret (Err (AdminOpCreation []))"
  using assms by (simp add: check_rdkafka_invalid_arg_def errbuf_ok_texts)

theorem invalid_arg_text_blank_witness:
  "check_rdkafka_invalid_arg error_instance RD_KAFKA_RESP_ERR__INVALID_ARG errbuf_new = Ret (Err (AdminOpCreation []))"
proof -
  have "cstr_bytes (buf errbuf_new) = []" by (simp add: cstr_bytes_def errbuf_new_def MAX_ERR_LEN_def)
  then show ?thesis by (intro invalid_arg_text_blank) (simp_all add: errbuf_new_ok)
qed

end
