(* ===== verification/Admin_Response.thy ===== *)
theory Admin_Response
  imports Admin_Request Oneshot
begin

text \<open>
  The answers of \<open>src/admin.rs\<close>: the futures that turn an event into a result, and the
  client with its polling thread, which hands each event to the channel of its request. What
  the accessors of librdkafka return for an answer is a value of \<open>admin_event_api\<close>; an array
  with its length is a list. A future's poll gets what its receiver shows: nothing yet, a
  dropped sender, or the event.
\<close>

section \<open>Native answers\<close>

datatype RDKafkaConfigSource =
    RD_KAFKA_CONFIG_SOURCE_UNKNOWN_CONFIG
  | RD_KAFKA_CONFIG_SOURCE_DYNAMIC_TOPIC_CONFIG
  | RD_KAFKA_CONFIG_SOURCE_DYNAMIC_BROKER_CONFIG
  | RD_KAFKA_CONFIG_SOURCE_DYNAMIC_DEFAULT_BROKER_CONFIG
  | RD_KAFKA_CONFIG_SOURCE_STATIC_BROKER_CONFIG
  | RD_KAFKA_CONFIG_SOURCE_DEFAULT_CONFIG
  | RD_KAFKA_CONFIG_SOURCE_GROUP_CONFIG
  | RD_KAFKA_CONFIG_SOURCE_CNT

record RDKafkaTopicResult =
  tr_name :: bytes
  tr_error :: RDKafkaRespErr

record RDKafkaGroupResult =
  gr_name :: bytes
  gr_error :: addr

record RDKafkaConfigEntry =
  nce_name :: bytes
  nce_value :: "bytes option"
  nce_source :: RDKafkaConfigSource
  nce_is_read_only :: int
  nce_is_default :: int
  nce_is_sensitive :: int

record RDKafkaConfigResource =
  ncr_type :: RDKafkaResourceType
  ncr_name :: bytes
  ncr_error :: RDKafkaRespErr
  ncr_configs :: "RDKafkaConfigEntry list"

record admin_event_api =
  rd_kafka_event_CreateTopics_result :: "addr \<Rightarrow> RDKafkaTopicResult list option"
  rd_kafka_event_DeleteTopics_result :: "addr \<Rightarrow> RDKafkaTopicResult list option"
  rd_kafka_event_DeleteGroups_result :: "addr \<Rightarrow> RDKafkaGroupResult list option"
  rd_kafka_event_CreatePartitions_result :: "addr \<Rightarrow> RDKafkaTopicResult list option"
  rd_kafka_event_DeleteRecords_result :: "addr \<Rightarrow> TopicPartitionList option"
  rd_kafka_event_DescribeConfigs_result :: "addr \<Rightarrow> RDKafkaConfigResource list option"
  rd_kafka_event_AlterConfigs_result :: "addr \<Rightarrow> RDKafkaConfigResource list option"

section \<open>Results\<close>

type_synonym TopicResult = "(bytes \<times> RDKafkaErrorCode) + bytes"
type_synonym GroupResult = "(bytes \<times> RDKafkaErrorCode) + bytes"

fun build_topic_results :: "RDKafkaTopicResult list \<Rightarrow> TopicResult list" where
  "build_topic_results [] = []"
| "build_topic_results (topic # topics) =
     (let name = cstr_to_owned (tr_name topic);
          err = tr_error topic
      in if resp_err_is_error err then Err (name, into_code err) else Ok name) # build_topic_results topics"

fun build_group_results :: "error_api \<Rightarrow> RDKafkaGroupResult list \<Rightarrow> GroupResult list" where
  "build_group_results eapi [] = []"
| "build_group_results eapi (grp # groups) =
     (let name = cstr_to_owned (gr_name grp);
          err = rd_kafka_error_code eapi (gr_error grp)
      in if resp_err_is_error err then Err (name, into_code err) else Ok name) # build_group_results eapi groups"

datatype OwnedResourceSpecifier = Owned_Topic bytes | Owned_Group bytes | Owned_Broker int

datatype ConfigSource =
    Source_Unknown | Source_DynamicTopic | Source_DynamicBroker | Source_DynamicDefaultBroker | Source_StaticBroker | Source_Default

record ConfigEntry =
  ce_name :: bytes
  ce_value :: "bytes option"
  ce_source :: ConfigSource
  ce_is_read_only :: bool
  ce_is_default :: bool
  ce_is_sensitive :: bool

record ConfigResource =
  cr_specifier :: OwnedResourceSpecifier
  cr_entries :: "ConfigEntry list"

text \<open>\<open>collect\<close> into a map keeps the last entry of a name, \<open>get\<close> finds the first.\<close>

definition entry_map :: "ConfigResource \<Rightarrow> bytes \<rightharpoonup> ConfigEntry" where
  "entry_map self = map_of (rev (map (\<lambda>e. (ce_name e, e)) (cr_entries self)))"

definition config_resource_get :: "ConfigResource \<Rightarrow> bytes \<Rightarrow> ConfigEntry option" where
  "config_resource_get self name = List.find (\<lambda>e. ce_name e = name) (cr_entries self)"

definition resource_type_debug :: "RDKafkaResourceType \<Rightarrow> bytes" where
  "resource_type_debug typ =
     (case typ of
        RD_KAFKA_RESOURCE_UNKNOWN \<Rightarrow> ''RD_KAFKA_RESOURCE_UNKNOWN''
      | RD_KAFKA_RESOURCE_ANY \<Rightarrow> ''RD_KAFKA_RESOURCE_ANY''
      | RD_KAFKA_RESOURCE_TOPIC \<Rightarrow> ''RD_KAFKA_RESOURCE_TOPIC''
      | RD_KAFKA_RESOURCE_GROUP \<Rightarrow> ''RD_KAFKA_RESOURCE_GROUP''
      | RD_KAFKA_RESOURCE_BROKER \<Rightarrow> ''RD_KAFKA_RESOURCE_BROKER''
      | RD_KAFKA_RESOURCE_TRANSACTIONAL_ID \<Rightarrow> ''RD_KAFKA_RESOURCE_TRANSACTIONAL_ID''
      | RD_KAFKA_RESOURCE_CNT \<Rightarrow> ''RD_KAFKA_RESOURCE__CNT'')"

definition extract_config_specifier :: "RDKafkaConfigResource \<Rightarrow> OwnedResourceSpecifier KafkaResult" where
  "extract_config_specifier resource =
     (case ncr_type resource of
        RD_KAFKA_RESOURCE_TOPIC \<Rightarrow> Ok (Owned_Topic (cstr_to_owned (ncr_name resource)))
      | RD_KAFKA_RESOURCE_GROUP \<Rightarrow> Ok (Owned_Group (cstr_to_owned (ncr_name resource)))
      | RD_KAFKA_RESOURCE_BROKER \<Rightarrow>
          let name = to_string_lossy (ncr_name resource) in
          (case parse_i32 name of
             Some i \<Rightarrow> Ok (Owned_Broker i)
           | None \<Rightarrow> Err (AdminOpCreation (''bogus broker ID in kafka response: '' @ name)))
      | typ \<Rightarrow> Err (AdminOpCreation (''bogus resource type in kafka response: '' @ resource_type_debug typ)))"

definition extract_config_source :: "RDKafkaConfigSource \<Rightarrow> ConfigSource KafkaResult" where
  "extract_config_source config_source =
     (case config_source of
        RD_KAFKA_CONFIG_SOURCE_UNKNOWN_CONFIG \<Rightarrow> Ok Source_Unknown
      | RD_KAFKA_CONFIG_SOURCE_DYNAMIC_TOPIC_CONFIG \<Rightarrow> Ok Source_DynamicTopic
      | RD_KAFKA_CONFIG_SOURCE_DYNAMIC_BROKER_CONFIG \<Rightarrow> Ok Source_DynamicBroker
      | RD_KAFKA_CONFIG_SOURCE_DYNAMIC_DEFAULT_BROKER_CONFIG \<Rightarrow> Ok Source_DynamicDefaultBroker
      | RD_KAFKA_CONFIG_SOURCE_STATIC_BROKER_CONFIG \<Rightarrow> Ok Source_StaticBroker
      | RD_KAFKA_CONFIG_SOURCE_DEFAULT_CONFIG \<Rightarrow> Ok Source_Default
      | RD_KAFKA_CONFIG_SOURCE_GROUP_CONFIG \<Rightarrow>
          Err (AdminOpCreation ''bogus config source type in kafka response: RD_KAFKA_CONFIG_SOURCE_GROUP_CONFIG'')
      | RD_KAFKA_CONFIG_SOURCE_CNT \<Rightarrow>
          Err (AdminOpCreation ''bogus config source type in kafka response: RD_KAFKA_CONFIG_SOURCE__CNT''))"

fun build_config_entries :: "RDKafkaConfigEntry list \<Rightarrow> ConfigEntry list KafkaResult" where
  "build_config_entries [] = Ok []"
| "build_config_entries (entry # entries) =
     and_then (extract_config_source (nce_source entry)) (\<lambda>source.
     and_then (build_config_entries entries) (\<lambda>out.
       Ok (\<lparr>ce_name = cstr_to_owned (nce_name entry), ce_value = map_option cstr_to_owned (nce_value entry),
            ce_source = source, ce_is_read_only = (nce_is_read_only entry \<noteq> 0),
            ce_is_default = (nce_is_default entry \<noteq> 0), ce_is_sensitive = (nce_is_sensitive entry \<noteq> 0)\<rparr> # out)))"

type_synonym ConfigResourceResult = "RDKafkaErrorCode + ConfigResource"
type_synonym AlterConfigsResult = "(OwnedResourceSpecifier \<times> RDKafkaErrorCode) + OwnedResourceSpecifier"

fun build_describe_results :: "RDKafkaConfigResource list \<Rightarrow> ConfigResourceResult list KafkaResult" where
  "build_describe_results [] = Ok []"
| "build_describe_results (resource # resources) =
     and_then (extract_config_specifier resource) (\<lambda>specifier.
     and_then (build_config_entries (ncr_configs resource)) (\<lambda>entries_out.
     and_then (build_describe_results resources) (\<lambda>out.
       Ok (Ok \<lparr>cr_specifier = specifier, cr_entries = entries_out\<rparr> # out))))"

fun build_alter_results :: "RDKafkaConfigResource list \<Rightarrow> AlterConfigsResult list KafkaResult" where
  "build_alter_results [] = Ok []"
| "build_alter_results (resource # resources) =
     and_then (extract_config_specifier resource) (\<lambda>specifier.
     and_then (build_alter_results resources) (\<lambda>out. Ok (Ok specifier # out)))"

section \<open>Futures\<close>

datatype receiver_state = Rx_Pending | Rx_Canceled | Rx_Event RDKafkaEvent

datatype 'a admin_poll = Admin_Ready 'a | Admin_Pending

definition check_error :: "RDKafkaEvent \<Rightarrow> unit KafkaResult" where
  "check_error event =
     (let err = ev_error event in if resp_err_is_error err then Err (AdminOp (into_code err)) else Ok ())"

text \<open>
  What the futures share: waiting for the event, its error, and the test that the answer has
  the expected type, with the name of the request in the error text.
\<close>

definition admin_answer ::
    "bytes \<Rightarrow> (addr \<Rightarrow> 'r option) \<Rightarrow> ('r \<Rightarrow> 'a KafkaResult rust) \<Rightarrow> receiver_state \<Rightarrow> 'a KafkaResult admin_poll rust" where
  "admin_answer name accessor finish rx =
     (case rx of
        Rx_Pending \<Rightarrow> Ret Admin_Pending
      | Rx_Canceled \<Rightarrow> Ret (Admin_Ready (Err Canceled))
      | Rx_Event event \<Rightarrow>
          (case check_error event of
             Inl e \<Rightarrow> Ret (Admin_Ready (Err e))
           | Inr _ \<Rightarrow>
               (case accessor (ev_ptr event) of
                  None \<Rightarrow>
                    Ret (Admin_Ready (Err (AdminOpCreation
                      (name @ '' request received response of incorrect type ('' @ show_int (ev_type event) @ '')''))))
                | Some res \<Rightarrow> rust_map Admin_Ready (finish res))))"

definition create_topics_future :: "admin_event_api \<Rightarrow> receiver_state \<Rightarrow> TopicResult list KafkaResult admin_poll rust" where
  "create_topics_future api =
     admin_answer ''create topics'' (rd_kafka_event_CreateTopics_result api) (\<lambda>topics. Ret (Ok (build_topic_results topics)))"

definition delete_topics_future :: "admin_event_api \<Rightarrow> receiver_state \<Rightarrow> TopicResult list KafkaResult admin_poll rust" where
  "delete_topics_future api =
     admin_answer ''delete topics'' (rd_kafka_event_DeleteTopics_result api) (\<lambda>topics. Ret (Ok (build_topic_results topics)))"

definition delete_groups_future ::
    "admin_event_api \<Rightarrow> error_api \<Rightarrow> receiver_state \<Rightarrow> GroupResult list KafkaResult admin_poll rust" where
  "delete_groups_future api eapi =
     admin_answer ''delete groups'' (rd_kafka_event_DeleteGroups_result api)
       (\<lambda>groups. Ret (Ok (build_group_results eapi groups)))"

definition create_partitions_future :: "admin_event_api \<Rightarrow> receiver_state \<Rightarrow> TopicResult list KafkaResult admin_poll rust" where
  "create_partitions_future api =
     admin_answer ''create partitions'' (rd_kafka_event_CreatePartitions_result api)
       (\<lambda>topics. Ret (Ok (build_topic_results topics)))"

definition delete_records_future ::
    "admin_event_api \<Rightarrow> tpl_api \<Rightarrow> receiver_state \<Rightarrow> TopicPartitionList KafkaResult admin_poll rust" where
  "delete_records_future api tapi =
     admin_answer ''delete records'' (rd_kafka_event_DeleteRecords_result api)
       (\<lambda>tpl. rust_map Ok (tpl_from_ptr (rd_kafka_topic_partition_list_copy tapi tpl)))"

definition describe_configs_future ::
    "admin_event_api \<Rightarrow> receiver_state \<Rightarrow> ConfigResourceResult list KafkaResult admin_poll rust" where
  "describe_configs_future api =
     admin_answer ''describe configs'' (rd_kafka_event_DescribeConfigs_result api) (\<lambda>rs. Ret (build_describe_results rs))"

definition alter_configs_future ::
    "admin_event_api \<Rightarrow> receiver_state \<Rightarrow> AlterConfigsResult list KafkaResult admin_poll rust" where
  "alter_configs_future api =
     admin_answer ''alter configs'' (rd_kafka_event_AlterConfigs_result api) (\<lambda>rs. Ret (build_alter_results rs))"

section \<open>The operations\<close>

text \<open>
  An operation returns \<open>Either::Left\<close> the future that waits for the receiver, or
  \<open>Either::Right\<close> a future that is ready with the error of building the request. Polling the
  left one looks at the state of its channel.
\<close>

datatype admin_future = Left_Waiting addr | Right_Err KafkaError

definition admin_call :: "('w world \<times> addr KafkaResult) rust \<Rightarrow> ('w world \<times> admin_future) rust" where
  "admin_call = rust_map (\<lambda>(w, r). (w, case r of Inr rx \<Rightarrow> Left_Waiting rx | Inl err \<Rightarrow> Right_Err err))"

definition admin_poll_future ::
    "(receiver_state \<Rightarrow> 'a KafkaResult admin_poll rust) \<Rightarrow> (addr \<Rightarrow> receiver_state) \<Rightarrow> admin_future \<Rightarrow> 'a KafkaResult admin_poll rust" where
  "admin_poll_future future channel f =
     (case f of Left_Waiting rx \<Rightarrow> future (channel rx) | Right_Err err \<Rightarrow> Ret (Admin_Ready (Err err)))"

definition create_topics ::
    "('w, 'n) admin_api \<Rightarrow> error_api \<Rightarrow> addr \<Rightarrow> addr \<Rightarrow> 'w world \<Rightarrow> NewTopic list \<Rightarrow> AdminOptions
      \<Rightarrow> ('w world \<times> admin_future) rust" where
  "create_topics api eapi queue tx w topics opts = admin_call (create_topics_inner api eapi queue tx w topics opts)"

definition delete_topics ::
    "('w, 'n) admin_api \<Rightarrow> error_api \<Rightarrow> addr \<Rightarrow> addr \<Rightarrow> 'w world \<Rightarrow> bytes list \<Rightarrow> AdminOptions
      \<Rightarrow> ('w world \<times> admin_future) rust" where
  "delete_topics api eapi queue tx w topic_names opts = admin_call (delete_topics_inner api eapi queue tx w topic_names opts)"

definition delete_groups ::
    "('w, 'n) admin_api \<Rightarrow> error_api \<Rightarrow> addr \<Rightarrow> addr \<Rightarrow> 'w world \<Rightarrow> bytes list \<Rightarrow> AdminOptions
      \<Rightarrow> ('w world \<times> admin_future) rust" where
  "delete_groups api eapi queue tx w group_names opts = admin_call (delete_groups_inner api eapi queue tx w group_names opts)"

definition create_partitions ::
    "('w, 'n) admin_api \<Rightarrow> error_api \<Rightarrow> addr \<Rightarrow> addr \<Rightarrow> 'w world \<Rightarrow> NewPartitions list \<Rightarrow> AdminOptions
      \<Rightarrow> ('w world \<times> admin_future) rust" where
  "create_partitions api eapi queue tx w partitions opts = admin_call (create_partitions_inner api eapi queue tx w partitions opts)"

definition delete_records ::
    "('w, 'n) admin_api \<Rightarrow> error_api \<Rightarrow> addr \<Rightarrow> addr \<Rightarrow> 'w world \<Rightarrow> TopicPartitionList \<Rightarrow> AdminOptions
      \<Rightarrow> ('w world \<times> admin_future) rust" where
  "delete_records api eapi queue tx w offsets opts = admin_call (delete_records_inner api eapi queue tx w offsets opts)"

definition describe_configs ::
    "('w, 'n) admin_api \<Rightarrow> error_api \<Rightarrow> addr \<Rightarrow> addr \<Rightarrow> 'w world \<Rightarrow> ResourceSpecifier list \<Rightarrow> AdminOptions
      \<Rightarrow> ('w world \<times> admin_future) rust" where
  "describe_configs api eapi queue tx w configs opts = admin_call (describe_configs_inner api eapi queue tx w configs opts)"

definition alter_configs ::
    "('w, 'n) admin_api \<Rightarrow> error_api \<Rightarrow> addr \<Rightarrow> addr \<Rightarrow> 'w world \<Rightarrow> AlterConfig list \<Rightarrow> AdminOptions
      \<Rightarrow> ('w world \<times> admin_future) rust" where
  "alter_configs api eapi queue tx w configs opts = admin_call (alter_configs_inner api eapi queue tx w configs opts)"

section \<open>The client and its polling thread\<close>

record AdminClient =
  adm_client :: Client
  adm_queue :: addr
  adm_should_stop :: bool
  adm_handle :: "addr option"

text \<open>The handle of the polling thread is named by \<open>thread\<close>.\<close>

definition admin_client_from_config_and_context ::
    "'w client_api \<Rightarrow> ('w, 'c) create_api \<Rightarrow> 'c conf_api \<Rightarrow> map_iter \<Rightarrow> 'w world \<Rightarrow> ClientConfig \<Rightarrow> arc
      \<Rightarrow> addr \<Rightarrow> ('w world \<times> AdminClient KafkaResult) rust" where
  "admin_client_from_config_and_context api crapi conf iter w config context thread =
     rust_bind (create_native_config conf iter config) (\<lambda>r.
       case r of
         Inl e \<Rightarrow> Ret (w, Err e)
       | Inr native_config \<Rightarrow>
           rust_bind (new_context_arc api crapi conf w config native_config RD_KAFKA_PRODUCER context) (\<lambda>(w, r).
             case r of
               Inl e \<Rightarrow> Ret (w, Err e)
             | Inr client \<Rightarrow>
                 rust_map (\<lambda>(w, queue). (w, Ok \<lparr>adm_client = client, adm_queue = queue, adm_should_stop = False,
                     adm_handle = Some thread\<rparr>)) (new_native_queue api w)))"

text \<open>
  The client, librdkafka and the polling thread together. \<open>aq_issued\<close> are the requests made, each
  named by its sender; \<open>aq_inflight\<close> those librdkafka has not answered; \<open>aq_replies\<close> the answers
  it gave; \<open>aq_queue\<close> the answers waiting in the queue, with the opaque of the request; and
  \<open>aq_channel\<close> what was sent into each channel. A sender exists only as the raw pointer that
  librdkafka keeps until the thread makes a box of it again.
\<close>

record admin_sys =
  aq_issued :: "addr set"
  aq_inflight :: "addr set"
  aq_replies :: "addr \<rightharpoonup> RDKafkaEvent"
  aq_queue :: "(addr \<times> RDKafkaEvent) list"
  aq_channel :: "addr \<rightharpoonup> RDKafkaEvent"
  aq_should_stop :: bool
  aq_finished :: bool
  aq_joined :: bool

definition admin_init :: admin_sys where
  "admin_init = \<lparr>aq_issued = {}, aq_inflight = {}, aq_replies = Map.empty, aq_queue = [], aq_channel = Map.empty,
     aq_should_stop = False, aq_finished = False, aq_joined = False\<rparr>"

definition admin_request_made :: "addr \<Rightarrow> admin_sys \<Rightarrow> admin_sys" where
  "admin_request_made tx s = s\<lparr>aq_issued := insert tx (aq_issued s), aq_inflight := insert tx (aq_inflight s)\<rparr>"

definition admin_reply :: "addr \<Rightarrow> RDKafkaEvent \<Rightarrow> admin_sys \<Rightarrow> admin_sys" where
  "admin_reply tx ev s =
     s\<lparr>aq_inflight := aq_inflight s - {tx}, aq_replies := (aq_replies s)(tx \<mapsto> ev), aq_queue := aq_queue s @ [(tx, ev)]\<rparr>"

text \<open>One round of the thread's loop.\<close>

definition admin_thread_round :: "admin_sys \<Rightarrow> admin_sys" where
  "admin_thread_round s =
     (case aq_queue s of
        [] \<Rightarrow> if aq_should_stop s then s\<lparr>aq_finished := True\<rparr> else s
      | (tx, ev) # q \<Rightarrow> s\<lparr>aq_queue := q, aq_channel := (aq_channel s)(tx \<mapsto> ev)\<rparr>)"

text \<open>The two halves of \<open>drop\<close>: setting the flag, and joining the thread, which waits for its end.\<close>

definition admin_stop :: "admin_sys \<Rightarrow> admin_sys" where
  "admin_stop s = s\<lparr>aq_should_stop := True\<rparr>"

definition admin_join :: "admin_sys \<Rightarrow> admin_sys" where
  "admin_join s = s\<lparr>aq_joined := True\<rparr>"

inductive admin_step :: "admin_sys \<Rightarrow> admin_sys \<Rightarrow> bool" where
  adm_request: "\<not> aq_should_stop s \<Longrightarrow> tx \<notin> aq_issued s \<Longrightarrow> admin_step s (admin_request_made tx s)"
| adm_reply: "tx \<in> aq_inflight s \<Longrightarrow> admin_step s (admin_reply tx ev s)"
| adm_thread: "\<not> aq_finished s \<Longrightarrow> admin_step s (admin_thread_round s)"
| adm_drop: "\<not> aq_should_stop s \<Longrightarrow> admin_step s (admin_stop s)"
| adm_join: "aq_should_stop s \<Longrightarrow> aq_finished s \<Longrightarrow> \<not> aq_joined s \<Longrightarrow> admin_step s (admin_join s)"

inductive admin_reachable :: "admin_sys \<Rightarrow> bool" where
  adm_init: "admin_reachable admin_init"
| adm_next: "admin_reachable s \<Longrightarrow> admin_step s s' \<Longrightarrow> admin_reachable s'"

definition admin_receiver :: "admin_sys \<Rightarrow> addr \<Rightarrow> receiver_state" where
  "admin_receiver s tx = (case aq_channel s tx of None \<Rightarrow> Rx_Pending | Some ev \<Rightarrow> Rx_Event ev)"

definition admin_inv :: "admin_sys \<Rightarrow> bool" where
  "admin_inv s \<longleftrightarrow>
     aq_issued s = aq_inflight s \<union> fst ` set (aq_queue s) \<union> dom (aq_channel s)
     \<and> distinct (map fst (aq_queue s))
     \<and> aq_inflight s \<inter> fst ` set (aq_queue s) = {} \<and> aq_inflight s \<inter> dom (aq_channel s) = {}
     \<and> fst ` set (aq_queue s) \<inter> dom (aq_channel s) = {}
     \<and> aq_channel s \<subseteq>\<^sub>m aq_replies s
     \<and> (\<forall>tx ev. (tx, ev) \<in> set (aq_queue s) \<longrightarrow> aq_replies s tx = Some ev)
     \<and> (aq_finished s \<longrightarrow> aq_should_stop s) \<and> (aq_joined s \<longrightarrow> aq_finished s)"

lemmas admin_ops = admin_request_made_def admin_reply_def admin_thread_round_def admin_stop_def admin_join_def

lemma admin_inv_step:
  assumes "admin_step s s'" and "admin_inv s"
  shows "admin_inv s'"
  using assms(1)
proof cases
  case (adm_request tx)
  with assms(2) show ?thesis by (auto simp: admin_inv_def admin_ops)
next
  case (adm_reply tx ev)
  with assms(2) have new: "tx \<notin> fst ` set (aq_queue s)" "tx \<notin> dom (aq_channel s)" by (auto simp: admin_inv_def)
  then have "(tx, b) \<notin> set (aq_queue s)" for b by force
  with new adm_reply assms(2) show ?thesis
    by (auto simp: admin_inv_def admin_ops map_le_def)
next
  case adm_thread
  show ?thesis
  proof (cases "aq_queue s")
    case Nil
    with adm_thread assms(2) show ?thesis by (auto simp: admin_inv_def admin_ops)
  next
    case (Cons e q)
    with adm_thread assms(2) show ?thesis
      by (cases e) (auto simp: admin_inv_def admin_ops map_le_def)
  qed
next
  case adm_drop
  with assms(2) show ?thesis by (auto simp: admin_inv_def admin_ops)
next
  case adm_join
  with assms(2) show ?thesis by (auto simp: admin_inv_def admin_ops)
qed

lemma admin_inv_init: "admin_inv admin_init"
  by (simp add: admin_inv_def admin_init_def)

lemma admin_reachable_inv: "admin_reachable s \<Longrightarrow> admin_inv s"
  by (induction rule: admin_reachable.induct) (auto intro: admin_inv_step admin_inv_init)

text \<open>The client implements the specification of requests answered through channels.\<close>

definition admin_abs :: "admin_sys \<Rightarrow> RDKafkaEvent oneshot" where
  "admin_abs s = \<lparr>os_pending = aq_inflight s, os_answered = map_of (aq_queue s), os_delivered = aq_channel s\<rparr>"

lemma admin_abs_init: "admin_abs admin_init = oneshot_empty"
  by (simp add: admin_abs_def admin_init_def oneshot_empty_def)

lemma admin_thread_simulated:
  assumes "admin_inv s"
  shows "oneshot_step\<^sup>*\<^sup>* (admin_abs s) (admin_abs (admin_thread_round s))"
proof (cases "aq_queue s")
  case Nil
  then show ?thesis by (simp add: admin_abs_def admin_thread_round_def)
next
  case (Cons e q)
  obtain tx ev where e: "e = (tx, ev)" by (cases e)
  have "(map_of (aq_queue s))(tx := None) = map_of q"
    using map_of_forget_head [of tx ev q] assms Cons e by (simp add: admin_inv_def)
  moreover have "oneshot_step (admin_abs s) ((admin_abs s)\<lparr>os_answered := (os_answered (admin_abs s))(tx := None),
      os_delivered := (os_delivered (admin_abs s))(tx \<mapsto> ev)\<rparr>)"
    using Cons e by (intro os_deliver) (simp add: admin_abs_def)
  ultimately show ?thesis using Cons e by (simp add: admin_abs_def admin_thread_round_def)
qed

lemma admin_step_simulated:
  assumes "admin_step s s'" and "admin_inv s"
  shows "oneshot_step\<^sup>*\<^sup>* (admin_abs s) (admin_abs s')"
  using assms(1)
proof cases
  case (adm_request tx)
  have "oneshot_step (admin_abs s) ((admin_abs s)\<lparr>os_pending := insert tx (os_pending (admin_abs s))\<rparr>)"
    using adm_request(3) assms(2)
    by (intro os_issue) (auto simp: admin_inv_def admin_abs_def os_issued_def dom_map_of_conv_image_fst)
  with adm_request show ?thesis by (simp add: admin_abs_def admin_request_made_def)
next
  case (adm_reply tx ev)
  have "tx \<notin> fst ` set (aq_queue s)" using adm_reply assms(2) by (auto simp: admin_inv_def)
  moreover have "oneshot_step (admin_abs s) ((admin_abs s)\<lparr>os_pending := os_pending (admin_abs s) - {tx},
      os_answered := (os_answered (admin_abs s))(tx \<mapsto> ev)\<rparr>)"
    using adm_reply by (intro os_answer) (simp add: admin_abs_def)
  ultimately show ?thesis using adm_reply by (simp add: admin_abs_def admin_reply_def map_of_snoc_fresh del: map_of_append)
next
  case adm_thread
  with admin_thread_simulated assms(2) show ?thesis by simp
qed (simp_all add: admin_abs_def admin_stop_def admin_join_def)

interpretation admin: oneshot_system admin_step admin_init admin_inv admin_abs
  by unfold_locales (use admin_inv_init admin_abs_init admin_inv_step admin_step_simulated in blast)+

lemma admin_reachable_run: "admin_reachable s \<longleftrightarrow> admin_step\<^sup>*\<^sup>* admin_init s"
proof
  show "admin_reachable s \<Longrightarrow> admin_step\<^sup>*\<^sup>* admin_init s"
    by (induction rule: admin_reachable.induct) auto
  show "admin_step\<^sup>*\<^sup>* admin_init s \<Longrightarrow> admin_reachable s"
    by (induction rule: rtranclp_induct) (auto intro: adm_init adm_next)
qed

text \<open>C9. Every answer reaches the future of its own request, once: a channel only ever
  holds the answer librdkafka gave to that request, and each request is either unanswered,
  answered and still queued, or delivered. The thread ends only after a poll that found the
  queue empty, with the stop flag set.\<close>

theorem admin_answers_reach_requester:
  assumes "admin_reachable s"
  shows "(\<forall>tx ev. admin_receiver s tx = Rx_Event ev \<longrightarrow> aq_replies s tx = Some ev)
    \<and> aq_issued s = aq_inflight s \<union> fst ` set (aq_queue s) \<union> dom (aq_channel s)
    \<and> (\<forall>tx \<in> dom (aq_channel s). tx \<notin> aq_inflight s \<and> tx \<notin> fst ` set (aq_queue s))
    \<and> (\<forall>s'. admin_step s s' \<and> aq_finished s' \<and> \<not> aq_finished s \<longrightarrow> aq_queue s = [] \<and> aq_should_stop s)"
proof -
  note inv = admin_reachable_inv [OF assms, unfolded admin_inv_def]
  have "aq_queue s = [] \<and> aq_should_stop s" if "admin_step s s'" "aq_finished s'" "\<not> aq_finished s" for s'
    using that by cases (auto simp: admin_ops split: list.splits prod.splits if_splits)
  with inv show ?thesis by (auto simp: admin_receiver_def map_le_def dom_def split: option.splits)
qed

definition admin_sample_run :: admin_sys where
  "admin_sample_run = admin_thread_round (admin_reply 3 (sample_event 100) (admin_request_made 3 (admin_request_made 4 admin_init)))"

lemma admin_sample_run_reachable: "admin_reachable admin_sample_run"
proof -
  have "admin_reachable (admin_request_made 4 admin_init)"
    by (rule adm_next [OF adm_init adm_request]) (simp_all add: admin_init_def)
  then have "admin_reachable (admin_request_made 3 (admin_request_made 4 admin_init))"
    by (rule adm_next [OF _ adm_request]) (simp_all add: admin_init_def admin_ops)
  then have "admin_reachable (admin_reply 3 (sample_event 100) (admin_request_made 3 (admin_request_made 4 admin_init)))"
    by (rule adm_next [OF _ adm_reply]) (simp add: admin_ops)
  then show ?thesis
    unfolding admin_sample_run_def by (rule adm_next [OF _ adm_thread]) (simp add: admin_ops admin_init_def)
qed

lemma admin_sample_stop_reachable: "admin_reachable (admin_stop admin_sample_run)"
  by (rule adm_next [OF admin_sample_run_reachable adm_drop]) (simp add: admin_sample_run_def admin_ops admin_init_def)

theorem admin_answers_reach_requester_witness:
  "admin_receiver admin_sample_run 3 = Rx_Event (sample_event 100) \<and> aq_replies admin_sample_run 3 = Some (sample_event 100)"
proof -
  have "admin_receiver admin_sample_run 3 = Rx_Event (sample_event 100)"
    by (simp add: admin_receiver_def admin_sample_run_def admin_ops admin_init_def)
  with admin_answers_reach_requester [OF admin_sample_run_reachable] show ?thesis by blast
qed

section \<open>Dropping the client\<close>

lemma admin_rounds_drain:
  assumes "aq_should_stop s" and "\<not> aq_finished s" and "distinct (map fst (aq_queue s))"
  shows "(admin_step ^^ (length (aq_queue s) + 1)) s ((admin_thread_round ^^ (length (aq_queue s) + 1)) s)
    \<and> aq_finished ((admin_thread_round ^^ (length (aq_queue s) + 1)) s)
    \<and> aq_channel ((admin_thread_round ^^ (length (aq_queue s) + 1)) s) = aq_channel s ++ map_of (aq_queue s)
    \<and> aq_should_stop ((admin_thread_round ^^ (length (aq_queue s) + 1)) s)
    \<and> aq_joined ((admin_thread_round ^^ (length (aq_queue s) + 1)) s) = aq_joined s"
  using assms
proof (induction "aq_queue s" arbitrary: s)
  case Nil
  then have "admin_step s (admin_thread_round s)" by (intro adm_thread) simp
  with Nil show ?case by (auto simp: admin_thread_round_def)
next
  case (Cons e q)
  obtain tx ev where e: "e = (tx, ev)" by (cases e)
  let ?s = "admin_thread_round s"
  have s': "aq_queue ?s = q" "aq_should_stop ?s" "\<not> aq_finished ?s" "aq_channel ?s = (aq_channel s)(tx \<mapsto> ev)" "aq_joined ?s = aq_joined s"
    using Cons.hyps(2) [symmetric] Cons.prems e by (simp_all add: admin_thread_round_def)
  have dist: "distinct (map fst (aq_queue ?s))" "tx \<notin> fst ` set q"
    using Cons.hyps(2) [symmetric] Cons.prems(3) e s'(1) by simp_all
  have step: "admin_step s ?s" using Cons.prems(2) by (rule adm_thread)
  have shift: "(admin_thread_round ^^ (length q + 1)) ?s = (admin_thread_round ^^ (length (aq_queue s) + 1)) s"
    using Cons.hyps(2) [symmetric] by (simp add: funpow_swap1)
  have "aq_channel ?s ++ map_of q = aq_channel s ++ map_of (aq_queue s)"
    using Cons.hyps(2) [symmetric] e s'(4) dist(2)
    by (simp add: map_add_upd map_add_upd_left dom_map_of_conv_image_fst)
  moreover note rec = Cons.hyps(1) [OF s'(1) [symmetric] s'(2,3) dist(1), unfolded s'(1)]
  moreover have "(admin_step ^^ Suc (length q + 1)) s ((admin_thread_round ^^ (length q + 1)) ?s)"
    by (rule relpowp_Suc_I2 [where y = ?s]) (use step rec in blast)+
  moreover have "length (aq_queue s) + 1 = Suc (length q + 1)" using Cons.hyps(2) [symmetric] by simp
  ultimately show ?case using shift s'(5) by metis
qed

text \<open>Dropping the client does not hang: once the flag is set, the thread on its own
  delivers what is queued and ends, after one round per queued answer and one more, and then
  the join of \<open>drop\<close> returns.\<close>

theorem admin_drop_completes:
  assumes "admin_reachable s" and "aq_should_stop s" and "\<not> aq_finished s"
  shows "(admin_step ^^ (length (aq_queue s) + 1)) s ((admin_thread_round ^^ (length (aq_queue s) + 1)) s)
    \<and> aq_finished ((admin_thread_round ^^ (length (aq_queue s) + 1)) s)
    \<and> (\<forall>(tx, ev) \<in> set (aq_queue s). admin_receiver ((admin_thread_round ^^ (length (aq_queue s) + 1)) s) tx = Rx_Event ev)
    \<and> admin_step ((admin_thread_round ^^ (length (aq_queue s) + 1)) s) (admin_join ((admin_thread_round ^^ (length (aq_queue s) + 1)) s))"
proof -
  have inv: "distinct (map fst (aq_queue s))" "\<not> aq_joined s"
    using admin_reachable_inv [OF assms(1)] assms(3) by (auto simp: admin_inv_def)
  note drain = admin_rounds_drain [OF assms(2,3) inv(1)]
  then have "admin_step ((admin_thread_round ^^ (length (aq_queue s) + 1)) s) (admin_join ((admin_thread_round ^^ (length (aq_queue s) + 1)) s))"
    using inv(2) by (intro adm_join) blast+
  with drain inv(1) show ?thesis
    by (auto simp: admin_receiver_def map_add_def)
qed

theorem admin_drop_completes_witness:
  "\<exists>k s'. (admin_step ^^ k) (admin_stop admin_sample_run) s' \<and> aq_finished s'"
proof -
  have "admin_reachable (admin_stop admin_sample_run)" by (rule admin_sample_stop_reachable)
  moreover have "aq_should_stop (admin_stop admin_sample_run)" by (simp add: admin_stop_def)
  moreover have "\<not> aq_finished (admin_stop admin_sample_run)"
    by (simp add: admin_sample_run_def admin_ops admin_init_def)
  ultimately show ?thesis using admin_drop_completes by blast
qed

lemma finished_channel_frozen:
  assumes "admin_step\<^sup>*\<^sup>* s s'" and "aq_finished s"
  shows "aq_finished s' \<and> aq_channel s' = aq_channel s"
  using assms
proof (induction rule: rtranclp_induct)
  case (step s1 s2)
  from step.hyps(2) step.IH [OF step.prems] show ?case
    by cases (auto simp: admin_request_made_def admin_reply_def admin_stop_def admin_join_def)
qed simp

text \<open>A request that has no answer when the polling thread ends is never resolved: in
  every later state its future is still pending, whatever librdkafka does. In particular it
  does not resolve to \<open>Canceled\<close>, because the sender is never dropped.\<close>

theorem admin_unanswered_never_resolved:
  assumes "admin_reachable s" and "aq_finished s" and "tx \<in> aq_inflight s" and "admin_step\<^sup>*\<^sup>* s s'"
  shows "admin_answer name accessor finish (admin_receiver s' tx) = Ret Admin_Pending"
proof -
  have "tx \<notin> dom (aq_channel s)" using admin_reachable_inv [OF assms(1)] assms(3) by (auto simp: admin_inv_def)
  then have "aq_channel s' tx = None" using finished_channel_frozen [OF assms(4,2)] by auto
  then show ?thesis by (simp add: admin_receiver_def admin_answer_def)
qed

theorem admin_unanswered_never_resolved_witness:
  "create_topics_future api (admin_receiver (admin_thread_round (admin_stop admin_sample_run)) 4) = Ret Admin_Pending"
  unfolding create_topics_future_def
proof (rule admin_unanswered_never_resolved)
  let ?s = "admin_thread_round (admin_stop admin_sample_run)"
  have "admin_reachable (admin_stop admin_sample_run)" by (rule admin_sample_stop_reachable)
  then show "admin_reachable ?s"
    by (rule adm_next [OF _ adm_thread]) (simp add: admin_sample_run_def admin_ops admin_init_def)
  show "aq_finished ?s" "4 \<in> aq_inflight ?s" by (simp_all add: admin_sample_run_def admin_ops admin_init_def)
qed simp

section \<open>Configurations\<close>

definition owned_specifier :: "ResourceSpecifier \<Rightarrow> OwnedResourceSpecifier" where
  "owned_specifier spec =
     (case spec of Spec_Topic n \<Rightarrow> Owned_Topic n | Spec_Group n \<Rightarrow> Owned_Group n | Spec_Broker i \<Rightarrow> Owned_Broker i)"

text \<open>The values that the Rust types admit.\<close>

definition specifier_typed :: "ResourceSpecifier \<Rightarrow> bool" where
  "specifier_typed spec =
     (case spec of Spec_Topic n \<Rightarrow> utf8_valid n | Spec_Group n \<Rightarrow> utf8_valid n | Spec_Broker i \<Rightarrow> i32_range i)"

text \<open>A resource named in a request comes back under the same name: the native type and
  name made of a specifier are read back as that specifier, broker numbers included.\<close>

theorem config_specifier_roundtrip:
  assumes "specifier_typed spec" and "specifier_to_native spec = Ok (name, typ)"
    and "ncr_type r = typ" and "ncr_name r = name"
  shows "extract_config_specifier r = Ok (owned_specifier spec)"
proof (cases spec)
  case (Spec_Topic n)
  with assms show ?thesis
    by (cases "NUL \<in> set n")
      (auto simp: specifier_typed_def specifier_to_native_def extract_config_specifier_def owned_specifier_def cstr_to_owned_def)
next
  case (Spec_Group n)
  with assms show ?thesis
    by (cases "NUL \<in> set n")
      (auto simp: specifier_typed_def specifier_to_native_def extract_config_specifier_def owned_specifier_def cstr_to_owned_def)
next
  case (Spec_Broker i)
  with assms have "ncr_name r = show_int i" "ncr_type r = RD_KAFKA_RESOURCE_BROKER" "i32_range i"
    by (auto simp: specifier_typed_def specifier_to_native_def)
  with Spec_Broker show ?thesis by (simp add: extract_config_specifier_def owned_specifier_def)
qed

theorem config_specifier_roundtrip_witness:
  "extract_config_specifier \<lparr>ncr_type = RD_KAFKA_RESOURCE_BROKER, ncr_name = show_int (- 7),
     ncr_error = RD_KAFKA_RESP_ERR_NO_ERROR, ncr_configs = []\<rparr> = Ok (Owned_Broker (- 7))"
proof -
  have "specifier_typed (Spec_Broker (- 7))" by (simp add: specifier_typed_def i32_range_def)
  moreover have "specifier_to_native (Spec_Broker (- 7)) = Ok (show_int (- 7), RD_KAFKA_RESOURCE_BROKER)"
    by (simp add: specifier_to_native_def)
  ultimately show ?thesis
    using config_specifier_roundtrip [of "Spec_Broker (- 7)" "show_int (- 7)" RD_KAFKA_RESOURCE_BROKER] by (simp add: owned_specifier_def)
qed

lemma extract_specifier_error [simp]: "extract_config_specifier (ncr_error_update f r) = extract_config_specifier r"
  by (simp add: extract_config_specifier_def split: RDKafkaResourceType.splits)

lemma describe_ignores_errors:
  "build_describe_results (map (ncr_error_update f) rs) = build_describe_results rs"
  by (induction rs) simp_all

lemma alter_ignores_errors: "build_alter_results (map (ncr_error_update f) rs) = build_alter_results rs"
  by (induction rs) simp_all

lemma and_then_Ok: "and_then r f = Ok x \<longleftrightarrow> (\<exists>y. r = Ok y \<and> f y = Ok x)"
  by (cases r) auto

lemma describe_all_ok: "build_describe_results rs = Ok out \<Longrightarrow> x \<in> set out \<Longrightarrow> is_ok x"
  by (induction rs arbitrary: out) (auto simp: and_then_Ok is_ok_def)

lemma alter_all_ok: "build_alter_results rs = Ok out \<Longrightarrow> x \<in> set out \<Longrightarrow> is_ok x"
  by (induction rs arbitrary: out) (auto simp: and_then_Ok is_ok_def)

text \<open>The error that the broker reports for a single resource is lost: the results of
  describing and of altering configurations do not depend on the errors of the resources, and
  every entry of them is \<open>Ok\<close>, although their types provide for an error per resource.\<close>

theorem config_resource_errors_ignored:
  "build_describe_results (map (ncr_error_update f) rs) = build_describe_results rs
   \<and> build_alter_results (map (ncr_error_update f) rs) = build_alter_results rs
   \<and> (\<forall>out. build_describe_results rs = Ok out \<longrightarrow> list_all is_ok out)
   \<and> (\<forall>out. build_alter_results rs = Ok out \<longrightarrow> list_all is_ok out)"
  using describe_all_ok alter_all_ok by (auto simp: describe_ignores_errors alter_ignores_errors list_all_iff)

theorem config_resource_errors_ignored_witness:
  "build_alter_results [\<lparr>ncr_type = RD_KAFKA_RESOURCE_TOPIC, ncr_name = ''t'',
      ncr_error = RD_KAFKA_RESP_ERR_INVALID_CONFIG, ncr_configs = []\<rparr>] =
   build_alter_results [\<lparr>ncr_type = RD_KAFKA_RESOURCE_TOPIC, ncr_name = ''t'',
      ncr_error = RD_KAFKA_RESP_ERR_NO_ERROR, ncr_configs = []\<rparr>]"
  using config_resource_errors_ignored [of "\<lambda>_. RD_KAFKA_RESP_ERR_INVALID_CONFIG"
      "[\<lparr>ncr_type = RD_KAFKA_RESOURCE_TOPIC, ncr_name = ''t'', ncr_error = RD_KAFKA_RESP_ERR_NO_ERROR, ncr_configs = []\<rparr>]"]
  by (simp del: build_alter_results.simps)

end
