(* ===== verification/Mock_Cluster.thy ===== *)
theory Mock_Cluster
  imports Client
begin

text \<open>
  The mock cluster (\<open>mocking.rs\<close>): a cluster inside librdkafka that is either created by the
  caller together with a client of its own, or borrowed from a client that was configured to
  have one. The theorems say who destroys it and when, and what the operations hand to
  librdkafka.
\<close>

section \<open>What the crate uses of librdkafka\<close>

record 'w mock_api =
  rd_kafka_mock_cluster_new :: "'w \<Rightarrow> addr \<Rightarrow> int \<Rightarrow> 'w \<times> addr"
  rd_kafka_handle_mock_cluster :: "'w \<Rightarrow> addr \<Rightarrow> addr"
  rd_kafka_mock_cluster_bootstraps :: "'w \<Rightarrow> addr \<Rightarrow> bytes"
  rd_kafka_mock_clear_request_errors :: "'w \<Rightarrow> addr \<Rightarrow> int \<Rightarrow> 'w"
  rd_kafka_mock_push_request_errors_array :: "'w \<Rightarrow> addr \<Rightarrow> int \<Rightarrow> nat \<Rightarrow> RDKafkaRespErr list \<Rightarrow> 'w"
  rd_kafka_mock_topic_set_error :: "'w \<Rightarrow> addr \<Rightarrow> bytes \<Rightarrow> RDKafkaRespErr \<Rightarrow> 'w"
  rd_kafka_mock_topic_create :: "'w \<Rightarrow> addr \<Rightarrow> bytes \<Rightarrow> int \<Rightarrow> int \<Rightarrow> 'w \<times> RDKafkaRespErr"
  rd_kafka_mock_partition_set_leader :: "'w \<Rightarrow> addr \<Rightarrow> bytes \<Rightarrow> int \<Rightarrow> int \<Rightarrow> 'w \<times> RDKafkaRespErr"
  rd_kafka_mock_partition_set_follower :: "'w \<Rightarrow> addr \<Rightarrow> bytes \<Rightarrow> int \<Rightarrow> int \<Rightarrow> 'w \<times> RDKafkaRespErr"
  rd_kafka_mock_partition_set_follower_wmarks :: "'w \<Rightarrow> addr \<Rightarrow> bytes \<Rightarrow> int \<Rightarrow> int \<Rightarrow> int \<Rightarrow> 'w \<times> RDKafkaRespErr"
  rd_kafka_mock_broker_set_down :: "'w \<Rightarrow> addr \<Rightarrow> int \<Rightarrow> 'w \<times> RDKafkaRespErr"
  rd_kafka_mock_broker_set_up :: "'w \<Rightarrow> addr \<Rightarrow> int \<Rightarrow> 'w \<times> RDKafkaRespErr"
  rd_kafka_mock_broker_set_rtt :: "'w \<Rightarrow> addr \<Rightarrow> int \<Rightarrow> int \<Rightarrow> 'w \<times> RDKafkaRespErr"
  rd_kafka_mock_broker_set_rack :: "'w \<Rightarrow> addr \<Rightarrow> int \<Rightarrow> bytes \<Rightarrow> 'w \<times> RDKafkaRespErr"
  rd_kafka_mock_coordinator_set :: "'w \<Rightarrow> addr \<Rightarrow> bytes \<Rightarrow> bytes \<Rightarrow> int \<Rightarrow> 'w \<times> RDKafkaRespErr"
  rd_kafka_mock_set_apiversion :: "'w \<Rightarrow> addr \<Rightarrow> int \<Rightarrow> int \<Rightarrow> int \<Rightarrow> 'w \<times> RDKafkaRespErr"

section \<open>Clusters\<close>

datatype MockClusterClient = Owned (mcc_client: Client) | Borrowed (mcc_client: Client)

record MockCluster =
  mock_cluster :: addr
  mock_client :: MockClusterClient

datatype MockCoordinator = Coordinator_Transaction bytes | Coordinator_Group bytes

text \<open>\<open>Drop\<close> of a client destroys its native handle.\<close>

definition client_drop :: "Client \<Rightarrow> 'w world \<Rightarrow> 'w world" where
  "client_drop c = emit (Native_client_destroy (client_native c))"

text \<open>\<open>MockCluster::new\<close>; a client whose cluster cannot be created is dropped on the early return.\<close>

definition mock_cluster_new ::
    "'w client_api \<Rightarrow> ('w, 'c) create_api \<Rightarrow> 'c conf_api \<Rightarrow> 'w mock_api \<Rightarrow> map_iter \<Rightarrow> (log_level \<Rightarrow> bool) \<Rightarrow> 'w world \<Rightarrow> arc
      \<Rightarrow> int \<Rightarrow> ('w world \<times> MockCluster KafkaResult) rust" where
  "mock_cluster_new api crapi conf mapi iter log_enabled w context broker_count =
     (let config = client_config_new log_enabled in
      rust_bind (create_native_config conf iter config) (\<lambda>r.
        case r of
          Inl e \<Rightarrow> Ret (w, Err e)
        | Inr native_config \<Rightarrow>
            rust_map (\<lambda>(w, r).
              case r of
                Inl e \<Rightarrow> (w, Err e)
              | Inr client \<Rightarrow>
                  (case rd_kafka_mock_cluster_new mapi (native w) (client_native client) broker_count of
                     (n, cluster) \<Rightarrow>
                       let w = w\<lparr>native := n\<rparr> in
                       if cluster = 0 then (client_drop client w, Err (MockClusterError EC_Fail))
                       else (w, Ok \<lparr>mock_cluster = cluster, mock_client = Owned client\<rparr>)))
            (new_context_arc api crapi conf w config native_config RD_KAFKA_PRODUCER context)))"

text \<open>\<open>Client::mock_cluster\<close>\<close>

definition mock_cluster_from_client :: "'w mock_api \<Rightarrow> 'w world \<Rightarrow> Client \<Rightarrow> MockCluster option" where
  "mock_cluster_from_client mapi w client =
     (let cluster = rd_kafka_handle_mock_cluster mapi (native w) (client_native client) in
      if cluster = 0 then None else Some \<lparr>mock_cluster = cluster, mock_client = Borrowed client\<rparr>)"

text \<open>\<open>Drop\<close>, then the drop of the fields: an owned client is dropped, a borrowed one is not.\<close>

definition mock_cluster_drop :: "MockCluster \<Rightarrow> 'w world \<Rightarrow> 'w world" where
  "mock_cluster_drop self w =
     (case mock_client self of
        Owned client \<Rightarrow> client_drop client (emit (Native_mock_cluster_destroy (mock_cluster self)) w)
      | Borrowed client \<Rightarrow> w)"

section \<open>Operations\<close>

text \<open>The macro \<open>return_mock_op!\<close> around a native call.\<close>

definition return_mock_op :: "'w world \<Rightarrow> 'w \<times> RDKafkaRespErr \<Rightarrow> 'w world \<times> unit KafkaResult" where
  "return_mock_op w op =
     (case op of (n, err) \<Rightarrow>
        (w\<lparr>native := n\<rparr>, if resp_err_is_error err then Err (MockClusterError (into_code err)) else Ok ()))"

text \<open>\<open>CString::new(s)?\<close> in front of a call.\<close>

definition with_cstring ::
    "bytes \<Rightarrow> 'w world \<Rightarrow> (bytes \<Rightarrow> 'w world \<times> unit KafkaResult) \<Rightarrow> 'w world \<times> unit KafkaResult" where
  "with_cstring s w k =
     (case map_err kafka_error_from_nul (cstring_new s) of Inl e \<Rightarrow> (w, Err e) | Inr s_c \<Rightarrow> k s_c)"

definition bootstrap_servers :: "'w mock_api \<Rightarrow> 'w world \<Rightarrow> MockCluster \<Rightarrow> bytes" where
  "bootstrap_servers mapi w self =
     to_string_lossy (cstr_bytes (rd_kafka_mock_cluster_bootstraps mapi (native w) (mock_cluster self)))"

definition clear_request_errors :: "'w mock_api \<Rightarrow> MockCluster \<Rightarrow> RDKafkaApiKey \<Rightarrow> 'w world \<Rightarrow> 'w world" where
  "clear_request_errors mapi self api_key w =
     w\<lparr>native := rd_kafka_mock_clear_request_errors mapi (native w) (mock_cluster self) (api_key_discriminant api_key)\<rparr>"

definition request_errors ::
    "'w mock_api \<Rightarrow> MockCluster \<Rightarrow> RDKafkaApiKey \<Rightarrow> RDKafkaRespErr list \<Rightarrow> 'w world \<Rightarrow> 'w world" where
  "request_errors mapi self api_key errors w =
     w\<lparr>native := rd_kafka_mock_push_request_errors_array mapi (native w) (mock_cluster self) (api_key_discriminant api_key)
         (length errors) errors\<rparr>"

definition mock_topic_error ::
    "'w mock_api \<Rightarrow> MockCluster \<Rightarrow> RDKafkaRespErr \<Rightarrow> bytes \<Rightarrow> 'w world \<Rightarrow> 'w world \<times> unit KafkaResult" where
  "mock_topic_error mapi self err topic w =
     with_cstring topic w (\<lambda>topic_c.
       (w\<lparr>native := rd_kafka_mock_topic_set_error mapi (native w) (mock_cluster self) topic_c err\<rparr>, Ok ()))"

definition mock_create_topic ::
    "'w mock_api \<Rightarrow> MockCluster \<Rightarrow> int \<Rightarrow> int \<Rightarrow> bytes \<Rightarrow> 'w world \<Rightarrow> 'w world \<times> unit KafkaResult" where
  "mock_create_topic mapi self partition_count replication_factor topic w =
     with_cstring topic w (\<lambda>topic_c.
       return_mock_op w (rd_kafka_mock_topic_create mapi (native w) (mock_cluster self) topic_c partition_count replication_factor))"

definition mock_partition_leader ::
    "'w mock_api \<Rightarrow> MockCluster \<Rightarrow> int \<Rightarrow> int option \<Rightarrow> bytes \<Rightarrow> 'w world \<Rightarrow> 'w world \<times> unit KafkaResult" where
  "mock_partition_leader mapi self part broker topic w =
     with_cstring topic w (\<lambda>topic_c.
       let broker = (case broker of None \<Rightarrow> - 1 | Some b \<Rightarrow> b) in
       return_mock_op w (rd_kafka_mock_partition_set_leader mapi (native w) (mock_cluster self) topic_c part broker))"

definition mock_partition_follower ::
    "'w mock_api \<Rightarrow> MockCluster \<Rightarrow> int \<Rightarrow> int \<Rightarrow> bytes \<Rightarrow> 'w world \<Rightarrow> 'w world \<times> unit KafkaResult" where
  "mock_partition_follower mapi self part broker topic w =
     with_cstring topic w (\<lambda>topic_c.
       return_mock_op w (rd_kafka_mock_partition_set_follower mapi (native w) (mock_cluster self) topic_c part broker))"

definition mock_follower_watermarks ::
    "'w mock_api \<Rightarrow> MockCluster \<Rightarrow> int \<Rightarrow> int option \<Rightarrow> int option \<Rightarrow> bytes \<Rightarrow> 'w world \<Rightarrow> 'w world \<times> unit KafkaResult" where
  "mock_follower_watermarks mapi self part low high topic w =
     with_cstring topic w (\<lambda>topic_c.
       let low = (case low of None \<Rightarrow> - 1 | Some l \<Rightarrow> l); high = (case high of None \<Rightarrow> - 1 | Some h \<Rightarrow> h) in
       return_mock_op w (rd_kafka_mock_partition_set_follower_wmarks mapi (native w) (mock_cluster self) topic_c part low high))"

definition broker_down :: "'w mock_api \<Rightarrow> MockCluster \<Rightarrow> int \<Rightarrow> 'w world \<Rightarrow> 'w world \<times> unit KafkaResult" where
  "broker_down mapi self broker w =
     return_mock_op w (rd_kafka_mock_broker_set_down mapi (native w) (mock_cluster self) broker)"

definition broker_up :: "'w mock_api \<Rightarrow> MockCluster \<Rightarrow> int \<Rightarrow> 'w world \<Rightarrow> 'w world \<times> unit KafkaResult" where
  "broker_up mapi self broker w =
     return_mock_op w (rd_kafka_mock_broker_set_up mapi (native w) (mock_cluster self) broker)"

text \<open>\<open>delay.as_millis().try_into().unwrap_or(c_int::MAX)\<close>\<close>

definition rtt_millis :: "duration \<Rightarrow> int" where
  "rtt_millis delay =
     (let ms = int (duration_as_millis delay) in if i32_range ms then ms else 2 ^ 31 - 1)"

definition broker_round_trip_time ::
    "'w mock_api \<Rightarrow> MockCluster \<Rightarrow> int \<Rightarrow> duration \<Rightarrow> 'w world \<Rightarrow> 'w world \<times> unit KafkaResult" where
  "broker_round_trip_time mapi self broker delay w =
     return_mock_op w (rd_kafka_mock_broker_set_rtt mapi (native w) (mock_cluster self) broker (rtt_millis delay))"

definition broker_rack ::
    "'w mock_api \<Rightarrow> MockCluster \<Rightarrow> int \<Rightarrow> bytes \<Rightarrow> 'w world \<Rightarrow> 'w world \<times> unit KafkaResult" where
  "broker_rack mapi self broker rack w =
     with_cstring rack w (\<lambda>rack_c.
       return_mock_op w (rd_kafka_mock_broker_set_rack mapi (native w) (mock_cluster self) broker rack_c))"

definition mock_coordinator ::
    "'w mock_api \<Rightarrow> MockCluster \<Rightarrow> MockCoordinator \<Rightarrow> int \<Rightarrow> 'w world \<Rightarrow> 'w world \<times> unit KafkaResult" where
  "mock_coordinator mapi self coord broker w =
     (let (kind, key) = (case coord of
            Coordinator_Transaction key \<Rightarrow> (''transaction'', key)
          | Coordinator_Group key \<Rightarrow> (''group'', key))
      in with_cstring kind w (\<lambda>kind_c.
           with_cstring key w (\<lambda>raw_c.
             return_mock_op w (rd_kafka_mock_coordinator_set mapi (native w) (mock_cluster self) kind_c raw_c broker))))"

definition apiversion ::
    "'w mock_api \<Rightarrow> MockCluster \<Rightarrow> RDKafkaApiKey \<Rightarrow> int option \<Rightarrow> int option \<Rightarrow> 'w world \<Rightarrow> 'w world \<times> unit KafkaResult" where
  "apiversion mapi self api_key min_version max_version w =
     (let min_version = (case min_version of None \<Rightarrow> - 1 | Some v \<Rightarrow> v);
          max_version = (case max_version of None \<Rightarrow> - 1 | Some v \<Rightarrow> v)
      in return_mock_op w (rd_kafka_mock_set_apiversion mapi (native w) (mock_cluster self)
           (api_key_discriminant api_key) min_version max_version))"

section \<open>The contract of operations that take a name\<close>

text \<open>
  An operation that takes a name and one native call: \<open>call\<close> is the call, on the C string.
  The law is that the operation is that call behind the conversion of the name.
\<close>

locale named_mock_op =
  fixes run :: "bytes \<Rightarrow> 'w world \<Rightarrow> 'w world \<times> unit KafkaResult"
    and call :: "bytes \<Rightarrow> 'w \<Rightarrow> 'w \<times> RDKafkaRespErr"
  assumes run_is_call: "run name w = with_cstring name w (\<lambda>name_c. return_mock_op w (call name_c (native w)))"
begin

lemma nul_refused: "NUL \<in> set name \<Longrightarrow> \<exists>e. run name w = (w, Err (Nul e))"
  by (auto simp: run_is_call with_cstring_def kafka_error_from_nul_def)

lemma result_of_call:
  assumes "NUL \<notin> set name" and "call name (native w) = (n, err)"
  shows "run name w = (w\<lparr>native := n\<rparr>, if err = RD_KAFKA_RESP_ERR_NO_ERROR then Ok () else Err (MockClusterError (into_code err)))"
  using assms by (simp add: run_is_call with_cstring_def return_mock_op_def resp_err_is_error_def)

lemma trace_kept: "trace (fst (run name w)) = trace w"
  by (cases "call name (native w)"; cases "NUL \<in> set name")
    (auto simp: run_is_call with_cstring_def return_mock_op_def)

end

interpretation create_topic_op: named_mock_op "mock_create_topic mapi self n r"
  "\<lambda>topic s. rd_kafka_mock_topic_create mapi s (mock_cluster self) topic n r"
  by unfold_locales (simp add: mock_create_topic_def)

interpretation leader_op: named_mock_op "mock_partition_leader mapi self p b"
  "\<lambda>topic s. rd_kafka_mock_partition_set_leader mapi s (mock_cluster self) topic p (case b of None \<Rightarrow> - 1 | Some b \<Rightarrow> b)"
  by unfold_locales (simp add: mock_partition_leader_def Let_def)

interpretation follower_op: named_mock_op "mock_partition_follower mapi self p b'"
  "\<lambda>topic s. rd_kafka_mock_partition_set_follower mapi s (mock_cluster self) topic p b'"
  by unfold_locales (simp add: mock_partition_follower_def)

interpretation watermarks_op: named_mock_op "mock_follower_watermarks mapi self p l h"
  "\<lambda>topic s. rd_kafka_mock_partition_set_follower_wmarks mapi s (mock_cluster self) topic p
     (case l of None \<Rightarrow> - 1 | Some l \<Rightarrow> l) (case h of None \<Rightarrow> - 1 | Some h \<Rightarrow> h)"
  by unfold_locales (simp add: mock_follower_watermarks_def Let_def)

interpretation rack_op: named_mock_op "broker_rack mapi self b'"
  "\<lambda>rack s. rd_kafka_mock_broker_set_rack mapi s (mock_cluster self) b' rack"
  by unfold_locales (simp add: broker_rack_def)

interpretation group_op: named_mock_op "\<lambda>key. mock_coordinator mapi self (Coordinator_Group key) b'"
  "\<lambda>key s. rd_kafka_mock_coordinator_set mapi s (mock_cluster self) ''group'' key b'"
  by unfold_locales (simp add: mock_coordinator_def with_cstring_def)

interpretation transaction_op: named_mock_op "\<lambda>key. mock_coordinator mapi self (Coordinator_Transaction key) b'"
  "\<lambda>key s. rd_kafka_mock_coordinator_set mapi s (mock_cluster self) ''transaction'' key b'"
  by unfold_locales (simp add: mock_coordinator_def with_cstring_def)

text \<open>Every operation of a mock cluster that takes a name refuses one with a NUL before
  librdkafka is involved, and otherwise makes exactly one call with that name, whose error
  code becomes the error; in particular the coordinator of a group and of a transaction are
  set under their own kind.\<close>

theorem mock_names_refused:
  assumes "NUL \<in> set name"
  shows "(\<exists>e. mock_create_topic mapi self n r name w = (w, Err (Nul e)))
    \<and> (\<exists>e. mock_partition_leader mapi self p b name w = (w, Err (Nul e)))
    \<and> (\<exists>e. mock_partition_follower mapi self p b' name w = (w, Err (Nul e)))
    \<and> (\<exists>e. mock_follower_watermarks mapi self p l h name w = (w, Err (Nul e)))
    \<and> (\<exists>e. broker_rack mapi self b' name w = (w, Err (Nul e)))
    \<and> (\<exists>e. mock_coordinator mapi self (Coordinator_Group name) b' w = (w, Err (Nul e)))
    \<and> (\<exists>e. mock_coordinator mapi self (Coordinator_Transaction name) b' w = (w, Err (Nul e)))"
  using assms
  by (intro conjI create_topic_op.nul_refused leader_op.nul_refused follower_op.nul_refused watermarks_op.nul_refused
      rack_op.nul_refused group_op.nul_refused transaction_op.nul_refused)

text \<open>A mock API that creates cluster 7.\<close>

definition mock_instance :: "RDKafkaEvent list mock_api" where
  "mock_instance =
     \<lparr>rd_kafka_mock_cluster_new = (\<lambda>n c k. (n, 7)), rd_kafka_handle_mock_cluster = (\<lambda>n c. 7),
      rd_kafka_mock_cluster_bootstraps = (\<lambda>n c. ''localhost:9092''), rd_kafka_mock_clear_request_errors = (\<lambda>n c k. n),
      rd_kafka_mock_push_request_errors_array = (\<lambda>n c k l es. n), rd_kafka_mock_topic_set_error = (\<lambda>n c t e. n),
      rd_kafka_mock_topic_create = (\<lambda>n c t p r. (n, RD_KAFKA_RESP_ERR_NO_ERROR)),
      rd_kafka_mock_partition_set_leader = (\<lambda>n c t p b. (n, RD_KAFKA_RESP_ERR_NO_ERROR)),
      rd_kafka_mock_partition_set_follower = (\<lambda>n c t p b. (n, RD_KAFKA_RESP_ERR_NO_ERROR)),
      rd_kafka_mock_partition_set_follower_wmarks = (\<lambda>n c t p l h. (n, RD_KAFKA_RESP_ERR_NO_ERROR)),
      rd_kafka_mock_broker_set_down = (\<lambda>n c b. (n, RD_KAFKA_RESP_ERR_NO_ERROR)),
      rd_kafka_mock_broker_set_up = (\<lambda>n c b. (n, RD_KAFKA_RESP_ERR_NO_ERROR)),
      rd_kafka_mock_broker_set_rtt = (\<lambda>n c b ms. (n, RD_KAFKA_RESP_ERR_NO_ERROR)),
      rd_kafka_mock_broker_set_rack = (\<lambda>n c b r. (n, RD_KAFKA_RESP_ERR_NO_ERROR)),
      rd_kafka_mock_coordinator_set = (\<lambda>n c k key b. (n, RD_KAFKA_RESP_ERR_NO_ERROR)),
      rd_kafka_mock_set_apiversion = (\<lambda>n c k l h. (n, RD_KAFKA_RESP_ERR_NO_ERROR))\<rparr>"

theorem mock_names_refused_witness:
  "\<exists>e. mock_create_topic mock_instance \<lparr>mock_cluster = 7, mock_client = Borrowed \<lparr>client_native = 1, client_arc = Arc 2\<rparr>\<rparr>
      3 1 [CHR ''t'', NUL] (sample_world []) = (sample_world [], Err (Nul e))"
proof -
  have "NUL \<in> set [CHR ''t'', NUL]" by simp
  from mock_names_refused [OF this] show ?thesis by blast
qed

section \<open>Ownership\<close>

lemma new_context_arc_trace:
  assumes "new_context_arc api crapi conf w config c ty context = Ret (w', Ok client)"
  shows "trace w' = trace w"
proof -
  obtain c' where set: "native_config_set conf (rd_kafka_conf_set_opaque crapi c (arc_into_ptr context)) ''log.queue'' ''true'' = Ret (c', Ok ())"
    using assms by (cases "native_config_set conf (rd_kafka_conf_set_opaque crapi c (arc_into_ptr context)) ''log.queue'' ''true''")
      (auto simp: new_context_arc_def Let_def split: sum.splits)
  obtain n p b where new: "rd_kafka_new crapi (native w) ty c' errbuf_new = (n, p, b)"
    by (cases "rd_kafka_new crapi (native w) ty c' errbuf_new") auto
  obtain n1 q where main: "rd_kafka_queue_get_main api n = (n1, q)" by (cases "rd_kafka_queue_get_main api n")
  obtain n2 ret where "rd_kafka_set_log_queue crapi n1 p q = (n2, ret)" by (cases "rd_kafka_set_log_queue crapi n1 p q")
  with assms set new main show ?thesis
    by (auto simp: new_context_arc_def Let_def split: if_splits)
qed

lemma new_mock_cluster:
  assumes "mock_cluster_new api crapi conf mapi iter lg w context n = Ret (w', Ok self)"
  shows "trace w' = trace w \<and> (\<exists>client. mock_client self = Owned client)"
proof -
  let ?cfg = "client_config_new lg"
  obtain c where c: "create_native_config conf iter ?cfg = Ret (Ok c)"
    using assms by (cases "create_native_config conf iter ?cfg") (auto simp: mock_cluster_new_def Let_def split: sum.splits)
  obtain w1 client where cl: "new_context_arc api crapi conf w ?cfg c RD_KAFKA_PRODUCER context = Ret (w1, Ok client)"
    using assms c by (cases "new_context_arc api crapi conf w ?cfg c RD_KAFKA_PRODUCER context")
      (auto simp: mock_cluster_new_def Let_def split: sum.splits)
  obtain n' p where "rd_kafka_mock_cluster_new mapi (native w1) (client_native client) n = (n', p)"
    by (cases "rd_kafka_mock_cluster_new mapi (native w1) (client_native client) n")
  with assms c cl new_context_arc_trace [OF cl] show ?thesis
    by (auto simp: mock_cluster_new_def Let_def split: if_splits)
qed

text \<open>C29. A mock cluster is destroyed by the one who owns it, once: dropping a cluster made by
  \<open>new\<close> destroys the cluster and after it its client, and making it destroyed neither;
  dropping a cluster borrowed from a client destroys nothing. When librdkafka has no cluster
  to give, \<open>new\<close> destroys the client it had made.\<close>

theorem mock_cluster_ownership:
  "(mock_cluster_new api crapi conf mapi iter lg w context n = Ret (w1, Ok self) \<longrightarrow>
      trace w1 = trace w
      \<and> trace (mock_cluster_drop self w2) =
          trace w2 @ [Native_mock_cluster_destroy (mock_cluster self), Native_client_destroy (client_native (mcc_client (mock_client self)))])
   \<and> (mock_cluster_from_client mapi w3 client = Some self' \<longrightarrow> mock_cluster_drop self' w2 = w2)
   \<and> (create_native_config conf iter (client_config_new lg) = Ret (Ok c)
      \<and> new_context_arc api crapi conf w (client_config_new lg) c RD_KAFKA_PRODUCER context = Ret (w4, Ok client')
      \<and> snd (rd_kafka_mock_cluster_new mapi (native w4) (client_native client') n) = 0 \<longrightarrow>
      (\<exists>w5. mock_cluster_new api crapi conf mapi iter lg w context n = Ret (w5, Err (MockClusterError EC_Fail))
         \<and> trace w5 = trace w4 @ [Native_client_destroy (client_native client')]))"
proof (intro conjI impI)
  assume new: "mock_cluster_new api crapi conf mapi iter lg w context n = Ret (w1, Ok self)"
  show "trace w1 = trace w" using new_mock_cluster [OF new] by simp
  from new_mock_cluster [OF new] obtain cl where "mock_client self = Owned cl" by blast
  then show "trace (mock_cluster_drop self w2) =
      trace w2 @ [Native_mock_cluster_destroy (mock_cluster self), Native_client_destroy (client_native (mcc_client (mock_client self)))]"
    by (simp add: mock_cluster_drop_def client_drop_def)
next
  assume "mock_cluster_from_client mapi w3 client = Some self'"
  then show "mock_cluster_drop self' w2 = w2"
    by (auto simp: mock_cluster_from_client_def mock_cluster_drop_def Let_def split: if_splits)
next
  assume "create_native_config conf iter (client_config_new lg) = Ret (Ok c)
      \<and> new_context_arc api crapi conf w (client_config_new lg) c RD_KAFKA_PRODUCER context = Ret (w4, Ok client')
      \<and> snd (rd_kafka_mock_cluster_new mapi (native w4) (client_native client') n) = 0"
  then show "\<exists>w5. mock_cluster_new api crapi conf mapi iter lg w context n = Ret (w5, Err (MockClusterError EC_Fail))
      \<and> trace w5 = trace w4 @ [Native_client_destroy (client_native client')]"
    by (auto simp: mock_cluster_new_def client_drop_def split: prod.splits)
qed

theorem mock_cluster_ownership_witness:
  "\<exists>w self. mock_cluster_new client_instance (create_instance\<lparr>rd_kafka_new := \<lambda>n ty c b. (n, 1, b)\<rparr>) conf_instance
      mock_instance (\<lambda>_. []) (\<lambda>_. True) (sample_world []) (Arc 2) 3 = Ret (w, Ok self)
     \<and> trace (mock_cluster_drop self w) = [Native_mock_cluster_destroy 7, Native_client_destroy 1]"
proof -
  let ?create = "create_instance\<lparr>rd_kafka_new := \<lambda>n ty c b. (n, 1, b)\<rparr>"
  let ?self = "\<lparr>mock_cluster = 7, mock_client = Owned \<lparr>client_native = 1, client_arc = Arc 2\<rparr>\<rparr>"
  have new: "mock_cluster_new client_instance ?create conf_instance mock_instance (\<lambda>_. []) (\<lambda>_. True) (sample_world []) (Arc 2) 3
      = Ret (sample_world [], Ok ?self)"
    by (simp add: mock_cluster_new_def create_native_config_def conf_from_ptr_def conf_instance_def new_context_arc_def
        create_instance_def client_instance_def mock_instance_def native_config_set_def sample_world_def)
  have "trace (mock_cluster_drop ?self (sample_world ([] :: RDKafkaEvent list))) = [Native_mock_cluster_destroy 7, Native_client_destroy 1]"
    using mock_cluster_ownership [THEN conjunct1, rule_format, OF new, THEN conjunct2, of "sample_world []"]
    by (simp add: sample_world_def)
  with new show ?thesis by blast
qed

section \<open>Delays\<close>

text \<open>The round-trip time is clamped, not truncated: what librdkafka gets is the number of
  milliseconds, or the largest \<open>c_int\<close> when there are more; unlike the conversion of a timeout,
  a longer delay never becomes a shorter or a negative one.\<close>

theorem rtt_millis_clamped:
  "rtt_millis d = min (int (duration_as_millis d)) (2 ^ 31 - 1)
   \<and> 0 \<le> rtt_millis d \<and> i32_range (rtt_millis d)
   \<and> (d \<le> d' \<longrightarrow> rtt_millis d \<le> rtt_millis d')"
proof -
  have eq: "rtt_millis d = min (int (duration_as_millis d)) (2 ^ 31 - 1)" for d
    by (auto simp: rtt_millis_def i32_range_def Let_def min_def)
  moreover have "duration_as_millis d \<le> duration_as_millis d'" if "d \<le> d'"
    using that by (simp add: duration_as_millis_def div_le_mono)
  ultimately show ?thesis by (auto simp: i32_range_def)
qed

theorem rtt_millis_clamped_witness:
  "rtt_millis (from_millis 5) \<le> rtt_millis (from_millis 6)"
  using rtt_millis_clamped [of "from_millis 5" "from_millis 6"] by (simp add: from_millis_def)

end
