(* ===== verification/Statistics.thy ===== *)
theory Statistics
  imports Client
begin

text \<open>
  \<open>src/statistics.rs\<close>: the statistics that librdkafka reports, as records with the fields of
  the structs, and the callbacks of \<open>ClientContext\<close> that the default context has for what a
  client tells it (\<open>client.rs\<close>). Decoding the JSON text is code of serde that is derived for
  the structs; it is the parameter \<open>parse\<close>. The callbacks only write log lines, so the lines
  a run writes are read off its trace.
\<close>

section \<open>The statistics\<close>

record Window =
  swin_min :: int
  swin_max :: int
  swin_avg :: int
  swin_sum :: int
  swin_cnt :: int
  swin_stddev :: int
  swin_hdrsize :: int
  swin_p50 :: int
  swin_p75 :: int
  swin_p90 :: int
  swin_p95 :: int
  swin_p99 :: int
  swin_p99_99 :: int
  swin_outofrange :: int

record TopicPartition =
  stoppar_topic :: bytes
  stoppar_partition :: int

record Broker =
  sbroker_name :: bytes
  sbroker_nodeid :: int
  sbroker_nodename :: bytes
  sbroker_source :: bytes
  sbroker_state :: bytes
  sbroker_stateage :: int
  sbroker_outbuf_cnt :: int
  sbroker_outbuf_msg_cnt :: int
  sbroker_waitresp_cnt :: int
  sbroker_waitresp_msg_cnt :: int
  sbroker_tx :: nat
  sbroker_txbytes :: nat
  sbroker_txerrs :: nat
  sbroker_txretries :: nat
  sbroker_txidle :: int
  sbroker_req_timeouts :: nat
  sbroker_rx :: nat
  sbroker_rxbytes :: nat
  sbroker_rxerrs :: nat
  sbroker_rxcorriderrs :: nat
  sbroker_rxpartial :: nat
  sbroker_rxidle :: int
  sbroker_req :: "bytes \<rightharpoonup> int"
  sbroker_zbuf_grow :: nat
  sbroker_buf_grow :: nat
  sbroker_wakeups :: "nat option"
  sbroker_connects :: "int option"
  sbroker_disconnects :: "int option"
  sbroker_int_latency :: "Window option"
  sbroker_outbuf_latency :: "Window option"
  sbroker_rtt :: "Window option"
  sbroker_throttle :: "Window option"
  sbroker_toppars :: "bytes \<rightharpoonup> TopicPartition"

record Partition =
  spart_partition :: int
  spart_broker :: int
  spart_leader :: int
  spart_desired :: bool
  spart_unknown :: bool
  spart_msgq_cnt :: int
  spart_msgq_bytes :: nat
  spart_xmit_msgq_cnt :: int
  spart_xmit_msgq_bytes :: nat
  spart_fetchq_cnt :: int
  spart_fetchq_size :: nat
  spart_fetch_state :: bytes
  spart_query_offset :: int
  spart_next_offset :: int
  spart_app_offset :: int
  spart_stored_offset :: int
  spart_committed_offset :: int
  spart_eof_offset :: int
  spart_lo_offset :: int
  spart_hi_offset :: int
  spart_ls_offset :: int
  spart_consumer_lag :: int
  spart_consumer_lag_stored :: int
  spart_txmsgs :: nat
  spart_txbytes :: nat
  spart_rxmsgs :: nat
  spart_rxbytes :: nat
  spart_msgs :: nat
  spart_rx_ver_drops :: nat
  spart_msgs_inflight :: int
  spart_next_ack_seq :: int
  spart_next_err_seq :: int
  spart_acked_msgid :: nat

record Topic =
  stopic_topic :: bytes
  stopic_metadata_age :: int
  stopic_batchsize :: Window
  stopic_batchcnt :: Window
  stopic_partitions :: "int \<rightharpoonup> Partition"

record ConsumerGroup =
  scgrp_state :: bytes
  scgrp_stateage :: int
  scgrp_join_state :: bytes
  scgrp_rebalance_age :: int
  scgrp_rebalance_cnt :: int
  scgrp_rebalance_reason :: bytes
  scgrp_assignment_size :: int

record ExactlyOnceSemantics =
  seos_idemp_state :: bytes
  seos_idemp_stateage :: int
  seos_txn_state :: bytes
  seos_txn_stateage :: int
  seos_txn_may_enq :: bool
  seos_producer_id :: int
  seos_producer_epoch :: int
  seos_epoch_cnt :: int

record Statistics =
  sstat_name :: bytes
  sstat_client_id :: bytes
  sstat_client_type :: bytes
  sstat_ts :: int
  sstat_time :: int
  sstat_age :: int
  sstat_replyq :: int
  sstat_msg_cnt :: nat
  sstat_msg_size :: nat
  sstat_msg_max :: nat
  sstat_msg_size_max :: nat
  sstat_tx :: int
  sstat_tx_bytes :: int
  sstat_rx :: int
  sstat_rx_bytes :: int
  sstat_txmsgs :: int
  sstat_txmsg_bytes :: int
  sstat_rxmsgs :: int
  sstat_rxmsg_bytes :: int
  sstat_simple_cnt :: int
  sstat_metadata_cache_cnt :: int
  sstat_brokers :: "bytes \<rightharpoonup> Broker"
  sstat_topics :: "bytes \<rightharpoonup> Topic"
  sstat_cgrp :: "ConsumerGroup option"
  sstat_eos :: "ExactlyOnceSemantics option"

section \<open>The callbacks of the default context\<close>

text \<open>A line is a text, or a fixed text followed by the output of derived or foreign code.\<close>

datatype 'e log_line = Log_Text bytes | Log_Stats Statistics | Log_Bad_Json 'e

definition default_stats :: "Statistics \<Rightarrow> log_level \<times> 'e log_line" where
  "default_stats statistics = (INFO, Log_Stats statistics)"

definition default_stats_raw :: "(bytes \<Rightarrow> 'e + Statistics) \<Rightarrow> bytes \<Rightarrow> log_level \<times> 'e log_line" where
  "default_stats_raw parse statistics =
     (case parse statistics of
        Inr stats \<Rightarrow> default_stats stats
      | Inl e \<Rightarrow> (ERROR, Log_Bad_Json e))"

definition default_error :: "error_api \<Rightarrow> KafkaError \<Rightarrow> bytes \<Rightarrow> log_level \<times> 'e log_line" where
  "default_error eapi error reason =
     (ERROR, Log_Text (''librdkafka: '' @ kafka_error_display eapi error @ '': '' @ reason))"

text \<open>The lines that the default context writes for a sequence of effects.\<close>

fun default_lines :: "error_api \<Rightarrow> (bytes \<Rightarrow> 'e + Statistics) \<Rightarrow> effect list \<Rightarrow> (log_level \<times> 'e log_line) list" where
  "default_lines eapi parse [] = []"
| "default_lines eapi parse (Ctx_log level fac message # es) =
     apsnd Log_Text (default_log level fac message) # default_lines eapi parse es"
| "default_lines eapi parse (Ctx_stats_raw statistics # es) =
     default_stats_raw parse statistics # default_lines eapi parse es"
| "default_lines eapi parse (Ctx_error error reason # es) =
     default_error eapi error reason # default_lines eapi parse es"
| "default_lines eapi parse (e # es) = default_lines eapi parse es"

lemma default_lines_append [simp]:
  "default_lines eapi parse (xs @ ys) = default_lines eapi parse xs @ default_lines eapi parse ys"
  by (induction xs rule: default_lines.induct) simp_all

section \<open>What is written for an event\<close>

text \<open>
  The lines of an event, as a reader of the log expects them: the line librdkafka logged, at
  the level of its syslog severity; the decoded statistics, or that they cannot be decoded; the
  error with its reason. Other events are silent.
\<close>

definition severity_level :: "int \<Rightarrow> log_level" where
  "severity_level n = (if n \<in> {0..3} then ERROR else if n = 4 then WARN else if n \<in> {5, 6} then INFO else DEBUG)"

definition c_text :: "bytes \<Rightarrow> bytes" where
  "c_text s = trim (to_string_lossy (cstr_bytes s))"

definition event_lines :: "error_api \<Rightarrow> (bytes \<Rightarrow> 'e + Statistics) \<Rightarrow> RDKafkaEvent \<Rightarrow> (log_level \<times> 'e log_line) list" where
  "event_lines eapi parse ev =
     (if ev_type ev = RD_KAFKA_EVENT_LOG then
        (if log_result (ev_log ev) = 0
         then [(severity_level (log_lvl (ev_log ev)),
                Log_Text (''librdkafka: '' @ c_text (log_fac (ev_log ev)) @ '' '' @ c_text (log_str (ev_log ev))))]
         else [])
      else if ev_type ev = RD_KAFKA_EVENT_STATS then
        (case parse (cstr_bytes (ev_stats ev)) of Inr s \<Rightarrow> [(INFO, Log_Stats s)] | Inl e \<Rightarrow> [(ERROR, Log_Bad_Json e)])
      else if ev_type ev = RD_KAFKA_EVENT_ERROR then
        [(ERROR, Log_Text (''librdkafka: '' @ kafka_error_display eapi (Global (into_code (ev_error ev)))
           @ '': '' @ c_text (ev_error_string ev)))]
      else [])"

lemma severity_levels: "fst (default_log (log_level_from_int n) fac msg) = severity_level n"
  by (auto simp: default_log_def log_level_from_int_def severity_level_def)

lemma default_log_line:
  "default_log (log_level_from_int n) fac msg = (severity_level n, ''librdkafka: '' @ fac @ '' '' @ msg)"
  using severity_levels [of n fac msg] by (simp add: default_log_def)

lemma refresh_silent:
  "default_lines eapi parse (trace (handle_oauth_refresh_event api ctx ev w)) = default_lines eapi parse (trace w)"
  by (simp add: handle_oauth_refresh_trace Let_def split: sum.splits prod.splits)

text \<open>Serving an event through the default context writes exactly the lines of the event,
  once, whatever the event is and whoever goes on to handle it.\<close>

theorem poll_event_lines:
  assumes "queue_poll api w queue t = (w1, Some ev)" and "poll_event api ctx w queue t = (w', r)"
  shows "default_lines eapi parse (trace w') = default_lines eapi parse (trace w) @ event_lines eapi parse ev"
proof -
  have w1: "trace w1 = trace w" using assms(1) by (auto simp: queue_poll_def split: prod.splits)
  note defs = poll_event_def drop_event_def handle_stats_event_def handle_error_event_def handle_log_event_def
    default_stats_raw_def default_stats_def default_error_def event_lines_def c_text_def emit_def
  consider "ev_type ev = RD_KAFKA_EVENT_LOG" | "ev_type ev = RD_KAFKA_EVENT_STATS"
    | "ev_type ev = RD_KAFKA_EVENT_OAUTHBEARER_TOKEN_REFRESH"
    | "ev_type ev \<notin> {RD_KAFKA_EVENT_LOG, RD_KAFKA_EVENT_STATS, RD_KAFKA_EVENT_OAUTHBEARER_TOKEN_REFRESH}" by blast
  then show ?thesis
  proof cases
    case 1
    with assms w1 show ?thesis by (auto simp: defs default_log_line)
  next
    case 2
    with assms w1 show ?thesis by (auto simp: defs split: sum.splits)
  next
    case 3
    with assms w1 refresh_silent [of eapi parse api ctx ev w1] show ?thesis by (auto simp: defs)
  next
    case 4
    with assms w1 show ?thesis by (auto simp: defs)
  qed
qed

theorem poll_event_lines_witness:
  "\<exists>w'. poll_event client_instance DefaultClientContext (sample_world [sample_event RD_KAFKA_EVENT_STATS]) 1 (After 0) = (w', Poll_EventConsumed)
     \<and> default_lines error_instance (\<lambda>_. Inl ()) (trace w') = [(ERROR, Log_Bad_Json ())]"
proof -
  let ?w = "sample_world [sample_event RD_KAFKA_EVENT_STATS]"
  have q: "queue_poll client_instance ?w 1 (After 0) = (sample_world [], Some (sample_event RD_KAFKA_EVENT_STATS))"
    by (simp add: queue_poll_def client_instance_def sample_world_def)
  then obtain w' where p: "poll_event client_instance DefaultClientContext ?w 1 (After 0) = (w', Poll_EventConsumed)"
    by (auto simp: poll_event_def sample_event_def)
  from poll_event_lines [OF q p, of error_instance "\<lambda>_. Inl ()"] p show ?thesis
    by (simp add: sample_world_def event_lines_def sample_event_def)
qed

end
