(* ===== verification/Build.thy ===== *)
theory Build
  imports Rust_Str
begin

text \<open>
  \<open>rdkafka-sys/build.rs\<close>: how librdkafka is found or built. The environment is a map, the
  operating system a parameter (files, processes, pkg-config and the \<open>cmake\<close> crate). A function
  of the script returns the state it leaves and how it ended, because what was run before a
  panic matters. Diagnostics on the standard error stream are left out.
\<close>

section \<open>The script's state\<close>

type_synonym env_map = "string \<rightharpoonup> string"

datatype outcome = Done | Panicked string | Exit int

datatype cmd_status = Exit_Code int | Signalled | Not_Started string

text \<open>\<open>cmake::Config\<close>, of which the script sets definitions, dependencies and flags.\<close>

record cmake_config =
  cm_define :: "(string \<times> string) list"
  cm_register_dep :: "string list"
  cm_cflag :: "string list"
  cm_cxxflag :: "string list"

record 'o os_api =
  os_exists :: "'o \<Rightarrow> string \<Rightarrow> bool"
  os_canonicalize :: "'o \<Rightarrow> string \<Rightarrow> string + string"
  os_status :: "'o \<Rightarrow> env_map \<Rightarrow> string \<Rightarrow> string \<Rightarrow> string list \<Rightarrow> 'o \<times> cmd_status"
  os_set_current_dir :: "'o \<Rightarrow> string \<Rightarrow> 'o \<times> bool"
  os_copy :: "'o \<Rightarrow> string \<Rightarrow> string \<Rightarrow> 'o \<times> (string + unit)"
  pkg_config_probe :: "'o \<Rightarrow> env_map \<Rightarrow> string \<Rightarrow> string \<Rightarrow> bool"
  cmake_build :: "'o \<Rightarrow> env_map \<Rightarrow> cmake_config \<Rightarrow> 'o \<times> (string + string)"

text \<open>
  \<open>bs_out\<close> are the lines that cargo reads, \<open>bs_runs\<close> the commands that were issued, with their
  directory and arguments.
\<close>

record 'o build_state =
  bs_os :: 'o
  bs_env :: env_map
  bs_out :: "string list"
  bs_runs :: "(string \<times> string \<times> string list) list"
  bs_cmake :: cmake_config
  bs_library_paths :: "string list"

fun and_then_run :: "'o build_state \<times> outcome \<Rightarrow> ('o build_state \<Rightarrow> 'o build_state \<times> outcome) \<Rightarrow> 'o build_state \<times> outcome" where
  "and_then_run (b, Done) f = f b"
| "and_then_run (b, r) f = (b, r)"

definition is_set :: "env_map \<Rightarrow> string \<Rightarrow> bool" where
  "is_set env key \<longleftrightarrow> env key \<noteq> None"

definition println :: "string \<Rightarrow> 'o build_state \<Rightarrow> 'o build_state" where
  "println s b = b\<lparr>bs_out := bs_out b @ [s]\<rparr>"

definition set_var :: "string \<Rightarrow> string \<Rightarrow> 'o build_state \<Rightarrow> 'o build_state" where
  "set_var key value b = b\<lparr>bs_env := (bs_env b)(key \<mapsto> value)\<rparr>"

fun join_with :: "string \<Rightarrow> string list \<Rightarrow> string" where
  "join_with sep [] = []"
| "join_with sep [s] = s"
| "join_with sep (s # ss) = s @ sep @ join_with sep ss"

fun split_on :: "char \<Rightarrow> string \<Rightarrow> string list" where
  "split_on c [] = [[]]"
| "split_on c (x # xs) =
     (if x = c then [] # split_on c xs
      else case split_on c xs of s # ss \<Rightarrow> (x # s) # ss | [] \<Rightarrow> [[x]])"

section \<open>Running commands\<close>

text \<open>
  Paths on Unix: empty components and a dot are skipped, except a leading dot; joining an
  absolute path replaces the base.
\<close>

definition path_components :: "string \<Rightarrow> string list" where
  "path_components p =
     (let segs = split_on (CHR ''/'') p
      in if p \<noteq> [] \<and> hd p = CHR ''/'' then ''/'' # filter (\<lambda>s. s \<notin> {[], ''.''}) segs
         else filter (\<lambda>s. s = ''.'') (take 1 segs) @ filter (\<lambda>s. s \<notin> {[], ''.''}) segs)"

definition is_relative :: "string \<Rightarrow> bool" where
  "is_relative p \<longleftrightarrow> p = [] \<or> hd p \<noteq> CHR ''/''"

definition path_join :: "string \<Rightarrow> string \<Rightarrow> string" where
  "path_join base p =
     (if \<not> is_relative p then p
      else if base = [] \<or> last base = CHR ''/'' then base @ p else base @ ''/'' @ p)"

definition run_command_or_fail ::
    "'o os_api \<Rightarrow> string \<Rightarrow> string \<Rightarrow> string list \<Rightarrow> 'o build_state \<Rightarrow> 'o build_state \<times> outcome" where
  "run_command_or_fail os dir cmd args b =
     (case (if 1 < length (path_components cmd) \<and> is_relative cmd
            then os_canonicalize os (bs_os b) (path_join dir cmd) else Inr cmd) of
        Inl e \<Rightarrow> (b, Panicked (''canonicalization failed: '' @ e))
      | Inr path \<Rightarrow>
          (case os_status os (bs_os b) (bs_env b) dir path args of
             (o', status) \<Rightarrow>
               (b\<lparr>bs_os := o', bs_runs := bs_runs b @ [(dir, cmd, args)]\<rparr>,
                case status of
                  Exit_Code c \<Rightarrow> if c = 0 then Done else Panicked (''Command failed with error code '' @ show_int c)
                | Signalled \<Rightarrow> Panicked ''Command got killed''
                | Not_Started e \<Rightarrow> Panicked (''Command failed with error: '' @ e))))"

section \<open>Building with librdkafka's own build system\<close>

record build_flags =
  configure_flags :: "string list"
  cflags :: "string list"
  ldflags :: "string list"

definition push_configure :: "string \<Rightarrow> build_flags \<Rightarrow> build_flags" where
  "push_configure s f = f\<lparr>configure_flags := configure_flags f @ [s]\<rparr>"

definition push_cflag :: "string \<Rightarrow> build_flags \<Rightarrow> build_flags" where
  "push_cflag s f = f\<lparr>cflags := cflags f @ [s]\<rparr>"

definition push_ldflag :: "string \<Rightarrow> build_flags \<Rightarrow> build_flags" where
  "push_ldflag s f = f\<lparr>ldflags := ldflags f @ [s]\<rparr>"

definition needs_curl :: "env_map \<Rightarrow> bool" where
  "needs_curl env \<longleftrightarrow> is_set env ''CARGO_FEATURE_CURL'' \<or> is_set env ''CARGO_FEATURE_CURL_STATIC''"

definition env_flags :: "env_map \<Rightarrow> build_flags" where
  "env_flags env =
     \<lparr>configure_flags = [],
      cflags = (case env ''CFLAGS'' of Some var \<Rightarrow> [var] | None \<Rightarrow> []),
      ldflags = (case env ''LDFLAGS'' of Some var \<Rightarrow> [var] | None \<Rightarrow> [])\<rparr>"

definition ssl_flags :: "env_map \<Rightarrow> build_flags \<Rightarrow> build_flags" where
  "ssl_flags env f =
     (if is_set env ''CARGO_FEATURE_SSL'' then
        let f = push_configure ''--enable-ssl'' f in
        (case env ''DEP_OPENSSL_ROOT'' of
           Some root \<Rightarrow> push_ldflag (''-L'' @ root @ ''/lib'') (push_cflag (''-I'' @ root @ ''/include'') f)
         | None \<Rightarrow> f)
      else push_configure ''--disable-ssl'' f)"

definition gssapi_flags :: "env_map \<Rightarrow> build_flags \<Rightarrow> build_flags" where
  "gssapi_flags env f =
     (if is_set env ''CARGO_FEATURE_GSSAPI'' then
        let f = push_configure ''--enable-gssapi'' f in
        (case env ''DEP_SASL2_ROOT'' of
           Some root \<Rightarrow> push_ldflag (''-L'' @ root @ ''/lib'') (push_cflag (''-I'' @ root @ ''/include'') f)
         | None \<Rightarrow> f)
      else push_configure ''--disable-gssapi'' f)"

definition libz_flags :: "env_map \<Rightarrow> build_flags \<Rightarrow> build_flags" where
  "libz_flags env f =
     (if is_set env ''CARGO_FEATURE_LIBZ'' then
        (case env ''DEP_Z_ROOT'' of
           Some root \<Rightarrow> push_ldflag (''-L'' @ root @ ''/lib'') (push_cflag (''-I'' @ root @ ''/include'') f)
         | None \<Rightarrow> f)
      else push_configure ''--disable-zlib'' f)"

definition curl_flags :: "env_map \<Rightarrow> build_flags \<Rightarrow> build_flags" where
  "curl_flags env f =
     (if needs_curl env then
        (case env ''DEP_CURL_ROOT'' of
           Some root \<Rightarrow> push_cflag (''-I'' @ root @ ''/include'') (push_cflag ''-DCURLSTATIC_LIB'' f)
         | None \<Rightarrow> f)
      else push_configure ''--disable-curl'' f)"

definition zstd_flags :: "env_map \<Rightarrow> build_flags \<Rightarrow> build_flags" where
  "zstd_flags env f =
     (if is_set env ''CARGO_FEATURE_ZSTD'' then
        let f = push_configure ''--enable-zstd'' f in
        (case env ''DEP_ZSTD_ROOT'' of
           Some root \<Rightarrow> push_ldflag (''-L'' @ root) (push_cflag (''-I'' @ root @ ''/include'') f)
         | None \<Rightarrow> f)
      else push_configure ''--disable-zstd'' f)"

definition lz4_flags :: "env_map \<Rightarrow> build_flags \<Rightarrow> build_flags" where
  "lz4_flags env f =
     (if is_set env ''CARGO_FEATURE_EXTERNAL_LZ4'' then
        let f = push_configure ''--enable-lz4-ext'' f in
        (case env ''DEP_LZ4_ROOT'' of
           Some root \<Rightarrow> push_ldflag (''-L'' @ root) (push_cflag (''-I'' @ root @ ''/include'') f)
         | None \<Rightarrow> f)
      else push_configure ''--disable-lz4-ext'' f)"

definition all_flags :: "env_map \<Rightarrow> build_flags" where
  "all_flags env = lz4_flags env (zstd_flags env (curl_flags env (libz_flags env (gssapi_flags env (ssl_flags env (env_flags env))))))"

definition link_static :: "string \<Rightarrow> 'o build_state \<Rightarrow> 'o build_state" where
  "link_static dir b =
     println (''cargo:root='' @ dir)
       (println ''cargo:rustc-link-lib=static=rdkafka''
         (println (''cargo:rustc-link-search=native='' @ dir @ ''/src'') b))"

definition clone_sources :: "'o os_api \<Rightarrow> string \<Rightarrow> 'o build_state \<Rightarrow> 'o build_state \<times> outcome" where
  "clone_sources os out_dir b =
     (if \<not> os_exists os (bs_os b) (path_join out_dir ''LICENSE'')
      then run_command_or_fail os ''.'' ''cp'' [''-a'', ''librdkafka/.'', out_dir] (println ''Cloning librdkafka'' b)
      else (b, Done))"

definition make_command :: "bool \<Rightarrow> string" where
  "make_command freebsd = (if freebsd then ''gmake'' else ''make'')"

definition build_librdkafka :: "'o os_api \<Rightarrow> bool \<Rightarrow> 'o build_state \<Rightarrow> 'o build_state \<times> outcome" where
  "build_librdkafka os freebsd b =
     (let f = all_flags (bs_env b);
          b = set_var ''LDFLAGS'' (join_with '' '' (ldflags f)) (set_var ''CFLAGS'' (join_with '' '' (cflags f)) b)
      in case bs_env b ''OUT_DIR'' of
           None \<Rightarrow> (b, Panicked ''OUT_DIR missing: NotPresent'')
         | Some out_dir \<Rightarrow>
             and_then_run (clone_sources os out_dir b) (\<lambda>b.
             and_then_run (run_command_or_fail os out_dir ''./configure'' (configure_flags f) (println ''Configuring librdkafka'' b)) (\<lambda>b.
             let b = println ''Compiling librdkafka'' b;
                 b = (case bs_env b ''CARGO_MAKEFLAGS'' of Some makeflags \<Rightarrow> set_var ''MAKEFLAGS'' makeflags b | None \<Rightarrow> b)
             in and_then_run (run_command_or_fail os out_dir (make_command freebsd) [''libs''] b) (\<lambda>b.
             (link_static out_dir b, Done)))))"

section \<open>Building with CMake\<close>

definition cmake_set :: "string \<Rightarrow> string \<Rightarrow> 'o build_state \<Rightarrow> 'o build_state" where
  "cmake_set key value b = b\<lparr>bs_cmake := (bs_cmake b)\<lparr>cm_define := cm_define (bs_cmake b) @ [(key, value)]\<rparr>\<rparr>"

definition cmake_dep :: "string \<Rightarrow> 'o build_state \<Rightarrow> 'o build_state" where
  "cmake_dep dep b = b\<lparr>bs_cmake := (bs_cmake b)\<lparr>cm_register_dep := cm_register_dep (bs_cmake b) @ [dep]\<rparr>\<rparr>"

text \<open>\<open>cflag\<close> and \<open>cxxflag\<close> are always called together.\<close>

definition cmake_flag :: "string \<Rightarrow> 'o build_state \<Rightarrow> 'o build_state" where
  "cmake_flag flag b =
     b\<lparr>bs_cmake := (bs_cmake b)\<lparr>cm_cflag := cm_cflag (bs_cmake b) @ [flag], cm_cxxflag := cm_cxxflag (bs_cmake b) @ [flag]\<rparr>\<rparr>"

definition cmake_path :: "string \<Rightarrow> 'o build_state \<Rightarrow> 'o build_state" where
  "cmake_path path b = b\<lparr>bs_library_paths := bs_library_paths b @ [path]\<rparr>"

definition cmake_init :: "'o build_state \<Rightarrow> 'o build_state" where
  "cmake_init b =
     cmake_set ''CMAKE_POLICY_VERSION_MINIMUM'' ''3.5'' (cmake_set ''CMAKE_INSTALL_LIBDIR'' ''lib''
       (cmake_set ''RDKAFKA_BUILD_EXAMPLES'' ''0'' (cmake_set ''RDKAFKA_BUILD_TESTS'' ''0'' (cmake_set ''RDKAFKA_BUILD_STATIC'' ''1''
         (b\<lparr>bs_cmake := \<lparr>cm_define = [], cm_register_dep = [], cm_cflag = [], cm_cxxflag = []\<rparr>, bs_library_paths := []\<rparr>)))))"

definition cmake_libz :: "'o build_state \<Rightarrow> 'o build_state" where
  "cmake_libz b =
     (if is_set (bs_env b) ''CARGO_FEATURE_LIBZ'' then
        let b = cmake_dep ''z'' (cmake_set ''WITH_ZLIB'' ''1'' b) in
        (case bs_env b ''DEP_Z_ROOT'' of Some root \<Rightarrow> cmake_path (root @ ''/lib'') b | None \<Rightarrow> b)
      else cmake_set ''WITH_ZLIB'' ''0'' b)"

definition cmake_curl :: "'o os_api \<Rightarrow> 'o build_state \<Rightarrow> 'o build_state \<times> outcome" where
  "cmake_curl os b =
     (if needs_curl (bs_env b) then
        let b = cmake_dep ''curl'' (cmake_set ''WITH_CURL'' ''1'' b) in
        (case bs_env b ''DEP_CURL_ROOT'' of
           None \<Rightarrow> (b, Done)
         | Some root \<Rightarrow>
             let b = cmake_flag (''-L'' @ root @ ''/lib'') (cmake_flag (''-I'' @ root @ ''/include'')
                       (cmake_flag ''-DCURL_STATICLIB'' (cmake_path (root @ ''/lib'') (cmake_set ''CURL_STATICLIB'' ''1'' b))))
             in (case os_copy os (bs_os b) (root @ ''/build/libcurl.a'') (root @ ''/lib/libcurl.a'') of
                   (o', r) \<Rightarrow>
                     (b\<lparr>bs_os := o'\<rparr>,
                      case r of Inr _ \<Rightarrow> Done
                      | Inl e \<Rightarrow> Panicked (''called `Result::unwrap()` on an `Err` value: '' @ e))))
      else (cmake_set ''WITH_CURL'' ''0'' b, Done))"

definition cmake_ssl :: "'o build_state \<Rightarrow> 'o build_state" where
  "cmake_ssl b =
     (if is_set (bs_env b) ''CARGO_FEATURE_SSL'' then
        cmake_dep ''openssl'' (cmake_set ''WITH_SASL_OAUTHBEARER'' ''1''
          (cmake_set ''WITH_SASL_SCRAM'' ''1'' (cmake_set ''WITH_SSL'' ''1'' b)))
      else cmake_set ''WITH_SSL'' ''0'' b)"

definition cmake_gssapi :: "'o build_state \<Rightarrow> 'o build_state" where
  "cmake_gssapi b =
     (if is_set (bs_env b) ''CARGO_FEATURE_GSSAPI'' then
        let b = cmake_dep ''sasl2'' (cmake_set ''WITH_SASL'' ''1'' b) in
        (case bs_env b ''DEP_SASL2_ROOT'' of
           None \<Rightarrow> b
         | Some root \<Rightarrow>
             let b = cmake_flag (''-L'' @ root @ ''/lib'') (cmake_flag (''-I'' @ root @ ''/include'') (cmake_path (root @ ''/lib'') b));
                 existing = (case bs_env b ''PKG_CONFIG_PATH'' of Some v \<Rightarrow> v | None \<Rightarrow> []);
                 new_path = (root @ ''/../sasl2'') @ '':'' @ existing
             in set_var ''PKG_CONFIG_PATH'' new_path (println (''Setting PKG_CONFIG_PATH to '' @ new_path) b))
      else cmake_set ''WITH_SASL'' ''0'' b)"

definition cmake_zstd :: "'o build_state \<Rightarrow> 'o build_state" where
  "cmake_zstd b =
     (if is_set (bs_env b) ''CARGO_FEATURE_ZSTD'' then cmake_dep ''zstd'' (cmake_set ''WITH_ZSTD'' ''1'' b)
      else cmake_set ''WITH_ZSTD'' ''0'' b)"

definition cmake_lz4 :: "'o build_state \<Rightarrow> 'o build_state" where
  "cmake_lz4 b =
     (if is_set (bs_env b) ''CARGO_FEATURE_EXTERNAL_LZ4'' then cmake_dep ''lz4'' (cmake_set ''ENABLE_LZ4_EXT'' ''1'' b)
      else cmake_set ''ENABLE_LZ4_EXT'' ''0'' b)"

definition cmake_env :: "string \<Rightarrow> 'o build_state \<Rightarrow> 'o build_state" where
  "cmake_env key b = (case bs_env b key of Some value \<Rightarrow> cmake_set key value b | None \<Rightarrow> b)"

definition cmake_configure :: "'o os_api \<Rightarrow> 'o build_state \<Rightarrow> 'o build_state \<times> outcome" where
  "cmake_configure os b =
     and_then_run (cmake_curl os (cmake_libz (cmake_init b))) (\<lambda>b.
       (cmake_env ''CMAKE_MAKE_PROGRAM'' (cmake_env ''CMAKE_SYSTEM_NAME'' (cmake_lz4 (cmake_zstd (cmake_gssapi (cmake_ssl b))))), Done))"

definition cmake_librdkafka :: "'o os_api \<Rightarrow> 'o build_state \<Rightarrow> 'o build_state \<times> outcome" where
  "cmake_librdkafka os b =
     and_then_run (cmake_configure os b) (\<lambda>b.
       let b = (if bs_library_paths b \<noteq> [] then set_var ''CMAKE_LIBRARY_PATH'' (join_with '';'' (bs_library_paths b)) b else b);
           b = println ''Configuring and compiling librdkafka'' b
       in case cmake_build os (bs_os b) (bs_env b) (bs_cmake b) of
            (o', Inl e) \<Rightarrow> (b\<lparr>bs_os := o'\<rparr>, Panicked e)
          | (o', Inr dst) \<Rightarrow>
              (println ''cargo:rustc-link-lib=static=rdkafka''
                 (println (''cargo:rustc-link-search=native='' @ dst @ ''/lib'') (b\<lparr>bs_os := o'\<rparr>)), Done))"

section \<open>The script\<close>

text \<open>The version of librdkafka is the build metadata of the crate's version.\<close>

definition librdkafka_version :: "string \<Rightarrow> string option" where
  "librdkafka_version version = (case split_on (CHR ''+'') version of [_, v] \<Rightarrow> Some v | _ \<Rightarrow> None)"

definition link_dynamic :: "'o os_api \<Rightarrow> string \<Rightarrow> 'o build_state \<Rightarrow> 'o build_state \<times> outcome" where
  "link_dynamic os version b =
     (case librdkafka_version version of
        None \<Rightarrow> (b, Panicked ''Version format is not valid'')
      | Some v \<Rightarrow> (b, if pkg_config_probe os (bs_os b) (bs_env b) v ''rdkafka'' then Done else Exit 1))"

definition link_external :: "'o build_state \<Rightarrow> 'o build_state \<times> outcome" where
  "link_external b =
     (case bs_env b ''DEP_LIBRDKAFKA_STATIC_ROOT'' of
        Some rdkafka_dir \<Rightarrow> (link_static rdkafka_dir b, Done)
      | None \<Rightarrow> (b, Exit 1))"

text \<open>\<open>use_cmake\<close> says which of the two functions the feature \<open>cmake-build\<close> compiles.\<close>

definition build_main :: "'o os_api \<Rightarrow> bool \<Rightarrow> bool \<Rightarrow> string \<Rightarrow> 'o build_state \<Rightarrow> 'o build_state \<times> outcome" where
  "build_main os use_cmake freebsd version b =
     (if is_set (bs_env b) ''CARGO_FEATURE_DYNAMIC_LINKING'' then link_dynamic os version b
      else if is_set (bs_env b) ''CARGO_FEATURE_STATIC_EXTERNAL'' then link_external b
      else
        and_then_run
          (if os_exists os (bs_os b) ''rdkafka-sys''
           then (case os_set_current_dir os (bs_os b) ''rdkafka-sys'' of
                   (o', ok) \<Rightarrow>
                     (b\<lparr>bs_os := o'\<rparr>,
                      if ok then Done else Panicked ''assertion failed: env::set_current_dir(rdkafkasys_root).is_ok()''))
           else (b, Done)) (\<lambda>b.
        and_then_run
          (if \<not> os_exists os (bs_os b) ''librdkafka/LICENSE''
           then run_command_or_fail os ''../'' ''git'' [''submodule'', ''update'', ''--init''] b
           else (b, Done)) (\<lambda>b.
        if use_cmake then cmake_librdkafka os b else build_librdkafka os freebsd b)))"

text \<open>A machine on which nothing is built yet and every command but \<open>bad\<close> succeeds.\<close>

definition sample_os :: "string \<Rightarrow> unit os_api" where
  "sample_os bad =
     \<lparr>os_exists = (\<lambda>_ p. p = ''librdkafka/LICENSE''), os_canonicalize = (\<lambda>_ p. Inr p),
      os_status = (\<lambda>_ _ _ cmd _. ((), Exit_Code (if cmd = bad then 2 else 0))),
      os_set_current_dir = (\<lambda>_ _. ((), True)), os_copy = (\<lambda>_ _ _. ((), Inr ())),
      pkg_config_probe = (\<lambda>_ _ _ _. False), cmake_build = (\<lambda>_ _ _. ((), Inr ''/out''))\<rparr>"

definition sample_build :: "unit build_state" where
  "sample_build =
     \<lparr>bs_os = (), bs_env = [''OUT_DIR'' \<mapsto> ''/out'', ''CARGO_FEATURE_LIBZ'' \<mapsto> ''1'', ''CARGO_FEATURE_SSL'' \<mapsto> ''1''],
      bs_out = [], bs_runs = [], bs_cmake = \<lparr>cm_define = [], cm_register_dep = [], cm_cflag = [], cm_cxxflag = []\<rparr>,
      bs_library_paths = []\<rparr>"

section \<open>The two build systems agree on the features\<close>

lemmas flag_defs = ssl_flags_def gssapi_flags_def libz_flags_def curl_flags_def zstd_flags_def lz4_flags_def
  push_configure_def push_cflag_def push_ldflag_def Let_def

lemma feature_flags:
  "configure_flags (ssl_flags env f) = configure_flags f @ [if is_set env ''CARGO_FEATURE_SSL'' then ''--enable-ssl'' else ''--disable-ssl'']"
  "configure_flags (gssapi_flags env f) =
     configure_flags f @ [if is_set env ''CARGO_FEATURE_GSSAPI'' then ''--enable-gssapi'' else ''--disable-gssapi'']"
  "configure_flags (libz_flags env f) = configure_flags f @ (if is_set env ''CARGO_FEATURE_LIBZ'' then [] else [''--disable-zlib''])"
  "configure_flags (curl_flags env f) = configure_flags f @ (if needs_curl env then [] else [''--disable-curl''])"
  "configure_flags (zstd_flags env f) = configure_flags f @ [if is_set env ''CARGO_FEATURE_ZSTD'' then ''--enable-zstd'' else ''--disable-zstd'']"
  "configure_flags (lz4_flags env f) =
     configure_flags f @ [if is_set env ''CARGO_FEATURE_EXTERNAL_LZ4'' then ''--enable-lz4-ext'' else ''--disable-lz4-ext'']"
  by (simp_all add: flag_defs split: option.split)

text \<open>The definitions that a part of the CMake configuration adds.\<close>

definition cmake_adds :: "(string \<times> string) list \<Rightarrow> 'o build_state \<Rightarrow> 'o build_state \<Rightarrow> bool" where
  "cmake_adds ds b b' \<longleftrightarrow> cm_define (bs_cmake b') = cm_define (bs_cmake b) @ ds
     \<and> (\<forall>key. key \<noteq> ''PKG_CONFIG_PATH'' \<longrightarrow> bs_env b' key = bs_env b key)"

lemmas cmake_defs = cmake_set_def cmake_dep_def cmake_flag_def cmake_path_def println_def set_var_def Let_def

lemma cmake_adds_trans: "cmake_adds ds b b1 \<Longrightarrow> cmake_adds ds' b1 b2 \<Longrightarrow> cmake_adds (ds @ ds') b b2"
  by (simp add: cmake_adds_def)

lemma cmake_parts:
  "cmake_adds [(''WITH_ZLIB'', if is_set (bs_env b) ''CARGO_FEATURE_LIBZ'' then ''1'' else ''0'')] b (cmake_libz b)"
  "cmake_adds ((''WITH_SSL'', if is_set (bs_env b) ''CARGO_FEATURE_SSL'' then ''1'' else ''0'')
     # (if is_set (bs_env b) ''CARGO_FEATURE_SSL'' then [(''WITH_SASL_SCRAM'', ''1''), (''WITH_SASL_OAUTHBEARER'', ''1'')] else [])) b (cmake_ssl b)"
  "cmake_adds [(''WITH_SASL'', if is_set (bs_env b) ''CARGO_FEATURE_GSSAPI'' then ''1'' else ''0'')] b (cmake_gssapi b)"
  "cmake_adds [(''WITH_ZSTD'', if is_set (bs_env b) ''CARGO_FEATURE_ZSTD'' then ''1'' else ''0'')] b (cmake_zstd b)"
  "cmake_adds [(''ENABLE_LZ4_EXT'', if is_set (bs_env b) ''CARGO_FEATURE_EXTERNAL_LZ4'' then ''1'' else ''0'')] b (cmake_lz4 b)"
  "cmake_adds (case bs_env b key of Some v \<Rightarrow> [(key, v)] | None \<Rightarrow> []) b (cmake_env key b)"
  by (simp_all add: cmake_adds_def cmake_libz_def cmake_ssl_def cmake_gssapi_def cmake_zstd_def cmake_lz4_def cmake_env_def cmake_defs
      split: option.split)

lemma cmake_curl_adds:
  "cmake_curl os b = (b', r) \<Longrightarrow>
    cmake_adds ((''WITH_CURL'', if needs_curl (bs_env b) then ''1'' else ''0'')
      # (if needs_curl (bs_env b) \<and> bs_env b ''DEP_CURL_ROOT'' \<noteq> None then [(''CURL_STATICLIB'', ''1'')] else [])) b b'"
  by (auto simp: cmake_adds_def cmake_curl_def cmake_defs split: if_splits option.splits prod.splits)

text \<open>Which \<open>configure\<close> option switches a feature off, and which CMake option decides on it.\<close>

definition feature_options :: "(string \<times> string) list" where
  "feature_options =
     [(''--disable-ssl'', ''WITH_SSL''), (''--disable-gssapi'', ''WITH_SASL''), (''--disable-zlib'', ''WITH_ZLIB''),
      (''--disable-curl'', ''WITH_CURL''), (''--disable-zstd'', ''WITH_ZSTD''), (''--disable-lz4-ext'', ''ENABLE_LZ4_EXT'')]"

definition option_values :: "string \<Rightarrow> (string \<times> string) list \<Rightarrow> string list" where
  "option_values key ds = map snd (filter (\<lambda>(k, v). k = key) ds)"

lemma option_values_append [simp]: "option_values key (ds @ ds') = option_values key ds @ option_values key ds'"
  by (simp add: option_values_def)

lemma cmake_init_keeps:
  "bs_env (cmake_init b) = bs_env b"
  "cm_define (bs_cmake (cmake_init b)) =
     [(''RDKAFKA_BUILD_STATIC'', ''1''), (''RDKAFKA_BUILD_TESTS'', ''0''), (''RDKAFKA_BUILD_EXAMPLES'', ''0''),
      (''CMAKE_INSTALL_LIBDIR'', ''lib''), (''CMAKE_POLICY_VERSION_MINIMUM'', ''3.5'')]"
  by (simp_all add: cmake_init_def cmake_set_def)

lemma and_then_run_done: "and_then_run p f = (b', Done) \<Longrightarrow> \<exists>b1. p = (b1, Done) \<and> f b1 = (b', Done)"
  by (cases "(p, f)" rule: and_then_run.cases) auto

text \<open>All the definitions of a configuration, in the order of the calls.\<close>

lemma cmake_configure_defines:
  assumes "cmake_configure os b = (b', Done)"
  defines "env \<equiv> bs_env b"
  shows "\<exists>ssl curl system make.
    (\<forall>(key, v) \<in> set (ssl @ curl @ system @ make). key \<notin> snd ` set feature_options)
    \<and> cm_define (bs_cmake b') = cm_define (bs_cmake (cmake_init b))
        @ [(''WITH_ZLIB'', if is_set env ''CARGO_FEATURE_LIBZ'' then ''1'' else ''0''),
           (''WITH_CURL'', if needs_curl env then ''1'' else ''0'')] @ curl
        @ [(''WITH_SSL'', if is_set env ''CARGO_FEATURE_SSL'' then ''1'' else ''0'')] @ ssl
        @ [(''WITH_SASL'', if is_set env ''CARGO_FEATURE_GSSAPI'' then ''1'' else ''0''),
           (''WITH_ZSTD'', if is_set env ''CARGO_FEATURE_ZSTD'' then ''1'' else ''0''),
           (''ENABLE_LZ4_EXT'', if is_set env ''CARGO_FEATURE_EXTERNAL_LZ4'' then ''1'' else ''0'')] @ system @ make"
proof -
  define b0 where "b0 = cmake_libz (cmake_init b)"
  obtain b1 where b1: "cmake_curl os b0 = (b1, Done)"
    and b': "b' = cmake_env ''CMAKE_MAKE_PROGRAM'' (cmake_env ''CMAKE_SYSTEM_NAME'' (cmake_lz4 (cmake_zstd (cmake_gssapi (cmake_ssl b1)))))"
    using and_then_run_done [OF assms(1) [unfolded cmake_configure_def]] by (auto simp: b0_def)
  have libz: "cmake_adds [(''WITH_ZLIB'', if is_set env ''CARGO_FEATURE_LIBZ'' then ''1'' else ''0'')] (cmake_init b) b0"
    using cmake_parts(1) [of "cmake_init b"] by (simp add: b0_def env_def cmake_init_keeps(1))
  note same = cmake_adds_def is_set_def needs_curl_def
  have env0: "key \<noteq> ''PKG_CONFIG_PATH'' \<Longrightarrow> bs_env b0 key = env key" for key
    using libz by (simp add: cmake_adds_def env_def cmake_init_keeps(1))
  note curl = cmake_curl_adds [OF b1]
  have env1: "key \<noteq> ''PKG_CONFIG_PATH'' \<Longrightarrow> bs_env b1 key = env key" for key
    using curl env0 by (simp add: cmake_adds_def)
  note rest = cmake_parts(2) [of b1] cmake_parts(3) [of "cmake_ssl b1"] cmake_parts(4) [of "cmake_gssapi (cmake_ssl b1)"]
    cmake_parts(5) [of "cmake_zstd (cmake_gssapi (cmake_ssl b1))"]
    cmake_parts(6) [of "''CMAKE_SYSTEM_NAME''" "cmake_lz4 (cmake_zstd (cmake_gssapi (cmake_ssl b1)))"]
    cmake_parts(6) [of "''CMAKE_MAKE_PROGRAM''" "cmake_env ''CMAKE_SYSTEM_NAME'' (cmake_lz4 (cmake_zstd (cmake_gssapi (cmake_ssl b1))))"]
  show ?thesis
    apply (rule exI [of _ "if is_set env ''CARGO_FEATURE_SSL'' then [(''WITH_SASL_SCRAM'', ''1''), (''WITH_SASL_OAUTHBEARER'', ''1'')] else []"])
    apply (rule exI [of _ "if needs_curl env \<and> env ''DEP_CURL_ROOT'' \<noteq> None then [(''CURL_STATICLIB'', ''1'')] else []"])
    apply (rule exI [of _ "case env ''CMAKE_SYSTEM_NAME'' of Some v \<Rightarrow> [(''CMAKE_SYSTEM_NAME'', v)] | None \<Rightarrow> []"])
    apply (rule exI [of _ "case env ''CMAKE_MAKE_PROGRAM'' of Some v \<Rightarrow> [(''CMAKE_MAKE_PROGRAM'', v)] | None \<Rightarrow> []"])
    apply (rule conjI)
    subgoal by (auto simp: feature_options_def split: option.splits)
    subgoal using libz curl rest env0 env1 by (simp add: b' same)
    done
qed

text \<open>Both build systems are asked for the same features: when the CMake configuration is complete,
  each of its feature options was defined exactly once, and with \<open>0\<close> exactly when the other
  build would pass the option that disables the feature to \<open>configure\<close>.\<close>

theorem features_agree:
  assumes "cmake_configure os b = (b', Done)"
    and "(dis, key) \<in> set feature_options"
  shows "option_values key (cm_define (bs_cmake b'))
    = [if dis \<in> set (configure_flags (all_flags (bs_env b))) then ''0'' else ''1'']"
proof -
  obtain ssl curl system make where others: "\<forall>(key, v) \<in> set (ssl @ curl @ system @ make). key \<notin> snd ` set feature_options"
    and ds: "cm_define (bs_cmake b') = cm_define (bs_cmake (cmake_init b))
        @ [(''WITH_ZLIB'', if is_set (bs_env b) ''CARGO_FEATURE_LIBZ'' then ''1'' else ''0''),
           (''WITH_CURL'', if needs_curl (bs_env b) then ''1'' else ''0'')] @ curl
        @ [(''WITH_SSL'', if is_set (bs_env b) ''CARGO_FEATURE_SSL'' then ''1'' else ''0'')] @ ssl
        @ [(''WITH_SASL'', if is_set (bs_env b) ''CARGO_FEATURE_GSSAPI'' then ''1'' else ''0''),
           (''WITH_ZSTD'', if is_set (bs_env b) ''CARGO_FEATURE_ZSTD'' then ''1'' else ''0''),
           (''ENABLE_LZ4_EXT'', if is_set (bs_env b) ''CARGO_FEATURE_EXTERNAL_LZ4'' then ''1'' else ''0'')] @ system @ make"
    using cmake_configure_defines [OF assms(1)] by blast
  have key: "key \<in> snd ` set feature_options"
    using assms(2) by force
  have none: "option_values key ds = []" if "set ds \<subseteq> set (ssl @ curl @ system @ make)" for ds
    using others key that by (fastforce simp: option_values_def filter_empty_conv)
  have "option_values key ssl = []" "option_values key curl = []" "option_values key system = []" "option_values key make = []"
    by (auto intro!: none)
  moreover have "set (configure_flags (all_flags (bs_env b))) =
    {if is_set (bs_env b) ''CARGO_FEATURE_SSL'' then ''--enable-ssl'' else ''--disable-ssl'',
     if is_set (bs_env b) ''CARGO_FEATURE_GSSAPI'' then ''--enable-gssapi'' else ''--disable-gssapi'',
     if is_set (bs_env b) ''CARGO_FEATURE_ZSTD'' then ''--enable-zstd'' else ''--disable-zstd'',
     if is_set (bs_env b) ''CARGO_FEATURE_EXTERNAL_LZ4'' then ''--enable-lz4-ext'' else ''--disable-lz4-ext''}
    \<union> (if is_set (bs_env b) ''CARGO_FEATURE_LIBZ'' then {} else {''--disable-zlib''})
    \<union> (if needs_curl (bs_env b) then {} else {''--disable-curl''})"
    by (auto simp: all_flags_def feature_flags env_flags_def)
  moreover have "(dis, key) = (''--disable-ssl'', ''WITH_SSL'') \<or> (dis, key) = (''--disable-gssapi'', ''WITH_SASL'')
    \<or> (dis, key) = (''--disable-zlib'', ''WITH_ZLIB'') \<or> (dis, key) = (''--disable-curl'', ''WITH_CURL'')
    \<or> (dis, key) = (''--disable-zstd'', ''WITH_ZSTD'') \<or> (dis, key) = (''--disable-lz4-ext'', ''ENABLE_LZ4_EXT'')"
    using assms(2) unfolding feature_options_def by simp
  ultimately show ?thesis
    unfolding ds cmake_init_keeps(2)
    by (elim disjE) (simp_all add: option_values_def)
qed

theorem features_agree_witness:
  "option_values ''WITH_ZSTD'' (cm_define (bs_cmake (fst (cmake_configure (sample_os []) sample_build)))) = [''0'']
   \<and> option_values ''WITH_SSL'' (cm_define (bs_cmake (fst (cmake_configure (sample_os []) sample_build)))) = [''1'']"
proof -
  have complete: "cmake_configure (sample_os []) sample_build = (fst (cmake_configure (sample_os []) sample_build), Done)"
    by (simp add: cmake_configure_def cmake_curl_def needs_curl_def is_set_def sample_build_def cmake_init_def cmake_libz_def cmake_defs)
  have "(''--disable-zstd'', ''WITH_ZSTD'') \<in> set feature_options" "(''--disable-ssl'', ''WITH_SSL'') \<in> set feature_options"
    by (simp_all add: feature_options_def)
  from this [THEN features_agree [OF complete]] show ?thesis
    by (simp add: all_flags_def feature_flags env_flags_def is_set_def sample_build_def)
qed

section \<open>The commands of a build\<close>

lemma run_command_result:
  "run_command_or_fail os dir cmd args b = (b', r) \<Longrightarrow>
    bs_out b' = bs_out b \<and> bs_env b' = bs_env b
    \<and> (bs_runs b' = bs_runs b @ [(dir, cmd, args)] \<or> r \<noteq> Done \<and> bs_runs b' = bs_runs b)"
  by (auto simp: run_command_or_fail_def split: sum.splits prod.splits)

lemma println_simps [simp]:
  "bs_out (println s b) = bs_out b @ [s]" "bs_env (println s b) = bs_env b" "bs_runs (println s b) = bs_runs b" "bs_os (println s b) = bs_os b"
  by (simp_all add: println_def)

lemma set_var_simps [simp]:
  "bs_out (set_var k v b) = bs_out b" "bs_runs (set_var k v b) = bs_runs b" "bs_os (set_var k v b) = bs_os b"
  "bs_env (set_var k v b) = (bs_env b)(k \<mapsto> v)"
  by (simp_all add: set_var_def)

lemma and_then_run_assoc: "and_then_run x (\<lambda>b. and_then_run (f b) g) = and_then_run (and_then_run x f) g"
  by (cases "(x, f)" rule: and_then_run.cases) auto

definition progress_lines :: "string list" where
  "progress_lines = [''Cloning librdkafka'', ''Configuring librdkafka'', ''Compiling librdkafka'']"

text \<open>
  A stage went through the commands of a plan in order, all of them if it is done, and printed
  nothing but its progress.
\<close>

definition advanced :: "(string \<times> string \<times> string list) list \<Rightarrow> 'o build_state \<Rightarrow> 'o build_state \<times> outcome \<Rightarrow> bool" where
  "advanced plan b x \<longleftrightarrow>
     (\<exists>k. bs_runs (fst x) = bs_runs b @ take k plan)
     \<and> (snd x = Done \<longrightarrow> bs_runs (fst x) = bs_runs b @ plan)
     \<and> set (bs_out (fst x)) \<subseteq> set (bs_out b) \<union> set progress_lines"

lemma advanced_run:
  assumes "bs_runs b0 = bs_runs b" and "set (bs_out b0) \<subseteq> set (bs_out b) \<union> set progress_lines"
  shows "advanced [(dir, cmd, args)] b (run_command_or_fail os dir cmd args b0)"
proof -
  obtain b' r where x: "run_command_or_fail os dir cmd args b0 = (b', r)"
    by (metis prod.exhaust)
  from run_command_result [OF x] assms show ?thesis
    unfolding x advanced_def by (auto intro: exI [of _ 0] exI [of _ 1])
qed

lemma advanced_bind:
  assumes "advanced p b x" and "\<And>b1. x = (b1, Done) \<Longrightarrow> advanced p' b1 (f b1)"
  shows "advanced (p @ p') b (and_then_run x f)"
proof (cases "\<exists>b1. x = (b1, Done)")
  case True
  then obtain b1 where x: "x = (b1, Done)" ..
  from assms(2) [OF x] obtain k where "bs_runs (fst (f b1)) = bs_runs b1 @ take k p'"
    by (auto simp: advanced_def)
  with assms(1) assms(2) [OF x] show ?thesis
    by (auto simp: x advanced_def intro!: exI [of _ "length p + k"])
next
  case False
  then have same: "and_then_run x f = x" and "snd x \<noteq> Done"
    by (cases "(x, f)" rule: and_then_run.cases; simp)+
  from assms(1) obtain k where "bs_runs (fst x) = bs_runs b @ take k p"
    by (auto simp: advanced_def)
  then have "bs_runs (fst x) = bs_runs b @ take (min k (length p)) (p @ p')"
    by (simp add: min_def)
  then have "\<exists>k. bs_runs (fst x) = bs_runs b @ take k (p @ p')" ..
  with assms(1) \<open>snd x \<noteq> Done\<close> show ?thesis
    unfolding same advanced_def by blast
qed

definition clone_plan :: "'o os_api \<Rightarrow> 'o \<Rightarrow> string \<Rightarrow> (string \<times> string \<times> string list) list" where
  "clone_plan os s out = (if os_exists os s (path_join out ''LICENSE'') then [] else [(''.'', ''cp'', [''-a'', ''librdkafka/.'', out])])"

lemma advanced_clone: "advanced (clone_plan os (bs_os b) out) b (clone_sources os out b)"
proof (cases "os_exists os (bs_os b) (path_join out ''LICENSE'')")
  case True
  then show ?thesis by (simp add: clone_plan_def clone_sources_def advanced_def)
next
  case False
  have "advanced [(''.'', ''cp'', [''-a'', ''librdkafka/.'', out])] b
    (run_command_or_fail os ''.'' ''cp'' [''-a'', ''librdkafka/.'', out] (println ''Cloning librdkafka'' b))"
    by (rule advanced_run) (auto simp: progress_lines_def)
  with False show ?thesis by (simp add: clone_plan_def clone_sources_def)
qed

lemma advanced_cong: "bs_runs b0 = bs_runs b \<Longrightarrow> bs_out b0 = bs_out b \<Longrightarrow> advanced plan b0 x \<Longrightarrow> advanced plan b x"
  by (simp add: advanced_def)

definition build_plan :: "'o os_api \<Rightarrow> bool \<Rightarrow> string \<Rightarrow> 'o build_state \<Rightarrow> (string \<times> string \<times> string list) list" where
  "build_plan os freebsd out b = clone_plan os (bs_os b) out
     @ [(out, ''./configure'', configure_flags (all_flags (bs_env b)))] @ [(out, make_command freebsd, [''libs''])]"

lemma build_stages:
  assumes out: "bs_env b ''OUT_DIR'' = Some out"
  obtains stages where "advanced (build_plan os freebsd out b) b stages"
    and "build_librdkafka os freebsd b = and_then_run stages (\<lambda>b. (link_static out b, Done))"
proof -
  define b0 where "b0 = set_var ''LDFLAGS'' (join_with '' '' (ldflags (all_flags (bs_env b))))
    (set_var ''CFLAGS'' (join_with '' '' (cflags (all_flags (bs_env b)))) b)"
  define stages where "stages = and_then_run (clone_sources os out b0) (\<lambda>b1.
      and_then_run (run_command_or_fail os out ''./configure'' (configure_flags (all_flags (bs_env b))) (println ''Configuring librdkafka'' b1)) (\<lambda>b.
      run_command_or_fail os out (make_command freebsd) [''libs'']
        (case bs_env (println ''Compiling librdkafka'' b) ''CARGO_MAKEFLAGS'' of
           Some makeflags \<Rightarrow> set_var ''MAKEFLAGS'' makeflags (println ''Compiling librdkafka'' b)
         | None \<Rightarrow> println ''Compiling librdkafka'' b)))"
  have b0: "bs_out b0 = bs_out b" "bs_runs b0 = bs_runs b" "bs_os b0 = bs_os b" "bs_env b0 ''OUT_DIR'' = Some out"
    using out by (simp_all add: b0_def)
  have "advanced (build_plan os freebsd out b) b0 stages"
    unfolding build_plan_def stages_def b0(3) [symmetric]
    by (intro advanced_bind advanced_clone advanced_run) (auto simp: progress_lines_def split: option.split)
  from advanced_cong [OF b0(2,1) this] show ?thesis
    by (rule that) (simp add: build_librdkafka_def Let_def out stages_def b0_def and_then_run_assoc)
qed

lemma link_static_runs [simp]: "bs_runs (link_static dir b) = bs_runs b"
  by (simp add: link_static_def)

text \<open>The build with librdkafka's own build system runs \<open>cp\<close> (unless the sources are there already),
  \<open>configure\<close> with the options of the features, and \<open>make libs\<close>, in this order, and stops at the
  first that fails. It tells cargo where the library is and to link it only after all of them
  succeeded; until then it prints nothing but its progress.\<close>

theorem build_commands:
  assumes "build_librdkafka os freebsd b = (b', r)" and "bs_env b ''OUT_DIR'' = Some out"
  shows "if r = Done
    then bs_runs b' = bs_runs b @ build_plan os freebsd out b
      \<and> (\<exists>b1. b' = link_static out b1 \<and> set (bs_out b1) \<subseteq> set (bs_out b) \<union> set progress_lines)
    else (\<exists>k. bs_runs b' = bs_runs b @ take k (build_plan os freebsd out b))
      \<and> set (bs_out b') \<subseteq> set (bs_out b) \<union> set progress_lines"
proof -
  obtain stages where "advanced (build_plan os freebsd out b) b stages"
    and "(b', r) = and_then_run stages (\<lambda>b. (link_static out b, Done))"
    using build_stages [OF assms(2)] assms(1) by metis
  then show ?thesis
    by (cases stages; cases "snd stages") (auto simp: advanced_def)
qed

lemmas run_defs = run_command_or_fail_def sample_os_def path_components_def is_relative_def path_join_def Let_def make_command_def

theorem build_commands_witness:
  "snd (build_librdkafka (sample_os ''make'') False sample_build) \<noteq> Done
   \<and> (\<exists>k. bs_runs (fst (build_librdkafka (sample_os ''make'') False sample_build))
        = take k (build_plan (sample_os ''make'') False ''/out'' sample_build))"
proof -
  have failed: "snd (build_librdkafka (sample_os ''make'') False sample_build) \<noteq> Done"
    by (simp add: build_librdkafka_def clone_sources_def run_defs sample_build_def set_var_def println_def)
  have "bs_env sample_build ''OUT_DIR'' = Some ''/out''" "bs_runs sample_build = []"
    by (simp_all add: sample_build_def)
  with build_commands [OF prod.collapse [symmetric] this(1), of "sample_os ''make''" False] failed show ?thesis
    by simp
qed

section \<open>Linking\<close>

definition link_line :: string where
  "link_line = ''cargo:rustc-link-lib=static=rdkafka''"

definition links :: "'o build_state \<Rightarrow> bool" where
  "links b \<longleftrightarrow> link_line \<in> set (bs_out b)"

lemma links_simps [simp]:
  "links (println s b) \<longleftrightarrow> s = link_line \<or> links b" "links (set_var k v b) = links b" "links (b\<lparr>bs_os := s'\<rparr>) = links b"
  "links (cmake_set k v b) = links b" "links (cmake_dep d b) = links b" "links (cmake_flag f b) = links b" "links (cmake_path p b) = links b"
  "links (link_static dir b)"
  by (auto simp: links_def cmake_defs link_static_def link_line_def)

lemma run_command_links: "run_command_or_fail os dir cmd args b = (b', r) \<Longrightarrow> links b' = links b"
  by (drule run_command_result) (simp add: links_def)

lemma cmake_links [simp]:
  "links (cmake_init b) = links b" "links (cmake_libz b) = links b" "links (cmake_ssl b) = links b" "links (cmake_gssapi b) = links b"
  "links (cmake_zstd b) = links b" "links (cmake_lz4 b) = links b" "links (cmake_env k b) = links b"
proof -
  show "links (cmake_init b) = links b"
    by (simp add: cmake_init_def) (simp add: links_def)
qed (simp_all add: cmake_libz_def cmake_ssl_def cmake_gssapi_def cmake_zstd_def cmake_lz4_def cmake_env_def
      Let_def link_line_def split: option.split)

lemma cmake_curl_links: "cmake_curl os b = (b', r) \<Longrightarrow> links b' = links b"
  by (auto simp: cmake_curl_def Let_def split: if_splits option.splits prod.splits)

lemma cmake_configure_links: "cmake_configure os b = (b', r) \<Longrightarrow> links b' = links b"
  by (cases "cmake_curl os (cmake_libz (cmake_init b))"; cases "snd (cmake_curl os (cmake_libz (cmake_init b)))")
    (auto simp: cmake_configure_def dest: cmake_curl_links)

lemma cmake_librdkafka_links: "cmake_librdkafka os b = (b', r) \<Longrightarrow> links b' \<longleftrightarrow> links b \<or> r = Done"
  by (cases "cmake_configure os b"; cases "snd (cmake_configure os b)")
    (auto simp: cmake_librdkafka_def Let_def link_line_def dest!: cmake_configure_links split: prod.splits sum.splits if_splits)

lemma advanced_links: "advanced plan b x \<Longrightarrow> \<not> links b \<Longrightarrow> \<not> links (fst x)"
  by (auto simp: advanced_def links_def link_line_def progress_lines_def)

lemma bind_links:
  assumes "\<not> links (fst x)" and "\<And>b1. x = (b1, Done) \<Longrightarrow> links (fst (f b1)) \<longleftrightarrow> snd (f b1) = Done"
  shows "links (fst (and_then_run x f)) \<longleftrightarrow> snd (and_then_run x f) = Done"
  using assms by (cases "(x, f)" rule: and_then_run.cases) auto

lemma build_librdkafka_links:
  assumes "\<not> links b"
  shows "links (fst (build_librdkafka os freebsd b)) \<longleftrightarrow> snd (build_librdkafka os freebsd b) = Done"
proof (cases "bs_env b ''OUT_DIR''")
  case None
  with assms show ?thesis by (simp add: build_librdkafka_def Let_def)
next
  case (Some out)
  obtain stages where "advanced (build_plan os freebsd out b) b stages"
    and "build_librdkafka os freebsd b = and_then_run stages (\<lambda>b. (link_static out b, Done))"
    using build_stages [OF Some] by metis
  then show ?thesis
    using bind_links [OF advanced_links [of _ b stages]] assms by simp
qed

lemma run_links: "\<not> links b \<Longrightarrow> \<not> links (fst (run_command_or_fail os dir cmd args b))"
  using run_command_links [of os dir cmd args b] by (metis prod.collapse)

text \<open>C38. When librdkafka is not linked dynamically, cargo is told to link the static library exactly
  when the script succeeds: neither a build that failed at any point nor a missing prebuilt library
  is linked, and no successful run leaves the library out. With the feature for dynamic linking the
  script writes no line itself, that is left to pkg-config, and succeeds exactly when the crate's
  version names one of librdkafka and pkg-config finds that or a later one on the system.\<close>

theorem link_iff_built:
  assumes "build_main os use_cmake freebsd version b = (b', r)" and "bs_out b = []"
  shows "if is_set (bs_env b) ''CARGO_FEATURE_DYNAMIC_LINKING''
    then bs_out b' = []
      \<and> (r = Done \<longleftrightarrow> (\<exists>v. librdkafka_version version = Some v \<and> pkg_config_probe os (bs_os b) (bs_env b) v ''rdkafka''))
    else ''cargo:rustc-link-lib=static=rdkafka'' \<in> set (bs_out b') \<longleftrightarrow> r = Done"
proof (cases "is_set (bs_env b) ''CARGO_FEATURE_DYNAMIC_LINKING''")
  case True
  with assms show ?thesis
    by (auto simp: build_main_def link_dynamic_def split: option.splits if_splits)
next
  case static: False
  have start: "\<not> links b"
    using assms(2) by (simp add: links_def)
  have built: "links (fst x) \<longleftrightarrow> snd x = Done"
    if "x = (if use_cmake then cmake_librdkafka os b1 else build_librdkafka os freebsd b1)" "\<not> links b1" for x b1
    using that cmake_librdkafka_links [of os b1 "fst x" "snd x"] build_librdkafka_links [of b1] by (auto split: if_splits)
  have "links (fst (build_main os use_cmake freebsd version b)) \<longleftrightarrow> snd (build_main os use_cmake freebsd version b) = Done"
  proof (cases "is_set (bs_env b) ''CARGO_FEATURE_STATIC_EXTERNAL''")
    case True
    with assms static start show ?thesis
      by (auto simp: build_main_def link_external_def split: option.splits)
  next
    case False
    with static show ?thesis
      unfolding build_main_def
      apply (simp only: if_False)
      apply (rule bind_links)
      subgoal using start by (auto split: prod.split)
      apply (rule bind_links)
      subgoal using start by (auto intro!: run_links split: prod.splits if_splits)
      apply (rule built [OF refl])
      subgoal using start by (auto dest!: run_command_links split: prod.splits if_splits)
      done
  qed
  then show ?thesis
    using assms(1) static by (simp add: links_def link_line_def)
qed

theorem link_iff_built_witness:
  "''cargo:rustc-link-lib=static=rdkafka'' \<in> set (bs_out (fst (build_main (sample_os []) False False ''4.10.0+2.12.1'' sample_build)))
   \<and> ''cargo:rustc-link-lib=static=rdkafka'' \<notin> set (bs_out (fst (build_main (sample_os ''make'') False False ''4.10.0+2.12.1'' sample_build)))"
proof -
  have ok: "snd (build_main (sample_os []) False False ''4.10.0+2.12.1'' sample_build) = Done"
    and failed: "snd (build_main (sample_os ''make'') False False ''4.10.0+2.12.1'' sample_build) \<noteq> Done"
    by (simp_all add: build_main_def build_librdkafka_def clone_sources_def run_defs sample_build_def set_var_def println_def is_set_def)
  have start: "\<not> is_set (bs_env sample_build) ''CARGO_FEATURE_DYNAMIC_LINKING''" "bs_out sample_build = []"
    by (simp_all add: sample_build_def is_set_def)
  show ?thesis
    using link_iff_built [OF prod.collapse [symmetric] start(2), of "sample_os []" False False "''4.10.0+2.12.1''"]
      link_iff_built [OF prod.collapse [symmetric] start(2), of "sample_os ''make''" False False "''4.10.0+2.12.1''"] start(1) ok failed
    by simp
qed

lemma crate_version: "librdkafka_version ''4.10.0+2.12.1'' = Some ''2.12.1'' \<and> librdkafka_version ''4.10.0'' = None"
  by (simp add: librdkafka_version_def)

end
