(* ===== verification/Spec2Isabelle.thy ===== *)
theory Spec2Isabelle
  imports Async_Processor Simple_Producer Simple_Consumer Print_Metadata Queue_Callback Stream_Refinement Wake_Loop Stream_Lifetime Admin_Response Mock_Cluster Statistics Build
begin

text \<open>
  A verification development of the Rust crate \<open>rdkafka\<close>, a client of Apache Kafka built on
  the C library librdkafka.

  \<^bold>\<open>The program.\<close> The crate wraps librdkafka's handles. A client owns a native handle and a
  context of callbacks and turns the events of a native queue into callbacks and results.
  Producers send records and serve delivery reports; consumers poll messages, errors and
  rebalance events and can be read as asynchronous streams; an admin client sends requests
  that are answered through a queue polled by a thread. Timeouts, errors, partition lists,
  messages and configurations are the data they share.

  \<^bold>\<open>How the program is modelled.\<close> Functions of the crate are HOL functions of the same name;
  structs are records, enums datatypes. A \<open>Result\<close> is a sum with the error on the left, a
  function that may panic returns the type \<open>rust\<close> (\<open>Panic\<close> with the message or \<open>Ret\<close>).
  Strings are byte lists, \<open>i32\<close> and \<open>i64\<close> values are integers with the cast written out. The
  state a function can touch is the record \<open>world\<close>: the clock, librdkafka's state, of which
  nothing is assumed, and the trace of effects (callbacks, native calls that matter to
  ownership, releases) in the order they happen. librdkafka is a parameter: records of
  functions (\<open>conf_api\<close>, \<open>client_api\<close>, \<open>producer_api\<close>, \<open>consumer_api\<close>, \<open>admin_api\<close> and
  others), whose documented behaviour appears as named hypotheses (\<open>clock_advances\<close> and
  others) and which witnesses instantiate. Loops that need not end are
  \<open>partial_function (option)\<close>: \<open>None\<close> is divergence, and that a call returns is proved as an
  equation with \<open>Some (Ret _)\<close>, or with its possible panics listed. No fuel is used. The callbacks
  of the application are taken to return, except where a panic of one is a step
  (\<open>Threaded_Producer\<close>).

  \<^bold>\<open>The theories.\<close>
  \<^item> \<open>Prelude\<close>, \<open>Rust_Str\<close>: results, panics, casts, maps; UTF-8 and C strings, decimal numbers.
  \<^item> \<open>Util\<close> (\<open>util.rs\<close>): timeouts, deadlines, opaques (locale \<open>into_opaque\<close>), error buffers.
    Exactness and truncation of millisecond counts, agreement of the two ways of tracking a
    budget, the text of an error buffer.
  \<^item> \<open>Error_Codes\<close>, \<open>Errors\<close> (\<open>rdkafka-sys\<close>, \<open>error.rs\<close>): the error codes and their mapping,
    which is a bijection, and \<open>KafkaError\<close> with its texts and codes (locale \<open>is_error\<close>).
  \<^item> \<open>Tpl\<close> (\<open>topic_partition_list.rs\<close>): offsets and lists; round trips, atomicity, equality.
  \<^item> \<open>Message\<close> (\<open>message.rs\<close>): headers (locale \<open>headers_trait\<close>), byte conversions (locale
    \<open>bytes_codec\<close>), borrowed and owned messages; detaching is a refinement.
  \<^item> \<open>Config\<close> (\<open>config.rs\<close>): configurations, their views without secrets, the native
    configuration.
  \<^item> \<open>World\<close>, \<open>Client\<close> (\<open>client.rs\<close>): the state, creation, event dispatch, token refresh,
    queries; ownership of events.
  \<^item> \<open>Statistics\<close> (\<open>statistics.rs\<close>): the statistics as records, the default callbacks, and the
    log lines that serving an event writes.
  \<^item> \<open>Metadata\<close> (\<open>metadata.rs\<close>, \<open>groups.rs\<close>): the accessors of cluster metadata and of group
    lists, which show exactly what librdkafka's structures hold.
  \<^item> \<open>Mock_Cluster\<close> (\<open>mocking.rs\<close>): the mock cluster, its operations (locale \<open>named_mock_op\<close>,
    interpreted for those that take a topic), who destroys it, the clamped round-trip time.
  \<^item> \<open>Producer\<close>, \<open>Threaded_Producer\<close>, \<open>Future_Producer\<close> (\<open>producer/\<close>): sending, polling,
    flushing, transactions, purging; the polling thread, which may panic, its handles, and the
    phases of the last drop (stop flag, join, fields) as a step relation; queueing with retries and
    delivery futures.
  \<^item> \<open>Producer_Trait\<close> (\<open>producer/mod.rs\<close>): the trait \<open>Producer\<close> as a record of methods and
    its three implementations (locale \<open>producer_trait\<close>), with one theorem for all of them.
  \<^item> \<open>Oneshot\<close>, \<open>Delivery_System\<close>: the abstract specification of requests answered through
    channels (locale \<open>oneshot_system\<close>), and the producer with its queue of delivery reports
    and its futures as an implementation of it, in every interleaving of sends, reports and
    polls. The admin client is the other implementation.
  \<^item> \<open>Send_Future\<close> (\<open>producer/future_producer.rs\<close>): the \<open>async fn send\<close> as a state machine with a
    state per \<open>await\<close>; an executor that drives it to its end computes the function of
    \<open>Future_Producer\<close>. Whether librdkafka accepted a record is read off its own answer
    (\<open>producev_accepts\<close>), here and in the systems that build on it.
  \<^item> \<open>Send_Pool\<close>: any number of these calls on one producer, in every interleaving and with calls
    dropped at any moment; each gets its own result and hands its record over at most once.
  \<^item> \<open>Consumer\<close>, \<open>Consumer_Ops\<close> (\<open>consumer/base_consumer.rs\<close>, \<open>consumer/mod.rs\<close>): the event
    loop, rebalancing, closing; every operation of the trait.
  \<^item> \<open>Queue_Callback\<close>: the boxed closures that librdkafka calls when a queue becomes nonempty
    (locale \<open>callback_owner\<close>, for consumers and partition queues), alive at every moment.
  \<^item> \<open>Wakers\<close>, \<open>Stream_Consumer\<close> (\<open>consumer/stream_consumer.rs\<close>): the registry of wakers
    (locale \<open>waker_registry\<close>) and message streams, interleaved with librdkafka's callback.
  \<^item> \<open>Stream_Refinement\<close>: every call of \<open>poll_next\<close> is a run of that concurrent system, with the
    same registry, queue, message and notification.
  \<^item> \<open>Wake_Loop\<close>: the background task that wakes the streams in time for the maximum poll
    interval, until the consumer is dropped. The runtime polls the task at most \<open>lateness\<close> after it
    was asked to; a bound on waiting comes with the proof that time can go on from every state, so
    that no bound holds because the model is stuck.
  \<^item> \<open>Stream_Lifetime\<close>: the reference counts of consumers, partition queues and registries, and
    that librdkafka's callback never sees a registry that was released.
  \<^item> \<open>Consumer_Trait\<close> (\<open>consumer/mod.rs\<close>): the trait \<open>Consumer\<close> as a record of methods, its
    two implementations, and \<open>recv\<close>, over any number of polls among other users of the registry.
  \<^item> \<open>Admin_Request\<close>, \<open>Admin_Response\<close> (\<open>admin.rs\<close>): building requests (locale
    \<open>admin_operation\<close>, interpreted for the operations), futures, the polling thread.
  \<^item> \<open>At_Least_Once\<close> (\<open>examples/at_least_once.rs\<close>): the program that relays messages, on top of
    the stream consumer and the future producer; it stores no offset before all copies of the
    message are delivered.
  \<^item> \<open>Async_Processor\<close> (\<open>examples/asynchronous_processing.rs\<close>): a task per message that sends and
    prints, a client of \<open>Send_Pool\<close>.
  \<^item> \<open>Simple_Producer\<close>, \<open>Simple_Consumer\<close>, \<open>Print_Metadata\<close> (\<open>examples/\<close>): the producer that sends
    one record at a time, the consumer that logs a message before it commits it, and the
    report of a cluster with its running totals.
  \<^item> \<open>Build\<close> (\<open>rdkafka-sys/build.rs\<close>): the build script, the commands it runs and what it tells
    cargo, and that its two build systems agree on the features.

  \<^bold>\<open>Interleaving.\<close> Where threads share state the model is a step relation whose steps are the
  atomic actions of the code: \<open>stream_step\<close> for streams and callback, \<open>wake_step\<close> for these with the
  wake loop and time, \<open>life_step\<close> and \<open>callback_step\<close> for the ownership of what callbacks see, \<open>threaded_step\<close> for
  the handles and the polling thread of a producer, \<open>recv_step\<close> for a call of \<open>recv\<close>, \<open>admin_step\<close> and \<open>delivery_step\<close> for
  requests and answers, \<open>pool_step\<close> for concurrent sends, \<open>relay_step\<close>, \<open>async_step\<close>, \<open>produce_step\<close>
  and \<open>consume_step\<close> for the example programs. Their invariants are proved by induction over runs, their progress by
  bounds on the number of steps.

  \<^bold>\<open>Not modelled.\<close> The parser of the statistics is derived by serde and a parameter; the log
  macros (\<open>log.rs\<close>) only select a backend; the native bindings
  are declarations, of which the structures and codes that the crate reads are modelled; the
  implementations of \<open>AsyncRuntime\<close> call the executors of other crates, so that spawning and
  sleeping are steps of the systems above; the \<open>Debug\<close> implementations of handles print their
  names; the remaining examples measure latencies with the same calls or plug in another
  runtime, and the tests need a broker.
\<close>

section \<open>Requests and answers\<close>

text \<open>C12. The admin client and the future producer implement one specification: requests are issued
  under fresh channels, librdkafka answers each at most once, and an answer is delivered into
  the channel of its own request. Every run of either system is a run of the specification, and
  so is every further step.\<close>

theorem requests_refine_oneshot:
  assumes "admin_step\<^sup>*\<^sup>* admin_init a" and "admin_step a a'"
    and "(delivery_step papi kb pb hapi mapi)\<^sup>*\<^sup>* (delivery_init w) d" and "delivery_step papi kb pb hapi mapi d d'"
  shows "oneshot_step\<^sup>*\<^sup>* oneshot_empty (admin_abs a) \<and> oneshot_step\<^sup>*\<^sup>* (admin_abs a) (admin_abs a')
    \<and> oneshot_step\<^sup>*\<^sup>* oneshot_empty (delivery_abs hapi mapi d)
    \<and> oneshot_step\<^sup>*\<^sup>* (delivery_abs hapi mapi d) (delivery_abs hapi mapi d')"
  using admin.reachable [OF assms(1)] delivery.reachable [OF assms(3)] admin.simulation assms(2)
    delivery.simulation assms(4) by blast

theorem requests_refine_oneshot_witness:
  "oneshot_step\<^sup>*\<^sup>* oneshot_empty (admin_abs (admin_stop admin_sample_run))
   \<and> oneshot_step\<^sup>*\<^sup>* oneshot_empty (delivery_abs headers_instance message_instance sample_reported)"
proof -
  let ?d = "sample_send 13 sample_reported"
  have "admin_step\<^sup>*\<^sup>* admin_init (admin_stop admin_sample_run)"
    using admin_sample_stop_reachable by (simp only: admin_reachable_run)
  moreover have "admin_step (admin_stop admin_sample_run) (admin_thread_round (admin_stop admin_sample_run))"
    by (rule adm_thread) (simp add: admin_sample_run_def admin_ops admin_init_def)
  moreover have "sample_delivery_step sample_reported ?d" by (rule sample_send_step) simp
  ultimately show ?thesis using requests_refine_oneshot sample_reported_reachable by blast
qed

end
